(* ===== verification/Prelude.thy ===== *)
theory Prelude
  imports Main "HOL-Library.Word"
begin

text \<open>
  What every component shares.

  An asynchronous method of the source runs to completion between two awaits of its caller,
  so it is modelled as a function of the state it works on: it returns a result and the new
  state. A result is \<open>Inl\<close> of an error or \<open>Inr\<close> of a value (Rust's \<^verbatim>\<open>Result\<close>).
  \<^item> \<open>bindE\<close> is the question-mark operator: run the first action and return early on an error;
  \<^item> \<open>keeps I m\<close> says that \<open>m\<close> preserves the invariant \<open>I\<close>, \<open>frame g m\<close> that it leaves
    the part \<open>g\<close> of the state alone; both are closed under the combinators, so a proof about a
    handler follows its control flow. The rules are collected in \<open>keep_intros\<close>.
\<close>

named_theorems act_simps \<open>evaluation rules of the action combinators\<close>
named_theorems keep_intros \<open>invariant and frame rules of the action combinators\<close>

type_synonym ('s, 'e, 'a) act = "'s \<Rightarrow> ('e + 'a) \<times> 's"

section \<open>Actions\<close>

definition retE :: "'a \<Rightarrow> ('s, 'e, 'a) act" where
  "retE a s = (Inr a, s)"

definition failE :: "'e \<Rightarrow> ('s, 'e, 'a) act" where
  "failE e s = (Inl e, s)"

definition bindE :: "('s, 'e, 'a) act \<Rightarrow> ('a \<Rightarrow> ('s, 'e, 'b) act) \<Rightarrow> ('s, 'e, 'b) act" where
  "bindE m f s = (case m s of (Inl e, s') \<Rightarrow> (Inl e, s') | (Inr a, s') \<Rightarrow> f a s')"

text \<open>\<open>attempt m f\<close> runs \<open>m\<close> and hands its outcome, error or value, to \<open>f\<close>
  (a \<^verbatim>\<open>match\<close> on the result).\<close>

definition attempt :: "('s, 'e, 'a) act \<Rightarrow> ('e + 'a \<Rightarrow> ('s, 'f, 'b) act) \<Rightarrow> ('s, 'f, 'b) act" where
  "attempt m f s = (case m s of (r, s') \<Rightarrow> f r s')"

text \<open>\<open>peek m f\<close> runs a read that cannot fail (a clock, a fresh identifier).\<close>

definition peek :: "('s \<Rightarrow> 'a \<times> 's) \<Rightarrow> ('a \<Rightarrow> ('s, 'e, 'b) act) \<Rightarrow> ('s, 'e, 'b) act" where
  "peek m f s = (case m s of (a, s') \<Rightarrow> f a s')"

definition mapErr :: "('e \<Rightarrow> 'f) \<Rightarrow> ('s, 'e, 'a) act \<Rightarrow> ('s, 'f, 'a) act" where
  "mapErr g m s = (case m s of (r, s') \<Rightarrow> (map_sum g id r, s'))"

fun forE :: "'a list \<Rightarrow> ('a \<Rightarrow> ('s, 'e, unit) act) \<Rightarrow> ('s, 'e, unit) act" where
  "forE [] f = retE ()"
| "forE (x # xs) f = bindE (f x) (\<lambda>_. forE xs f)"

lemma retE_apply [simp, act_simps]: "retE a s = (Inr a, s)"
  by (simp add: retE_def)

lemma failE_apply [simp, act_simps]: "failE e s = (Inl e, s)"
  by (simp add: failE_def)

lemma bindE_Inl [act_simps]: "m s = (Inl e, s') \<Longrightarrow> bindE m f s = (Inl e, s')"
  by (simp add: bindE_def)

lemma bindE_Inr [act_simps]: "m s = (Inr a, s') \<Longrightarrow> bindE m f s = f a s'"
  by (simp add: bindE_def)

lemma attempt_apply [act_simps]: "m s = (r, s') \<Longrightarrow> attempt m f s = f r s'"
  by (simp add: attempt_def)

lemma peek_apply [act_simps]: "m s = (a, s') \<Longrightarrow> peek m f s = f a s'"
  by (simp add: peek_def)

lemma bindE_value [simp]: "bindE (Pair (Inr a)) f = f a"
  by (simp add: bindE_def fun_eq_iff)

lemma bindE_error [simp]: "bindE (Pair (Inl e)) f = Pair (Inl e)"
  by (simp add: bindE_def fun_eq_iff)

lemma attempt_result [simp]: "attempt (Pair r) f = f r"
  by (simp add: attempt_def fun_eq_iff)

lemma bindE_assoc: "bindE (bindE m f) g = bindE m (\<lambda>a. bindE (f a) g)"
  by (auto simp: bindE_def fun_eq_iff split: prod.split sum.split)

lemma bindE_unit [simp]: "bindE m (\<lambda>_. Pair (Inr ())) = m"
  by (auto simp: bindE_def fun_eq_iff split: prod.split sum.split)

lemma forE_append: "forE (xs @ ys) f = bindE (forE xs f) (\<lambda>_. forE ys f)"
  by (induction xs) (simp_all add: bindE_assoc)

lemma bindE_cases:
  assumes "bindE m f s = (r, s'')"
  obtains (err) e where "m s = (Inl e, s'')" and "r = Inl e"
  | (ok) a s' where "m s = (Inr a, s')" and "f a s' = (r, s'')"
  using assms by (cases "m s"; cases "fst (m s)") (auto simp: bindE_def)

section \<open>Invariants and frames\<close>

definition keeps :: "('s \<Rightarrow> bool) \<Rightarrow> ('s \<Rightarrow> 'r \<times> 's) \<Rightarrow> bool" where
  "keeps I m \<longleftrightarrow> (\<forall>s. I s \<longrightarrow> I (snd (m s)))"

definition frame :: "('s \<Rightarrow> 'g) \<Rightarrow> ('s \<Rightarrow> 'r \<times> 's) \<Rightarrow> bool" where
  "frame g m \<longleftrightarrow> (\<forall>s. g (snd (m s)) = g s)"

lemma keepsI [intro?]: "(\<And>s. I s \<Longrightarrow> I (snd (m s))) \<Longrightarrow> keeps I m"
  by (simp add: keeps_def)

lemma keepsD: "keeps I m \<Longrightarrow> I s \<Longrightarrow> I (snd (m s))"
  by (simp add: keeps_def)

lemma frameI [intro?]: "(\<And>s. g (snd (m s)) = g s) \<Longrightarrow> frame g m"
  by (simp add: frame_def)

lemma frameD: "frame g m \<Longrightarrow> g (snd (m s)) = g s"
  by (simp add: frame_def)

lemma frame_run: "frame g m \<Longrightarrow> m s = (r, s') \<Longrightarrow> g s' = g s"
  by (metis frameD snd_conv)

lemma keeps_run: "keeps I m \<Longrightarrow> m s = (r, s') \<Longrightarrow> I s \<Longrightarrow> I s'"
  by (metis keepsD snd_conv)

lemma keeps_retE [keep_intros]: "keeps I (retE a)"
  by (simp add: keeps_def)

lemma keeps_failE [keep_intros]: "keeps I (failE e)"
  by (simp add: keeps_def)

lemma keeps_bindE [keep_intros]:
  "keeps I m \<Longrightarrow> (\<And>a. keeps I (f a)) \<Longrightarrow> keeps I (bindE m f)"
  by (fastforce simp: keeps_def bindE_def split: prod.splits sum.splits)

lemma keeps_attempt [keep_intros]:
  "keeps I m \<Longrightarrow> (\<And>r. keeps I (f r)) \<Longrightarrow> keeps I (attempt m f)"
  by (auto simp: keeps_def attempt_def split: prod.splits)

lemma keeps_peek [keep_intros]:
  "keeps I m \<Longrightarrow> (\<And>a. keeps I (f a)) \<Longrightarrow> keeps I (peek m f)"
  by (auto simp: keeps_def peek_def split: prod.splits)

lemma keeps_mapErr [keep_intros]: "keeps I m \<Longrightarrow> keeps I (mapErr g m)"
  by (auto simp: keeps_def mapErr_def split: prod.splits)

lemma keeps_forE [keep_intros]: "(\<And>x. x \<in> set xs \<Longrightarrow> keeps I (f x)) \<Longrightarrow> keeps I (forE xs f)"
  by (induction xs) (auto intro: keep_intros)

lemma frame_iff_keeps: "frame g m \<longleftrightarrow> (\<forall>v. keeps (\<lambda>s. g s = v) m)"
  by (auto simp: frame_def keeps_def)

lemma frame_retE [keep_intros]: "frame g (retE a)"
  by (simp add: frame_def)

lemma frame_failE [keep_intros]: "frame g (failE e)"
  by (simp add: frame_def)

lemma frame_bindE [keep_intros]:
  "frame g m \<Longrightarrow> (\<And>a. frame g (f a)) \<Longrightarrow> frame g (bindE m f)"
  by (simp add: frame_iff_keeps keeps_bindE)

lemma frame_attempt [keep_intros]:
  "frame g m \<Longrightarrow> (\<And>r. frame g (f r)) \<Longrightarrow> frame g (attempt m f)"
  by (simp add: frame_iff_keeps keeps_attempt)

lemma frame_peek [keep_intros]:
  "frame g m \<Longrightarrow> (\<And>a. frame g (f a)) \<Longrightarrow> frame g (peek m f)"
  by (simp add: frame_iff_keeps keeps_peek)

lemma frame_mapErr [keep_intros]: "frame g m \<Longrightarrow> frame g (mapErr h m)"
  by (simp add: frame_iff_keeps keeps_mapErr)

lemma frame_forE [keep_intros]: "(\<And>x. x \<in> set xs \<Longrightarrow> frame g (f x)) \<Longrightarrow> frame g (forE xs f)"
  by (induction xs) (auto intro: keep_intros)

section \<open>Lists and lookups\<close>

lemma find_None_iff_all: "List.find P xs = None \<longleftrightarrow> (\<forall>x \<in> set xs. \<not> P x)"
  by (induction xs) auto

lemma find_SomeD: "List.find P xs = Some x \<Longrightarrow> x \<in> set xs \<and> P x"
  by (induction xs) (auto split: if_splits)

lemma map_inj_upd:
  "distinct (map k xs) \<Longrightarrow> (\<And>x. k (f x) = k x) \<Longrightarrow> distinct (map k (map f xs))"
  by (simp add: comp_def)

end
