(* ===== verification/Strings.thy ===== *)
theory Strings
  imports Prelude
begin

text \<open>
  The operations of Rust's \<^verbatim>\<open>str\<close> and \<^verbatim>\<open>String\<close> that the service uses, on UTF-8 bytes: a
  \<open>string\<close> is the byte sequence of the text, and a non-ASCII scalar value is the two to four
  bytes of its encoding. Searching for a valid UTF-8 needle byte by byte finds exactly the
  scalar-aligned occurrences, because UTF-8 is self-synchronising.
\<close>

section \<open>Prefixes, suffixes, searching\<close>

fun starts_with :: "'a list \<Rightarrow> 'a list \<Rightarrow> bool" where
  "starts_with s [] = True"
| "starts_with [] (p # ps) = False"
| "starts_with (c # s) (p # ps) = (c = p \<and> starts_with s ps)"

definition strip_prefix :: "'a list \<Rightarrow> 'a list \<Rightarrow> 'a list option" where
  "strip_prefix p s = (if starts_with s p then Some (drop (length p) s) else None)"

definition strip_suffix :: "'a list \<Rightarrow> 'a list \<Rightarrow> 'a list option" where
  "strip_suffix p s = map_option rev (strip_prefix (rev p) (rev s))"

fun find_sub :: "'a list \<Rightarrow> 'a list \<Rightarrow> nat option" where
  "find_sub p [] = (if p = [] then Some 0 else None)"
| "find_sub p (c # s) =
     (if starts_with (c # s) p then Some 0 else map_option Suc (find_sub p s))"

fun split_once :: "'a \<Rightarrow> 'a list \<Rightarrow> ('a list \<times> 'a list) option" where
  "split_once d [] = None"
| "split_once d (c # s) =
     (if c = d then Some ([], s) else map_option (\<lambda>(a, b). (c # a, b)) (split_once d s))"

fun split_on :: "'a \<Rightarrow> 'a list \<Rightarrow> 'a list list" where
  "split_on d [] = [[]]"
| "split_on d (c # s) =
     (if c = d then [] # split_on d s
      else (case split_on d s of [] \<Rightarrow> [[c]] | w # ws \<Rightarrow> (c # w) # ws))"

fun join :: "'a list \<Rightarrow> 'a list list \<Rightarrow> 'a list" where
  "join sep [] = []"
| "join sep [w] = w"
| "join sep (w # v # ws) = w @ sep @ join sep (v # ws)"

text \<open>\<^verbatim>\<open>str::replace\<close>: leftmost, non-overlapping.\<close>

function replace_all :: "'a list \<Rightarrow> 'a list \<Rightarrow> 'a list \<Rightarrow> 'a list" where
  "replace_all p r [] = []"
| "replace_all p r (c # s) =
     (if p \<noteq> [] \<and> starts_with (c # s) p then r @ replace_all p r (drop (length p) (c # s))
      else c # replace_all p r s)"
  by pat_completeness auto
termination
  by (relation "measure (\<lambda>(p, r, s). length s)") (auto simp: neq_Nil_conv)

lemma starts_with_append [simp]: "starts_with (p @ s) p"
  by (induction p) auto

lemma starts_with_iff: "starts_with s p \<longleftrightarrow> (\<exists>t. s = p @ t)"
  by (induction s p rule: starts_with.induct) auto

lemma starts_with_take: "starts_with s p \<longleftrightarrow> take (length p) s = p"
  by (auto simp: starts_with_iff) (metis append_take_drop_id)

lemma strip_prefix_Some: "strip_prefix p s = Some t \<longleftrightarrow> s = p @ t"
  by (auto simp: strip_prefix_def starts_with_iff)

lemma strip_suffix_Some: "strip_suffix p s = Some t \<longleftrightarrow> s = t @ p"
proof -
  have "strip_suffix p s = Some t \<longleftrightarrow> rev s = rev p @ rev t"
    by (auto simp: strip_suffix_def strip_prefix_Some)
  also have "\<dots> \<longleftrightarrow> rev s = rev (t @ p)" by simp
  finally show ?thesis by (simp only: rev_is_rev_conv)
qed

lemma split_once_Some: "split_once d s = Some (a, b) \<Longrightarrow> s = a @ d # b \<and> d \<notin> set a"
  by (induction s arbitrary: a b) (auto split: if_splits)

lemma split_once_None: "split_once d s = None \<longleftrightarrow> d \<notin> set s"
  by (induction s) auto

lemma split_once_hit [simp]: "d \<notin> set a \<Longrightarrow> split_once d (a @ d # b) = Some (a, b)"
  by (induction a) auto

lemma find_sub_Some: "find_sub p s = Some n \<Longrightarrow> n \<le> length s \<and> starts_with (drop n s) p"
  by (induction s arbitrary: n) (auto split: if_splits)

text \<open>ASCII case folding.\<close>

definition ascii_lower :: "char \<Rightarrow> char" where
  "ascii_lower c =
     (if 65 \<le> (of_char c :: nat) \<and> (of_char c :: nat) \<le> 90 then char_of ((of_char c :: nat) + 32)
      else c)"

section \<open>White space\<close>

text \<open>
  \<^verbatim>\<open>trim\<close>, \<^verbatim>\<open>trim_start\<close> and \<^verbatim>\<open>split_whitespace\<close> work on the Unicode property
  \<^verbatim>\<open>White_Space\<close>; these are the encodings of its 25 scalar values.
\<close>

definition ws_codes :: "string list" where
  "ws_codes =
    [[CHR 0x20], [CHR 0x0A], [CHR 0x0D], [CHR 0x09], [CHR 0x0B], [CHR 0x0C],
     [CHR 0xC2, CHR 0x85], [CHR 0xC2, CHR 0xA0], [CHR 0xE1, CHR 0x9A, CHR 0x80],
     [CHR 0xE2, CHR 0x80, CHR 0x80], [CHR 0xE2, CHR 0x80, CHR 0x81],
     [CHR 0xE2, CHR 0x80, CHR 0x82], [CHR 0xE2, CHR 0x80, CHR 0x83],
     [CHR 0xE2, CHR 0x80, CHR 0x84], [CHR 0xE2, CHR 0x80, CHR 0x85],
     [CHR 0xE2, CHR 0x80, CHR 0x86], [CHR 0xE2, CHR 0x80, CHR 0x87],
     [CHR 0xE2, CHR 0x80, CHR 0x88], [CHR 0xE2, CHR 0x80, CHR 0x89],
     [CHR 0xE2, CHR 0x80, CHR 0x8A], [CHR 0xE2, CHR 0x80, CHR 0xA8],
     [CHR 0xE2, CHR 0x80, CHR 0xA9], [CHR 0xE2, CHR 0x80, CHR 0xAF],
     [CHR 0xE2, CHR 0x81, CHR 0x9F], [CHR 0xE3, CHR 0x80, CHR 0x80]]"

fun strip_any :: "'a list list \<Rightarrow> 'a list \<Rightarrow> 'a list option" where
  "strip_any [] s = None"
| "strip_any (p # ps) s =
     (if p \<noteq> [] \<and> starts_with s p then Some (drop (length p) s) else strip_any ps s)"

lemma strip_any_shorter: "strip_any ps s = Some r \<Longrightarrow> length r < length s"
proof (induction ps s rule: strip_any.induct)
  case (2 p ps s)
  show ?case
  proof (cases "p \<noteq> [] \<and> starts_with s p")
    case True
    then have "s \<noteq> []" by (auto simp: starts_with_iff)
    with True "2.prems" show ?thesis by auto
  next
    case False
    with 2 show ?thesis by (auto split: if_splits)
  qed
qed simp

function trim_with :: "'a list list \<Rightarrow> 'a list \<Rightarrow> 'a list" where
  "trim_with ps s = (case strip_any ps s of None \<Rightarrow> s | Some r \<Rightarrow> trim_with ps r)"
  by pat_completeness auto
termination
  by (relation "measure (\<lambda>(ps, s). length s)") (auto dest: strip_any_shorter)

declare trim_with.simps [simp del]

definition trim_start :: "string \<Rightarrow> string" where
  "trim_start s = trim_with ws_codes s"

definition trim_end :: "string \<Rightarrow> string" where
  "trim_end s = rev (trim_with (map rev ws_codes) (rev s))"

definition trim :: "string \<Rightarrow> string" where
  "trim s = trim_end (trim_start s)"

fun trim_end_char :: "'a \<Rightarrow> 'a list \<Rightarrow> 'a list" where
  "trim_end_char c s = rev (dropWhile (\<lambda>x. x = c) (rev s))"

text \<open>\<^verbatim>\<open>split_whitespace\<close>: the maximal runs without white space, in order.\<close>

function ws_words :: "string \<Rightarrow> string \<Rightarrow> string list" where
  "ws_words cur s =
     (case strip_any ws_codes s of
        Some r \<Rightarrow> (if cur = [] then [] else [cur]) @ ws_words [] r
      | None \<Rightarrow> (case s of [] \<Rightarrow> (if cur = [] then [] else [cur])
                | c # s' \<Rightarrow> ws_words (cur @ [c]) s'))"
  by pat_completeness auto
termination
  by (relation "measure (\<lambda>(cur, s). length s)") (auto dest: strip_any_shorter)

declare ws_words.simps [simp del]

definition split_whitespace :: "string \<Rightarrow> string list" where
  "split_whitespace s = ws_words [] s"

text \<open>\<^verbatim>\<open>str::lines\<close>: split at line feeds, drop a final empty piece, strip the carriage
  return of each terminated line.\<close>

definition strip_cr :: "string \<Rightarrow> string" where
  "strip_cr l = (case strip_suffix [CHR 0x0D] l of Some l' \<Rightarrow> l' | None \<Rightarrow> l)"

definition lines :: "string \<Rightarrow> string list" where
  "lines s =
     (let ws = split_on (CHR 0x0A) s
      in map strip_cr (butlast ws) @ (if last ws = [] then [] else [last ws]))"

lemma trim_with_stops: "strip_any ps (trim_with ps s) = None"
proof (induction ps s rule: trim_with.induct)
  case (1 ps s)
  then show ?case
    by (cases "strip_any ps s") (simp_all add: trim_with.simps [of ps s])
qed

lemma trim_with_suffix: "\<exists>a. s = a @ trim_with ps s"
proof (induction ps s rule: trim_with.induct)
  case (1 ps s)
  show ?case
  proof (cases "strip_any ps s")
    case None
    then show ?thesis by (simp add: trim_with.simps [of ps s])
  next
    case (Some r)
    have "\<exists>b. s = b @ r"
      using Some by (induction ps) (auto split: if_splits simp: starts_with_iff)
    moreover obtain a where "r = a @ trim_with ps r" using 1 Some by blast
    ultimately show ?thesis
      using Some by (auto simp: trim_with.simps [of ps s]) (metis append.assoc)
  qed
qed

lemma trim_with_idem [simp]: "trim_with ps (trim_with ps s) = trim_with ps s"
  by (simp add: trim_with.simps [of ps "trim_with ps s"] trim_with_stops)

lemma set_trim_with: "set (trim_with ps s) \<subseteq> set s"
  by (metis Un_upper2 set_append trim_with_suffix)

lemma set_trim: "set (trim s) \<subseteq> set s"
proof -
  have "set (trim s) \<subseteq> set (trim_start s)"
    using set_trim_with [of "map rev ws_codes" "rev (trim_start s)"]
    by (simp add: trim_def trim_end_def)
  also have "\<dots> \<subseteq> set s"
    using set_trim_with [of ws_codes s] by (simp add: trim_start_def)
  finally show ?thesis .
qed

lemma strip_any_Some:
  "strip_any ps s = Some r \<Longrightarrow> \<exists>p \<in> set ps. p \<noteq> [] \<and> s = p @ r"
  by (induction ps) (auto split: if_splits simp: starts_with_iff)

lemma strip_any_None:
  "strip_any ps s = None \<longleftrightarrow> (\<forall>p \<in> set ps. p \<noteq> [] \<longrightarrow> \<not> starts_with s p)"
  by (induction ps) auto

lemma strip_any_None_prefix: "strip_any ps (a @ b) = None \<Longrightarrow> strip_any ps a = None"
  by (auto simp: strip_any_None starts_with_iff)

lemma trim_with_empty_ends:
  "trim_with ps s = [] \<Longrightarrow> s \<noteq> [] \<Longrightarrow> \<exists>p \<in> set ps. p \<noteq> [] \<and> (\<exists>a. s = a @ p)"
proof (induction ps s rule: trim_with.induct)
  case (1 ps s)
  then obtain r where r: "strip_any ps s = Some r"
    by (cases "strip_any ps s") (auto simp: trim_with.simps [of ps s])
  then obtain p where p: "p \<in> set ps" "p \<noteq> []" "s = p @ r" using strip_any_Some by blast
  show ?case
  proof (cases "r = []")
    case True
    with p show ?thesis by auto
  next
    case False
    moreover have "trim_with ps r = []" using "1.prems" r by (simp add: trim_with.simps [of ps s])
    ultimately obtain q a where "q \<in> set ps" "q \<noteq> []" "r = a @ q" using "1.IH" r by blast
    with p show ?thesis by (metis append.assoc)
  qed
qed

lemma trim_end_nonempty:
  assumes "strip_any ws_codes s = None" and "s \<noteq> []"
  shows "trim_end s \<noteq> []"
proof
  assume "trim_end s = []"
  with assms(2) obtain p a where "p \<in> set (map rev ws_codes)" "p \<noteq> []" "rev s = a @ p"
    using trim_with_empty_ends [of "map rev ws_codes" "rev s"] by (auto simp: trim_end_def)
  then have "rev p \<in> set ws_codes" "rev p \<noteq> []" "starts_with s (rev p)"
    by (auto simp: starts_with_iff) (metis rev_append rev_rev_ident)
  with assms(1) show False by (auto simp: strip_any_None)
qed

lemma trim_end_prefix: "\<exists>b. s = trim_end s @ b"
  using trim_with_suffix [of "rev s" "map rev ws_codes"]
  by (metis rev_append rev_rev_ident trim_end_def)

lemma strip_any_trim: "strip_any ws_codes (trim s) = None"
  by (metis strip_any_None_prefix trim_def trim_end_prefix trim_start_def trim_with_stops)

lemma trim_start_id: "strip_any ws_codes s = None \<Longrightarrow> trim_start s = s"
  by (simp add: trim_start_def trim_with.simps [of ws_codes s])

lemma trim_nonempty:
  "strip_any ws_codes s = None \<Longrightarrow> s \<noteq> [] \<Longrightarrow> trim s \<noteq> []"
  by (simp add: trim_def trim_start_id trim_end_nonempty)

lemma strip_any_Nil [simp]: "strip_any ps [] = None"
  by (induction ps) (auto simp: neq_Nil_conv)

lemma trim_with_Nil [simp]: "trim_with ps [] = []"
  by (simp add: trim_with.simps)

lemma trim_Nil [simp]: "trim [] = []"
  by (simp add: trim_def trim_end_def trim_start_def)

text \<open>No byte of a piece of \<open>split_whitespace\<close> is an ASCII white-space byte.\<close>

definition ascii_ws :: "string" where
  "ascii_ws = [CHR 0x20, CHR 0x0A, CHR 0x0D, CHR 0x09, CHR 0x0B, CHR 0x0C]"

lemma strip_any_ascii:
  assumes "strip_any ws_codes (c # s) = None"
  shows "c \<notin> set ascii_ws"
  using assms by (auto simp: ws_codes_def ascii_ws_def split: if_splits)

lemma ws_words_clean:
  "set cur \<inter> set ascii_ws = {} \<Longrightarrow> w \<in> set (ws_words cur s) \<Longrightarrow>
   set w \<inter> set ascii_ws = {} \<and> w \<noteq> []"
proof (induction cur s rule: ws_words.induct)
  case (1 cur s)
  show ?case
  proof (cases "strip_any ws_codes s")
    case (Some r)
    with 1 show ?thesis by (auto simp: ws_words.simps [of cur s] split: if_splits)
  next
    case None
    show ?thesis
    proof (cases s)
      case Nil
      with 1 show ?thesis by (auto simp: ws_words.simps [of cur "[]"] split: if_splits)
    next
      case (Cons c s')
      with None have "c \<notin> set ascii_ws" using strip_any_ascii by blast
      with 1 None Cons show ?thesis by (auto simp: ws_words.simps [of cur "c # s'"])
    qed
  qed
qed

section \<open>Decimal numbers\<close>

definition digit :: "nat \<Rightarrow> char" where
  "digit d = char_of (48 + d)"

fun show_nat :: "nat \<Rightarrow> string" where
  "show_nat n = (if n < 10 then [digit n] else show_nat (n div 10) @ [digit (n mod 10)])"

declare show_nat.simps [simp del]

definition show_int :: "int \<Rightarrow> string" where
  "show_int i = (if i < 0 then CHR ''-'' # show_nat (nat (- i)) else show_nat (nat i))"

definition is_digit :: "char \<Rightarrow> bool" where
  "is_digit c \<longleftrightarrow> (48 :: nat) \<le> of_char c \<and> of_char c < (58 :: nat)"

definition digits_value :: "string \<Rightarrow> nat" where
  "digits_value ds = foldl (\<lambda>v c. 10 * v + (of_char c - 48)) 0 ds"

definition read_nat :: "string \<Rightarrow> nat option" where
  "read_nat s = (if s \<noteq> [] \<and> list_all is_digit s then Some (digits_value s) else None)"

definition read_int :: "string \<Rightarrow> int option" where
  "read_int s =
     (case s of
        c # ds \<Rightarrow> if c = CHR ''-'' then map_option (\<lambda>n. - int n) (read_nat ds)
                  else map_option int (read_nat s)
      | [] \<Rightarrow> None)"

lemma of_char_digit [simp]: "d < 10 \<Longrightarrow> (of_char (digit d) :: nat) = 48 + d"
  by (simp add: digit_def)

lemma is_digit_digit [simp]: "d < 10 \<Longrightarrow> is_digit (digit d)"
  by (simp add: is_digit_def)

lemma show_nat_digits: "show_nat n \<noteq> [] \<and> list_all is_digit (show_nat n)"
proof (induction n rule: show_nat.induct)
  case (1 n)
  then show ?case by (cases "n < 10") (auto simp: show_nat.simps [of n])
qed

lemma digits_value_show [simp]: "digits_value (show_nat n) = n"
proof (induction n rule: show_nat.induct)
  case (1 n)
  then show ?case
    by (cases "n < 10") (auto simp: show_nat.simps [of n] digits_value_def)
qed

lemma read_show_nat [simp]: "read_nat (show_nat n) = Some n"
  using show_nat_digits by (simp add: read_nat_def)

lemma is_digit_not_minus: "is_digit c \<Longrightarrow> c \<noteq> CHR ''-''"
  by (auto simp: is_digit_def)

lemma read_show_int [simp]: "read_int (show_int i) = Some i"
proof (cases "i < 0")
  case True
  then show ?thesis by (simp add: read_int_def show_int_def)
next
  case False
  obtain c ds where c: "show_nat (nat i) = c # ds" "is_digit c"
    using show_nat_digits [of "nat i"] by (cases "show_nat (nat i)") auto
  have "read_nat (c # ds) = Some (nat i)" using c(1) by (metis read_show_nat)
  with False c is_digit_not_minus show ?thesis
    by (auto simp: read_int_def show_int_def)
qed

lemma show_int_inj: "show_int i = show_int j \<longleftrightarrow> i = j"
  by (metis option.inject read_show_int)

lemma colon_not_digit: "is_digit c \<Longrightarrow> c \<noteq> CHR '':''"
  by (auto simp: is_digit_def)

lemma colon_notin_show_int [simp]: "CHR '':'' \<notin> set (show_int i)"
  using show_nat_digits colon_not_digit
  by (auto simp: show_int_def list_all_iff)

end
