(* ===== verification/Json.thy ===== *)
theory Json
  imports Strings "HOL-Library.Monad_Syntax"
begin

text \<open>
  The data model of \<^verbatim>\<open>serde_json::Value\<close> and what the derived \<^verbatim>\<open>Deserialize\<close> of a struct
  whose fields carry \<^verbatim>\<open>#[serde(default)]\<close> does with it. Parsing JSON text and printing it
  belong to the \<^verbatim>\<open>serde_json\<close> crate and are parameters of the definitions that use them.
  A number is an unsigned or negative 64-bit integer or the bits of an IEEE double.
\<close>

type_synonym f64 = "64 word"

datatype jnum = PosInt nat | NegInt int | Float f64

datatype json =
    JNull
  | JBool bool
  | JNum jnum
  | JStr string
  | JArr "json list"
  | JObj "(string \<times> json) list"

section \<open>Access\<close>

text \<open>\<^verbatim>\<open>Value::get\<close> with a string index, and \<^verbatim>\<open>Value::as_str\<close>.\<close>

fun json_get :: "string \<Rightarrow> json \<Rightarrow> json option" where
  "json_get k (JObj kvs) = map_of kvs k"
| "json_get k _ = None"

fun as_str :: "json \<Rightarrow> string option" where
  "as_str (JStr s) = Some s"
| "as_str _ = None"

fun as_array :: "json \<Rightarrow> json list option" where
  "as_array (JArr vs) = Some vs"
| "as_array _ = None"

text \<open>\<^verbatim>\<open>Map::insert\<close>: replace the value of a present key in place, append a new one.\<close>

fun obj_insert :: "string \<Rightarrow> json \<Rightarrow> (string \<times> json) list \<Rightarrow> (string \<times> json) list" where
  "obj_insert k v [] = [(k, v)]"
| "obj_insert k v ((k', v') # kvs) =
     (if k = k' then (k, v) # kvs else (k', v') # obj_insert k v kvs)"

lemma map_of_obj_insert [simp]: "map_of (obj_insert k v kvs) = (map_of kvs)(k \<mapsto> v)"
  by (induction kvs) auto

text \<open>
  A parsed text is a tree that still has every member; reading it into a \<^verbatim>\<open>Value\<close> keeps the
  last of members with one name.
\<close>

fun as_value :: "json \<Rightarrow> json" where
  "as_value (JArr vs) = JArr (map as_value vs)"
| "as_value (JObj kvs) =
     JObj (fold (\<lambda>(k, v). obj_insert k v) (map (\<lambda>(k, v). (k, as_value v)) kvs) [])"
| "as_value j = j"

section \<open>Integers as doubles\<close>

fun log2 :: "nat \<Rightarrow> nat" where
  "log2 n = (if n < 2 then 0 else Suc (log2 (n div 2)))"

declare log2.simps [simp del]

text \<open>Rust's \<^verbatim>\<open>n as f64\<close> for an unsigned 64-bit \<open>n\<close>: round to nearest, ties to even.\<close>

definition f64_of_u64 :: "nat \<Rightarrow> f64" where
  "f64_of_u64 n =
     (if n = 0 then 0
      else let e = log2 n in
        if e \<le> 52 then of_nat ((e + 1023) * 2 ^ 52 + n * 2 ^ (52 - e) - 2 ^ 52)
        else let m = 2 ^ (e - 52); q = n div m; r = n mod m;
                 up = (if m < 2 * r \<or> (m = 2 * r \<and> odd q) then 1 else 0)
             in of_nat ((e + 1023) * 2 ^ 52 + (q + up) - 2 ^ 52))"

definition f64_of_jnum :: "jnum \<Rightarrow> f64" where
  "f64_of_jnum n =
     (case n of PosInt u \<Rightarrow> f64_of_u64 u
      | NegInt i \<Rightarrow> f64_of_u64 (nat (- i)) + 2 ^ 63
      | Float f \<Rightarrow> f)"

section \<open>Decoding a struct whose fields all default\<close>

text \<open>
  \<open>struct_fields names j\<close> gives the raw value of every field, \<open>None\<close> for an absent one; a field
  is the list of names it answers to (the name and its aliases). A derived visitor accepts an
  object, in which a field may occur once under any of its names, and also an array, whose
  elements are the fields in order.
\<close>

definition field_values :: "string list \<Rightarrow> (string \<times> json) list \<Rightarrow> json list" where
  "field_values names kvs = map snd (filter (\<lambda>(k, v). k \<in> set names) kvs)"

definition struct_fields :: "string list list \<Rightarrow> json \<Rightarrow> json option list option" where
  "struct_fields fs j =
     (case j of
        JObj kvs \<Rightarrow>
          if list_all (\<lambda>ns. length (field_values ns kvs) \<le> 1) fs
          then Some (map (\<lambda>ns. case field_values ns kvs of [] \<Rightarrow> None | v # _ \<Rightarrow> Some v) fs)
          else None
      | JArr vs \<Rightarrow>
          if length vs \<le> length fs
          then Some (map Some vs @ replicate (length fs - length vs) None)
          else None
      | _ \<Rightarrow> None)"

fun de_string :: "json option \<Rightarrow> string option" where
  "de_string None = Some []"
| "de_string (Some (JStr s)) = Some s"
| "de_string (Some _) = None"

fun de_opt_string :: "json option \<Rightarrow> string option option" where
  "de_opt_string None = Some None"
| "de_opt_string (Some JNull) = Some None"
| "de_opt_string (Some (JStr s)) = Some (Some s)"
| "de_opt_string (Some _) = None"

fun de_value :: "json option \<Rightarrow> json option" where
  "de_value None = Some JNull"
| "de_value (Some v) = Some v"

fun de_u64 :: "json option \<Rightarrow> nat option" where
  "de_u64 None = Some 0"
| "de_u64 (Some (JNum (PosInt n))) = Some n"
| "de_u64 (Some _) = None"

fun de_f64 :: "json option \<Rightarrow> f64 option" where
  "de_f64 None = Some 0"
| "de_f64 (Some (JNum n)) = Some (f64_of_jnum n)"
| "de_f64 (Some _) = None"

definition in_i32 :: "int \<Rightarrow> bool" where
  "in_i32 i \<longleftrightarrow> - (2 ^ 31) \<le> i \<and> i < 2 ^ 31"

fun de_opt_i32 :: "json option \<Rightarrow> int option option" where
  "de_opt_i32 None = Some None"
| "de_opt_i32 (Some JNull) = Some None"
| "de_opt_i32 (Some (JNum (PosInt n))) =
     (if in_i32 (int n) then Some (Some (int n)) else None)"
| "de_opt_i32 (Some (JNum (NegInt i))) = (if in_i32 i then Some (Some i) else None)"
| "de_opt_i32 (Some _) = None"

lemma struct_fields_length: "struct_fields fs j = Some vs \<Longrightarrow> length vs = length fs"
  by (auto simp: struct_fields_def split: json.splits if_splits)

lemma struct_fields_scalar [simp]:
  "struct_fields fs JNull = None" "struct_fields fs (JBool b) = None"
  "struct_fields fs (JNum n) = None" "struct_fields fs (JStr s) = None"
  by (simp_all add: struct_fields_def)

lemma struct_fields_empty [simp]:
  "struct_fields fs (JObj []) = Some (replicate (length fs) None)"
  by (simp add: struct_fields_def field_values_def list_all_iff map_replicate_const)

end
