(* ===== verification/Domain.thy ===== *)
theory Domain
  imports Json
begin

text \<open>
  The domain entities of \<^verbatim>\<open>noti-core\<close>: \<^verbatim>\<open>domain.rs\<close> and the error type of \<^verbatim>\<open>error.rs\<close>.
  A UUID is its 128 bits; printing and parsing its text form belong to the \<^verbatim>\<open>uuid\<close> crate. An
  instant is a number of microseconds since the Unix epoch, the resolution in which
  the database keeps it.
\<close>

type_synonym uuid = "128 word"
type_synonym time = int

datatype notification_channel = Email | Sms | Push | Webhook | WebSocket

datatype notification_status =
  Pending | Processing | Sent | Delivered | Failed | PermanentFailure

datatype device_platform = Android | Ios | Web

fun platform_as_str :: "device_platform \<Rightarrow> string" where
  "platform_as_str Android = ''android''"
| "platform_as_str Ios = ''ios''"
| "platform_as_str Web = ''web''"

definition platform_from_db :: "string \<Rightarrow> device_platform option" where
  "platform_from_db s =
     (if s = ''android'' then Some Android
      else if s = ''ios'' then Some Ios
      else if s = ''web'' then Some Web
      else None)"

record device_token =
  d_id :: uuid
  d_user_id :: uuid
  d_token :: string
  d_platform :: device_platform
  d_created_at :: time
  d_last_seen_at :: time

record notification =
  n_id :: uuid
  n_user_id :: "uuid option"
  n_channel :: notification_channel
  n_status :: notification_status
  n_recipient :: string
  n_template_id :: string
  n_variables :: json
  n_provider_id :: "string option"
  n_provider_ref :: "string option"
  n_retry_count :: int
  n_next_retry_at :: time
  n_error_message :: "string option"
  n_idempotency_key :: "string option"
  n_created_at :: time
  n_updated_at :: time
  n_sent_at :: "time option"
  n_read_at :: "time option"

section \<open>Errors\<close>

datatype noti_error =
    Database string
  | Template string
  | Provider string
  | Validation string
  | NotFound string
  | Idempotent string
  | Internal string

fun error_to_string :: "noti_error \<Rightarrow> string" where
  "error_to_string (Database m) = ''database error: '' @ m"
| "error_to_string (Template m) = ''template error: '' @ m"
| "error_to_string (Provider m) = ''provider error: '' @ m"
| "error_to_string (Validation m) = ''validation error: '' @ m"
| "error_to_string (NotFound m) = ''not found: '' @ m"
| "error_to_string (Idempotent m) =
     ''duplicate request: idempotency key '' @ [CHR 0x27] @ m @ [CHR 0x27] @ '' already processed''"
| "error_to_string (Internal m) = ''internal error: '' @ m"

type_synonym 'a result = "noti_error + 'a"
type_synonym ('s, 'a) io = "('s, noti_error, 'a) act"

section \<open>Facts\<close>

lemma platform_roundtrip [simp]: "platform_from_db (platform_as_str p) = Some p"
  by (cases p) (simp_all add: platform_from_db_def)

lemma platform_from_db_Some: "platform_from_db s = Some p \<longleftrightarrow> s = platform_as_str p"
  by (cases p) (auto simp: platform_from_db_def)

lemma error_to_string_inj: "error_to_string e = error_to_string f \<Longrightarrow> e = f"
  by (cases e; cases f) auto

end
