(* ===== verification/Health.thy ===== *)
theory Health
  imports Domain
begin

text \<open>
  \<^verbatim>\<open>noti-core/src/health.rs\<close>: the liveness signal of the background Kafka consumer. The three
  atomics are the fields of a record; each method is one or two atomic accesses. The lemmas
  say what \<open>is_ready\<close> reports after any history of signals.
\<close>

definition i64_max :: int where "i64_max = 2 ^ 63 - 1"
definition i64_min :: int where "i64_min = - (2 ^ 63)"

definition in_i64 :: "int \<Rightarrow> bool" where
  "in_i64 i \<longleftrightarrow> i64_min \<le> i \<and> i \<le> i64_max"

definition saturating_sub_i64 :: "int \<Rightarrow> int \<Rightarrow> int" where
  "saturating_sub_i64 a b = max i64_min (min i64_max (a - b))"

text \<open>The argument is the wall clock in seconds relative to the epoch, negative before it.\<close>

definition unix_now_secs :: "int \<Rightarrow> int" where
  "unix_now_secs clock =
     (if clock < 0 then 0 else if clock \<le> i64_max then clock else i64_max)"

record consumer_health =
  h_connected :: bool
  h_disabled :: bool
  h_last_progress_secs :: int

definition health_new :: consumer_health where
  "health_new = \<lparr>h_connected = False, h_disabled = False, h_last_progress_secs = 0\<rparr>"

definition mark_progress :: "int \<Rightarrow> consumer_health \<Rightarrow> consumer_health" where
  "mark_progress now h = h\<lparr>h_connected := True, h_last_progress_secs := now\<rparr>"

definition mark_down :: "consumer_health \<Rightarrow> consumer_health" where
  "mark_down h = h\<lparr>h_connected := False\<rparr>"

definition mark_disabled :: "consumer_health \<Rightarrow> consumer_health" where
  "mark_disabled h = h\<lparr>h_disabled := True\<rparr>"

definition last_progress_secs :: "consumer_health \<Rightarrow> int" where
  "last_progress_secs h = h_last_progress_secs h"

definition is_ready :: "int \<Rightarrow> int \<Rightarrow> consumer_health \<Rightarrow> bool" where
  "is_ready now stale_after h =
     (if h_disabled h then True
      else if \<not> h_connected h then False
      else saturating_sub_i64 now (h_last_progress_secs h) \<le> stale_after)"

lemmas health_defs = mark_progress_def mark_down_def mark_disabled_def

section \<open>Histories of signals\<close>

datatype signal = Progress int | Down | Disabled

fun apply_signal :: "signal \<Rightarrow> consumer_health \<Rightarrow> consumer_health" where
  "apply_signal (Progress t) = mark_progress t"
| "apply_signal Down = mark_down"
| "apply_signal Disabled = mark_disabled"

definition after_signals :: "signal list \<Rightarrow> consumer_health" where
  "after_signals sigs = fold apply_signal sigs health_new"

text \<open>The last signal of the consumer loop itself, the disabling of the consumer aside.\<close>

definition last_loop_signal :: "signal list \<Rightarrow> signal option" where
  "last_loop_signal sigs =
     (let loop = filter (\<lambda>x. x \<noteq> Disabled) sigs
      in if loop = [] then None else Some (last loop))"

lemma after_signals_snoc: "after_signals (sigs @ [x]) = apply_signal x (after_signals sigs)"
  by (simp add: after_signals_def)

lemma last_loop_signal_snoc:
  "last_loop_signal (sigs @ [x]) = (if x = Disabled then last_loop_signal sigs else Some x)"
  by (simp add: last_loop_signal_def)

lemma h_disabled_after: "h_disabled (after_signals sigs) \<longleftrightarrow> Disabled \<in> set sigs"
proof (induction sigs rule: rev_induct)
  case Nil
  then show ?case by (simp add: after_signals_def health_new_def)
next
  case (snoc x sigs)
  then show ?case by (cases x) (auto simp: after_signals_snoc health_defs)
qed

lemma h_connected_after:
  "h_connected (after_signals sigs) \<longleftrightarrow> (\<exists>t. last_loop_signal sigs = Some (Progress t))"
proof (induction sigs rule: rev_induct)
  case Nil
  then show ?case by (simp add: after_signals_def health_new_def last_loop_signal_def)
next
  case (snoc x sigs)
  then show ?case
    by (cases x) (auto simp: after_signals_snoc last_loop_signal_snoc health_defs)
qed

lemma h_last_progress_after:
  "last_loop_signal sigs = Some (Progress t) \<Longrightarrow> h_last_progress_secs (after_signals sigs) = t"
proof (induction sigs rule: rev_induct)
  case Nil
  then show ?case by (simp add: last_loop_signal_def)
next
  case (snoc x sigs)
  then show ?case
    by (cases x) (auto simp: after_signals_snoc last_loop_signal_snoc health_defs)
qed

lemma is_ready_after:
  "is_ready now stale (after_signals sigs) \<longleftrightarrow>
     Disabled \<in> set sigs \<or>
     (\<exists>t. last_loop_signal sigs = Some (Progress t) \<and> saturating_sub_i64 now t \<le> stale)"
proof (cases "h_connected (after_signals sigs)")
  case True
  then obtain t where t: "last_loop_signal sigs = Some (Progress t)"
    by (auto simp: h_connected_after)
  with h_last_progress_after have "h_last_progress_secs (after_signals sigs) = t" by blast
  with True t show ?thesis by (simp add: is_ready_def h_disabled_after)
next
  case False
  then show ?thesis by (auto simp: is_ready_def h_disabled_after h_connected_after)
qed

lemma saturating_sub_exact:
  "in_i64 (a - b) \<Longrightarrow> saturating_sub_i64 a b = a - b"
  by (simp add: saturating_sub_i64_def in_i64_def)

lemma saturating_sub_le_iff:
  "0 \<le> k \<Longrightarrow> k < i64_max \<Longrightarrow> saturating_sub_i64 a b \<le> k \<longleftrightarrow> a - b \<le> k"
  by (auto simp: saturating_sub_i64_def i64_max_def i64_min_def)

end
