(* ===== verification/Sql.thy ===== *)
theory Sql
  imports Domain "HOL-Library.Multiset"
begin

text \<open>
  A PostgreSQL table as the two repositories use it. A table is its rows and what its
  environment decides: which statements fail and how, the two clocks, the order in which an
  unordered query returns rows, generated identifiers, and the normal form of stored JSONB.
  Everything the environment decides is a function of the number of the call, so a theorem
  about all tables is a theorem about all environments.

  A statement is atomic. It may fail before it has any effect (\<open>FailBefore\<close>), or take
  effect and have its acknowledgement lost (\<open>FailAfter\<close>). \<open>NOW()\<close> is the database clock at
  the start of the statement; \<open>t_svc_now\<close> is the clock of the service process.
\<close>

datatype fault = NoFault | FailBefore string | FailAfter string

record 'r table =
  t_rows :: "'r list"
  t_calls :: nat
  t_fault :: "nat \<Rightarrow> fault"
  t_now :: "nat \<Rightarrow> time"
  t_svc_now :: "nat \<Rightarrow> time"
  t_rank :: "nat \<Rightarrow> uuid \<Rightarrow> nat"
  t_gen_uuid :: "nat \<Rightarrow> uuid"
  t_jsonb :: "json \<Rightarrow> json"

definition db_now :: "'r table \<Rightarrow> time" where
  "db_now t = t_now t (t_calls t)"

definition svc_now :: "'r table \<Rightarrow> time" where
  "svc_now t = t_svc_now t (t_calls t)"

definition exec :: "(string + 'a \<times> 'r list) \<Rightarrow> 'r table \<Rightarrow> 'a result \<times> 'r table" where
  "exec out t =
     (let t' = t\<lparr>t_calls := Suc (t_calls t)\<rparr> in
      case out of
        Inl m \<Rightarrow>
          (Inl (Database (case t_fault t (t_calls t) of FailBefore f \<Rightarrow> f | _ \<Rightarrow> m)), t')
      | Inr (a, rs) \<Rightarrow>
          (case t_fault t (t_calls t) of
             NoFault \<Rightarrow> (Inr a, t'\<lparr>t_rows := rs\<rparr>)
           | FailBefore m \<Rightarrow> (Inl (Database m), t')
           | FailAfter m \<Rightarrow> (Inl (Database m), t'\<lparr>t_rows := rs\<rparr>)))"

text \<open>A query returns rows and changes none.\<close>

definition query :: "(string + 'a) \<Rightarrow> 'r table \<Rightarrow> 'a result \<times> 'r table" where
  "query out t = exec (map_sum id (\<lambda>a. (a, t_rows t)) out) t"

text \<open>The order of a query without \<open>ORDER BY\<close>: any permutation, chosen by the planner.\<close>

definition scan :: "('r \<Rightarrow> uuid) \<Rightarrow> 'r table \<Rightarrow> 'r list" where
  "scan key t = sort_key (\<lambda>r. t_rank t (t_calls t) (key r)) (t_rows t)"

definition healthy :: "'r table \<Rightarrow> bool" where
  "healthy t \<longleftrightarrow> (\<forall>k. t_fault t k = NoFault)"

section \<open>Facts\<close>

lemma set_scan [simp]: "set (scan key t) = set (t_rows t)"
  by (simp add: scan_def)

lemma mset_scan [simp]: "mset (scan key t) = mset (t_rows t)"
  by (simp add: scan_def)

lemma exec_rows:
  "t_rows (snd (exec out t)) = t_rows t \<or> (\<exists>a. out = Inr (a, t_rows (snd (exec out t))))"
  by (auto simp: exec_def Let_def split: sum.split fault.split)

lemma exec_Inr:
  "exec out t = (Inr a, t') \<Longrightarrow> out = Inr (a, t_rows t')"
  by (auto simp: exec_def Let_def split: sum.splits fault.splits prod.splits)

lemma exec_Inl:
  assumes "exec out t = (Inl e, t')"
  shows "t_rows t' = t_rows t \<or> (\<exists>a. out = Inr (a, t_rows t'))"
  using exec_rows [of out t] assms by simp

lemma exec_env:
  "t_fault (snd (exec out t)) = t_fault t"
  "t_calls (snd (exec out t)) = Suc (t_calls t)"
  "t_jsonb (snd (exec out t)) = t_jsonb t"
  "t_now (snd (exec out t)) = t_now t"
  "t_svc_now (snd (exec out t)) = t_svc_now t"
  by (auto simp: exec_def Let_def split: sum.split fault.split prod.split)

lemma healthy_exec [simp]: "healthy (snd (exec out t)) = healthy t"
  by (simp add: healthy_def exec_env)

lemma healthy_exec_run: "exec out t = (r, t') \<Longrightarrow> healthy t' = healthy t"
  by (metis healthy_exec snd_conv)

lemma exec_healthy:
  "healthy t \<Longrightarrow> exec (Inr (a, rs)) t = (Inr a, t\<lparr>t_calls := Suc (t_calls t), t_rows := rs\<rparr>)"
  by (simp add: exec_def healthy_def Let_def)

lemma exec_error_healthy:
  "healthy t \<Longrightarrow> exec (Inl m) t = (Inl (Database m), t\<lparr>t_calls := Suc (t_calls t)\<rparr>)"
  by (simp add: exec_def healthy_def Let_def)

lemma query_rows [simp]: "t_rows (snd (query out t)) = t_rows t"
  by (cases out) (auto simp: query_def exec_def Let_def split: fault.split)

lemma query_Inr: "query out t = (Inr a, t') \<Longrightarrow> out = Inr a \<and> t_rows t' = t_rows t"
  by (cases out) (auto simp: query_def dest: exec_Inr)

lemma healthy_query [simp]: "healthy (snd (query out t)) = healthy t"
  by (simp add: query_def)

lemma query_healthy:
  "healthy t \<Longrightarrow> query (Inr a) t = (Inr a, t\<lparr>t_calls := Suc (t_calls t)\<rparr>)"
  by (simp add: query_def exec_healthy)

text \<open>An invariant of the rows is kept when every statement outcome keeps it.\<close>

lemma exec_keeps_rows:
  assumes "I (t_rows t)" and "\<And>a rs. out = Inr (a, rs) \<Longrightarrow> I rs"
  shows "I (t_rows (snd (exec out t)))"
  using exec_rows [of out t] assms by metis

end
