(* ===== verification/Wire.thy ===== *)
theory Wire
  imports Domain
begin

text \<open>
  \<^verbatim>\<open>noti-core/src/wire.rs\<close>: the projection of a stored notification that both client
  transports emit. The uppercase mapping of a non-ASCII scalar value is the parameter \<open>uc\<close>
  (a Unicode table); ASCII is mapped here. The lemmas give the title and message precedence
  and the shape of the flattened JSON object.
\<close>

section \<open>Case mapping of the first scalar value\<close>

definition scalar_len :: "char \<Rightarrow> nat" where
  "scalar_len c =
     (let b = of_char c :: nat
      in if b < 0x80 then 1 else if b < 0xE0 then 2 else if b < 0xF0 then 3 else 4)"

definition ascii_upper :: "char \<Rightarrow> char" where
  "ascii_upper c =
     (let b = of_char c :: nat in if 97 \<le> b \<and> b \<le> 122 then char_of (b - 32) else c)"

definition capitalize :: "(string \<Rightarrow> string) \<Rightarrow> string \<Rightarrow> string" where
  "capitalize uc word =
     (case word of [] \<Rightarrow> []
      | c # cs \<Rightarrow>
          if scalar_len c = 1 then ascii_upper c # cs
          else uc (take (scalar_len c) word) @ drop (scalar_len c) word)"

definition pascal_case :: "(string \<Rightarrow> string) \<Rightarrow> string \<Rightarrow> string" where
  "pascal_case uc stem =
     concat (map (capitalize uc) (filter (\<lambda>w. w \<noteq> []) (split_on (CHR ''_'') stem)))"

definition humanize :: "(string \<Rightarrow> string) \<Rightarrow> string \<Rightarrow> string" where
  "humanize uc stem =
     join '' '' (map (capitalize uc) (filter (\<lambda>w. w \<noteq> []) (split_on (CHR ''_'') stem)))"

section \<open>Template ids and event names\<close>

definition template_stem :: "string \<Rightarrow> string" where
  "template_stem template_id =
     (case split_once (CHR ''.'') template_id of None \<Rightarrow> template_id | Some (stem, _) \<Rightarrow> stem)"

definition text_template_id :: "string \<Rightarrow> string" where
  "text_template_id template_id =
     (case strip_suffix ''.html.tera'' template_id of
        Some stem \<Rightarrow> stem @ ''.txt.tera''
      | None \<Rightarrow> template_id)"

definition event_type :: "(string \<Rightarrow> string) \<Rightarrow> string \<Rightarrow> string" where
  "event_type uc template_id =
     (let stem = template_stem template_id in
      if stem = ''trade_matched'' then ''OrderMatched''
      else if stem = ''welcome'' then ''EmailVerified''
      else if stem = ''new_login'' then ''UserLoggedIn''
      else if stem = ''password_reset'' then ''PasswordResetRequested''
      else if stem = ''confirm_wallet'' then ''WalletLinkRequested''
      else if stem = ''verify_email'' then ''VerificationEmailRequested''
      else pascal_case uc stem)"

section \<open>Title and message\<close>

text \<open>The first key whose value is a string decides, even when that string is blank.\<close>

fun first_string :: "string list \<Rightarrow> json \<Rightarrow> string option" where
  "first_string [] v = None"
| "first_string (k # ks) v =
     (case Option.bind (json_get k v) as_str of Some s \<Rightarrow> Some s | None \<Rightarrow> first_string ks v)"

definition variable :: "json \<Rightarrow> string list \<Rightarrow> string option" where
  "variable variables keys =
     (case map_option trim (first_string keys variables) of
        Some s \<Rightarrow> if s = [] then None else Some s
      | None \<Rightarrow> None)"

definition split_heading :: "string \<Rightarrow> string option \<times> string" where
  "split_heading text =
     (case split_once (CHR 0x0A) text of
        None \<Rightarrow> (None, text)
      | Some (first, rest) \<Rightarrow>
          (let (second, body) =
                 (case split_once (CHR 0x0A) rest of Some p \<Rightarrow> p | None \<Rightarrow> (rest, []));
               underline = trim second
           in if 3 \<le> length underline \<and>
                 (list_all (\<lambda>c. c = CHR ''-'') underline \<or> list_all (\<lambda>c. c = CHR ''='') underline)
              then (Some (trim first), body)
              else (None, text)))"

definition title_and_message ::
  "(string \<Rightarrow> string) \<Rightarrow> string \<Rightarrow> json \<Rightarrow> string \<Rightarrow> string \<times> string" where
  "title_and_message uc template_id variables rendered =
     (let (heading, body) = split_heading (trim rendered);
          title = (case variable variables [''title'', ''headline''] of
                     Some t \<Rightarrow> t
                   | None \<Rightarrow> (case heading of
                               Some h \<Rightarrow> h
                             | None \<Rightarrow> humanize uc (template_stem template_id)));
          message = (case variable variables [''body''] of Some b \<Rightarrow> b | None \<Rightarrow> trim body)
      in (title, message))"

section \<open>The view\<close>

record notification_view =
  v_notification :: notification
  v_event_type :: string
  v_title :: string
  v_message :: string
  v_is_read :: bool

definition view_new :: "(string \<Rightarrow> string) \<Rightarrow> notification \<Rightarrow> string \<Rightarrow> notification_view" where
  "view_new uc n rendered =
     (let (title, message) =
            title_and_message uc (n_template_id n) (n_variables n) rendered
      in \<lparr>v_notification = n,
          v_event_type = event_type uc (n_template_id n),
          v_title = title,
          v_message = message,
          v_is_read = (n_read_at n \<noteq> None)\<rparr>)"

text \<open>
  The JSON object the derived \<^verbatim>\<open>Serialize\<close> emits: the fields of the notification, flattened,
  then the four of the view. Printing of a UUID and of an instant is a parameter.
\<close>

fun channel_name :: "notification_channel \<Rightarrow> string" where
  "channel_name Email = ''Email''"
| "channel_name Sms = ''Sms''"
| "channel_name Push = ''Push''"
| "channel_name Webhook = ''Webhook''"
| "channel_name WebSocket = ''WebSocket''"

fun status_name :: "notification_status \<Rightarrow> string" where
  "status_name Pending = ''Pending''"
| "status_name Processing = ''Processing''"
| "status_name Sent = ''Sent''"
| "status_name Delivered = ''Delivered''"
| "status_name Failed = ''Failed''"
| "status_name PermanentFailure = ''PermanentFailure''"

definition json_opt :: "('a \<Rightarrow> string) \<Rightarrow> 'a option \<Rightarrow> json" where
  "json_opt f x = (case x of None \<Rightarrow> JNull | Some a \<Rightarrow> JStr (f a))"

definition json_int :: "int \<Rightarrow> json" where
  "json_int i = JNum (if i < 0 then NegInt i else PosInt (nat i))"

definition notification_fields ::
  "(uuid \<Rightarrow> string) \<Rightarrow> (time \<Rightarrow> string) \<Rightarrow> notification \<Rightarrow> (string \<times> json) list" where
  "notification_fields us ts n =
     [(''id'', JStr (us (n_id n))),
      (''user_id'', json_opt us (n_user_id n)),
      (''channel'', JStr (channel_name (n_channel n))),
      (''status'', JStr (status_name (n_status n))),
      (''recipient'', JStr (n_recipient n)),
      (''template_id'', JStr (n_template_id n)),
      (''variables'', n_variables n),
      (''provider_id'', json_opt id (n_provider_id n)),
      (''provider_ref'', json_opt id (n_provider_ref n)),
      (''retry_count'', json_int (n_retry_count n)),
      (''next_retry_at'', JStr (ts (n_next_retry_at n))),
      (''error_message'', json_opt id (n_error_message n)),
      (''idempotency_key'', json_opt id (n_idempotency_key n)),
      (''created_at'', JStr (ts (n_created_at n))),
      (''updated_at'', JStr (ts (n_updated_at n))),
      (''sent_at'', json_opt ts (n_sent_at n)),
      (''read_at'', json_opt ts (n_read_at n))]"

definition view_json :: "(uuid \<Rightarrow> string) \<Rightarrow> (time \<Rightarrow> string) \<Rightarrow> notification_view \<Rightarrow> json" where
  "view_json us ts v =
     JObj (notification_fields us ts (v_notification v) @
       [(''type'', JStr (v_event_type v)),
        (''title'', JStr (v_title v)),
        (''message'', JStr (v_message v)),
        (''is_read'', JBool (v_is_read v))])"

section \<open>Facts\<close>

lemma variable_nonempty: "variable v keys = Some s \<Longrightarrow> s \<noteq> []"
  by (auto simp: variable_def split: option.splits if_splits)

lemma split_heading_Some:
  assumes "split_heading (trim rendered) = (Some h, body)"
  shows "h \<noteq> []"
proof -
  let ?t = "trim rendered"
  obtain first rest where t: "split_once (CHR 0x0A) ?t = Some (first, rest)" and h: "h = trim first"
    using assms by (auto simp: split_heading_def Let_def split: option.splits prod.splits if_splits)
  then have eq: "?t = first @ CHR 0x0A # rest" using split_once_Some by fastforce
  have none: "strip_any ws_codes ?t = None" by (rule strip_any_trim)
  have none': "strip_any ws_codes (first @ CHR 0x0A # rest) = None"
    using none unfolding eq .
  have "first \<noteq> []"
  proof
    assume "first = []"
    with none' have "strip_any ws_codes (CHR 0x0A # rest) = None" by simp
    from strip_any_ascii [OF this] show False by (simp add: ascii_ws_def)
  qed
  moreover have "strip_any ws_codes first = None"
    using none' by (rule strip_any_None_prefix)
  ultimately show ?thesis by (simp add: h trim_nonempty)
qed

lemma split_heading_underlined:
  assumes "CHR 0x0A \<notin> set first" and "CHR 0x0A \<notin> set second"
    and "3 \<le> length (trim second)"
    and "list_all (\<lambda>c. c = CHR ''-'') (trim second) \<or> list_all (\<lambda>c. c = CHR ''='') (trim second)"
  shows "split_heading (first @ CHR 0x0A # second @ CHR 0x0A # body) = (Some (trim first), body)"
  using assms by (simp add: split_heading_def Let_def)

lemma split_heading_cases:
  "split_heading t = (None, t) \<or> (\<exists>h b. split_heading t = (Some h, b))"
  by (auto simp: split_heading_def Let_def split: option.splits prod.splits)

lemma join_nonempty: "w \<in> set ws \<Longrightarrow> w \<noteq> [] \<Longrightarrow> join sep ws \<noteq> []"
  by (induction sep ws rule: join.induct) auto

lemma capitalize_nonempty:
  assumes "\<And>s. s \<noteq> [] \<Longrightarrow> uc s \<noteq> []" and "w \<noteq> []"
  shows "capitalize uc w \<noteq> []"
proof (cases w)
  case (Cons c cs)
  have "0 < scalar_len c" by (simp add: scalar_len_def Let_def)
  with Cons assms(1) show ?thesis by (auto simp: capitalize_def)
qed (use assms in simp)

lemma split_on_not_Nil: "split_on d s \<noteq> []"
  by (cases s) (auto split: list.splits)

lemma split_on_join: "join [d] (split_on d s) = s"
proof (induction s)
  case (Cons c s)
  obtain w ws where w: "split_on d s = w # ws"
    using split_on_not_Nil [of d s] by (cases "split_on d s") auto
  with Cons show ?case by (cases ws) (auto split: list.splits)
qed simp

lemma split_on_nonempty_piece: "\<exists>c \<in> set s. c \<noteq> d \<Longrightarrow> \<exists>w \<in> set (split_on d s). w \<noteq> []"
proof (induction s)
  case (Cons c s)
  then show ?case by (cases "c = d") (auto split: list.splits)
qed simp

lemma humanize_nonempty:
  assumes "\<And>s. s \<noteq> [] \<Longrightarrow> uc s \<noteq> []" and "\<exists>c \<in> set stem. c \<noteq> CHR ''_''"
  shows "humanize uc stem \<noteq> []"
proof -
  obtain w where w: "w \<in> set (split_on (CHR ''_'') stem)" "w \<noteq> []"
    using split_on_nonempty_piece [OF assms(2)] by blast
  then have "capitalize uc w \<noteq> []" using assms(1) capitalize_nonempty by blast
  moreover have "capitalize uc w \<in> set (map (capitalize uc)
      (filter (\<lambda>w. w \<noteq> []) (split_on (CHR ''_'') stem)))"
    using w by auto
  ultimately show ?thesis unfolding humanize_def using join_nonempty by blast
qed

lemma view_new_simps:
  "v_notification (view_new uc n r) = n"
  "v_event_type (view_new uc n r) = event_type uc (n_template_id n)"
  "v_title (view_new uc n r) = fst (title_and_message uc (n_template_id n) (n_variables n) r)"
  "v_message (view_new uc n r) = snd (title_and_message uc (n_template_id n) (n_variables n) r)"
  "v_is_read (view_new uc n r) \<longleftrightarrow> n_read_at n \<noteq> None"
  by (simp_all add: view_new_def split: prod.split)

lemma title_nonempty:
  assumes "\<And>s. s \<noteq> [] \<Longrightarrow> uc s \<noteq> []"
    and "\<exists>c \<in> set (template_stem template_id). c \<noteq> CHR ''_''"
  shows "fst (title_and_message uc template_id variables rendered) \<noteq> []"
proof (cases "variable variables [''title'', ''headline'']")
  case (Some t)
  then show ?thesis
    using variable_nonempty by (simp add: title_and_message_def Let_def split: prod.split)
next
  case None
  obtain heading body where sh: "split_heading (trim rendered) = (heading, body)"
    by (cases "split_heading (trim rendered)")
  show ?thesis
  proof (cases heading)
    case (Some h)
    with None sh split_heading_Some show ?thesis by (simp add: title_and_message_def)
  next
    case h: None
    from None sh h humanize_nonempty [OF assms(1,2)] show ?thesis
      by (simp add: title_and_message_def)
  qed
qed

end
