(* ===== verification/Traits.thy ===== *)
theory Traits
  imports Wire
begin

text \<open>
  \<^verbatim>\<open>noti-core/src/traits.rs\<close>: the trait objects the orchestrator is built from. A
  \<^verbatim>\<open>dyn Trait\<close> is a record of its methods, each a function of the shared state \<open>'s\<close>. Beside
  the traits, \<open>codecs\<close> gathers the text functions of third-party crates (UUID, timestamps,
  JSON text, the Unicode case table) and \<open>runtime\<close> what the process gets from its runtime:
  the corrected clock, random identifiers, and \<^verbatim>\<open>tokio::spawn\<close>.
\<close>

record 's notification_repository =
  repo_create :: "notification \<Rightarrow> ('s, notification) io"
  repo_get_by_id :: "uuid \<Rightarrow> ('s, notification option) io"
  repo_get_by_idempotency_key :: "string \<Rightarrow> ('s, notification option) io"
  repo_update_status ::
    "uuid \<Rightarrow> notification_status \<Rightarrow> string option \<Rightarrow> string option \<Rightarrow> ('s, unit) io"
  repo_increment_retry :: "uuid \<Rightarrow> time \<Rightarrow> ('s, unit) io"
  repo_get_pending_for_retry :: "int \<Rightarrow> ('s, notification list) io"
  repo_reset_stuck_processing :: "int \<Rightarrow> ('s, nat) io"
  repo_list_by_user :: "uuid \<Rightarrow> int \<Rightarrow> int \<Rightarrow> ('s, notification list) io"
  repo_mark_as_read :: "uuid \<Rightarrow> uuid \<Rightarrow> ('s, unit) io"
  repo_mark_all_as_read :: "uuid \<Rightarrow> ('s, unit) io"
  repo_get_unread_count :: "uuid \<Rightarrow> ('s, int) io"

record 's device_repository =
  dev_register :: "uuid \<Rightarrow> string \<Rightarrow> device_platform \<Rightarrow> ('s, device_token) io"
  dev_active_for_user :: "uuid \<Rightarrow> ('s, device_token list) io"
  dev_revoke :: "string \<Rightarrow> ('s, unit) io"

record 's provider =
  prov_send :: "string \<Rightarrow> string \<Rightarrow> ('s, string) io"
  prov_provider_id :: string

record 's websocket_registry =
  ws_send_to_user :: "uuid \<Rightarrow> string \<Rightarrow> ('s, bool) io"

record 's cache_service =
  cache_set_value :: "string \<Rightarrow> json \<Rightarrow> nat \<Rightarrow> ('s, unit) io"
  cache_get_value :: "string \<Rightarrow> ('s, json option) io"
  cache_increment_with_ttl :: "string \<Rightarrow> nat \<Rightarrow> ('s, int) io"
  cache_delete :: "string \<Rightarrow> ('s, unit) io"
  cache_lock :: "string \<Rightarrow> nat \<Rightarrow> ('s, bool) io"
  cache_unlock :: "string \<Rightarrow> ('s, unit) io"

type_synonym template_engine = "string \<Rightarrow> json \<Rightarrow> string result"

type_synonym u32 = "32 word"

record 's message_queue =
  mq_publish_dispatch :: "uuid \<Rightarrow> ('s, unit) io"
  mq_publish_retry :: "uuid \<Rightarrow> u32 \<Rightarrow> ('s, unit) io"

section \<open>Third-party text functions and the runtime\<close>

record codecs =
  c_uuid_show :: "uuid \<Rightarrow> string"
  c_uuid_parse :: "string \<Rightarrow> string + uuid"
  c_time_show :: "time \<Rightarrow> string"
  c_json_show :: "json \<Rightarrow> string"
  c_json_encode :: "json \<Rightarrow> string + string"
  c_json_parse :: "string \<Rightarrow> string + json"
  c_upper :: "string \<Rightarrow> string"

text \<open>Documented behaviour of the \<^verbatim>\<open>uuid\<close> crate: the printed form parses back.\<close>

definition uuid_roundtrip :: "codecs \<Rightarrow> bool" where
  "uuid_roundtrip c \<longleftrightarrow> (\<forall>u. c_uuid_parse c (c_uuid_show c u) = Inr u)"

datatype task = DispatchTask uuid | RetryTask uuid u32

record 's runtime =
  rt_now :: "'s \<Rightarrow> time \<times> 's"
  rt_new_uuid :: "'s \<Rightarrow> uuid \<times> 's"
  rt_spawn :: "task \<Rightarrow> 's \<Rightarrow> 's"

lemma uuid_roundtripD: "uuid_roundtrip c \<Longrightarrow> c_uuid_parse c (c_uuid_show c u) = Inr u"
  by (simp add: uuid_roundtrip_def)

lemma uuid_show_inj: "uuid_roundtrip c \<Longrightarrow> c_uuid_show c u = c_uuid_show c v \<longleftrightarrow> u = v"
  by (metis sum.inject(2) uuid_roundtripD)

end
