(* ===== verification/Lifecycle.thy ===== *)
theory Lifecycle
  imports Traits
begin

text \<open>
  The life of one notification, abstractly: its delivery state (status, retry count, last error,
  provider reference) and the steps by which the service may change it. \<open>life_step\<close> is the
  specification that \<^verbatim>\<open>dispatch\<close> and crash recovery refine; \<open>notification_store\<close> is the
  contract between the orchestrator and the table, and \<open>reliable_store\<close> the same contract
  while the database answers.
\<close>

record delivery =
  dl_status :: notification_status
  dl_retry :: int
  dl_error :: "string option"
  dl_ref :: "string option"

type_synonym lives = "uuid \<Rightarrow> delivery option"

definition set_life :: "uuid \<Rightarrow> (delivery \<Rightarrow> delivery) \<Rightarrow> lives \<Rightarrow> lives" where
  "set_life i f l = l(i := map_option f (l i))"

definition delivery_of :: "notification \<Rightarrow> delivery" where
  "delivery_of n =
     \<lparr>dl_status = n_status n, dl_retry = n_retry_count n, dl_error = n_error_message n,
      dl_ref = n_provider_ref n\<rparr>"

definition put_status ::
  "notification_status \<Rightarrow> string option \<Rightarrow> string option \<Rightarrow> delivery \<Rightarrow> delivery" where
  "put_status st e p d = d\<lparr>dl_status := st, dl_error := e, dl_ref := p\<rparr>"

definition bump_retry :: "delivery \<Rightarrow> delivery" where
  "bump_retry d = d\<lparr>dl_retry := dl_retry d + 1\<rparr>"

lemma put_status_simps [simp]:
  "dl_status (put_status st e p d) = st" "dl_retry (put_status st e p d) = dl_retry d"
  "dl_error (put_status st e p d) = e" "dl_ref (put_status st e p d) = p"
  by (simp_all add: put_status_def)

lemma put_status_twice [simp]:
  "put_status st e p (put_status st' e' p' d) = put_status st e p d"
  by (simp add: put_status_def)

lemma bump_retry_simps [simp]:
  "dl_status (bump_retry d) = dl_status d" "dl_retry (bump_retry d) = dl_retry d + 1"
  "dl_error (bump_retry d) = dl_error d" "dl_ref (bump_retry d) = dl_ref d"
  by (simp_all add: bump_retry_def)

lemma delivery_of_simps [simp]:
  "dl_status (delivery_of n) = n_status n" "dl_retry (delivery_of n) = n_retry_count n"
  by (simp_all add: delivery_of_def)

lemma set_life_same [simp]: "set_life i f l i = map_option f (l i)"
  by (simp add: set_life_def)

lemma set_life_other [simp]: "j \<noteq> i \<Longrightarrow> set_life i f l j = l j"
  by (simp add: set_life_def)

lemma set_life_comp: "set_life i f (set_life i g l) = set_life i (f \<circ> g) l"
  by (auto simp: set_life_def fun_eq_iff option.map_comp)

section \<open>The abstract life cycle\<close>

text \<open>\<open>max_retries\<close> is the constant \<^verbatim>\<open>MAX_RETRIES\<close> of \<^verbatim>\<open>dispatch\<close>.\<close>

definition max_retries :: int where
  "max_retries = 5"

definition open_status :: "notification_status \<Rightarrow> bool" where
  "open_status st \<longleftrightarrow> st = Pending \<or> st = Processing"

inductive life_step :: "delivery \<Rightarrow> delivery \<Rightarrow> bool" where
  claim: "open_status (dl_status d) \<Longrightarrow> life_step d (put_status Processing None None d)"
| sent: "dl_status d = Processing \<Longrightarrow> life_step d (put_status Sent None (Some ref) d)"
| dead: "dl_status d = Processing \<Longrightarrow> life_step d (put_status PermanentFailure (Some e) None d)"
| bump: "dl_status d = Processing \<Longrightarrow> dl_retry d < max_retries \<Longrightarrow> life_step d (bump_retry d)"
| requeue: "dl_status d = Processing \<Longrightarrow> life_step d (put_status Pending (Some e) None d)"
| reset: "dl_status d = Processing \<Longrightarrow> life_step d (d\<lparr>dl_status := Pending\<rparr>)"

inductive_cases life_stepE: "life_step d d'"

abbreviation life_steps :: "delivery \<Rightarrow> delivery \<Rightarrow> bool" where
  "life_steps \<equiv> life_step\<^sup>*\<^sup>*"

text \<open>A whole table evolves when each of its notifications does and none disappears.\<close>

definition lives_evolve :: "lives \<Rightarrow> lives \<Rightarrow> bool" where
  "lives_evolve l l' \<longleftrightarrow>
     (\<forall>i d. l i = Some d \<longrightarrow> (\<exists>d'. l' i = Some d' \<and> life_steps d d'))"

lemma lives_evolve_refl [simp, intro]: "lives_evolve l l"
  by (simp add: lives_evolve_def)

lemma lives_evolve_trans [trans]:
  "lives_evolve l m \<Longrightarrow> lives_evolve m n \<Longrightarrow> lives_evolve l n"
  unfolding lives_evolve_def by (meson rtranclp_trans)

lemma lives_evolve_set_life:
  assumes "\<And>d. l i = Some d \<Longrightarrow> life_steps d (f d)"
  shows "lives_evolve l (set_life i f l)"
  using assms by (auto simp: lives_evolve_def set_life_def)

definition settled :: "notification_status \<Rightarrow> bool" where
  "settled st \<longleftrightarrow> \<not> open_status st"

text \<open>A settled notification never changes again.\<close>

lemma life_steps_settled: "life_steps d d' \<Longrightarrow> settled (dl_status d) \<Longrightarrow> d' = d"
  by (induction rule: converse_rtranclp_induct)
     (auto elim!: life_stepE simp: settled_def open_status_def)

text \<open>The retry count never falls and is bounded.\<close>

lemma life_steps_retry_mono: "life_steps d d' \<Longrightarrow> dl_retry d \<le> dl_retry d'"
  by (induction rule: rtranclp_induct) (auto elim!: life_stepE)

lemma life_steps_retry_bound:
  "life_steps d d' \<Longrightarrow> dl_retry d \<le> max_retries \<Longrightarrow> dl_retry d' \<le> max_retries"
  by (induction rule: rtranclp_induct) (auto elim!: life_stepE)

section \<open>What the orchestrator needs of the table\<close>

text \<open>
  An update either takes effect, or returns an error and may or may not have taken effect.
\<close>

definition updates ::
  "('s \<Rightarrow> lives) \<Rightarrow> uuid \<Rightarrow> (delivery \<Rightarrow> delivery) \<Rightarrow> ('s, unit) io \<Rightarrow> bool" where
  "updates life i f m \<longleftrightarrow>
     (\<forall>s. life (snd (m s)) = set_life i f (life s) \<or>
          (life (snd (m s)) = life s \<and> isl (fst (m s))))"

lemma updatesD:
  "updates life i f m \<Longrightarrow> m s = (r, s') \<Longrightarrow>
     life s' = set_life i f (life s) \<or> (life s' = life s \<and> isl r)"
  by (metis fst_conv snd_conv updates_def)

lemma updates_value:
  "updates life i f m \<Longrightarrow> m s = (Inr a, s') \<Longrightarrow> life s' = set_life i f (life s)"
  by (auto dest: updatesD)

text \<open>One notification evolves, no other changes.\<close>

definition follows :: "uuid \<Rightarrow> lives \<Rightarrow> lives \<Rightarrow> bool" where
  "follows i l l' \<longleftrightarrow> lives_evolve l l' \<and> (\<forall>j. j \<noteq> i \<longrightarrow> l' j = l j)"

lemma follows_refl [simp]: "follows i l l"
  by (simp add: follows_def)

lemma follows_trans: "follows i l l' \<Longrightarrow> follows i l' l'' \<Longrightarrow> follows i l l''"
  by (auto simp: follows_def intro: lives_evolve_trans)

lemma follows_update:
  assumes "updates life i f m" and "m s = (r, s')"
    and "\<And>d. life s i = Some d \<Longrightarrow> life_step d (f d)"
  shows "follows i (life s) (life s')"
  using updatesD [OF assms(1,2)] assms(3)
  by (auto simp: follows_def intro!: lives_evolve_set_life)

locale notification_store =
  fixes R :: "'s notification_repository" and life :: "'s \<Rightarrow> lives"
  assumes get_frame: "frame life (repo_get_by_id R i)"
    and get_sound: "repo_get_by_id R i s = (Inr x, s') \<Longrightarrow>
          life s i = map_option delivery_of x \<and> (\<forall>n. x = Some n \<longrightarrow> n_id n = i)"
    and status_updates: "updates life i (put_status st e p) (repo_update_status R i st e p)"
    and retry_updates: "updates life i bump_retry (repo_increment_retry R i at)"
begin

lemma get_life: "repo_get_by_id R i s = (r, s') \<Longrightarrow> life s' = life s"
  using frame_run [OF get_frame] .

end

text \<open>While \<open>up\<close> holds every statement is answered, save a counter out of its range.\<close>

locale reliable_store = notification_store R life
  for R :: "'s notification_repository" and life :: "'s \<Rightarrow> lives" +
  fixes up :: "'s \<Rightarrow> bool"
  assumes get_up: "up s \<Longrightarrow> \<exists>x s'. repo_get_by_id R i s = (Inr x, s') \<and> up s'"
    and status_up: "up s \<Longrightarrow> \<exists>s'. repo_update_status R i st e p s = (Inr (), s') \<and> up s'"
    and retry_up: "up s \<Longrightarrow> life s i = Some d \<Longrightarrow> dl_retry d < 2 ^ 31 - 1 \<Longrightarrow>
          \<exists>s'. repo_increment_retry R i at s = (Inr (), s') \<and> up s'"
begin

lemma get_run:
  assumes "up s"
  obtains s' where "repo_get_by_id R i s = (Inr None, s')" "life s i = None" "up s'"
      "life s' = life s"
  | n s' where "repo_get_by_id R i s = (Inr (Some n), s')" "life s i = Some (delivery_of n)"
      "n_id n = i" "up s'" "life s' = life s"
proof -
  obtain x s' where run: "repo_get_by_id R i s = (Inr x, s')" "up s'"
    using get_up [OF assms] by blast
  with get_sound [OF run(1)] get_life [OF run(1)] that show ?thesis by (cases x) auto
qed

lemma status_run:
  assumes "up s"
  obtains s' where "repo_update_status R i st e p s = (Inr (), s')" "up s'"
    "life s' = set_life i (put_status st e p) (life s)"
  using status_up [OF assms] updates_value [OF status_updates] by metis

lemma retry_run:
  assumes "up s" and "life s i = Some d" and "dl_retry d < 2 ^ 31 - 1"
  obtains s' where "repo_increment_retry R i at s = (Inr (), s')" "up s'"
    "life s' = set_life i bump_retry (life s)"
  using retry_up [OF assms] updates_value [OF retry_updates] by metis

end

end
