(* ===== verification/Repository.thy ===== *)
theory Repository
  imports Sql Lifecycle
begin

text \<open>
  \<^verbatim>\<open>noti-persistence/src/repository.rs\<close>: the \<^verbatim>\<open>notifications\<close> table and the eleven statements
  of \<^verbatim>\<open>NotificationRepository\<close>, each a function of the table. The table's columns and their
  constraints are those of \<^verbatim>\<open>migrations/\<close>: \<open>id\<close> is the primary key and \<open>idempotency_key\<close> is
  unique where it is not null.

  The lemmas give the table invariant, the effect of every statement on the delivery state
  of a row, and the reads.
\<close>

section \<open>Database enumerations\<close>

datatype channel_db = EmailDb | SmsDb | PushDb | WebhookDb | WebSocketDb

datatype status_db =
  PendingDb | ProcessingDb | SentDb | DeliveredDb | FailedDb | PermanentFailureDb

fun channel_to_db :: "notification_channel \<Rightarrow> channel_db" where
  "channel_to_db Email = EmailDb"
| "channel_to_db Sms = SmsDb"
| "channel_to_db Push = PushDb"
| "channel_to_db Webhook = WebhookDb"
| "channel_to_db WebSocket = WebSocketDb"

fun channel_of_db :: "channel_db \<Rightarrow> notification_channel" where
  "channel_of_db EmailDb = Email"
| "channel_of_db SmsDb = Sms"
| "channel_of_db PushDb = Push"
| "channel_of_db WebhookDb = Webhook"
| "channel_of_db WebSocketDb = WebSocket"

fun status_to_db :: "notification_status \<Rightarrow> status_db" where
  "status_to_db Pending = PendingDb"
| "status_to_db Processing = ProcessingDb"
| "status_to_db Sent = SentDb"
| "status_to_db Delivered = DeliveredDb"
| "status_to_db Failed = FailedDb"
| "status_to_db PermanentFailure = PermanentFailureDb"

fun status_of_db :: "status_db \<Rightarrow> notification_status" where
  "status_of_db PendingDb = Pending"
| "status_of_db ProcessingDb = Processing"
| "status_of_db SentDb = Sent"
| "status_of_db DeliveredDb = Delivered"
| "status_of_db FailedDb = Failed"
| "status_of_db PermanentFailureDb = PermanentFailure"

lemma channel_db_roundtrip [simp]: "channel_of_db (channel_to_db c) = c"
  by (cases c) simp_all

lemma status_db_roundtrip [simp]: "status_of_db (status_to_db s) = s"
  by (cases s) simp_all

section \<open>Rows\<close>

record notification_row =
  r_id :: uuid
  r_user_id :: "uuid option"
  r_channel :: channel_db
  r_status :: status_db
  r_recipient :: string
  r_template_id :: string
  r_variables :: json
  r_provider_id :: "string option"
  r_provider_ref :: "string option"
  r_retry_count :: int
  r_next_retry_at :: time
  r_error_message :: "string option"
  r_idempotency_key :: "string option"
  r_created_at :: time
  r_updated_at :: time
  r_sent_at :: "time option"
  r_read_at :: "time option"

type_synonym notification_table = "notification_row table"

definition into_domain :: "notification_row \<Rightarrow> notification" where
  "into_domain r =
     \<lparr>n_id = r_id r, n_user_id = r_user_id r, n_channel = channel_of_db (r_channel r),
      n_status = status_of_db (r_status r), n_recipient = r_recipient r,
      n_template_id = r_template_id r, n_variables = r_variables r,
      n_provider_id = r_provider_id r, n_provider_ref = r_provider_ref r,
      n_retry_count = r_retry_count r, n_next_retry_at = r_next_retry_at r,
      n_error_message = r_error_message r, n_idempotency_key = r_idempotency_key r,
      n_created_at = r_created_at r, n_updated_at = r_updated_at r,
      n_sent_at = r_sent_at r, n_read_at = r_read_at r\<rparr>"

section \<open>Statements\<close>

definition update_where ::
  "(notification_row \<Rightarrow> bool) \<Rightarrow> (notification_row \<Rightarrow> notification_row) \<Rightarrow>
   notification_row list \<Rightarrow> notification_row list" where
  "update_where p f rs = map (\<lambda>r. if p r then f r else r) rs"

text \<open>The eleven inserted columns; the others take their defaults.\<close>

definition inserted_row :: "(json \<Rightarrow> json) \<Rightarrow> notification \<Rightarrow> notification_row" where
  "inserted_row jsonb n =
     \<lparr>r_id = n_id n, r_user_id = n_user_id n, r_channel = channel_to_db (n_channel n),
      r_status = status_to_db (n_status n), r_recipient = n_recipient n,
      r_template_id = n_template_id n, r_variables = jsonb (n_variables n),
      r_provider_id = None, r_provider_ref = None, r_retry_count = 0,
      r_next_retry_at = n_next_retry_at n, r_error_message = None,
      r_idempotency_key = n_idempotency_key n, r_created_at = n_created_at n,
      r_updated_at = n_updated_at n, r_sent_at = None, r_read_at = None\<rparr>"

definition key_conflict :: "string option \<Rightarrow> notification_row list \<Rightarrow> notification_row option" where
  "key_conflict key rs =
     (case key of None \<Rightarrow> None | Some k \<Rightarrow> List.find (\<lambda>r. r_idempotency_key r = Some k) rs)"

text \<open>
  The conflict action rewrites the key with itself, so the conflicting row is returned as it
  is. A duplicate primary key is an error.
\<close>

definition create :: "notification \<Rightarrow> (notification_table, notification) io" where
  "create n t =
     exec
       (case key_conflict (n_idempotency_key n) (t_rows t) of
          Some r \<Rightarrow> Inr (into_domain r, t_rows t)
        | None \<Rightarrow>
            if n_id n \<in> r_id ` set (t_rows t)
            then Inl ''duplicate key value violates unique constraint''
            else (let r = inserted_row (t_jsonb t) n in Inr (into_domain r, t_rows t @ [r]))) t"

definition get_by_id :: "uuid \<Rightarrow> (notification_table, notification option) io" where
  "get_by_id i t =
     query (Inr (map_option into_domain (List.find (\<lambda>r. r_id r = i) (t_rows t)))) t"

definition get_by_idempotency_key :: "string \<Rightarrow> (notification_table, notification option) io" where
  "get_by_idempotency_key k t =
     query (Inr (map_option into_domain
       (List.find (\<lambda>r. r_idempotency_key r = Some k) (t_rows t)))) t"

definition update_status ::
  "uuid \<Rightarrow> notification_status \<Rightarrow> string option \<Rightarrow> string option \<Rightarrow>
   (notification_table, unit) io" where
  "update_status i status error provider_ref t =
     (let sent_at = (if status = Sent then Some (svc_now t) else None) in
      exec (Inr ((), update_where (\<lambda>r. r_id r = i)
        (\<lambda>r. r\<lparr>r_status := status_to_db status, r_error_message := error,
             r_provider_ref := provider_ref,
             r_sent_at := (case sent_at of Some x \<Rightarrow> Some x | None \<Rightarrow> r_sent_at r),
             r_updated_at := db_now t\<rparr>) (t_rows t))) t)"

text \<open>\<^verbatim>\<open>retry_count\<close> is an \<^verbatim>\<open>INT\<close> column: incrementing its largest value is an error.\<close>

definition increment_retry :: "uuid \<Rightarrow> time \<Rightarrow> (notification_table, unit) io" where
  "increment_retry i next_retry_at t =
     exec
       (if \<exists>r \<in> set (t_rows t). r_id r = i \<and> r_retry_count r = 2 ^ 31 - 1
        then Inl ''integer out of range''
        else Inr ((), update_where (\<lambda>r. r_id r = i)
          (\<lambda>r. r\<lparr>r_retry_count := r_retry_count r + 1, r_next_retry_at := next_retry_at,
               r_updated_at := db_now t\<rparr>) (t_rows t))) t"

definition secs :: "int \<Rightarrow> time" where
  "secs n = n * 1000000"

definition stuck :: "int \<Rightarrow> time \<Rightarrow> notification_row \<Rightarrow> bool" where
  "stuck threshold now r \<longleftrightarrow> r_status r = ProcessingDb \<and> r_updated_at r < now - secs threshold"

definition reset_stuck_processing :: "int \<Rightarrow> (notification_table, nat) io" where
  "reset_stuck_processing threshold t =
     (let now = db_now t; hit = stuck threshold now in
      exec (Inr (length (filter hit (t_rows t)),
        update_where hit
          (\<lambda>r. r\<lparr>r_status := PendingDb, r_next_retry_at := now, r_updated_at := now\<rparr>)
          (t_rows t))) t)"

definition due :: "time \<Rightarrow> notification_row \<Rightarrow> bool" where
  "due now r \<longleftrightarrow> r_status r = PendingDb \<and> r_next_retry_at r \<le> now + secs 5"

definition get_pending_for_retry :: "int \<Rightarrow> (notification_table, notification list) io" where
  "get_pending_for_retry limit t =
     query
       (if limit < 0 then Inl ''LIMIT must not be negative''
        else Inr (map into_domain
          (take (nat limit) (filter (due (db_now t)) (scan r_id t))))) t"

definition list_by_user ::
  "uuid \<Rightarrow> int \<Rightarrow> int \<Rightarrow> (notification_table, notification list) io" where
  "list_by_user user limit offset t =
     query
       (if limit < 0 then Inl ''LIMIT must not be negative''
        else if offset < 0 then Inl ''OFFSET must not be negative''
        else Inr (map into_domain (take (nat limit) (drop (nat offset)
          (sort_key (\<lambda>r. - r_created_at r)
            (filter (\<lambda>r. r_user_id r = Some user) (scan r_id t))))))) t"

definition unread_of :: "uuid \<Rightarrow> notification_row \<Rightarrow> bool" where
  "unread_of user r \<longleftrightarrow> r_user_id r = Some user \<and> r_read_at r = None"

definition mark_as_read :: "uuid \<Rightarrow> uuid \<Rightarrow> (notification_table, unit) io" where
  "mark_as_read i user t =
     exec (Inr ((), update_where (\<lambda>r. r_id r = i \<and> unread_of user r)
       (\<lambda>r. r\<lparr>r_read_at := Some (db_now t), r_updated_at := db_now t\<rparr>) (t_rows t))) t"

definition mark_all_as_read :: "uuid \<Rightarrow> (notification_table, unit) io" where
  "mark_all_as_read user t =
     exec (Inr ((), update_where (unread_of user)
       (\<lambda>r. r\<lparr>r_read_at := Some (db_now t), r_updated_at := db_now t\<rparr>) (t_rows t))) t"

definition get_unread_count :: "uuid \<Rightarrow> (notification_table, int) io" where
  "get_unread_count user t = query (Inr (int (length (filter (unread_of user) (t_rows t))))) t"

text \<open>The trait object.\<close>

definition sql_repository :: "notification_table notification_repository" where
  "sql_repository =
     \<lparr>repo_create = create, repo_get_by_id = get_by_id,
      repo_get_by_idempotency_key = get_by_idempotency_key,
      repo_update_status = update_status, repo_increment_retry = increment_retry,
      repo_get_pending_for_retry = get_pending_for_retry,
      repo_reset_stuck_processing = reset_stuck_processing,
      repo_list_by_user = list_by_user, repo_mark_as_read = mark_as_read,
      repo_mark_all_as_read = mark_all_as_read, repo_get_unread_count = get_unread_count\<rparr>"

section \<open>Rows by id and the table invariant\<close>

definition row :: "notification_row list \<Rightarrow> uuid \<Rightarrow> notification_row option" where
  "row rs i = List.find (\<lambda>r. r_id r = i) rs"

definition keys_of :: "notification_row list \<Rightarrow> string list" where
  "keys_of rs = List.map_filter id (map r_idempotency_key rs)"

definition rows_ok :: "notification_row list \<Rightarrow> bool" where
  "rows_ok rs \<longleftrightarrow> distinct (map r_id rs) \<and> distinct (keys_of rs)"

definition table_ok :: "notification_table \<Rightarrow> bool" where
  "table_ok t \<longleftrightarrow> rows_ok (t_rows t)"

text \<open>The delivery state of a row.\<close>

definition row_life :: "notification_row \<Rightarrow> delivery" where
  "row_life r = \<lparr>dl_status = status_of_db (r_status r), dl_retry = r_retry_count r,
     dl_error = r_error_message r, dl_ref = r_provider_ref r\<rparr>"

definition life :: "notification_table \<Rightarrow> lives" where
  "life t i = map_option row_life (row (t_rows t) i)"

lemma row_Some: "row rs i = Some r \<Longrightarrow> r \<in> set rs \<and> r_id r = i"
  unfolding row_def by (rule find_SomeD)

lemma row_None: "row rs i = None \<longleftrightarrow> i \<notin> r_id ` set rs"
  by (auto simp: row_def find_None_iff_all)

lemma row_append: "row (rs @ [r]) i = (case row rs i of Some x \<Rightarrow> Some x
    | None \<Rightarrow> if r_id r = i then Some r else None)"
  unfolding row_def by (induction rs) auto

lemma row_unique:
  "distinct (map r_id rs) \<Longrightarrow> r \<in> set rs \<Longrightarrow> row rs (r_id r) = Some r"
  by (induction rs) (auto simp: row_def rev_image_eqI)

lemma map_update_where:
  "(\<And>r. k (f r) = k r) \<Longrightarrow> map k (update_where p f rs) = map k rs"
  by (auto simp: update_where_def)

lemma set_update_where:
  "set (update_where p f rs) = (\<lambda>r. if p r then f r else r) ` set rs"
  by (simp add: update_where_def)

lemma length_update_where [simp]: "length (update_where p f rs) = length rs"
  by (simp add: update_where_def)

lemma row_update_where:
  "(\<And>r. r_id (f r) = r_id r) \<Longrightarrow>
   row (update_where p f rs) i = map_option (\<lambda>r. if p r then f r else r) (row rs i)"
  unfolding row_def update_where_def by (induction rs) auto

lemma keys_of_update_where:
  "(\<And>r. r_idempotency_key (f r) = r_idempotency_key r) \<Longrightarrow>
   keys_of (update_where p f rs) = keys_of rs"
  unfolding keys_of_def by (subst map_update_where) auto

lemma rows_ok_update_where:
  assumes "\<And>r. r_id (f r) = r_id r" and "\<And>r. r_idempotency_key (f r) = r_idempotency_key r"
  shows "rows_ok (update_where p f rs) = rows_ok rs"
  by (simp add: rows_ok_def keys_of_update_where map_update_where assms)

lemma keys_of_append: "keys_of (rs @ [r]) =
    keys_of rs @ (case r_idempotency_key r of None \<Rightarrow> [] | Some k \<Rightarrow> [k])"
  by (simp add: keys_of_def List.map_filter_def split: option.split)

lemma set_keys_of: "k \<in> set (keys_of rs) \<longleftrightarrow> (\<exists>r \<in> set rs. r_idempotency_key r = Some k)"
  by (induction rs) (auto simp: keys_of_def List.map_filter_def)

lemma key_conflict_Some:
  "key_conflict key rs = Some r \<Longrightarrow> r \<in> set rs \<and> r_idempotency_key r = key \<and> key \<noteq> None"
  by (auto simp: key_conflict_def split: option.splits dest: find_SomeD)

lemma key_conflict_None:
  "key_conflict key rs = None \<longleftrightarrow> (\<forall>k. key = Some k \<longrightarrow> k \<notin> set (keys_of rs))"
  by (auto simp: key_conflict_def set_keys_of find_None_iff_all split: option.split)

lemma inserted_row_simps [simp]:
  "r_id (inserted_row j n) = n_id n"
  "r_idempotency_key (inserted_row j n) = n_idempotency_key n"
  "r_user_id (inserted_row j n) = n_user_id n"
  "r_status (inserted_row j n) = status_to_db (n_status n)"
  "r_channel (inserted_row j n) = channel_to_db (n_channel n)"
  "r_recipient (inserted_row j n) = n_recipient n"
  "r_template_id (inserted_row j n) = n_template_id n"
  "r_retry_count (inserted_row j n) = 0"
  "r_read_at (inserted_row j n) = None"
  "r_sent_at (inserted_row j n) = None"
  by (simp_all add: inserted_row_def)

lemma into_domain_simps [simp]:
  "n_id (into_domain r) = r_id r"
  "n_status (into_domain r) = status_of_db (r_status r)"
  "n_retry_count (into_domain r) = r_retry_count r"
  "n_idempotency_key (into_domain r) = r_idempotency_key r"
  "n_channel (into_domain r) = channel_of_db (r_channel r)"
  "n_recipient (into_domain r) = r_recipient r"
  "n_template_id (into_domain r) = r_template_id r"
  "n_variables (into_domain r) = r_variables r"
  "n_user_id (into_domain r) = r_user_id r"
  "n_read_at (into_domain r) = r_read_at r"
  by (simp_all add: into_domain_def)

section \<open>Every statement keeps the table invariant\<close>

named_theorems stmt_defs \<open>definitions of the statements\<close>

declare create_def [stmt_defs] update_status_def [stmt_defs] increment_retry_def [stmt_defs]
  reset_stuck_processing_def [stmt_defs] mark_as_read_def [stmt_defs]
  mark_all_as_read_def [stmt_defs]

named_theorems query_defs \<open>definitions of the queries\<close>

declare get_by_id_def [query_defs] get_by_idempotency_key_def [query_defs]
  get_pending_for_retry_def [query_defs] list_by_user_def [query_defs]
  get_unread_count_def [query_defs]

lemma frame_queries:
  "frame t_rows (get_by_id i)" "frame t_rows (get_by_idempotency_key k)"
  "frame t_rows (get_pending_for_retry limit)" "frame t_rows (list_by_user u l off)"
  "frame t_rows (get_unread_count u)"
  by (auto simp: frame_def query_defs)

lemma rows_ok_insert:
  assumes "rows_ok rs" and "key_conflict (n_idempotency_key n) rs = None"
    and "n_id n \<notin> r_id ` set rs"
  shows "rows_ok (rs @ [inserted_row j n])"
  using assms by (auto simp: rows_ok_def keys_of_append key_conflict_None split: option.split)

lemma keeps_create: "keeps table_ok (create n)"
proof
  fix t :: notification_table assume "table_ok t"
  then show "table_ok (snd (create n t))"
    unfolding table_ok_def create_def
    by (rule exec_keeps_rows [where I = rows_ok])
       (use \<open>table_ok t\<close> in
         \<open>auto simp: table_ok_def Let_def rows_ok_insert split: option.splits if_splits\<close>)
qed

lemma keeps_update_status: "keeps table_ok (update_status i st e p)"
  unfolding keeps_def table_ok_def update_status_def Let_def
  by (intro allI impI, rule exec_keeps_rows [where I = rows_ok])
     (auto simp: rows_ok_update_where)

lemma keeps_increment_retry: "keeps table_ok (increment_retry i x)"
  unfolding keeps_def table_ok_def increment_retry_def
  by (intro allI impI, rule exec_keeps_rows [where I = rows_ok])
     (auto simp: rows_ok_update_where split: if_splits)

lemma keeps_reset: "keeps table_ok (reset_stuck_processing th)"
  unfolding keeps_def table_ok_def reset_stuck_processing_def Let_def
  by (intro allI impI, rule exec_keeps_rows [where I = rows_ok])
     (auto simp: rows_ok_update_where)

lemma keeps_mark_as_read: "keeps table_ok (mark_as_read i u)"
  unfolding keeps_def table_ok_def mark_as_read_def
  by (intro allI impI, rule exec_keeps_rows [where I = rows_ok])
     (auto simp: rows_ok_update_where)

lemma keeps_mark_all_as_read: "keeps table_ok (mark_all_as_read u)"
  unfolding keeps_def table_ok_def mark_all_as_read_def
  by (intro allI impI, rule exec_keeps_rows [where I = rows_ok])
     (auto simp: rows_ok_update_where)

lemma keeps_queries:
  "keeps table_ok (get_by_id i)" "keeps table_ok (get_by_idempotency_key k)"
  "keeps table_ok (get_pending_for_retry limit)" "keeps table_ok (list_by_user u l off)"
  "keeps table_ok (get_unread_count u)"
  by (auto simp: keeps_def table_ok_def query_defs)

lemmas keeps_table_ok = keeps_create keeps_update_status keeps_increment_retry keeps_reset
  keeps_mark_as_read keeps_mark_all_as_read keeps_queries

section \<open>Effect on the delivery state\<close>

lemma life_eqI: "t_rows t = t_rows t' \<Longrightarrow> life t = life t'"
  by (simp add: life_def fun_eq_iff)

lemma life_rows_update: "life (t\<lparr>t_rows := rs\<rparr>) i = map_option row_life (row rs i)"
  by (simp add: life_def)

lemma life_query:
  "frame life (get_by_id i)" "frame life (get_by_idempotency_key k)"
  "frame life (get_pending_for_retry limit)" "frame life (list_by_user u l off)"
  "frame life (get_unread_count u)"
  using frame_queries by (auto simp: frame_def intro: life_eqI)

lemma delivery_of_into_domain [simp]: "delivery_of (into_domain r) = row_life r"
  by (simp add: delivery_of_def row_life_def into_domain_def)

lemma get_by_id_sound:
  assumes "get_by_id i t = (Inr x, t')"
  shows "life t i = map_option delivery_of x" and "x = Some n \<Longrightarrow> n_id n = i"
proof -
  have x: "x = map_option into_domain (row (t_rows t) i)"
    using assms by (auto simp: get_by_id_def row_def dest: query_Inr)
  show "life t i = map_option delivery_of x"
    by (simp add: x life_def option.map_comp comp_def)
  show "x = Some n \<Longrightarrow> n_id n = i"
    using x by (auto dest: row_Some)
qed

text \<open>
  A statement that fails has had no effect or its whole effect: its acknowledgement may be lost.
\<close>

lemma life_exec_update:
  assumes run: "exec out t = (r, t')"
    and out: "\<And>a rs. out = Inr (a, rs) \<Longrightarrow> (\<lambda>i. map_option row_life (row rs i)) = l"
  shows "life t' = l \<or> (life t' = life t \<and> isl r)"
proof (cases r)
  case (Inl e)
  with exec_Inl [of out t e t'] run out show ?thesis
    by (auto simp: life_def [abs_def] dest: life_eqI)
next
  case (Inr a)
  with run have "out = Inr (a, t_rows t')" by (simp add: exec_Inr)
  with out show ?thesis by (simp add: life_def [abs_def])
qed

lemma life_update_row:
  assumes "\<And>r. r_id (f r) = r_id r" and "\<And>r. row_life (f r) = g (row_life r)"
  shows "(\<lambda>j. map_option row_life (row (update_where (\<lambda>r. r_id r = i) f (t_rows t)) j)) =
    set_life i g (life t)"
proof
  fix j
  show "map_option row_life (row (update_where (\<lambda>r. r_id r = i) f (t_rows t)) j) =
      set_life i g (life t) j"
    by (cases "row (t_rows t) j"; cases "j = i")
       (auto simp: row_update_where assms life_def dest: row_Some)
qed

lemma update_status_life: "updates life i (put_status st e p) (update_status i st e p)"
  unfolding updates_def update_status_def Let_def
  by (intro allI life_exec_update [OF surjective_pairing])
     (auto simp: row_life_def put_status_def intro!: life_update_row)

lemma increment_retry_life: "updates life i bump_retry (increment_retry i at)"
  unfolding updates_def increment_retry_def
  by (intro allI life_exec_update [OF surjective_pairing])
     (auto simp: row_life_def bump_retry_def intro!: life_update_row split: if_splits)

lemma life_update_where_same:
  assumes "\<And>r. r_id (f r) = r_id r" and "\<And>r. row_life (f r) = row_life r"
  shows "map_option row_life (row (update_where p f rs) j) = map_option row_life (row rs j)"
  by (cases "row rs j") (simp_all add: row_update_where assms)

lemma frame_life_update:
  assumes "\<And>t. \<exists>p f. (\<forall>r. r_id (f r) = r_id r \<and> row_life (f r) = row_life r) \<and>
    m t = exec (Inr ((), update_where p f (t_rows t))) t"
  shows "frame life m"
proof (rule frameI)
  fix t
  obtain p f where f: "\<forall>r. r_id (f r) = r_id r \<and> row_life (f r) = row_life r"
    and m: "m t = exec (Inr ((), update_where p f (t_rows t))) t"
    using assms by blast
  from exec_rows [of "Inr ((), update_where p f (t_rows t))" t] f
  show "life (snd (m t)) = life t"
    unfolding m by (auto simp: life_def fun_eq_iff life_update_where_same)
qed

lemma life_mark_as_read: "frame life (mark_as_read i u)"
  unfolding mark_as_read_def
  by (rule frame_life_update, intro exI conjI allI, rule_tac [3] refl) (simp_all add: row_life_def)

lemma life_mark_all_as_read: "frame life (mark_all_as_read u)"
  unfolding mark_all_as_read_def
  by (rule frame_life_update, intro exI conjI allI, rule_tac [3] refl) (simp_all add: row_life_def)

text \<open>Inserting adds a life, the sweep resets lives in processing.\<close>

lemma life_exec:
  assumes "\<And>a rs. out = Inr (a, rs) \<Longrightarrow>
      lives_evolve (life t) (\<lambda>i. map_option row_life (row rs i))"
  shows "lives_evolve (life t) (life (snd (exec out t)))"
  using exec_rows [of out t]
proof
  assume "t_rows (snd (exec out t)) = t_rows t"
  then have "life (snd (exec out t)) = life t" by (rule life_eqI)
  then show ?thesis by simp
next
  assume "\<exists>a. out = Inr (a, t_rows (snd (exec out t)))"
  with assms show ?thesis unfolding life_def [abs_def] by blast
qed

lemma life_create: "lives_evolve (life t) (life (snd (create n t)))"
  unfolding create_def
  by (rule life_exec)
     (auto simp: lives_evolve_def life_def row_append Let_def split: option.splits if_splits)

lemma life_update_evolves:
  assumes "\<And>r. r_id (f r) = r_id r" and "\<And>r. p r \<Longrightarrow> life_steps (row_life r) (row_life (f r))"
  shows "lives_evolve (life t) (\<lambda>i. map_option row_life (row (update_where p f (t_rows t)) i))"
  unfolding lives_evolve_def
proof (intro allI impI)
  fix i d assume "life t i = Some d"
  then obtain r where r: "row (t_rows t) i = Some r" "d = row_life r" by (auto simp: life_def)
  have "life_steps d (row_life (if p r then f r else r))" using assms(2) r(2) by simp
  then show "\<exists>d'. map_option row_life (row (update_where p f (t_rows t)) i) = Some d' \<and> life_steps d d'"
    using r(1) by (simp add: row_update_where assms(1))
qed

lemma life_reset: "lives_evolve (life t) (life (snd (reset_stuck_processing th t)))"
proof -
  have "life_steps (row_life r)
      (row_life (r\<lparr>r_status := PendingDb, r_next_retry_at := at, r_updated_at := at\<rparr>))"
    if "stuck th at r" for at r
    using that life_step.reset [of "row_life r"] by (auto simp: stuck_def row_life_def)
  then show ?thesis
    unfolding reset_stuck_processing_def Let_def
    by (intro life_exec) (auto intro!: life_update_evolves)
qed

section \<open>The table provides the contract\<close>

definition table_up :: "notification_table \<Rightarrow> bool" where
  "table_up t \<longleftrightarrow> healthy t \<and> table_ok t"

lemma table_up_query:
  assumes "table_up t"
  shows "\<exists>t'. query (Inr a) t = (Inr a, t') \<and> table_up t'"
  using assms by (simp add: table_up_def query_healthy) (simp add: healthy_def table_ok_def)

lemma table_up_exec:
  assumes "table_up t" and "rows_ok rs"
  shows "\<exists>t'. exec (Inr (a, rs)) t = (Inr a, t') \<and> table_up t'"
  using assms by (simp add: table_up_def exec_healthy) (simp add: healthy_def table_ok_def)

lemma get_by_id_up: "table_up t \<Longrightarrow> \<exists>x t'. get_by_id i t = (Inr x, t') \<and> table_up t'"
  unfolding get_by_id_def by (rule exI, rule table_up_query)

lemma update_status_up:
  "table_up t \<Longrightarrow> \<exists>t'. update_status i st e p t = (Inr (), t') \<and> table_up t'"
  unfolding update_status_def Let_def
  by (rule table_up_exec) (auto simp: table_up_def table_ok_def rows_ok_update_where)

lemma increment_retry_up:
  assumes up: "table_up t" and "life t i = Some d" and "dl_retry d < 2 ^ 31 - 1"
  shows "\<exists>t'. increment_retry i at t = (Inr (), t') \<and> table_up t'"
proof -
  have "\<not> (\<exists>r \<in> set (t_rows t). r_id r = i \<and> r_retry_count r = 2 ^ 31 - 1)"
    using assms row_unique [of "t_rows t"]
    by (auto simp: table_up_def table_ok_def rows_ok_def life_def row_life_def)
  moreover have "\<exists>t'. exec (Inr ((), update_where (\<lambda>r. r_id r = i)
      (\<lambda>r. r\<lparr>r_retry_count := r_retry_count r + 1, r_next_retry_at := at,
           r_updated_at := db_now t\<rparr>) (t_rows t))) t = (Inr (), t') \<and> table_up t'"
    using up by (intro table_up_exec) (auto simp: table_up_def table_ok_def rows_ok_update_where)
  ultimately show ?thesis unfolding increment_retry_def by (simp only: if_False)
qed

text \<open>A page holds distinct rows of the user, at most as many as asked for.\<close>

lemma list_by_user_page:
  assumes "list_by_user user limit off t = (Inr ns, t')" and "rows_ok (t_rows t)"
  shows "length ns \<le> nat limit" and "distinct (map n_id ns)" and "\<forall>n \<in> set ns. n_user_id n = Some user"
    and "t_rows t' = t_rows t"
proof -
  let ?mine = "sort_key (\<lambda>r. - r_created_at r) (filter (\<lambda>r. r_user_id r = Some user) (scan r_id t))"
  have ns: "ns = map into_domain (take (nat limit) (drop (nat off) ?mine))"
    and "t_rows t' = t_rows t"
    using assms(1) unfolding list_by_user_def by (auto dest!: query_Inr split: if_splits)
  then show "length ns \<le> nat limit" "t_rows t' = t_rows t" by simp_all
  have "mset (map r_id (scan r_id t)) = mset (map r_id (t_rows t))" by (simp add: scan_def)
  then have "distinct (map r_id (scan r_id t))"
    using assms(2) by (metis mset_eq_imp_distinct_iff rows_ok_def)
  then have "distinct (map r_id (filter (\<lambda>r. r_user_id r = Some user) (scan r_id t)))"
    by (rule distinct_map_filter)
  moreover have "mset (map r_id ?mine) =
      mset (map r_id (filter (\<lambda>r. r_user_id r = Some user) (scan r_id t)))" by simp
  ultimately have "distinct (map r_id ?mine)" by (metis mset_eq_imp_distinct_iff)
  moreover have "map n_id ns = take (nat limit) (drop (nat off) (map r_id ?mine))"
    by (simp add: ns take_map drop_map into_domain_def comp_def)
  ultimately show "distinct (map n_id ns)" by simp
  show "\<forall>n \<in> set ns. n_user_id n = Some user"
    unfolding ns by (auto dest!: in_set_takeD in_set_dropD simp: into_domain_def)
qed

interpretation rows: reliable_store sql_repository life table_up
  by unfold_locales
     (auto simp: sql_repository_def life_query get_by_id_sound update_status_life
       increment_retry_life get_by_id_up update_status_up increment_retry_up)

end
