(* ===== verification/Orchestrator.thy ===== *)
theory Orchestrator
  imports Lifecycle
begin

text \<open>
  \<^verbatim>\<open>noti-logic/src/orchestrator/\<close>: ingestion (\<^verbatim>\<open>queue.rs\<close>), delivery and retry
  (\<^verbatim>\<open>dispatch.rs\<close>), the user-facing reads (\<^verbatim>\<open>query.rs\<close>) and the counters
  (\<^verbatim>\<open>counters.rs\<close>), over the trait objects of \<open>Traits\<close> on any state. The locales
  \<open>delivery_env\<close> and \<open>delivery_up\<close> say what the orchestrator needs of its environment, and hold
  the theorems about \<open>dispatch\<close>: under every fault the table evolves by steps of the abstract
  life cycle, and while the database answers the outcome is one of five.
\<close>

record 's orchestrator =
  o_repo :: "'s notification_repository"
  o_render :: template_engine
  o_email :: "'s provider"
  o_sms :: "'s provider"
  o_push :: "'s provider"
  o_webhook :: "'s provider"
  o_websocket :: "'s provider"
  o_cache :: "'s cache_service"
  o_mq :: "'s message_queue option"
  o_codecs :: codecs
  o_runtime :: "'s runtime"

definition spawn :: "'s orchestrator \<Rightarrow> task \<Rightarrow> ('s, unit) io" where
  "spawn orch task s = (Inr (), rt_spawn (o_runtime orch) task s)"

definition now :: "'s orchestrator \<Rightarrow> 's \<Rightarrow> time \<times> 's" where
  "now orch = rt_now (o_runtime orch)"

section \<open>Ingestion\<close>

text \<open>A failed publish falls back to a task of the process.\<close>

definition trigger_dispatch :: "'s orchestrator \<Rightarrow> uuid \<Rightarrow> ('s, unit) io" where
  "trigger_dispatch orch i =
     (case o_mq orch of
        Some mq \<Rightarrow> attempt (mq_publish_dispatch mq i)
          (\<lambda>r. case r of Inl _ \<Rightarrow> spawn orch (DispatchTask i) | Inr _ \<Rightarrow> retE ())
      | None \<Rightarrow> spawn orch (DispatchTask i))"

definition cache_idempotency_key :: "'s orchestrator \<Rightarrow> string option \<Rightarrow> uuid \<Rightarrow> ('s, unit) io" where
  "cache_idempotency_key orch key i =
     (case key of
        None \<Rightarrow> retE ()
      | Some k \<Rightarrow> attempt
          (cache_set_value (o_cache orch) (''idempotency:'' @ k)
             (JStr (c_uuid_show (o_codecs orch) i)) 3600)
          (\<lambda>_. retE ()))"

definition new_notification ::
  "uuid \<Rightarrow> uuid option \<Rightarrow> notification_channel \<Rightarrow> string \<Rightarrow> string \<Rightarrow> json \<Rightarrow> string option \<Rightarrow>
   time \<Rightarrow> time \<Rightarrow> time \<Rightarrow> notification" where
  "new_notification i user channel recipient template_id variables key next_retry created updated =
     \<lparr>n_id = i, n_user_id = user, n_channel = channel, n_status = Pending,
      n_recipient = recipient, n_template_id = template_id, n_variables = variables,
      n_provider_id = None, n_provider_ref = None, n_retry_count = 0,
      n_next_retry_at = next_retry, n_error_message = None, n_idempotency_key = key,
      n_created_at = created, n_updated_at = updated, n_sent_at = None, n_read_at = None\<rparr>"

definition queue_notification ::
  "'s orchestrator \<Rightarrow> uuid option \<Rightarrow> notification_channel \<Rightarrow> string \<Rightarrow> string \<Rightarrow> json \<Rightarrow>
   string option \<Rightarrow> ('s, uuid) io" where
  "queue_notification orch user channel recipient template_id variables key =
     peek (rt_new_uuid (o_runtime orch)) (\<lambda>requested.
     peek (now orch) (\<lambda>next_retry. peek (now orch) (\<lambda>created. peek (now orch) (\<lambda>updated.
     bindE (repo_create (o_repo orch)
       (new_notification requested user channel recipient template_id variables key
          next_retry created updated)) (\<lambda>saved.
     if n_id saved \<noteq> requested then retE (n_id saved)
     else bindE (cache_idempotency_key orch key (n_id saved)) (\<lambda>_.
          bindE (trigger_dispatch orch (n_id saved)) (\<lambda>_.
          retE (n_id saved))))))))"

definition recover_pending :: "'s orchestrator \<Rightarrow> int \<Rightarrow> int \<Rightarrow> ('s, nat) io" where
  "recover_pending orch stuck_threshold batch_limit =
     bindE (repo_reset_stuck_processing (o_repo orch) stuck_threshold) (\<lambda>_.
     bindE (repo_get_pending_for_retry (o_repo orch) batch_limit) (\<lambda>found.
     bindE (forE found (\<lambda>n. trigger_dispatch orch (n_id n))) (\<lambda>_.
     retE (length found))))"

section \<open>Delivery\<close>

definition provider_for :: "'s orchestrator \<Rightarrow> notification_channel \<Rightarrow> 's provider" where
  "provider_for orch channel =
     (case channel of
        Email \<Rightarrow> o_email orch | Sms \<Rightarrow> o_sms orch | Push \<Rightarrow> o_push orch
      | Webhook \<Rightarrow> o_webhook orch | WebSocket \<Rightarrow> o_websocket orch)"

text \<open>A browser gets the view envelope; every other channel the rendered text.\<close>

definition payload :: "'s orchestrator \<Rightarrow> notification \<Rightarrow> string \<Rightarrow> string result" where
  "payload orch n content =
     (if n_channel n = WebSocket
      then map_sum (\<lambda>e. Internal (''failed to encode WebSocket payload: '' @ e)) id
             (c_json_encode (o_codecs orch)
               (view_json (c_uuid_show (o_codecs orch)) (c_time_show (o_codecs orch))
                 (view_new (c_upper (o_codecs orch)) n content)))
      else Inr content)"

text \<open>The backoff: \<^verbatim>\<open>u32::from(2u16.saturating_pow(n)) * 60 * 1000\<close> milliseconds.\<close>

definition saturating_pow_u16 :: "nat \<Rightarrow> nat \<Rightarrow> 16 word" where
  "saturating_pow_u16 b e = of_nat (min (b ^ e) (2 ^ 16 - 1))"

definition retry_delay_ms :: "int \<Rightarrow> u32" where
  "retry_delay_ms retry_count =
     ucast (saturating_pow_u16 2 (nat \<bar>retry_count\<bar>)) * 60 * 1000"

definition schedule_retry :: "'s orchestrator \<Rightarrow> uuid \<Rightarrow> u32 \<Rightarrow> ('s, unit) io" where
  "schedule_retry orch i delay_ms =
     (case o_mq orch of
        Some mq \<Rightarrow> attempt (mq_publish_retry mq i delay_ms)
          (\<lambda>r. case r of Inl _ \<Rightarrow> spawn orch (RetryTask i delay_ms) | Inr _ \<Rightarrow> retE ())
      | None \<Rightarrow> spawn orch (RetryTask i delay_ms))"

definition on_send_error ::
  "'s orchestrator \<Rightarrow> uuid \<Rightarrow> notification \<Rightarrow> noti_error \<Rightarrow> ('s, unit) io" where
  "on_send_error orch i n e =
     (if n_retry_count n \<ge> max_retries
      then bindE (repo_update_status (o_repo orch) i PermanentFailure (Some (error_to_string e)) None)
             (\<lambda>_. failE e)
      else let delay_ms = retry_delay_ms (n_retry_count n + 1) in
        peek (now orch) (\<lambda>t.
        bindE (repo_increment_retry (o_repo orch) i (t + int (unat delay_ms) * 1000)) (\<lambda>_.
        bindE (repo_update_status (o_repo orch) i Pending (Some (error_to_string e)) None) (\<lambda>_.
        schedule_retry orch i delay_ms))))"

definition deliver :: "'s orchestrator \<Rightarrow> uuid \<Rightarrow> notification \<Rightarrow> string \<Rightarrow> ('s, unit) io" where
  "deliver orch i n content =
     attempt (prov_send (provider_for orch (n_channel n)) (n_recipient n) content)
       (\<lambda>r. case r of
              Inr ref \<Rightarrow> repo_update_status (o_repo orch) i Sent None (Some ref)
            | Inl e \<Rightarrow> on_send_error orch i n e)"

definition render_and_deliver :: "'s orchestrator \<Rightarrow> uuid \<Rightarrow> notification \<Rightarrow> ('s, unit) io" where
  "render_and_deliver orch i n =
     (case o_render orch (n_template_id n) (n_variables n) of
        Inl e \<Rightarrow>
          bindE (repo_update_status (o_repo orch) i PermanentFailure
                   (Some (error_to_string e)) None) (\<lambda>_. failE e)
      | Inr content \<Rightarrow>
          (case payload orch n content of
             Inl e \<Rightarrow> failE e
           | Inr content \<Rightarrow> deliver orch i n content))"

definition dispatch :: "'s orchestrator \<Rightarrow> uuid \<Rightarrow> ('s, unit) io" where
  "dispatch orch i =
     bindE (repo_get_by_id (o_repo orch) i) (\<lambda>found.
     case found of
       None \<Rightarrow> failE (NotFound (''notification '' @ c_uuid_show (o_codecs orch) i))
     | Some n \<Rightarrow>
         if n_status n \<noteq> Pending \<and> n_status n \<noteq> Processing then retE ()
         else
           bindE (repo_update_status (o_repo orch) i Processing None None) (\<lambda>_.
           render_and_deliver orch i n))"

text \<open>A spawned task dispatches, the second kind after its delay; its result is only logged.\<close>

fun run_task :: "'s orchestrator \<Rightarrow> task \<Rightarrow> ('s, unit) io" where
  "run_task orch (DispatchTask i) = attempt (dispatch orch i) (\<lambda>_. retE ())"
| "run_task orch (RetryTask i delay_ms) = attempt (dispatch orch i) (\<lambda>_. retE ())"

section \<open>Reads and counters\<close>

definition get_status :: "'s orchestrator \<Rightarrow> uuid \<Rightarrow> ('s, notification option) io" where
  "get_status orch i = repo_get_by_id (o_repo orch) i"

definition list_user_notifications ::
  "'s orchestrator \<Rightarrow> uuid \<Rightarrow> int \<Rightarrow> int \<Rightarrow> ('s, notification list) io" where
  "list_user_notifications orch user limit offset = repo_list_by_user (o_repo orch) user limit offset"

definition list_view :: "'s orchestrator \<Rightarrow> notification \<Rightarrow> notification_view" where
  "list_view orch n =
     view_new (c_upper (o_codecs orch)) n
       (case o_render orch (text_template_id (n_template_id n)) (n_variables n) of
          Inl _ \<Rightarrow> [] | Inr rendered \<Rightarrow> rendered)"

definition list_user_notification_views ::
  "'s orchestrator \<Rightarrow> uuid \<Rightarrow> int \<Rightarrow> int \<Rightarrow> ('s, notification_view list) io" where
  "list_user_notification_views orch user limit offset =
     bindE (repo_list_by_user (o_repo orch) user limit offset) (\<lambda>ns. retE (map (list_view orch) ns))"

definition orch_mark_as_read :: "'s orchestrator \<Rightarrow> uuid \<Rightarrow> uuid \<Rightarrow> ('s, unit) io" where
  "orch_mark_as_read orch i user = repo_mark_as_read (o_repo orch) i user"

definition orch_mark_all_as_read :: "'s orchestrator \<Rightarrow> uuid \<Rightarrow> ('s, unit) io" where
  "orch_mark_all_as_read orch user = repo_mark_all_as_read (o_repo orch) user"

definition orch_get_unread_count :: "'s orchestrator \<Rightarrow> uuid \<Rightarrow> ('s, int) io" where
  "orch_get_unread_count orch user = repo_get_unread_count (o_repo orch) user"

definition bump_counter :: "'s orchestrator \<Rightarrow> string \<Rightarrow> nat \<Rightarrow> ('s, int) io" where
  "bump_counter orch key ttl_secs = cache_increment_with_ttl (o_cache orch) key ttl_secs"

section \<open>The backoff\<close>

lemma unat_of_nat_small: "n < 2 ^ LENGTH('a) \<Longrightarrow> unat (of_nat n :: 'a::len word) = n"
  by (simp add: unat_of_nat)

lemma unat_ucast_16_32 [simp]: "unat (ucast (w :: 16 word) :: u32) = unat w"
  by transfer (simp add: min_def)

text \<open>No step of the computation overflows: the factors are at most 65535 and 60000.\<close>

lemma retry_delay_exact:
  "unat (retry_delay_ms k) = min (2 ^ nat \<bar>k\<bar>) (2 ^ 16 - 1) * 60000"
proof -
  let ?m = "min (2 ^ nat \<bar>k\<bar>) (2 ^ 16 - 1) :: nat"
  have m: "?m < 2 ^ 16" by simp
  then have "unat (of_nat ?m :: 16 word) = ?m" by (intro unat_of_nat_small) simp
  then have "unat (ucast (saturating_pow_u16 2 (nat \<bar>k\<bar>)) :: u32) = ?m"
    by (simp add: saturating_pow_u16_def)
  then have u: "(ucast (saturating_pow_u16 2 (nat \<bar>k\<bar>)) :: u32) = of_nat ?m"
    by (metis of_nat_unat ucast_id)
  have "retry_delay_ms k = of_nat (?m * 60000)"
    by (simp add: retry_delay_ms_def u)
  moreover have "?m * 60000 < 2 ^ LENGTH(32)" using m by simp
  ultimately show ?thesis by (simp only: unat_of_nat_small)
qed

section \<open>What delivery needs of its environment\<close>

text \<open>
  Nothing but the table keeps delivery states: providers, cache, broker and runtime leave
  them alone.
\<close>

locale delivery_env = notification_store "o_repo orch" life
  for orch :: "'s orchestrator" and life :: "'s \<Rightarrow> lives" +
  assumes send_frame: "frame life (prov_send (provider_for orch c) to content)"
    and publish_frame: "o_mq orch = Some mq \<Longrightarrow> frame life (mq_publish_dispatch mq i)"
    and retry_frame: "o_mq orch = Some mq \<Longrightarrow> frame life (mq_publish_retry mq i ms)"
    and spawn_frame: "frame life (spawn orch task)"
    and now_frame: "frame life (now orch)"
begin

lemma schedule_frame: "frame life (schedule_retry orch i ms)"
  unfolding schedule_retry_def
  by (auto split: option.split sum.split intro!: keep_intros retry_frame spawn_frame)

lemma trigger_frame: "frame life (trigger_dispatch orch i)"
  unfolding trigger_dispatch_def
  by (auto split: option.split sum.split intro!: keep_intros publish_frame spawn_frame)

lemma sent_follows:
  assumes "repo_update_status (o_repo orch) i st e p s = (r, s')" and "life s i = Some d"
    and "life_step d (put_status st e p d)"
  shows "follows i (life s) (life s')"
  using follows_update [OF status_updates assms(1)] assms(2,3) by auto

lemma fail_follows: "failE e s = (r, s') \<Longrightarrow> follows i (life s) (life s')"
  by simp

lemma dead_follows:
  assumes run: "bindE (repo_update_status (o_repo orch) i PermanentFailure (Some m) None)
      (\<lambda>_. failE e) s = (r, s')"
    and d: "life s i = Some d" "dl_status d = Processing"
  shows "follows i (life s) (life s')"
proof -
  obtain x where "repo_update_status (o_repo orch) i PermanentFailure (Some m) None s = (x, s')"
    using run by (auto elim!: bindE_cases)
  from sent_follows [OF this d(1) life_step.dead [OF d(2)]] show ?thesis .
qed

lemma on_send_error_follows:
  assumes run: "on_send_error orch i n e s = (r, s')"
    and d: "life s i = Some d" "dl_status d = Processing" "dl_retry d = n_retry_count n"
  shows "follows i (life s) (life s')"
proof (cases "n_retry_count n \<ge> max_retries")
  case True
  with run dead_follows [OF _ d(1,2)] show ?thesis
    unfolding on_send_error_def by (simp only: if_True)
next
  case False
  let ?ms = "retry_delay_ms (n_retry_count n + 1)"
  obtain t s1 where now: "now orch s = (t, s1)" by (cases "now orch s")
  have l1: "life s1 = life s" using frame_run [OF now_frame now] .
  with False d have bump: "\<And>d'. life s1 i = Some d' \<Longrightarrow> life_step d' (bump_retry d')"
    by (auto intro: life_step.bump)
  obtain r2 s2 where inc:
    "repo_increment_retry (o_repo orch) i (t + int (unat ?ms) * 1000) s1 = (r2, s2)"
    by (metis surj_pair)
  have f2: "follows i (life s) (life s2)"
    using follows_update [OF retry_updates inc] bump l1 by simp
  show ?thesis
  proof (cases r2)
    case (Inl err)
    with run False now inc f2 show ?thesis by (simp add: on_send_error_def Let_def act_simps)
  next
    case (Inr u)
    with inc have l2: "life s2 i = Some (bump_retry d)"
      using updates_value [OF retry_updates] l1 d by auto
    obtain r3 s3 where upd: "repo_update_status (o_repo orch) i Pending (Some (error_to_string e))
        None s2 = (r3, s3)" by (metis surj_pair)
    have f3: "follows i (life s2) (life s3)"
      by (rule sent_follows [OF upd l2]) (simp add: life_step.requeue d(2))
    from run False now inc Inr upd have "life s' = life s3"
      by (cases r3) (auto simp: on_send_error_def Let_def act_simps dest: frame_run [OF schedule_frame])
    with f2 f3 show ?thesis by (auto intro: follows_trans)
  qed
qed

lemma deliver_follows:
  assumes run: "deliver orch i n content s = (r, s')"
    and d: "life s i = Some d" "dl_status d = Processing" "dl_retry d = n_retry_count n"
  shows "follows i (life s) (life s')"
proof -
  obtain x s1 where send:
    "prov_send (provider_for orch (n_channel n)) (n_recipient n) content s = (x, s1)"
    by (metis surj_pair)
  have l1: "life s1 = life s" using frame_run [OF send_frame send] .
  with d have d1: "life s1 i = Some d" by simp
  show ?thesis
  proof (cases x)
    case (Inl e)
    with run send have "on_send_error orch i n e s1 = (r, s')"
      by (simp add: deliver_def act_simps)
    from on_send_error_follows [OF this d1 d(2,3)] show ?thesis by (simp add: l1)
  next
    case (Inr ref)
    with run send have "repo_update_status (o_repo orch) i Sent None (Some ref) s1 = (r, s')"
      by (simp add: deliver_def act_simps)
    from sent_follows [OF this d1] d(2) show ?thesis by (simp add: l1 life_step.sent)
  qed
qed

text \<open>
  Refinement: whatever fails, a dispatch moves its own notification along the life cycle and
  touches no other.
\<close>

lemma dispatch_follows:
  assumes run: "dispatch orch i s = (r, s')"
  shows "follows i (life s) (life s')"
proof -
  obtain found s1 where get: "repo_get_by_id (o_repo orch) i s = (found, s1)"
    by (metis surj_pair)
  have l1: "life s1 = life s" using get_life [OF get] .
  consider e where "found = Inl e" | "found = Inr None" | n where "found = Inr (Some n)"
    by (metis not_None_eq sum.exhaust)
  then show ?thesis
  proof cases
    case (3 n)
    with get have d: "life s1 i = Some (delivery_of n)" using get_sound l1 by fastforce
    show ?thesis
    proof (cases "n_status n \<noteq> Pending \<and> n_status n \<noteq> Processing")
      case True
      with run get 3 l1 show ?thesis by (auto simp: dispatch_def act_simps)
    next
      case False
      then have op: "open_status (n_status n)" by (auto simp: open_status_def)
      obtain r2 s2 where upd:
        "repo_update_status (o_repo orch) i Processing None None s1 = (r2, s2)"
        by (metis surj_pair)
      have f2: "follows i (life s) (life s2)"
        using sent_follows [OF upd d] op l1 by (simp add: life_step.claim)
      show ?thesis
      proof (cases r2)
        case (Inl e)
        with run get 3 False upd f2 show ?thesis by (auto simp: dispatch_def act_simps)
      next
        case (Inr u)
        with upd have d2: "life s2 i = Some (put_status Processing None None (delivery_of n))"
          using updates_value [OF status_updates] d by auto
        have "render_and_deliver orch i n s2 = (r, s')"
          using run get 3 False upd Inr by (auto simp: dispatch_def act_simps split: sum.splits)
        then have "follows i (life s2) (life s')"
          by (auto simp: render_and_deliver_def simp del: failE_apply split: sum.splits
              intro: fail_follows dead_follows [OF _ d2] deliver_follows [OF _ d2])
        with f2 show ?thesis by (rule follows_trans)
      qed
    qed
  qed (use run get l1 in \<open>auto simp: dispatch_def act_simps\<close>)
qed

end

section \<open>Delivery while the database answers\<close>

text \<open>
  The four ends of a dispatch that found its notification open; the last only where the JSON
  encoder can fail.
\<close>

definition encodes :: "'s orchestrator \<Rightarrow> bool" where
  "encodes orch \<longleftrightarrow> (\<forall>j. \<exists>t. c_json_encode (o_codecs orch) j = Inr t)"

definition dispatch_outcome :: "bool \<Rightarrow> delivery \<Rightarrow> unit result \<Rightarrow> delivery \<Rightarrow> bool" where
  "dispatch_outcome enc d r d' \<longleftrightarrow>
     (\<exists>ref. r = Inr () \<and> d' = put_status Sent None (Some ref) d) \<or>
     (\<exists>e. r = Inr () \<and> dl_retry d < max_retries \<and>
          d' = put_status Pending (Some (error_to_string e)) None (bump_retry d)) \<or>
     (\<exists>e. r = Inl e \<and> d' = put_status PermanentFailure (Some (error_to_string e)) None d) \<or>
     (\<not> enc \<and> (\<exists>m. r = Inl (Internal m) \<and> d' = put_status Processing None None d))"

fun redispatch :: "'s orchestrator \<Rightarrow> uuid \<Rightarrow> nat \<Rightarrow> 's \<Rightarrow> 's" where
  "redispatch orch i 0 s = s"
| "redispatch orch i (Suc n) s = redispatch orch i n (snd (dispatch orch i s))"

text \<open>How many dispatches a notification has left.\<close>

definition attempts_left :: "delivery \<Rightarrow> nat" where
  "attempts_left d = (if settled (dl_status d) then 0 else nat (max_retries + 1 - dl_retry d))"

lemma map_sum_Inl: "map_sum f g x = Inl e \<longleftrightarrow> (\<exists>y. x = Inl y \<and> e = f y)"
  by (cases x) auto

lemma payload_error:
  assumes "payload orch n content = Inl e"
  shows "(\<exists>m. e = Internal m) \<and> \<not> encodes orch"
proof -
  obtain j y where "c_json_encode (o_codecs orch) j = Inl y" and "\<exists>m. e = Internal m"
    using assms unfolding payload_def by (simp only: map_sum_Inl split: if_splits) blast+
  then show ?thesis unfolding encodes_def by (metis Inr_not_Inl)
qed

lemma outcome_sent: "dispatch_outcome enc d (Inr ()) (put_status Sent None (Some ref) d)"
  and outcome_retry: "dl_retry d < max_retries \<Longrightarrow>
    dispatch_outcome enc d (Inr ()) (put_status Pending (Some (error_to_string e)) None (bump_retry d))"
  and outcome_dead:
    "dispatch_outcome enc d (Inl e) (put_status PermanentFailure (Some (error_to_string e)) None d)"
  by (auto simp: dispatch_outcome_def)

locale delivery_up = delivery_env orch life + reliable_store "o_repo orch" life up
  for orch :: "'s orchestrator" and life :: "'s \<Rightarrow> lives" and up :: "'s \<Rightarrow> bool" +
  assumes send_up: "keeps up (prov_send (provider_for orch c) to content)"
    and retry_publish_up: "o_mq orch = Some mq \<Longrightarrow> keeps up (mq_publish_retry mq i ms)"
    and spawn_up: "keeps up (spawn orch task)"
    and now_up: "keeps up (now orch)"
begin

lemma outcome_run:
  assumes "m s = (r, s')" and "\<exists>s'. m s = (r0, s') \<and> up s' \<and> life s' = set_life i f (life s)"
    and "life s i = Some d" and "dispatch_outcome enc d r0 (f d)"
  shows "up s' \<and> (\<exists>d'. life s' = set_life i (\<lambda>_. d') (life s) \<and> dispatch_outcome enc d r d')"
  using assms by (auto simp: set_life_def intro!: exI [of _ "f d"])

lemma schedule_run:
  obtains s' where "schedule_retry orch i ms s = (Inr (), s')" "life s' = life s" "up s \<Longrightarrow> up s'"
proof -
  obtain r s' where run: "schedule_retry orch i ms s = (r, s')" by (metis surj_pair)
  have "r = Inr ()"
    using run unfolding schedule_retry_def spawn_def
    by (auto simp: attempt_def split: option.splits prod.splits sum.splits)
  moreover have "keeps up (schedule_retry orch i ms)"
    unfolding schedule_retry_def
    by (auto split: option.split sum.split intro!: keep_intros retry_publish_up spawn_up)
  ultimately show ?thesis
    using run that frame_run [OF schedule_frame run] by (metis keeps_run)
qed

lemma deliver_sent:
  assumes up: "up s" and send: "prov_send (provider_for orch (n_channel n)) (n_recipient n) content s
      = (Inr ref, s1)"
  shows "\<exists>s'. deliver orch i n content s = (Inr (), s') \<and> up s' \<and>
    life s' = set_life i (put_status Sent None (Some ref)) (life s)"
proof -
  have s1: "up s1" "life s1 = life s"
    using keeps_run [OF send_up send up] frame_run [OF send_frame send] by auto
  obtain s' where "repo_update_status (o_repo orch) i Sent None (Some ref) s1 = (Inr (), s')"
    "up s'" "life s' = set_life i (put_status Sent None (Some ref)) (life s1)"
    using status_run [OF s1(1)] .
  with s1 send show ?thesis by (simp add: deliver_def act_simps)
qed

lemma dead_run:
  assumes "up s"
  shows "\<exists>s'. bindE (repo_update_status (o_repo orch) i PermanentFailure (Some m) None)
      (\<lambda>_. failE e) s = (Inl e, s') \<and> up s' \<and>
    life s' = set_life i (put_status PermanentFailure (Some m) None) (life s)"
proof -
  obtain s' where "repo_update_status (o_repo orch) i PermanentFailure (Some m) None s = (Inr (), s')"
    "up s'" "life s' = set_life i (put_status PermanentFailure (Some m) None) (life s)"
    using status_run [OF assms] .
  then show ?thesis by (simp add: act_simps)
qed

lemma on_send_error_retry:
  assumes up: "up s" and d: "life s i = Some d" "dl_retry d = n_retry_count n"
    and few: "n_retry_count n < max_retries"
  shows "\<exists>s3 s'. on_send_error orch i n e s = (Inr (), s') \<and>
    schedule_retry orch i (retry_delay_ms (n_retry_count n + 1)) s3 = (Inr (), s') \<and> up s' \<and>
    life s' = set_life i (put_status Pending (Some (error_to_string e)) None \<circ> bump_retry) (life s)"
proof -
  let ?ms = "retry_delay_ms (n_retry_count n + 1)"
  obtain t s1 where now: "now orch s = (t, s1)" by (cases "now orch s")
  have s1: "up s1" "life s1 = life s"
    using keeps_run [OF now_up now up] frame_run [OF now_frame now] by auto
  have small: "dl_retry d < 2 ^ 31 - 1" using few d(2) by (simp add: max_retries_def)
  have d1: "life s1 i = Some d" using d(1) s1(2) by simp
  obtain s2 where s2:
    "repo_increment_retry (o_repo orch) i (t + int (unat ?ms) * 1000) s1 = (Inr (), s2)"
    "up s2" "life s2 = set_life i bump_retry (life s1)"
    using retry_run [OF s1(1) d1 small] .
  obtain s3 where s3:
    "repo_update_status (o_repo orch) i Pending (Some (error_to_string e)) None s2 = (Inr (), s3)"
    "up s3" "life s3 = set_life i (put_status Pending (Some (error_to_string e)) None) (life s2)"
    using status_run [OF s2(2)] .
  obtain s' where s': "schedule_retry orch i ?ms s3 = (Inr (), s')" "life s' = life s3"
    "up s3 \<Longrightarrow> up s'" using schedule_run [of i ?ms s3] by blast
  have "on_send_error orch i n e s = (Inr (), s')"
    using few now s2(1) s3(1) s'(1) by (simp add: on_send_error_def Let_def act_simps)
  with s1 s2 s3 s' show ?thesis by (auto simp: set_life_comp)
qed

lemma deliver_outcome:
  assumes up: "up s" and d: "life s i = Some d" "dl_retry d = n_retry_count n"
    and run: "deliver orch i n content s = (r, s')"
  shows "up s' \<and> (\<exists>d'. life s' = set_life i (\<lambda>_. d') (life s) \<and> dispatch_outcome enc d r d')"
proof -
  obtain x s1 where send:
    "prov_send (provider_for orch (n_channel n)) (n_recipient n) content s = (x, s1)"
    by (metis surj_pair)
  have s1: "up s1" "life s1 = life s"
    using keeps_run [OF send_up send up] frame_run [OF send_frame send] by auto
  show ?thesis
  proof (cases x)
    case (Inr ref)
    with deliver_sent [OF up] send have "\<exists>s'. deliver orch i n content s = (Inr (), s') \<and> up s' \<and>
      life s' = set_life i (put_status Sent None (Some ref)) (life s)" by simp
    then show ?thesis 
      using outcome_run [where m = "deliver orch i n content" and s = s, OF run _ d(1)] outcome_sent
      by blast
  next
    case (Inl e)
    with run send have err: "on_send_error orch i n e s1 = (r, s')"
      by (simp add: deliver_def act_simps)
    from d(1) s1(2) have d1: "life s1 i = Some d" by simp
    show ?thesis
    proof (cases "n_retry_count n \<ge> max_retries")
      case True
      then have "on_send_error orch i n e = bindE (repo_update_status (o_repo orch) i
          PermanentFailure (Some (error_to_string e)) None) (\<lambda>_. failE e)"
        unfolding on_send_error_def by (simp only: if_True)
      with err have "bindE (repo_update_status (o_repo orch) i
          PermanentFailure (Some (error_to_string e)) None) (\<lambda>_. failE e) s1 = (r, s')" by simp
      from outcome_run [where m = "bindE (repo_update_status (o_repo orch) i PermanentFailure
          (Some (error_to_string e)) None) (\<lambda>_. failE e)" and s = s1, OF this dead_run [OF s1(1)] d1
          outcome_dead] show ?thesis by (simp add: s1)
    next
      case False
      then have few: "n_retry_count n < max_retries" by simp
      from on_send_error_retry [OF s1(1) d1 d(2) few]
      have "\<exists>s'. on_send_error orch i n e s1 = (Inr (), s') \<and> up s' \<and> life s' = set_life i
          (put_status Pending (Some (error_to_string e)) None \<circ> bump_retry) (life s1)" by blast
      from outcome_run [where m = "on_send_error orch i n e" and s = s1
          and f = "put_status Pending (Some (error_to_string e)) None \<circ> bump_retry",
          OF err this d1] few d(2) outcome_retry show ?thesis by (simp add: s1)
    qed
  qed
qed

text \<open>A dispatch of a settled notification is only a read.\<close>

lemma dispatch_settled:
  assumes up: "up s" and d: "life s i = Some d" "settled (dl_status d)"
  shows "dispatch orch i s = (Inr (), snd (repo_get_by_id (o_repo orch) i s))"
  using get_run [OF up, of i] d
  by (cases rule: get_run [OF up, of i])
     (auto simp: dispatch_def act_simps settled_def open_status_def)

lemma dispatch_missing:
  assumes up: "up s" and "life s i = None"
  shows "fst (dispatch orch i s) = Inl (NotFound (''notification '' @ c_uuid_show (o_codecs orch) i))"
  using assms by (cases rule: get_run [OF up, of i]) (auto simp: dispatch_def act_simps)

text \<open>An open notification is claimed first.\<close>

lemma dispatch_claims:
  assumes up: "up s" and d: "life s i = Some d" "open_status (dl_status d)"
  obtains n s2 where "d = delivery_of n" "n_id n = i" "up s2"
    "life s2 = set_life i (put_status Processing None None) (life s)"
    "dispatch orch i s = render_and_deliver orch i n s2"
proof (cases rule: get_run [OF up, of i])
  case (2 n s1)
  obtain s2 where s2: "repo_update_status (o_repo orch) i Processing None None s1 = (Inr (), s2)"
    "up s2" "life s2 = set_life i (put_status Processing None None) (life s1)"
    using status_run [OF 2(4)] .
  from 2 d have "\<not> (n_status n \<noteq> Pending \<and> n_status n \<noteq> Processing)"
    by (auto simp: open_status_def)
  with 2(1) s2(1) have "dispatch orch i s = render_and_deliver orch i n s2"
    by (auto simp: dispatch_def act_simps)
  with that 2 s2 d show ?thesis by auto
qed (use d in auto)

lemma outcome_claimed:
  "dispatch_outcome enc (put_status Processing None None d) r d' \<Longrightarrow> dispatch_outcome enc d r d'"
  by (auto simp: dispatch_outcome_def put_status_def bump_retry_def)

lemma dispatch_result:
  assumes up: "up s" and d: "life s i = Some d" "open_status (dl_status d)"
    and run: "dispatch orch i s = (r, s')"
  shows "up s' \<and> (\<exists>d'. life s' = set_life i (\<lambda>_. d') (life s) \<and> dispatch_outcome (encodes orch) d r d')"
proof -
  obtain n s2 where n: "d = delivery_of n" "n_id n = i" "up s2"
    "life s2 = set_life i (put_status Processing None None) (life s)"
    "dispatch orch i s = render_and_deliver orch i n s2"
    using dispatch_claims [OF up d] .
  let ?d2 = "put_status Processing None None d"
  have d2: "life s2 i = Some ?d2" using n d by simp
  have go: "render_and_deliver orch i n s2 = (r, s')" using run n(5) by simp
  have "up s' \<and> (\<exists>d'. life s' = set_life i (\<lambda>_. d') (life s2) \<and> dispatch_outcome (encodes orch) ?d2 r d')"
  proof (cases "o_render orch (n_template_id n) (n_variables n)")
    case (Inl e)
    then have "bindE (repo_update_status (o_repo orch) i PermanentFailure
        (Some (error_to_string e)) None) (\<lambda>_. failE e) s2 = (r, s')"
      using go unfolding render_and_deliver_def by (simp only: sum.case)
    from outcome_run [where m = "bindE (repo_update_status (o_repo orch) i PermanentFailure
        (Some (error_to_string e)) None) (\<lambda>_. failE e)" and s = s2, OF this dead_run [OF n(3)] d2
        outcome_dead] show ?thesis .
  next
    case (Inr content)
    show ?thesis
    proof (cases "payload orch n content")
      case (Inl e)
      with Inr go have "r = Inl e" "s' = s2" by (auto simp: render_and_deliver_def)
      moreover from Inl obtain m where "e = Internal m" "\<not> encodes orch"
        using payload_error by blast
      moreover have "set_life i (\<lambda>_. ?d2) (life s2) = life s2"
        using d2 by (simp add: set_life_def fun_upd_idem)
      moreover have "dispatch_outcome (encodes orch) ?d2 (Inl e) ?d2"
        using calculation(3,4) by (simp add: dispatch_outcome_def put_status_twice)
      ultimately show ?thesis using n(3) by metis
    next
      case (Inr body)
      with \<open>o_render _ _ _ = Inr content\<close> go have "deliver orch i n body s2 = (r, s')"
        by (simp add: render_and_deliver_def)
      from deliver_outcome [OF n(3) d2 _ this] n(1) show ?thesis by simp
    qed
  qed
  then obtain d' where d': "up s'" "life s' = set_life i (\<lambda>_. d') (life s2)"
    "dispatch_outcome (encodes orch) ?d2 r d'" by blast
  moreover have "set_life i (\<lambda>_. d') (life s2) = set_life i (\<lambda>_. d') (life s)"
    unfolding n(4) set_life_comp by (simp add: comp_def)
  ultimately show ?thesis using outcome_claimed by metis
qed

text \<open>Every dispatch settles the notification or uses up one of its attempts.\<close>

lemma dispatch_uses_attempt:
  assumes up: "up s" and d: "life s i = Some d" "open_status (dl_status d)" and total: "encodes orch"
  obtains d' where "up (snd (dispatch orch i s))" "life (snd (dispatch orch i s)) i = Some d'"
    "attempts_left d' < attempts_left d \<or> settled (dl_status d')"
    "dl_retry d \<le> max_retries \<Longrightarrow> dl_retry d' \<le> max_retries"
proof -
  from dispatch_result [OF up d surjective_pairing] total obtain d' where
    "up (snd (dispatch orch i s))" "life (snd (dispatch orch i s)) = set_life i (\<lambda>_. d') (life s)"
    "dispatch_outcome True d (fst (dispatch orch i s)) d'" by auto
  with d that [of d'] show ?thesis
    by (auto simp: dispatch_outcome_def settled_def open_status_def attempts_left_def)
qed

lemma dispatch_settled_stays:
  assumes up: "up s" and d: "life s i = Some d" "settled (dl_status d)"
  shows "up (snd (dispatch orch i s))" "life (snd (dispatch orch i s)) = life s"
proof -
  obtain x s' where "repo_get_by_id (o_repo orch) i s = (Inr x, s')" "up s'"
    using get_up [OF up] by blast
  then show "up (snd (dispatch orch i s))" "life (snd (dispatch orch i s)) = life s"
    using get_life unfolding dispatch_settled [OF up d] by auto
qed

text \<open>Six dispatches settle a fresh notification, whatever the providers do.\<close>

lemma redispatch_settles:
  assumes "up s" and "life s i = Some d" and "attempts_left d \<le> n"
    and "dl_retry d \<le> max_retries" and total: "encodes orch"
  shows "\<exists>d'. life (redispatch orch i n s) i = Some d' \<and> settled (dl_status d')"
  using assms(1-4)
proof (induction n arbitrary: s d)
  case 0
  then show ?case by (auto simp: attempts_left_def split: if_splits)
next
  case (Suc n)
  show ?case
  proof (cases "settled (dl_status d)")
    case True
    with Suc dispatch_settled_stays [OF Suc.prems(1,2)] show ?thesis
      by (auto simp: attempts_left_def)
  next
    case False
    then have op: "open_status (dl_status d)" by (simp add: settled_def)
    from dispatch_uses_attempt [OF Suc.prems(1,2) op total] obtain d' where
      "up (snd (dispatch orch i s))" "life (snd (dispatch orch i s)) i = Some d'"
      "attempts_left d' < attempts_left d \<or> settled (dl_status d')"
      "dl_retry d \<le> max_retries \<Longrightarrow> dl_retry d' \<le> max_retries" by blast
    with Suc.IH Suc.prems(3,4) show ?thesis
      by (auto simp: attempts_left_def split: if_splits)
  qed
qed

end

section \<open>Invariants of the orchestrator\<close>

text \<open>
  An invariant that every call of intake keeps: inserting, sweeping, reading and marking rows,
  the cache, the dispatch queue, the runtime. Delivery keeps it too when the statements and
  calls of delivery do.
\<close>

locale intake_invariant =
  fixes orch :: "'s orchestrator" and I :: "'s \<Rightarrow> bool"
  assumes create_keeps: "n_status n = Pending \<Longrightarrow> n_retry_count n = 0 \<Longrightarrow>
          keeps I (repo_create (o_repo orch) n)"
    and get_keeps: "keeps I (repo_get_by_id (o_repo orch) i)"
    and due_keeps: "keeps I (repo_get_pending_for_retry (o_repo orch) limit)"
    and reset_keeps: "keeps I (repo_reset_stuck_processing (o_repo orch) th)"
    and list_keeps: "keeps I (repo_list_by_user (o_repo orch) u limit off)"
    and read_keeps: "keeps I (repo_mark_as_read (o_repo orch) i u)"
    and read_all_keeps: "keeps I (repo_mark_all_as_read (o_repo orch) u)"
    and unread_keeps: "keeps I (repo_get_unread_count (o_repo orch) u)"
    and cache_set_keeps: "keeps I (cache_set_value (o_cache orch) k v ttl)"
    and cache_bump_keeps: "keeps I (cache_increment_with_ttl (o_cache orch) k ttl)"
    and publish_keeps: "o_mq orch = Some mq \<Longrightarrow> keeps I (mq_publish_dispatch mq i)"
    and spawn_keeps: "keeps I (spawn orch task)"
    and clock_keeps: "keeps I (now orch)"
    and new_uuid_keeps: "keeps I (rt_new_uuid (o_runtime orch))"
begin

lemma trigger_keeps: "keeps I (trigger_dispatch orch i)"
  unfolding trigger_dispatch_def
  by (auto split: option.split sum.split intro!: keep_intros publish_keeps spawn_keeps
      simp del: retE_apply)

lemma queue_keeps: "keeps I (queue_notification orch u c r t v k)"
  unfolding queue_notification_def cache_idempotency_key_def
  by (auto split: option.split if_split simp: new_notification_def simp del: retE_apply
      intro!: keep_intros new_uuid_keeps clock_keeps create_keeps cache_set_keeps trigger_keeps)

lemma recover_keeps: "keeps I (recover_pending orch th limit)"
  unfolding recover_pending_def
  by (auto simp del: retE_apply intro!: keep_intros reset_keeps due_keeps trigger_keeps)

lemma bump_keeps: "keeps I (bump_counter orch k ttl)"
  unfolding bump_counter_def by (rule cache_bump_keeps)

lemma views_keeps: "keeps I (list_user_notification_views orch u limit off)"
  unfolding list_user_notification_views_def
  by (auto simp del: retE_apply intro!: keep_intros list_keeps)

lemmas read_call_keeps = get_keeps list_keeps read_keeps read_all_keeps unread_keeps

end

locale orchestrator_invariant = intake_invariant orch I
  for orch :: "'s orchestrator" and I :: "'s \<Rightarrow> bool" +
  assumes status_keeps: "keeps I (repo_update_status (o_repo orch) i st e p)"
    and retry_keeps: "keeps I (repo_increment_retry (o_repo orch) i at)"
    and provider_send_keeps: "keeps I (prov_send (provider_for orch c) to content)"
    and publish_retry_keeps: "o_mq orch = Some mq \<Longrightarrow> keeps I (mq_publish_retry mq i ms)"
begin

lemma schedule_keeps: "keeps I (schedule_retry orch i ms)"
  unfolding schedule_retry_def
  by (auto split: option.split sum.split intro!: keep_intros publish_retry_keeps spawn_keeps
      simp del: retE_apply)

lemma on_send_error_keeps: "keeps I (on_send_error orch i n e)"
  unfolding on_send_error_def Let_def
  by (auto split: if_split intro!: keep_intros status_keeps retry_keeps clock_keeps schedule_keeps
      simp del: retE_apply failE_apply)

lemma render_keeps: "keeps I (render_and_deliver orch i n)"
  unfolding render_and_deliver_def deliver_def
  by (auto split: sum.split intro!: keep_intros status_keeps provider_send_keeps on_send_error_keeps
      simp del: retE_apply failE_apply)

lemma dispatch_keeps: "keeps I (dispatch orch i)"
  unfolding dispatch_def
  by (auto split: option.split if_split intro!: keep_intros get_keeps status_keeps render_keeps
      simp del: retE_apply failE_apply)

lemma run_task_keeps: "keeps I (run_task orch task)"
  by (cases task) (auto intro!: keep_intros dispatch_keeps simp del: retE_apply)

end

end
