(* ===== verification/Templates.thy ===== *)
theory Templates
  imports Traits
begin

text \<open>
  \<^verbatim>\<open>noti-persistence/src/templating.rs\<close>: the template engine. The \<^verbatim>\<open>tera\<close> crate is a parameter:
  loading a glob gives the error of the load or an engine, which renders a template in a context
  once it knows for which file suffixes it escapes; making a context of a value may fail.
\<close>

type_synonym tera_context = "(string \<times> json) list"
type_synonym tera = "string list \<Rightarrow> string \<Rightarrow> tera_context \<Rightarrow> string + string"

record engine =
  en_tera :: "string \<Rightarrow> tera_context \<Rightarrow> string + string"
  en_context :: "json \<Rightarrow> string + tera_context"

definition template_engine_new ::
  "(string \<Rightarrow> string + tera) \<Rightarrow> (json \<Rightarrow> string + tera_context) \<Rightarrow> string \<Rightarrow> string + engine" where
  "template_engine_new load context path =
     map_sum (\<lambda>e. ''Failed to initialize Tera engine: '' @ e)
       (\<lambda>tera. \<lparr>en_tera = tera [''html.tera''], en_context = context\<rparr>)
       (load (path @ ''/**/*''))"

text \<open>The two failures are both template errors; the second names the template.\<close>

definition render :: "engine \<Rightarrow> template_engine" where
  "render engine template_id variables =
     (case en_context engine variables of
        Inl e \<Rightarrow> Inl (Template (''context creation failed: '' @ e))
      | Inr context \<Rightarrow>
          map_sum (\<lambda>e. Template (''render '' @ [CHR 0x27] @ template_id @ [CHR 0x27] @
                       '' failed: '' @ e)) id
            (en_tera engine template_id context))"

text \<open>Adding a template changes the engine only if \<^verbatim>\<open>tera\<close> accepts it.\<close>

definition add_raw_template ::
  "((string \<Rightarrow> tera_context \<Rightarrow> string + string) \<Rightarrow> string \<Rightarrow> string \<Rightarrow>
     string + (string \<Rightarrow> tera_context \<Rightarrow> string + string)) \<Rightarrow>
   string \<Rightarrow> string \<Rightarrow> engine \<Rightarrow> unit result \<times> engine" where
  "add_raw_template add name content engine =
     (case add (en_tera engine) name content of
        Inl e \<Rightarrow> (Inl (Template e), engine)
      | Inr tera \<Rightarrow> (Inr (), engine\<lparr>en_tera := tera\<rparr>))"

lemma render_error: "render engine i v = Inl e \<Longrightarrow> \<exists>m. e = Template m"
  by (cases "en_context engine v"; cases "en_tera engine i (projr (en_context engine v))")
     (auto simp: render_def)

end
