(* ===== verification/Devices.thy ===== *)
theory Devices
  imports Sql Traits
begin

text \<open>
  \<^verbatim>\<open>noti-persistence/src/device_tokens.rs\<close>: the registry of push device tokens. The platform
  is stored as text and mapped to the enumeration at the boundary; a text outside the
  \<^verbatim>\<open>CHECK\<close> constraint is an error. The lemmas give the registry invariant (a token occurs once)
  and the effect of the three statements.
\<close>

record device_row =
  k_id :: uuid
  k_user_id :: uuid
  k_token :: string
  k_platform :: string
  k_created_at :: time
  k_last_seen_at :: time
  k_revoked_at :: "time option"

type_synonym device_table = "device_row table"

definition device_into_domain :: "device_row \<Rightarrow> device_token result" where
  "device_into_domain r =
     (case platform_from_db (k_platform r) of
        None \<Rightarrow> Inl (Internal (''unknown device platform in DB: '' @ k_platform r))
      | Some platform \<Rightarrow>
          Inr \<lparr>d_id = k_id r, d_user_id = k_user_id r, d_token = k_token r,
               d_platform = platform, d_created_at = k_created_at r,
               d_last_seen_at = k_last_seen_at r\<rparr>)"

text \<open>The first error of a list of results, or all the values (\<^verbatim>\<open>collect\<close>).\<close>

fun collect :: "'a result list \<Rightarrow> 'a list result" where
  "collect [] = Inr []"
| "collect (Inl e # rs) = Inl e"
| "collect (Inr a # rs) = (case collect rs of Inl e \<Rightarrow> Inl e | Inr as \<Rightarrow> Inr (a # as))"

text \<open>A new row takes a generated id and the current time for both of its time columns.\<close>

definition registered_row :: "device_table \<Rightarrow> uuid \<Rightarrow> string \<Rightarrow> device_platform \<Rightarrow> device_row" where
  "registered_row t user token platform =
     \<lparr>k_id = t_gen_uuid t (t_calls t), k_user_id = user, k_token = token,
      k_platform = platform_as_str platform, k_created_at = db_now t,
      k_last_seen_at = db_now t, k_revoked_at = None\<rparr>"

definition reactivate :: "time \<Rightarrow> uuid \<Rightarrow> device_platform \<Rightarrow> device_row \<Rightarrow> device_row" where
  "reactivate at user platform r =
     r\<lparr>k_user_id := user, k_platform := platform_as_str platform, k_last_seen_at := at,
       k_revoked_at := None\<rparr>"

definition register_sql ::
  "uuid \<Rightarrow> string \<Rightarrow> device_platform \<Rightarrow> (device_table, device_row) io" where
  "register_sql user token platform t =
     exec
       (case List.find (\<lambda>r. k_token r = token) (t_rows t) of
          Some r \<Rightarrow>
            (let r' = reactivate (db_now t) user platform r
             in Inr (r', map (\<lambda>r. if k_token r = token then reactivate (db_now t) user platform r
                                   else r) (t_rows t)))
        | None \<Rightarrow>
            (let r = registered_row t user token platform in
             if k_id r \<in> k_id ` set (t_rows t)
             then Inl ''duplicate key value violates unique constraint''
             else Inr (r, t_rows t @ [r]))) t"

definition register :: "uuid \<Rightarrow> string \<Rightarrow> device_platform \<Rightarrow> (device_table, device_token) io" where
  "register user token platform =
     bindE (register_sql user token platform) (\<lambda>r s. (device_into_domain r, s))"

definition active_row :: "uuid \<Rightarrow> device_row \<Rightarrow> bool" where
  "active_row user r \<longleftrightarrow> k_user_id r = user \<and> k_revoked_at r = None"

definition active_for_user :: "uuid \<Rightarrow> (device_table, device_token list) io" where
  "active_for_user user =
     bindE (\<lambda>t. query (Inr (filter (active_row user) (scan k_id t))) t)
       (\<lambda>rs s. (collect (map device_into_domain rs), s))"

definition revoke :: "string \<Rightarrow> (device_table, unit) io" where
  "revoke token t =
     exec (Inr ((), map (\<lambda>r. if k_token r = token \<and> k_revoked_at r = None
                             then r\<lparr>k_revoked_at := Some (db_now t)\<rparr> else r) (t_rows t))) t"

definition device_registry :: "device_table device_repository" where
  "device_registry = \<lparr>dev_register = register, dev_active_for_user = active_for_user,
     dev_revoke = revoke\<rparr>"

section \<open>The registry invariant\<close>

definition registry_ok :: "device_row list \<Rightarrow> bool" where
  "registry_ok rs \<longleftrightarrow> distinct (map k_id rs) \<and> distinct (map k_token rs) \<and>
     (\<forall>r \<in> set rs. platform_from_db (k_platform r) \<noteq> None)"

definition devices_ok :: "device_table \<Rightarrow> bool" where
  "devices_ok t \<longleftrightarrow> registry_ok (t_rows t)"

text \<open>Which user a token is registered for, when it is not revoked.\<close>

definition owner :: "device_row list \<Rightarrow> string \<Rightarrow> uuid option" where
  "owner rs token =
     (case List.find (\<lambda>r. k_token r = token) rs of
        Some r \<Rightarrow> if k_revoked_at r = None then Some (k_user_id r) else None
      | None \<Rightarrow> None)"

lemma reactivate_simps [simp]:
  "k_id (reactivate at u p r) = k_id r" "k_token (reactivate at u p r) = k_token r"
  "k_user_id (reactivate at u p r) = u" "k_platform (reactivate at u p r) = platform_as_str p"
  "k_revoked_at (reactivate at u p r) = None" "k_created_at (reactivate at u p r) = k_created_at r"
  by (simp_all add: reactivate_def)

lemma registry_ok_map:
  assumes "registry_ok rs" and "\<And>r. k_id (f r) = k_id r" and "\<And>r. k_token (f r) = k_token r"
    and "\<And>r. platform_from_db (k_platform r) \<noteq> None \<Longrightarrow> platform_from_db (k_platform (f r)) \<noteq> None"
  shows "registry_ok (map f rs)"
  using assms by (auto simp: registry_ok_def comp_def)

lemma keeps_register: "keeps devices_ok (register u tok p)"
proof -
  have "keeps devices_ok (register_sql u tok p)"
    unfolding keeps_def devices_ok_def register_sql_def
  proof (intro allI impI, rule exec_keeps_rows [where I = registry_ok])
    fix t :: device_table and a rs
    assume ok: "registry_ok (t_rows t)"
      and out: "(case List.find (\<lambda>r. k_token r = tok) (t_rows t) of
          Some r \<Rightarrow> (let r' = reactivate (db_now t) u p r
             in Inr (r', map (\<lambda>r. if k_token r = tok then reactivate (db_now t) u p r else r)
                    (t_rows t)))
        | None \<Rightarrow> (let r = registered_row t u tok p in
             if k_id r \<in> k_id ` set (t_rows t)
             then Inl ''duplicate key value violates unique constraint''
             else Inr (r, t_rows t @ [r]))) = Inr (a, rs)"
    show "registry_ok rs"
    proof (cases "List.find (\<lambda>r. k_token r = tok) (t_rows t)")
      case None
      with ok out show ?thesis
        by (auto simp: registry_ok_def registered_row_def Let_def find_None_iff_all
            split: if_splits)
    next
      case (Some r)
      with out show ?thesis
        by (auto simp: Let_def intro!: registry_ok_map [OF ok])
    qed
  qed
  then show ?thesis
    unfolding register_def by (rule keeps_bindE) (simp add: keeps_def)
qed

lemma keeps_active: "keeps devices_ok (active_for_user u)"
  unfolding active_for_user_def
  by (rule keeps_bindE) (simp_all add: keeps_def devices_ok_def)

lemma keeps_revoke: "keeps devices_ok (revoke tok)"
  unfolding keeps_def devices_ok_def revoke_def
  by (intro allI impI, rule exec_keeps_rows [where I = registry_ok])
     (auto intro!: registry_ok_map)

lemmas keeps_devices_ok = keeps_register keeps_active keeps_revoke

section \<open>Effect of the statements\<close>

lemma find_map_token:
  assumes "\<And>r. k_token (f r) = k_token r"
  shows "List.find (\<lambda>r. k_token r = tok) (map f rs) =
    map_option f (List.find (\<lambda>r. k_token r = tok) rs)"
  by (induction rs) (simp_all add: assms)

lemma find_append:
  "List.find P (xs @ ys) = (case List.find P xs of Some x \<Rightarrow> Some x | None \<Rightarrow> List.find P ys)"
  by (induction xs) auto

lemma owner_map:
  assumes "\<And>r. k_token (f r) = k_token r"
  shows "owner (map f rs) tok =
    (case List.find (\<lambda>r. k_token r = tok) rs of
       Some r \<Rightarrow> if k_revoked_at (f r) = None then Some (k_user_id (f r)) else None
     | None \<Rightarrow> None)"
  by (simp add: owner_def find_map_token assms split: option.split)

lemma owner_reactivated:
  assumes "List.find (\<lambda>r. k_token r = tok) rs = Some r"
  shows "owner (map (\<lambda>r. if k_token r = tok then reactivate at u p r else r) rs) =
    (owner rs)(tok := Some u)"
proof
  fix x
  show "owner (map (\<lambda>r. if k_token r = tok then reactivate at u p r else r) rs) x =
      ((owner rs)(tok := Some u)) x"
    using assms by (subst owner_map) (auto simp: owner_def split: option.split dest: find_SomeD)
qed

lemma owner_appended:
  assumes "List.find (\<lambda>r. k_token r = tok) rs = None" and "k_token r = tok"
    and "k_user_id r = u" and "k_revoked_at r = None"
  shows "owner (rs @ [r]) = (owner rs)(tok := Some u)"
  using assms by (auto simp: owner_def fun_eq_iff find_append split: option.split dest: find_SomeD)

lemma owner_revoked:
  "owner (map (\<lambda>r. if k_token r = tok \<and> k_revoked_at r = None
      then r\<lparr>k_revoked_at := Some at\<rparr> else r) rs) = (owner rs)(tok := None)"
proof
  fix x
  show "owner (map (\<lambda>r. if k_token r = tok \<and> k_revoked_at r = None
      then r\<lparr>k_revoked_at := Some at\<rparr> else r) rs) x = ((owner rs)(tok := None)) x"
    by (subst owner_map) (auto simp: owner_def split: option.split dest: find_SomeD)
qed

lemma register_sql_effect:
  assumes "register_sql u tok p t = (Inr r, t')"
  shows "k_user_id r = u \<and> k_token r = tok \<and> k_platform r = platform_as_str p \<and>
    owner (t_rows t') = (owner (t_rows t))(tok := Some u)"
proof (cases "List.find (\<lambda>r. k_token r = tok) (t_rows t)")
  case None
  with exec_Inr [OF assms [unfolded register_sql_def]]
  have "r = registered_row t u tok p" "t_rows t' = t_rows t @ [registered_row t u tok p]"
    by (auto simp: Let_def split: if_splits)
  with owner_appended [OF None] show ?thesis by (simp add: registered_row_def)
next
  case (Some x)
  with exec_Inr [OF assms [unfolded register_sql_def]]
  have "r = reactivate (db_now t) u p x"
    "t_rows t' = map (\<lambda>r. if k_token r = tok then reactivate (db_now t) u p r else r) (t_rows t)"
    by (auto simp: Let_def)
  with owner_reactivated [OF Some] find_SomeD [OF Some] show ?thesis by simp
qed

lemma revoke_effect:
  assumes "revoke tok t = (Inr (), t')"
  shows "owner (t_rows t') = (owner (t_rows t))(tok := None)"
proof -
  from exec_Inr [OF assms [unfolded revoke_def]] have "t_rows t' =
      map (\<lambda>r. if k_token r = tok \<and> k_revoked_at r = None
         then r\<lparr>k_revoked_at := Some (db_now t)\<rparr> else r) (t_rows t)" by simp
  then show ?thesis by (simp only: owner_revoked)
qed

text \<open>A revocation takes effect, or fails with or without effect.\<close>

lemma revoke_outcome:
  assumes "revoke tok t = (r, t')"
  shows "owner (t_rows t') = (owner (t_rows t))(tok := None) \<or>
    owner (t_rows t') = owner (t_rows t) \<and> isl r"
proof (cases r)
  case (Inl e)
  from exec_Inl [OF assms [unfolded revoke_def Inl]]
  have "t_rows t' = t_rows t \<or> t_rows t' = map (\<lambda>r. if k_token r = tok \<and> k_revoked_at r = None
      then r\<lparr>k_revoked_at := Some (db_now t)\<rparr> else r) (t_rows t)" by auto
  with Inl show ?thesis by (elim disjE) (simp_all only: owner_revoked sum.disc simp_thms)
next
  case (Inr u)
  with assms revoke_effect show ?thesis by auto
qed

lemma collect_ok:
  assumes "\<forall>r \<in> set rs. platform_from_db (k_platform r) \<noteq> None"
  shows "\<exists>ds. collect (map device_into_domain rs) = Inr ds \<and>
    map d_token ds = map k_token rs \<and> map d_user_id ds = map k_user_id rs"
  using assms by (induction rs) (auto simp: device_into_domain_def split: option.splits)

lemma owner_iff:
  assumes "registry_ok rs"
  shows "owner rs tok = Some u \<longleftrightarrow> (\<exists>r \<in> set rs. k_token r = tok \<and> active_row u r)"
proof -
  have uniq: "r = r'" if "r \<in> set rs" "r' \<in> set rs" "k_token r = k_token r'" for r r'
    using assms that unfolding registry_ok_def by (metis distinct_map inj_onD)
  show ?thesis
    by (auto simp: owner_def active_row_def find_None_iff_all split: option.split
        dest!: find_SomeD dest: uniq)
qed

text \<open>The listing is the set of tokens the registry owns for the user, each once.\<close>

lemma active_for_user_tokens:
  assumes ok: "devices_ok t" and run: "active_for_user u t = (Inr ds, t')"
  shows "set (map d_token ds) = {tok. owner (t_rows t) tok = Some u} \<and>
    distinct (map d_token ds) \<and> (\<forall>d \<in> set ds. d_user_id d = u)"
proof -
  let ?rs = "filter (active_row u) (scan k_id t)"
  obtain rs s1 where q: "query (Inr ?rs) t = (Inr rs, s1)"
    and c: "collect (map device_into_domain rs) = Inr ds"
    using run by (auto simp: active_for_user_def bindE_def split: prod.splits sum.splits)
  then have rs: "rs = ?rs" by (auto dest: query_Inr)
  have plat: "\<forall>r \<in> set ?rs. platform_from_db (k_platform r) \<noteq> None"
    using ok by (auto simp: devices_ok_def registry_ok_def)
  from collect_ok [OF plat] c rs have ds: "map d_token ds = map k_token ?rs"
    "map d_user_id ds = map k_user_id ?rs" by auto
  have dist: "distinct (map k_token (scan k_id t))"
    using ok by (metis devices_ok_def mset_map mset_scan mset_eq_imp_distinct_iff registry_ok_def)
  have "set (map k_token ?rs) = {tok. owner (t_rows t) tok = Some u}"
    using owner_iff [of "t_rows t"] ok by (auto simp: devices_ok_def)
  moreover have "distinct (map k_token ?rs)"
    using dist by (simp add: distinct_map_filter)
  moreover have "set (map d_user_id ds) \<subseteq> {u}"
    unfolding ds by (auto simp: active_row_def)
  ultimately show ?thesis using ds(1) by auto
qed

end
