(* ===== verification/Cache.thy ===== *)
theory Cache
  imports Sql Traits
begin

text \<open>
  \<^verbatim>\<open>noti-persistence/src/cache.rs\<close>: the Redis cache service. The store maps a key to its text and
  an optional deadline in milliseconds; an entry past its deadline is not seen by any command.
  The commands are the documented ones (\<^verbatim>\<open>SETEX\<close>, \<^verbatim>\<open>GET\<close>, \<^verbatim>\<open>INCR\<close>, \<^verbatim>\<open>EXPIRE\<close>, \<^verbatim>\<open>DEL\<close>,
  \<^verbatim>\<open>SET NX EX\<close>); a command may fail as a statement of \<open>Sql\<close> may. The lemmas are
  the contract the event handlers rest on: a counter returns 1 exactly on the first bump of its
  window, and a lock is granted to one holder at a time.
\<close>

record redis =
  rd_map :: "string \<Rightarrow> (string \<times> int option) option"
  rd_calls :: nat
  rd_fault :: "nat \<Rightarrow> fault"
  rd_now :: "nat \<Rightarrow> int"

definition redis_now :: "redis \<Rightarrow> int" where
  "redis_now s = rd_now s (rd_calls s)"

definition live :: "redis \<Rightarrow> string \<Rightarrow> (string \<times> int option) option" where
  "live s k =
     (case rd_map s k of
        Some (v, Some at) \<Rightarrow> if at \<le> redis_now s then None else Some (v, Some at)
      | e \<Rightarrow> e)"

text \<open>One round trip: the reply or error reply of a command and the map after it.\<close>

definition command ::
  "((string + 'a) \<times> (string \<Rightarrow> (string \<times> int option) option)) \<Rightarrow> (redis, 'a) io" where
  "command out s =
     (let s' = s\<lparr>rd_calls := Suc (rd_calls s)\<rparr>; done = s'\<lparr>rd_map := snd out\<rparr> in
      case rd_fault s (rd_calls s) of
        FailBefore m \<Rightarrow> (Inl (Internal m), s')
      | FailAfter m \<Rightarrow> (Inl (Internal m), done)
      | NoFault \<Rightarrow> (map_sum Internal id (fst out), done))"

text \<open>An expiry must be positive and its deadline fit a 64-bit integer.\<close>

definition deadline :: "redis \<Rightarrow> nat \<Rightarrow> int" where
  "deadline s ttl = redis_now s + int ttl * 1000"

definition valid_ttl :: "redis \<Rightarrow> nat \<Rightarrow> bool" where
  "valid_ttl s ttl \<longleftrightarrow> 0 < ttl \<and> deadline s ttl < 2 ^ 63"

definition redis_int :: "string \<Rightarrow> int option" where
  "redis_int v =
     (case read_int v of
        Some i \<Rightarrow> if show_int i = v \<and> - (2 ^ 63) \<le> i \<and> i < 2 ^ 63 then Some i else None
      | None \<Rightarrow> None)"

record cache_service_config =
  cs_prefix :: string
  cs_codecs :: codecs

definition full_key :: "cache_service_config \<Rightarrow> string \<Rightarrow> string" where
  "full_key c key = cs_prefix c @ '':'' @ key"

definition set_value :: "cache_service_config \<Rightarrow> string \<Rightarrow> json \<Rightarrow> nat \<Rightarrow> (redis, unit) io" where
  "set_value c key v ttl s =
     command
       (if valid_ttl s ttl
        then (Inr (), (rd_map s)(full_key c key \<mapsto>
                (c_json_show (cs_codecs c) v, Some (deadline s ttl))))
        else (Inl ''ERR invalid expire time in setex command'', rd_map s)) s"

definition get_value :: "cache_service_config \<Rightarrow> string \<Rightarrow> (redis, json option) io" where
  "get_value c key =
     bindE (\<lambda>s. command (Inr (map_option fst (live s (full_key c key))), rd_map s) s) (\<lambda>raw.
     case raw of
       None \<Rightarrow> retE None
     | Some v \<Rightarrow> (case c_json_parse (cs_codecs c) v of
                    Inl e \<Rightarrow> failE (Internal e)
                  | Inr j \<Rightarrow> retE (Some j)))"

text \<open>
  The script increments, keeping a deadline, and then sets the deadline. An error of the second
  command does not undo the first; an expiry of zero removes the key.
\<close>

definition incr_expire ::
  "redis \<Rightarrow> string \<Rightarrow> nat \<Rightarrow> (string + int) \<times> (string \<Rightarrow> (string \<times> int option) option)" where
  "incr_expire s k ttl =
     (case (case live s k of None \<Rightarrow> Some (0, None)
                           | Some (v, at) \<Rightarrow> map_option (\<lambda>i. (i, at)) (redis_int v)) of
        None \<Rightarrow> (Inl ''ERR value is not an integer or out of range'', rd_map s)
      | Some (i, at) \<Rightarrow>
          if i = 2 ^ 63 - 1
          then (Inl ''ERR increment or decrement would overflow'', rd_map s)
          else if ttl = 0 then (Inr (i + 1), (rd_map s)(k := None))
          else if deadline s ttl < 2 ^ 63
          then (Inr (i + 1), (rd_map s)(k \<mapsto> (show_int (i + 1), Some (deadline s ttl))))
          else (Inl ''ERR invalid expire time in expire command'',
                (rd_map s)(k \<mapsto> (show_int (i + 1), at))))"

definition increment_with_ttl :: "cache_service_config \<Rightarrow> string \<Rightarrow> nat \<Rightarrow> (redis, int) io" where
  "increment_with_ttl c key ttl s = command (incr_expire s (full_key c key) ttl) s"

definition delete :: "cache_service_config \<Rightarrow> string \<Rightarrow> (redis, unit) io" where
  "delete c key s = command (Inr (), (rd_map s)(full_key c key := None)) s"

definition lock :: "cache_service_config \<Rightarrow> string \<Rightarrow> nat \<Rightarrow> (redis, bool) io" where
  "lock c key ttl s =
     command
       (if \<not> valid_ttl s ttl then (Inl ''ERR invalid expire time in set command'', rd_map s)
        else case live s (full_key c key) of
               Some _ \<Rightarrow> (Inr False, rd_map s)
             | None \<Rightarrow> (Inr True, (rd_map s)(full_key c key \<mapsto>
                         (''locked'', Some (deadline s ttl))))) s"

definition unlock :: "cache_service_config \<Rightarrow> string \<Rightarrow> (redis, unit) io" where
  "unlock c key s = command (Inr (), (rd_map s)(full_key c key := None)) s"

definition redis_cache :: "cache_service_config \<Rightarrow> redis cache_service" where
  "redis_cache c =
     \<lparr>cache_set_value = set_value c, cache_get_value = get_value c,
      cache_increment_with_ttl = increment_with_ttl c, cache_delete = delete c,
      cache_lock = lock c, cache_unlock = unlock c\<rparr>"

text \<open>The key constructors.\<close>

definition key_idempotency :: "string \<Rightarrow> string" where
  "key_idempotency key = ''idempotency:'' @ key"

definition key_rate_limit :: "string \<Rightarrow> string \<Rightarrow> string" where
  "key_rate_limit channel recipient = ''rate_limit:'' @ channel @ '':'' @ recipient"

definition key_template :: "string \<Rightarrow> string" where
  "key_template template_id = ''template:'' @ template_id"

definition key_ws_registry :: "string \<Rightarrow> string" where
  "key_ws_registry user_id = ''ws_registry:'' @ user_id"

section \<open>Facts\<close>

lemma full_key_inj [simp]: "full_key c k = full_key c k' \<longleftrightarrow> k = k'"
  by (simp add: full_key_def)

lemma command_Inr:
  "command out s = (Inr a, s') \<Longrightarrow> fst out = Inr a \<and> rd_map s' = snd out"
  by (cases "fst out") (auto simp: command_def Let_def split: fault.splits)

lemma command_map: "rd_map (snd (command out s)) = snd out \<or> rd_map (snd (command out s)) = rd_map s"
  by (auto simp: command_def Let_def split: fault.split)

lemma redis_int_show: "- (2 ^ 63) \<le> i \<Longrightarrow> i < 2 ^ 63 \<Longrightarrow> redis_int (show_int i) = Some i"
  by (simp add: redis_int_def)

text \<open>What a counter has counted: nothing when its key is absent or past its deadline.\<close>

definition count :: "redis \<Rightarrow> string \<Rightarrow> int option" where
  "count s k = (case live s k of None \<Rightarrow> Some 0 | Some (v, _) \<Rightarrow> redis_int v)"

lemma increment_counts:
  assumes "increment_with_ttl c key ttl s = (Inr n, s')"
  shows "count s (full_key c key) = Some (n - 1)"
  using command_Inr [OF assms [unfolded increment_with_ttl_def]]
  by (auto simp: incr_expire_def count_def split: option.splits if_splits prod.splits)

lemma increment_stores:
  assumes "increment_with_ttl c key ttl s = (Inr n, s')" and "0 < ttl"
  shows "rd_map s' = (rd_map s)(full_key c key \<mapsto> (show_int n, Some (deadline s ttl)))"
  using command_Inr [OF assms(1) [unfolded increment_with_ttl_def]] assms(2)
  by (auto simp: incr_expire_def split: option.splits if_splits prod.splits)

lemma count_present:
  assumes "rd_map s k = Some (show_int n, Some at)" and "redis_now s < at"
    and "- (2 ^ 63) \<le> n" and "n < 2 ^ 63"
  shows "count s k = Some n"
  using assms by (simp add: count_def live_def redis_int_show)

lemma lock_granted:
  assumes "lock c key ttl s = (Inr b, s')"
  shows "b \<longleftrightarrow> live s (full_key c key) = None"
  using command_Inr [OF assms [unfolded lock_def]] by (auto split: if_splits option.splits)

lemma lock_holds:
  assumes "lock c key ttl s = (Inr True, s')" and "redis_now s' < deadline s ttl"
  shows "live s' (full_key c key) \<noteq> None"
  using command_Inr [OF assms(1) [unfolded lock_def]] assms(2)
  by (auto simp: live_def split: if_splits option.splits)

end
