(* ===== verification/Rabbit.thy ===== *)
theory Rabbit
  imports Traits
begin

text \<open>
  \<^verbatim>\<open>noti-persistence/src/messaging/rabbitmq.rs\<close>: the publishing side of the dispatch and retry
  queues. The state is the log of the AMQP operations the client performed on its channel and
  which of them fail. What the broker then does with the queues and messages is not modelled: the
  properties speak of what the client declares and publishes.
\<close>

datatype dead_letter = DeadLetter string string

record properties =
  pr_expiration :: "string option"
  pr_headers :: "(string \<times> int) list"
  pr_delivery_mode :: "nat option"

datatype amqp_op =
    ExchangeDeclare string
  | QueueDeclare string "dead_letter option"
  | QueueBind string string string
  | BasicPublish string string string properties

record broker =
  bk_log :: "amqp_op list"
  bk_calls :: nat
  bk_fault :: "nat \<Rightarrow> string option"

definition amqp :: "amqp_op \<Rightarrow> (broker, string, unit) act" where
  "amqp op b =
     (let b' = b\<lparr>bk_calls := Suc (bk_calls b)\<rparr> in
      case bk_fault b (bk_calls b) of
        Some m \<Rightarrow> (Inl m, b')
      | None \<Rightarrow> (Inr (), b'\<lparr>bk_log := bk_log b @ [op]\<rparr>))"

definition default_properties :: properties where
  "default_properties = \<lparr>pr_expiration = None, pr_headers = [], pr_delivery_mode = None\<rparr>"

text \<open>\<^verbatim>\<open>RabbitMQClient::new\<close> after the connection: the topology.\<close>

definition declare_topology :: "(broker, string, unit) act" where
  "declare_topology =
     bindE (amqp (ExchangeDeclare ''noti.exchange'')) (\<lambda>_.
     bindE (amqp (QueueDeclare ''noti.retry''
              (Some (DeadLetter ''noti.exchange'' ''noti.dispatch'')))) (\<lambda>_.
     bindE (amqp (QueueDeclare ''noti.dispatch'' None)) (\<lambda>_.
     amqp (QueueBind ''noti.dispatch'' ''noti.exchange'' ''noti.dispatch''))))"

record notification_task =
  nt_notification_id :: uuid
  nt_retry_count :: int

definition task_json :: "codecs \<Rightarrow> notification_task \<Rightarrow> json" where
  "task_json c task =
     JObj [(''notification_id'', JStr (c_uuid_show c (nt_notification_id task))),
           (''retry_count'', json_int (nt_retry_count task))]"

text \<open>\<^verbatim>\<open>delay_mins * 60 * 1000\<close> is 32-bit arithmetic.\<close>

definition publish_task ::
  "codecs \<Rightarrow> notification_task \<Rightarrow> 32 word \<Rightarrow> (broker, unit) io" where
  "publish_task c task delay_mins =
     (case c_json_encode c (task_json c task) of
        Inl e \<Rightarrow> failE (Internal e)
      | Inr payload \<Rightarrow>
          mapErr Internal
            (if 0 < sint delay_mins
             then amqp (BasicPublish [] ''noti.retry'' payload
                    \<lparr>pr_expiration = Some (show_int (sint (delay_mins * 60 * 1000))),
                     pr_headers = [(''x-retry-count'', nt_retry_count task)],
                     pr_delivery_mode = None\<rparr>)
             else amqp (BasicPublish ''noti.exchange'' ''noti.dispatch'' payload
                    (default_properties\<lparr>pr_delivery_mode := Some 2\<rparr>))))"

definition publish_dispatch :: "codecs \<Rightarrow> uuid \<Rightarrow> (broker, unit) io" where
  "publish_dispatch c i =
     publish_task c \<lparr>nt_notification_id = i, nt_retry_count = 0\<rparr> 0"

definition publish_retry :: "codecs \<Rightarrow> uuid \<Rightarrow> u32 \<Rightarrow> (broker, unit) io" where
  "publish_retry c i delay_ms =
     publish_task c \<lparr>nt_notification_id = i, nt_retry_count = 1\<rparr> (delay_ms div 60000)"

definition rabbit_queue :: "codecs \<Rightarrow> broker message_queue" where
  "rabbit_queue c =
     \<lparr>mq_publish_dispatch = publish_dispatch c, mq_publish_retry = publish_retry c\<rparr>"

section \<open>Facts\<close>

lemma amqp_Inr: "amqp op b = (Inr u, b') \<Longrightarrow> bk_log b' = bk_log b @ [op]"
  by (auto simp: amqp_def Let_def split: option.splits)

lemma amqp_Inl: "amqp op b = (Inl e, b') \<Longrightarrow> bk_log b' = bk_log b"
  by (auto simp: amqp_def Let_def split: option.splits)

lemma mapErr_Inr: "mapErr g m s = (Inr a, s') \<longleftrightarrow> m s = (Inr a, s')"
  by (cases "m s"; cases "fst (m s)") (auto simp: mapErr_def)

lemma topology_log:
  assumes "declare_topology b = (Inr u, b')" and "bk_log b = []"
  shows "bk_log b' =
    [ExchangeDeclare ''noti.exchange'',
     QueueDeclare ''noti.retry'' (Some (DeadLetter ''noti.exchange'' ''noti.dispatch'')),
     QueueDeclare ''noti.dispatch'' None,
     QueueBind ''noti.dispatch'' ''noti.exchange'' ''noti.dispatch'']"
  using assms unfolding declare_topology_def
  by (auto elim!: bindE_cases dest!: amqp_Inr)

lemma sint_small: "n < 2 ^ 31 \<Longrightarrow> sint (of_nat n :: 32 word) = int n"
  by (simp add: signed_of_nat signed_take_bit_int_eq_self_iff)

lemma minutes_exact:
  fixes delay_ms :: u32
  assumes "unat delay_ms = m * 60000" and "m < 35000"
  shows "sint (delay_ms div 60000) = int m" and "sint (delay_ms div 60000 * 60 * 1000) = int m * 60000"
proof -
  have "unat (delay_ms div 60000) = m" using assms by (simp add: unat_div)
  then have q: "delay_ms div 60000 = of_nat m" by (metis of_nat_unat ucast_id)
  show "sint (delay_ms div 60000) = int m"
    using assms(2) unfolding q by (simp add: sint_small)
  have "delay_ms div 60000 * 60 * 1000 = of_nat (m * 60000)" unfolding q by simp
  also have "sint \<dots> = int (m * 60000)" using assms(2) by (intro sint_small) simp
  finally show "sint (delay_ms div 60000 * 60 * 1000) = int m * 60000" by simp
qed

end
