(* ===== verification/System.thy ===== *)
theory System
  imports Traits
begin

text \<open>
  What the delivery providers use of the world outside the process, as functions of the
  shared state: the clocks, random identifiers, name resolution, an HTTP client and an SMTP
  transport. The libraries behind them are third-party code, so they are a record of
  parameters, \<open>'s system\<close>; the requests handed to them are what the source builds.
\<close>

datatype ip = V4 "32 word" | V6 "128 word"

record http_request =
  hq_url :: string
  hq_headers :: "(string \<times> string) list"
  hq_body :: string
  hq_pin :: "(string \<times> ip) option"
  hq_follow_redirects :: bool
  hq_timeout :: nat

text \<open>A response: its status code, and its body unless reading it fails.\<close>

record http_response =
  hr_status :: nat
  hr_body :: "string + string"

definition is_success :: "http_response \<Rightarrow> bool" where
  "is_success r \<longleftrightarrow> 200 \<le> hr_status r \<and> hr_status r < 300"

definition text_or_default :: "http_response \<Rightarrow> string" where
  "text_or_default r = (case hr_body r of Inl _ \<Rightarrow> [] | Inr b \<Rightarrow> b)"

record mail =
  m_from :: string
  m_to :: string
  m_subject :: string
  m_plain :: string
  m_html :: "string option"

record 's system =
  sys_now :: "'s \<Rightarrow> time \<times> 's"
  sys_instant :: "'s \<Rightarrow> time \<times> 's"
  sys_new_uuid :: "'s \<Rightarrow> uuid \<times> 's"
  sys_lookup_host :: "string \<Rightarrow> nat \<Rightarrow> ('s, string, ip list) act"
  sys_http :: "http_request \<Rightarrow> ('s, string, http_response) act"
  sys_smtp :: "mail \<Rightarrow> ('s, string, string option) act"
  sys_status_show :: "nat \<Rightarrow> string"

text \<open>The mock providers of \<^verbatim>\<open>providers.rs\<close> only log and make up a reference.\<close>

definition mock_provider :: "'s system \<Rightarrow> codecs \<Rightarrow> string \<Rightarrow> 's provider" where
  "mock_provider sys c name =
     \<lparr>prov_send = (\<lambda>_ _. peek (sys_new_uuid sys) (\<lambda>u. retE (name @ ''-'' @ c_uuid_show c u))),
      prov_provider_id = name\<rparr>"

definition mock_email_provider :: "'s system \<Rightarrow> codecs \<Rightarrow> 's provider" where
  "mock_email_provider sys c = mock_provider sys c ''mock-email''"

definition mock_sms_provider :: "'s system \<Rightarrow> codecs \<Rightarrow> 's provider" where
  "mock_sms_provider sys c = mock_provider sys c ''mock-sms''"

definition mock_push_provider :: "'s system \<Rightarrow> codecs \<Rightarrow> 's provider" where
  "mock_push_provider sys c = mock_provider sys c ''mock-push''"

definition mock_webhook_provider :: "'s system \<Rightarrow> codecs \<Rightarrow> 's provider" where
  "mock_webhook_provider sys c = mock_provider sys c ''mock-webhook''"

definition mock_websocket_provider :: "'s system \<Rightarrow> codecs \<Rightarrow> 's provider" where
  "mock_websocket_provider sys c = mock_provider sys c ''mock-websocket''"

text \<open>
  A part of the state the outside world does not touch: what a provider that only makes such
  calls leaves alone.
\<close>

locale quiet_system =
  fixes sys :: "'s system" and I :: "'s \<Rightarrow> bool"
  assumes now_keeps [keep_intros]: "keeps I (sys_now sys)"
    and instant_keeps [keep_intros]: "keeps I (sys_instant sys)"
    and uuid_keeps [keep_intros]: "keeps I (sys_new_uuid sys)"
    and lookup_keeps [keep_intros]: "keeps I (sys_lookup_host sys h p)"
    and smtp_keeps [keep_intros]: "keeps I (sys_smtp sys m)"
begin

lemma mock_keeps: "keeps I (prov_send (mock_provider sys c name) to content)"
  by (auto simp: mock_provider_def intro!: keep_intros)

end

end
