(* ===== verification/Webhook.thy ===== *)
theory Webhook
  imports System
begin

text \<open>
  \<^verbatim>\<open>noti-persistence/src/providers/webhook.rs\<close>: the webhook provider and its guard against
  requests to internal addresses. The address tests of the standard library are written out
  on 32-bit and 128-bit words. The lemmas characterise the guard by address blocks and show that
  no request leaves for a blocked address.
\<close>

unbundle bit_operations_syntax

section \<open>Address classes\<close>

definition octet :: "nat \<Rightarrow> 32 word \<Rightarrow> 8 word" where
  "octet k w = ucast (drop_bit (24 - 8 * k) w)"

definition v4_is_loopback :: "32 word \<Rightarrow> bool" where
  "v4_is_loopback w \<longleftrightarrow> octet 0 w = 127"

definition v4_is_private :: "32 word \<Rightarrow> bool" where
  "v4_is_private w \<longleftrightarrow>
     octet 0 w = 10 \<or> (octet 0 w = 172 \<and> 16 \<le> octet 1 w \<and> octet 1 w \<le> 31) \<or>
     (octet 0 w = 192 \<and> octet 1 w = 168)"

definition v4_is_link_local :: "32 word \<Rightarrow> bool" where
  "v4_is_link_local w \<longleftrightarrow> octet 0 w = 169 \<and> octet 1 w = 254"

definition v4_is_documentation :: "32 word \<Rightarrow> bool" where
  "v4_is_documentation w \<longleftrightarrow>
     (octet 0 w = 192 \<and> octet 1 w = 0 \<and> octet 2 w = 2) \<or>
     (octet 0 w = 198 \<and> octet 1 w = 51 \<and> octet 2 w = 100) \<or>
     (octet 0 w = 203 \<and> octet 1 w = 0 \<and> octet 2 w = 113)"

definition is_blocked_v4 :: "32 word \<Rightarrow> bool" where
  "is_blocked_v4 w \<longleftrightarrow>
     v4_is_loopback w \<or> v4_is_private w \<or> v4_is_link_local w \<or> w = 0 \<or> w = - 1 \<or>
     v4_is_documentation w \<or> octet 0 w = 0 \<or>
     (octet 0 w = 100 \<and> octet 1 w AND 0xc0 = 64)"

definition segment0 :: "128 word \<Rightarrow> 16 word" where
  "segment0 w = ucast (drop_bit 112 w)"

definition to_ipv4_mapped :: "128 word \<Rightarrow> 32 word option" where
  "to_ipv4_mapped w = (if drop_bit 32 w = 0xffff then Some (ucast w) else None)"

fun is_blocked_ip :: "ip \<Rightarrow> bool" where
  "is_blocked_ip (V4 w) = is_blocked_v4 w"
| "is_blocked_ip (V6 w) \<longleftrightarrow>
     w = 1 \<or> w = 0 \<or> segment0 w AND 0xfe00 = 0xfc00 \<or> segment0 w AND 0xffc0 = 0xfe80 \<or>
     (case to_ipv4_mapped w of Some m \<Rightarrow> is_blocked_v4 m | None \<Rightarrow> False)"

section \<open>Sending\<close>

text \<open>What the source uses of a parsed URL.\<close>

record url =
  u_text :: string
  u_scheme :: string
  u_host :: "string option"
  u_port_or_default :: "nat option"

text \<open>\<^verbatim>\<open>wh_build_client\<close> is the builder of the HTTP client for a pinned host, which can fail.\<close>

record 's webhook =
  wh_timeout :: nat
  wh_block_private :: bool
  wh_system :: "'s system"
  wh_codecs :: codecs
  wh_parse_url :: "string \<Rightarrow> string + url"
  wh_ip_show :: "ip \<Rightarrow> string"
  wh_build_client :: "string \<Rightarrow> ip \<Rightarrow> string + unit"

text \<open>\<^verbatim>\<open>REQUEST_TIMEOUT_SECS\<close>\<close>

definition webhook_timeout_secs :: nat where
  "webhook_timeout_secs = 10"

definition quoted :: "string \<Rightarrow> string" where
  "quoted s = [CHR 0x27] @ s @ [CHR 0x27]"

definition content_type :: "string \<Rightarrow> string" where
  "content_type content =
     (let trimmed = trim_start content in
      if starts_with trimmed ''{'' \<or> starts_with trimmed ''['' then ''application/json''
      else ''text/plain; charset=utf-8'')"

definition webhook_request :: "nat \<Rightarrow> url \<Rightarrow> string \<Rightarrow> ip \<Rightarrow> string \<Rightarrow> http_request" where
  "webhook_request timeout u host addr content =
     \<lparr>hq_url = u_text u, hq_headers = [(''content-type'', content_type content)],
      hq_body = content, hq_pin = Some (host, addr), hq_follow_redirects = False,
      hq_timeout = timeout\<rparr>"

definition webhook_post ::
  "'s webhook \<Rightarrow> string \<Rightarrow> url \<Rightarrow> string \<Rightarrow> ip \<Rightarrow> string \<Rightarrow> ('s, string) io" where
  "webhook_post w recipient u host addr content =
     (case wh_build_client w host addr of
        Inl e \<Rightarrow> failE (Internal (''Failed to build webhook HTTP client: '' @ e))
      | Inr _ \<Rightarrow>
     bindE (mapErr (\<lambda>e. Internal (''Webhook POST to '' @ quoted recipient @ '' failed: '' @ e))
        (sys_http (wh_system w) (webhook_request (wh_timeout w) u host addr content))) (\<lambda>resp.
     if is_success resp
     then peek (sys_new_uuid (wh_system w)) (\<lambda>v.
          retE (''webhook-'' @ show_nat (hr_status resp) @ ''-'' @ c_uuid_show (wh_codecs w) v))
     else failE (Internal (''Webhook '' @ quoted recipient @ '' returned status '' @
            sys_status_show (wh_system w) (hr_status resp)))))"

definition webhook_send :: "'s webhook \<Rightarrow> string \<Rightarrow> string \<Rightarrow> ('s, string) io" where
  "webhook_send w recipient content =
     (case wh_parse_url w recipient of
        Inl e \<Rightarrow> failE (Internal (''Invalid webhook URL '' @ quoted recipient @ '': '' @ e))
      | Inr u \<Rightarrow>
          if u_scheme u \<noteq> ''http'' \<and> u_scheme u \<noteq> ''https''
          then failE (Internal (''Webhook URL scheme '' @ quoted (u_scheme u) @
                 '' not allowed (http/https only)''))
          else (case u_host u of
             None \<Rightarrow> failE (Internal ''Webhook URL has no host'')
           | Some host \<Rightarrow>
               let port = (case u_port_or_default u of Some p \<Rightarrow> p | None \<Rightarrow> 0) in
               bindE (mapErr (\<lambda>e. Internal (''Webhook DNS resolution failed for '' @ quoted host @
                        '': '' @ e)) (sys_lookup_host (wh_system w) host port)) (\<lambda>addrs.
               case addrs of
                 [] \<Rightarrow> failE (Internal (''Webhook host '' @ quoted host @
                         '' resolved to no addresses''))
               | safe_addr # _ \<Rightarrow>
                   (case (if wh_block_private w then List.find is_blocked_ip addrs else None) of
                      Some blocked \<Rightarrow> failE (Internal (''Webhook target '' @ quoted host @
                        '' resolves to blocked address '' @ wh_ip_show w blocked @
                        '' (private/loopback/link-local)''))
                    | None \<Rightarrow> webhook_post w recipient u host safe_addr content))))"

definition webhook_provider :: "'s webhook \<Rightarrow> 's provider" where
  "webhook_provider w = \<lparr>prov_send = webhook_send w, prov_provider_id = ''webhook''\<rparr>"

section \<open>The guard as address blocks\<close>

definition in_block :: "nat \<Rightarrow> nat \<Rightarrow> 32 word \<Rightarrow> bool" where
  "in_block a n w \<longleftrightarrow> unat w div 2 ^ (32 - n) = a"

text \<open>The blocks, each by the number its leading bits form.\<close>

definition blocked_blocks :: "(nat \<times> nat) list" where
  "blocked_blocks =
     [(127, 8), (10, 8), (172 * 16 + 1, 12), (192 * 256 + 168, 16), (169 * 256 + 254, 16),
      (2 ^ 32 - 1, 32), ((192 * 256 + 0) * 256 + 2, 24), ((198 * 256 + 51) * 256 + 100, 24),
      ((203 * 256 + 0) * 256 + 113, 24), (0, 8), (100 * 4 + 1, 10)]"

lemma unat_octet: "unat (octet k w) = unat w div 2 ^ (24 - 8 * k) mod 256"
  unfolding octet_def unsigned_ucast_eq unat_drop_bit_eq
  by (simp add: drop_bit_eq_div take_bit_eq_mod)

lemma octet_eq: "n < 256 \<Longrightarrow> octet k w = of_nat n \<longleftrightarrow> unat w div 2 ^ (24 - 8 * k) mod 256 = n"
  by (auto simp: unat_octet [symmetric] unat_of_nat word_unat_eq_iff)

lemma and_c0:
  fixes x :: "8 word"
  shows "x AND 0xc0 = 64 \<longleftrightarrow> unat x div 64 = 1"
proof -
  have "\<forall>n \<in> set [0..<256]. ((of_nat n :: 8 word) AND 0xc0 = 64) = (n div 64 = 1)"
    by code_simp
  moreover have "unat x \<in> set [0..<256]" using unsigned_less [of x] by simp
  ultimately have "((of_nat (unat x) :: 8 word) AND 0xc0 = 64) = (unat x div 64 = 1)" by blast
  then show ?thesis by simp
qed

lemma unat_lt_32: "unat (w :: 32 word) < 4294967296"
  using unsigned_less [of w] by simp

lemma octet_nat:
  "unat (octet 0 w) = unat w div 16777216" "unat (octet 1 w) = unat w div 65536 mod 256"
  "unat (octet 2 w) = unat w div 256 mod 256"
  using unat_lt_32 [of w] by (simp_all add: unat_octet)

lemma octet_is:
  "n < 256 \<Longrightarrow> octet 0 w = of_nat n \<longleftrightarrow> unat w div 16777216 = n"
  "n < 256 \<Longrightarrow> octet 1 w = of_nat n \<longleftrightarrow> unat w div 65536 mod 256 = n"
  "n < 256 \<Longrightarrow> octet 2 w = of_nat n \<longleftrightarrow> unat w div 256 mod 256 = n"
  by (simp_all add: word_unat_eq_iff octet_nat unat_of_nat del: One_nat_def)

lemma octet_numeral:
  "numeral n < (256 :: nat) \<Longrightarrow> octet 0 w = numeral n \<longleftrightarrow> unat w div 16777216 = numeral n"
  "numeral n < (256 :: nat) \<Longrightarrow> octet 1 w = numeral n \<longleftrightarrow> unat w div 65536 mod 256 = numeral n"
  "numeral n < (256 :: nat) \<Longrightarrow> octet 2 w = numeral n \<longleftrightarrow> unat w div 256 mod 256 = numeral n"
  "octet 0 w = 0 \<longleftrightarrow> unat w div 16777216 = 0"
  "octet 1 w = 0 \<longleftrightarrow> unat w div 65536 mod 256 = 0"
  using octet_is [of "numeral n" w] octet_is [of 0 w] by (simp_all del: One_nat_def)

lemma div_step: "u div 65536 div 256 = (u :: nat) div 16777216" "u div 65536 div 16 = u div 1048576"
  "u div 65536 div 64 = u div 4194304" "u div 256 div 256 = u div 65536"
  by (simp_all add: div_mult2_eq [symmetric])

lemma two_octets:
  "(u :: nat) div 16777216 = a \<and> u div 65536 mod 256 = b \<longleftrightarrow> b < 256 \<and> u div 65536 = a * 256 + b"
  unfolding div_step(1) [symmetric] by (auto simp: mult.commute)

lemma three_octets:
  "(u :: nat) div 16777216 = a \<and> u div 65536 mod 256 = b \<and> u div 256 mod 256 = c \<longleftrightarrow>
   b < 256 \<and> c < 256 \<and> u div 256 = (a * 256 + b) * 256 + c"
proof -
  have "u div 65536 = k \<and> u div 256 mod 256 = c \<longleftrightarrow> c < 256 \<and> u div 256 = k * 256 + c" for k
    unfolding div_step(4) [symmetric] by (auto simp: mult.commute)
  then show ?thesis using two_octets [of u a b] by metis
qed

lemma div_mod_pair: "0 < m \<Longrightarrow> b < m \<Longrightarrow> (q :: nat) div m = a \<and> q mod m = b \<longleftrightarrow> q = a * m + b"
  by auto

lemma split_mod_256:
  "(h :: nat) div 256 = h div 64 div 4" "h mod 256 div 64 = h div 64 mod 4"
  "h div 256 = h div 16 div 16" "h mod 256 = 16 * (h div 16 mod 16) + h mod 16"
proof -
  show "h mod 256 div 64 = h div 64 mod 4"
    using mod_mult2_eq [of h 64 4] by simp
  show "h mod 256 = 16 * (h div 16 mod 16) + h mod 16"
    using mod_mult2_eq [of h 16 16] by simp
qed (simp_all add: div_mult2_eq [symmetric])

lemma cgnat: "(u :: nat) div 16777216 = 100 \<and> u div 65536 mod 256 div 64 = 1 \<longleftrightarrow> u div 4194304 = 401"
proof -
  have "h div 64 div 4 = 100 \<and> h div 64 mod 4 = 1 \<longleftrightarrow> h div 64 = 401" for h :: nat
    using div_mod_pair [of 4 1 "h div 64" 100] by simp
  then have "h div 256 = 100 \<and> h mod 256 div 64 = 1 \<longleftrightarrow> h div 64 = 401" for h :: nat
    using split_mod_256(1,2) [of h] by simp
  then show ?thesis unfolding div_step(1,3) [symmetric] .
qed

lemma mid_range: "r < 16 \<Longrightarrow> 16 \<le> 16 * (k :: nat) + r \<and> 16 * k + r \<le> 31 \<longleftrightarrow> k = 1"
  by auto

lemma rfc1918_172: "(u :: nat) div 16777216 = 172 \<and> 16 \<le> u div 65536 mod 256 \<and>
    u div 65536 mod 256 \<le> 31 \<longleftrightarrow> u div 1048576 = 2753"
proof -
  have "h div 256 = 172 \<and> 16 \<le> h mod 256 \<and> h mod 256 \<le> 31 \<longleftrightarrow> h div 16 = 2753" for h :: nat
    using div_mod_pair [of 16 1 "h div 16" 172] mid_range [of "h mod 16" "h div 16 mod 16"]
    unfolding split_mod_256(3,4) [of h] by simp
  then show ?thesis unfolding div_step(1,2) [symmetric] .
qed

lemma all_ones: "(w :: 32 word) = - 1 \<longleftrightarrow> unat w = 4294967295"
  by (simp add: word_unat_eq_iff unsigned_minus_1_eq_mask mask_eq_exp_minus_1)

lemma is_blocked_v4_blocks:
  "is_blocked_v4 w \<longleftrightarrow> (\<exists>(a, n) \<in> set blocked_blocks. in_block a n w)"
proof -
  let ?u = "unat w"
  have "is_blocked_v4 w \<longleftrightarrow> ?u div 16777216 = 127 \<or> ?u div 16777216 = 10 \<or> ?u div 1048576 = 2753 \<or>
      ?u div 65536 = 49320 \<or> ?u div 65536 = 43518 \<or> w = 0 \<or> ?u = 4294967295 \<or>
      ?u div 256 = 12582914 \<or> ?u div 256 = 12989284 \<or> ?u div 256 = 13303921 \<or>
      ?u div 16777216 = 0 \<or> ?u div 4194304 = 401"
    unfolding is_blocked_v4_def v4_is_loopback_def v4_is_private_def v4_is_link_local_def
      v4_is_documentation_def all_ones and_c0 word_le_nat_alt octet_nat
    by (simp add: octet_numeral two_octets three_octets cgnat rfc1918_172 del: One_nat_def)
  moreover have "(\<exists>(a, n) \<in> set blocked_blocks. in_block a n w) \<longleftrightarrow>
      ?u div 16777216 = 127 \<or> ?u div 16777216 = 10 \<or> ?u div 1048576 = 2753 \<or>
      ?u div 65536 = 49320 \<or> ?u div 65536 = 43518 \<or> ?u = 4294967295 \<or>
      ?u div 256 = 12582914 \<or> ?u div 256 = 12989284 \<or> ?u div 256 = 13303921 \<or>
      ?u div 16777216 = 0 \<or> ?u div 4194304 = 401"
    by (simp add: blocked_blocks_def in_block_def)
  moreover have "w = 0 \<Longrightarrow> ?u div 16777216 = 0" by simp
  ultimately show ?thesis by argo
qed

lemma high_bits:
  fixes x :: "16 word"
  shows "unat (x AND (mask 16 AND NOT (mask n))) = unat x div 2 ^ n * 2 ^ n"
proof -
  have "x AND (mask 16 AND NOT (mask n)) = push_bit n (drop_bit n x)"
    by (rule bit_word_eqI) (auto simp: bit_simps)
  moreover have "unat (push_bit n (drop_bit n x)) = unat x div 2 ^ n * 2 ^ n mod 2 ^ 16"
    unfolding unsigned_push_bit_eq unat_drop_bit_eq
    by (simp add: push_bit_eq_mult drop_bit_eq_div take_bit_eq_mod)
  moreover have "unat x div 2 ^ n * 2 ^ n mod 2 ^ 16 = unat x div 2 ^ n * 2 ^ n"
  proof (rule mod_less)
    have "unat x div 2 ^ n * 2 ^ n \<le> unat x" by (rule div_times_less_eq_dividend)
    also have "unat x < 2 ^ LENGTH(16)" by (rule unsigned_less)
    finally show "unat x div 2 ^ n * 2 ^ n < 2 ^ 16" by simp
  qed
  ultimately show ?thesis by metis
qed

lemma segment_masks:
  fixes x :: "16 word"
  shows "x AND 0xfe00 = 0xfc00 \<longleftrightarrow> unat x div 512 = 126"
    and "x AND 0xffc0 = 0xfe80 \<longleftrightarrow> unat x div 64 = 1018"
proof -
  have m: "(mask 16 AND NOT (mask 9) :: 16 word) = 0xfe00"
    "(mask 16 AND NOT (mask 6) :: 16 word) = 0xffc0"
    by (simp_all add: mask_eq_exp_minus_1)
  show "x AND 0xfe00 = 0xfc00 \<longleftrightarrow> unat x div 512 = 126"
    using high_bits [of x 9] unfolding m word_unat_eq_iff by simp
  show "x AND 0xffc0 = 0xfe80 \<longleftrightarrow> unat x div 64 = 1018"
    using high_bits [of x 6] unfolding m word_unat_eq_iff by simp
qed

lemma unat_segment0: "unat (segment0 w) = unat w div 2 ^ 112"
proof -
  have "unat w < 2 ^ LENGTH(128)" by (rule unsigned_less)
  then have "unat w div 2 ^ 112 < 2 ^ 16" by (simp add: div_less_iff_less_mult)
  then show ?thesis
    unfolding segment0_def unsigned_ucast_eq unat_drop_bit_eq
    by (simp add: drop_bit_eq_div take_bit_eq_mod)
qed

text \<open>The IPv6 rules: loopback, unspecified, \<^verbatim>\<open>fc00::/7\<close>, \<^verbatim>\<open>fe80::/10\<close> and mapped addresses.\<close>

lemma is_blocked_v6_blocks:
  "is_blocked_ip (V6 w) \<longleftrightarrow>
     unat w = 1 \<or> unat w = 0 \<or> unat w div 2 ^ 121 = 126 \<or> unat w div 2 ^ 118 = 1018 \<or>
     (unat w div 2 ^ 32 = 65535 \<and> is_blocked_v4 (ucast w))"
proof -
  have d: "unat (segment0 w) div 512 = unat w div 2 ^ 121" "unat (segment0 w) div 64 = unat w div 2 ^ 118"
    by (simp_all add: unat_segment0 div_mult2_eq [symmetric])
  have mapped: "drop_bit 32 w = 0xffff \<longleftrightarrow> unat w div 2 ^ 32 = 65535"
    unfolding word_unat_eq_iff unat_drop_bit_eq by (simp add: drop_bit_eq_div)
  have one: "w = 1 \<longleftrightarrow> unat w = 1" "w = 0 \<longleftrightarrow> unat w = 0"
    by (simp_all add: word_unat_eq_iff)
  show ?thesis
    unfolding is_blocked_ip.simps segment_masks d to_ipv4_mapped_def mapped one by simp
qed

section \<open>No request leaves for a blocked address\<close>

text \<open>A request this provider may make: pinned to an admissible address of the URL's own host.\<close>

definition admissible :: "(string \<Rightarrow> string + url) \<Rightarrow> bool \<Rightarrow> string \<Rightarrow> http_request \<Rightarrow> bool" where
  "admissible parse_url block_private recipient req \<longleftrightarrow>
     (\<exists>u host addr. parse_url recipient = Inr u \<and> hq_url req = u_text u \<and>
        (u_scheme u = ''http'' \<or> u_scheme u = ''https'') \<and> u_host u = Some host \<and>
        hq_pin req = Some (host, addr) \<and> \<not> hq_follow_redirects req \<and>
        (block_private \<longrightarrow> \<not> is_blocked_ip addr))"

lemma post_keeps:
  assumes "keeps I (sys_http (wh_system w) (webhook_request (wh_timeout w) u host addr content))"
    and "keeps I (sys_new_uuid (wh_system w))"
  shows "keeps I (webhook_post w recipient u host addr content)"
  unfolding webhook_post_def
  by (auto split: sum.split intro!: keep_intros assms simp del: failE_apply)

text \<open>
  Whatever only admissible requests keep, sending keeps; with \<open>I\<close> an invariant of a request log
  this is the guard.
\<close>

lemma send_keeps:
  assumes "\<And>host port. keeps I (sys_lookup_host (wh_system w) host port)"
    and "keeps I (sys_new_uuid (wh_system w))"
    and ok: "\<And>req. admissible (wh_parse_url w) (wh_block_private w) recipient req \<Longrightarrow>
          keeps I (sys_http (wh_system w) req)"
  shows "keeps I (webhook_send w recipient content)"
proof -
  have post: "keeps I (webhook_post w recipient u host addr content)"
    if "wh_parse_url w recipient = Inr u" "u_host u = Some host"
      "u_scheme u = ''http'' \<or> u_scheme u = ''https''"
      "wh_block_private w \<longrightarrow> \<not> is_blocked_ip addr" for u host addr
    using that
    by (intro post_keeps ok assms(2)) (auto simp: admissible_def webhook_request_def)
  show ?thesis
    unfolding webhook_send_def Let_def
    by (auto split: sum.split option.split list.split if_splits
        intro!: keep_intros post assms(1) simp del: failE_apply)
qed

end
