(* ===== verification/Smtp.thy ===== *)
theory Smtp
  imports System
begin

text \<open>
  \<^verbatim>\<open>noti-persistence/src/providers/smtp.rs\<close>: the choice of transport security, the recognition of
  HTML, the subject taken from its title, and the plain-text alternative. The three regular
  expressions are written as the matchers they denote: each has one match at a position, since
  a negated class runs to the first closing bracket and a lazy group to the first closing tag.
  Mailboxes, the MIME builder and the transport itself belong to \<^verbatim>\<open>lettre\<close>.
\<close>

section \<open>Transport security\<close>

datatype tls_mode = Tls | StartTls | NoTls

definition resolve_tls_mode :: "string option \<Rightarrow> nat \<Rightarrow> tls_mode" where
  "resolve_tls_mode configured port =
     (let mode = (case configured of Some m \<Rightarrow> m
                  | None \<Rightarrow> if port = 465 then ''tls'' else ''starttls'')
      in if mode = ''tls'' then Tls
         else if mode = ''starttls'' then StartTls
         else if mode = ''none'' \<or> mode = ''insecure'' then NoTls
         else StartTls)"

record smtp_transport =
  st_mode :: tls_mode
  st_host :: string
  st_port :: nat
  st_credentials :: "(string \<times> string) option"

record smtp_provider =
  sp_transport :: smtp_transport
  sp_from_email :: string

definition smtp_new ::
  "(string \<Rightarrow> string + unit) \<Rightarrow> string \<Rightarrow> nat \<Rightarrow> string option \<Rightarrow> string option \<Rightarrow> string \<Rightarrow>
   string option \<Rightarrow> string + smtp_provider" where
  "smtp_new valid_relay host port username password from_email tls =
     (let mode = resolve_tls_mode tls port;
          checked = (case mode of
              Tls \<Rightarrow> map_sum (\<lambda>e. ''Invalid SMTP TLS relay host '' @ [CHR 0x27] @ host @
                        [CHR 0x27] @ '': '' @ e) id (valid_relay host)
            | StartTls \<Rightarrow> map_sum (\<lambda>e. ''Invalid SMTP STARTTLS relay host '' @ [CHR 0x27] @ host @
                        [CHR 0x27] @ '': '' @ e) id (valid_relay host)
            | NoTls \<Rightarrow> Inr ())
      in case checked of
           Inl e \<Rightarrow> Inl e
         | Inr _ \<Rightarrow> Inr
             \<lparr>sp_transport =
                \<lparr>st_mode = mode, st_host = host, st_port = port,
                 st_credentials = (case (username, password) of
                     (Some u, Some p) \<Rightarrow> Some (u, p) | _ \<Rightarrow> None)\<rparr>,
              sp_from_email = from_email\<rparr>)"

section \<open>HTML\<close>

definition looks_like_html :: "string \<Rightarrow> bool" where
  "looks_like_html content =
     (let trimmed = trim content
      in starts_with trimmed ''<!DOCTYPE'' \<or> starts_with trimmed ''<html'')"

definition decode_entities :: "string \<Rightarrow> string" where
  "decode_entities text =
     replace_all ''&amp;'' ''&''
    (replace_all ''&nbsp;'' '' ''
    (replace_all ''&#x2f;'' ''/''
    (replace_all ''&#x2F;'' ''/''
    (replace_all ''&#x27;'' [CHR 0x27]
    (replace_all ''&#39;'' [CHR 0x27]
    (replace_all ''&quot;'' [CHR 0x22]
    (replace_all ''&gt;'' ''>''
    (replace_all ''&lt;'' ''<'' text))))))))"

text \<open>\<open>skip\<close> gives the rest of the text after a match at its start; every match is removed.\<close>

function remove_matches :: "('a list \<Rightarrow> 'a list option) \<Rightarrow> 'a list \<Rightarrow> 'a list" where
  "remove_matches skip [] = []"
| "remove_matches skip (c # s) =
     (case skip (c # s) of
        Some r \<Rightarrow> if length r < length (c # s) then remove_matches skip r
                  else c # remove_matches skip s
      | None \<Rightarrow> c # remove_matches skip s)"
  by pat_completeness auto
termination
  by (relation "measure (\<lambda>(f, s). length s)") auto

text \<open>\<^verbatim>\<open><name[^>]*>.*?</name>\<close>\<close>

definition skip_element :: "string \<Rightarrow> string \<Rightarrow> string option" where
  "skip_element name s =
     (case strip_prefix (''<'' @ name) s of
        None \<Rightarrow> None
      | Some t \<Rightarrow>
          (case split_once (CHR ''>'') t of
             None \<Rightarrow> None
           | Some (_, body) \<Rightarrow>
               (let closing = ''</'' @ name @ ''>'' in
                map_option (\<lambda>n. drop (n + length closing) body) (find_sub closing body))))"

definition skip_script_style :: "string \<Rightarrow> string option" where
  "skip_script_style s =
     (case skip_element ''script'' s of Some r \<Rightarrow> Some r | None \<Rightarrow> skip_element ''style'' s)"

text \<open>\<^verbatim>\<open><[^>]*>\<close>\<close>

fun skip_tag :: "string \<Rightarrow> string option" where
  "skip_tag [] = None"
| "skip_tag (c # s) = (if c = CHR ''<'' then map_option snd (split_once (CHR ''>'') s) else None)"

definition strip_tags :: "string \<Rightarrow> string" where
  "strip_tags html = remove_matches skip_tag (remove_matches skip_script_style html)"

definition html_to_text :: "string \<Rightarrow> string" where
  "html_to_text html =
     join [CHR 0x0A, CHR 0x0A]
       (filter (\<lambda>l. l \<noteq> []) (map trim (lines (decode_entities (strip_tags html)))))"

fun find_ci :: "string \<Rightarrow> string \<Rightarrow> nat option" where
  "find_ci p [] = (if p = [] then Some 0 else None)"
| "find_ci p (c # s) =
     (if starts_with (map ascii_lower (c # s)) p then Some 0 else map_option Suc (find_ci p s))"

text \<open>\<^verbatim>\<open>(?si)<title[^>]*>(.*?)</title>\<close>: the group of the leftmost match.\<close>

definition title_here :: "string \<Rightarrow> string option" where
  "title_here s =
     (if starts_with (map ascii_lower s) ''<title''
      then (case split_once (CHR ''>'') (drop 6 s) of
              None \<Rightarrow> None
            | Some (_, body) \<Rightarrow> map_option (\<lambda>n. take n body) (find_ci ''</title>'' body))
      else None)"

fun find_title :: "string \<Rightarrow> string option" where
  "find_title [] = None"
| "find_title (c # s) = (case title_here (c # s) of Some t \<Rightarrow> Some t | None \<Rightarrow> find_title s)"

definition extract_subject :: "string \<Rightarrow> string option" where
  "extract_subject html =
     (case find_title html of
        None \<Rightarrow> None
      | Some raw \<Rightarrow>
          (let subject = join '' '' (split_whitespace (decode_entities raw))
           in if subject = [] then None else Some subject))"

section \<open>Sending\<close>

record 's smtp =
  sm_provider :: smtp_provider
  sm_system :: "'s system"
  sm_parse_mailbox :: "string \<Rightarrow> string + string"
  sm_content_type :: "string \<Rightarrow> string + unit"
  sm_build :: "mail \<Rightarrow> string + unit"

definition default_subject :: string where
  "default_subject = ''GridTokenX Notification''"

text \<open>The message, or the first error of building it.\<close>

definition addresses :: "'s smtp \<Rightarrow> string \<Rightarrow> (string \<times> string) result" where
  "addresses sm recipient =
     (case sm_parse_mailbox sm (sp_from_email (sm_provider sm)) of
        Inl e \<Rightarrow> Inl (Internal (''Invalid from email: '' @ e))
      | Inr from_box \<Rightarrow>
          (case sm_parse_mailbox sm recipient of
             Inl e \<Rightarrow> Inl (Internal (''Invalid recipient email: '' @ e))
           | Inr to_box \<Rightarrow> Inr (from_box, to_box)))"

definition built :: "'s smtp \<Rightarrow> mail \<Rightarrow> mail result" where
  "built sm m =
     (case sm_build sm m of
        Inl e \<Rightarrow> Inl (Internal (''Failed to build email: '' @ e)) | Inr _ \<Rightarrow> Inr m)"

definition build_mail :: "'s smtp \<Rightarrow> string \<Rightarrow> string \<Rightarrow> mail result" where
  "build_mail sm recipient content =
     (if looks_like_html content
      then (let subject = (case extract_subject content of Some s \<Rightarrow> s | None \<Rightarrow> default_subject) in
        case sm_content_type sm ''text/plain; charset=utf-8'' of
          Inl e \<Rightarrow> Inl (Internal (''Invalid plain content type: '' @ e))
        | Inr _ \<Rightarrow>
            (case sm_content_type sm ''text/html; charset=utf-8'' of
               Inl e \<Rightarrow> Inl (Internal (''Invalid HTML content type: '' @ e))
             | Inr _ \<Rightarrow>
                 (case addresses sm recipient of
                    Inl e \<Rightarrow> Inl e
                  | Inr (from_box, to_box) \<Rightarrow> built sm
                      \<lparr>m_from = from_box, m_to = to_box, m_subject = subject,
                       m_plain = html_to_text content, m_html = Some content\<rparr>)))
      else
        (case addresses sm recipient of
           Inl e \<Rightarrow> Inl e
         | Inr (from_box, to_box) \<Rightarrow> built sm
             \<lparr>m_from = from_box, m_to = to_box, m_subject = default_subject,
              m_plain = content, m_html = None\<rparr>))"

definition smtp_send :: "'s smtp \<Rightarrow> string \<Rightarrow> string \<Rightarrow> ('s, string) io" where
  "smtp_send sm recipient content =
     (case build_mail sm recipient content of
        Inl e \<Rightarrow> failE e
      | Inr m \<Rightarrow>
          bindE (mapErr (\<lambda>e. Internal (''SMTP error: '' @ e)) (sys_smtp (sm_system sm) m))
            (\<lambda>line. retE (case line of Some l \<Rightarrow> l | None \<Rightarrow> ''unknown-smtp-id'')))"

definition smtp_mailer :: "'s smtp \<Rightarrow> 's provider" where
  "smtp_mailer sm = \<lparr>prov_send = smtp_send sm, prov_provider_id = ''smtp''\<rparr>"

section \<open>Facts\<close>

lemma set_join: "set (join sep ws) \<subseteq> set sep \<union> \<Union> (set ` set ws)"
  by (induction sep ws rule: join.induct) auto

text \<open>A subject is non-empty and on one line.\<close>

lemma extract_subject_clean:
  assumes "extract_subject html = Some s"
  shows "s \<noteq> []" and "set s \<inter> {CHR 0x0A, CHR 0x0D, CHR 0x09, CHR 0x0B, CHR 0x0C} = {}"
proof -
  obtain raw where s: "s = join '' '' (split_whitespace (decode_entities raw))" "s \<noteq> []"
    using assms by (auto simp: extract_subject_def Let_def split: option.splits if_splits)
  then show "s \<noteq> []" by simp
  let ?ws = "split_whitespace (decode_entities raw)"
  have clean: "set w \<inter> set ascii_ws = {}" if "w \<in> set ?ws" for w
    using ws_words_clean [of "[]" w] that unfolding split_whitespace_def by simp
  have "c \<notin> {CHR 0x0A, CHR 0x0D, CHR 0x09, CHR 0x0B, CHR 0x0C}" if "c \<in> set s" for c
  proof -
    have "c = CHR '' '' \<or> (\<exists>w \<in> set ?ws. c \<in> set w)"
      using subsetD [OF set_join that [unfolded s(1)]] by (simp only: list.set insert_iff Un_iff UN_iff empty_iff) blast
    then show ?thesis
    proof
      assume "c = CHR '' ''"
      then show ?thesis by simp
    next
      assume "\<exists>w \<in> set ?ws. c \<in> set w"
      with clean have "c \<notin> set ascii_ws" by blast
      then show ?thesis by (simp add: ascii_ws_def)
    qed
  qed
  then show "set s \<inter> {CHR 0x0A, CHR 0x0D, CHR 0x09, CHR 0x0B, CHR 0x0C} = {}" by blast
qed

text \<open>Once tags are stripped, no opening bracket has a closing one after it.\<close>

lemma skip_tag_shorter: "skip_tag s = Some r \<Longrightarrow> length r < length s"
  by (cases s) (auto split: if_splits dest!: split_once_Some)

lemma set_remove_matches:
  assumes sub: "\<And>s r. skip s = Some r \<Longrightarrow> set r \<subseteq> set s"
  shows "set (remove_matches skip s) \<subseteq> set s"
proof (induction s rule: length_induct)
  case (1 s)
  then have IH: "set (remove_matches skip r) \<subseteq> set r" if "length r < length s" for r
    using that by blast
  show ?case
  proof (cases s)
    case (Cons c t)
    show ?thesis
    proof (cases "skip (c # t)")
      case None
      then show ?thesis using IH [of t] Cons by auto
    next
      case (Some r)
      then show ?thesis using IH [of t] IH [of r] sub [OF Some] Cons by auto
    qed
  qed simp
qed

lemma skip_tag_set: "skip_tag s = Some r \<Longrightarrow> set r \<subseteq> set s"
  by (cases s) (auto split: if_splits dest!: split_once_Some)

lemma strip_tags_no_tag:
  "remove_matches skip_tag s = a @ CHR ''<'' # b \<Longrightarrow> CHR ''>'' \<notin> set b"
proof (induction s arbitrary: a rule: length_induct)
  case (1 s)
  show ?case
  proof (cases s)
    case (Cons c t)
    show ?thesis
    proof (cases "skip_tag (c # t)")
      case (Some r)
      with 1 Cons skip_tag_shorter [OF Some] show ?thesis by auto
    next
      case None
      with 1(2) Cons have eq: "c # remove_matches skip_tag t = a @ CHR ''<'' # b" by simp
      show ?thesis
      proof (cases a)
        case Nil
        with eq have c: "c = CHR ''<''" and b: "b = remove_matches skip_tag t" by auto
        from None c have "CHR ''>'' \<notin> set t" by (auto simp: split_once_None)
        with b set_remove_matches [of skip_tag t] skip_tag_set show ?thesis by blast
      next
        case (Cons x a')
        with eq have "remove_matches skip_tag t = a' @ CHR ''<'' # b" by simp
        with 1(1) \<open>s = c # t\<close> show ?thesis by auto
      qed
    qed
  qed (use 1(2) in simp)
qed

lemma build_mail_plain:
  "\<not> looks_like_html content \<Longrightarrow> build_mail sm recipient content = Inr m \<Longrightarrow>
     m_subject m = default_subject \<and> m_plain m = content \<and> m_html m = None"
  by (auto simp: build_mail_def built_def split: sum.splits prod.splits)

lemma build_mail_html:
  "looks_like_html content \<Longrightarrow> build_mail sm recipient content = Inr m \<Longrightarrow>
     m_subject m = (case extract_subject content of Some s \<Rightarrow> s | None \<Rightarrow> default_subject) \<and>
     m_plain m = html_to_text content \<and> m_html m = Some content"
  by (auto simp: build_mail_def built_def Let_def split: sum.splits prod.splits)

lemma resolve_no_tls:
  "resolve_tls_mode configured port = NoTls \<longleftrightarrow>
     configured = Some ''none'' \<or> configured = Some ''insecure''"
  by (auto simp: resolve_tls_mode_def Let_def split: option.split)

lemma smtp_send_keeps:
  assumes "\<And>m. keeps I (sys_smtp (sm_system sm) m)"
  shows "keeps I (smtp_send sm recipient content)"
  unfolding smtp_send_def
  by (auto intro!: keep_intros assms split: sum.split simp del: failE_apply retE_apply)

end
