(* ===== verification/Fcm.thy ===== *)
theory Fcm
  imports System
begin

text \<open>
  \<^verbatim>\<open>noti-persistence/src/providers/fcm.rs\<close>: push delivery through FCM. The provider is a
  function of any state that holds its token cache (\<open>fcm_cache\<close>, \<open>fcm_set_cache\<close>), the device
  registry it was built with, and the outside world. Signing and form encoding are parameters.
  The lemmas say when a send succeeds, which tokens it revokes, and when the access token is
  minted anew.
\<close>

record service_account =
  sa_client_email :: string
  sa_private_key :: string
  sa_token_uri :: string
  sa_private_key_id :: "string option"

record claims =
  cl_iss :: string
  cl_scope :: string
  cl_aud :: string
  cl_iat :: int
  cl_exp :: int

record cached_token =
  ct_value :: string
  ct_refresh_at :: time

record push_payload =
  pp_title :: string
  pp_body :: string
  pp_data :: "json option"

record 's fcm =
  fcm_project_id :: string
  fcm_account :: service_account
  fcm_base_url :: string
  fcm_devices :: "'s device_repository"
  fcm_cache :: "'s \<Rightarrow> cached_token option"
  fcm_set_cache :: "cached_token \<Rightarrow> 's \<Rightarrow> 's"
  fcm_system :: "'s system"
  fcm_codecs :: codecs
  fcm_sign :: "string option \<Rightarrow> claims \<Rightarrow> string \<Rightarrow> string + string"
  fcm_form_encode :: "(string \<times> string) list \<Rightarrow> string"

definition default_title :: string where
  "default_title = ''GridTokenX''"

section \<open>The credentials\<close>

text \<open>Reading a file, checking an RSA key, building a client, and the text of a type error.\<close>

record credential_lib =
  cr_read_file :: "string \<Rightarrow> string + string"
  cr_rsa_pem :: "string \<Rightarrow> string + unit"
  cr_client :: "string + unit"
  cr_type_error :: "json \<Rightarrow> string"

definition de_service_account :: "json \<Rightarrow> service_account option" where
  "de_service_account j =
     (case struct_fields [[''client_email''], [''private_key''], [''token_uri''], [''private_key_id'']] j of
        Some [Some (JStr email), Some (JStr key), Some (JStr uri), key_id] \<Rightarrow>
          (let account = \<lparr>sa_client_email = email, sa_private_key = key, sa_token_uri = uri,
             sa_private_key_id = None\<rparr>
           in case key_id of
                None \<Rightarrow> Some account
              | Some JNull \<Rightarrow> Some account
              | Some (JStr i) \<Rightarrow> Some (account\<lparr>sa_private_key_id := Some i\<rparr>)
              | _ \<Rightarrow> None)
      | _ \<Rightarrow> None)"

definition from_credentials_file ::
  "credential_lib \<Rightarrow> codecs \<Rightarrow> string \<Rightarrow> string + service_account" where
  "from_credentials_file lib c path =
     (case cr_read_file lib path of
        Inl e \<Rightarrow> Inl (''failed to read FCM credentials '' @ [CHR 0x27] @ path @ [CHR 0x27] @ '': '' @ e)
      | Inr raw \<Rightarrow>
          (case (case c_json_parse c raw of
                   Inl e \<Rightarrow> Inl e
                 | Inr j \<Rightarrow> (case de_service_account j of
                     None \<Rightarrow> Inl (cr_type_error lib j) | Some account \<Rightarrow> Inr account)) of
             Inl e \<Rightarrow> Inl (''invalid FCM service-account JSON: '' @ e)
           | Inr account \<Rightarrow>
               (case cr_rsa_pem lib (sa_private_key account) of
                  Inl e \<Rightarrow> Inl (''FCM service-account private_key is not valid RSA PEM: '' @ e)
                | Inr _ \<Rightarrow>
                    (case cr_client lib of
                       Inl e \<Rightarrow> Inl (''failed to build FCM HTTP client: '' @ e)
                     | Inr _ \<Rightarrow> Inr account))))"

section \<open>The access token\<close>

text \<open>\<^verbatim>\<open>REQUEST_TIMEOUT_SECS\<close>\<close>

definition fcm_timeout_secs :: nat where
  "fcm_timeout_secs = 10"

definition fcm_scope :: string where
  "fcm_scope = ''https://www.googleapis.com/auth/firebase.messaging''"

definition token_grant_type :: string where
  "token_grant_type = ''urn:ietf:params:oauth:grant-type:jwt-bearer''"

definition token_refresh_skew_secs :: nat where
  "token_refresh_skew_secs = 60"

text \<open>\<^verbatim>\<open>TokenResponse\<close> has no defaults.\<close>

fun required_string :: "json option \<Rightarrow> string option" where
  "required_string (Some (JStr s)) = Some s"
| "required_string _ = None"

fun required_u64 :: "json option \<Rightarrow> nat option" where
  "required_u64 (Some (JNum (PosInt n))) = Some n"
| "required_u64 _ = None"

definition token_response :: "json \<Rightarrow> (string \<times> nat) option" where
  "token_response j =
     (case struct_fields [[''access_token''], [''expires_in'']] j of
        Some [a, e] \<Rightarrow>
          (case (required_string a, required_u64 e) of
             (Some t, Some n) \<Rightarrow> Some (t, n) | _ \<Rightarrow> None)
      | _ \<Rightarrow> None)"

definition parse_token_response :: "codecs \<Rightarrow> http_response \<Rightarrow> string + (string \<times> nat)" where
  "parse_token_response c resp =
     (case hr_body resp of
        Inl e \<Rightarrow> Inl e
      | Inr body \<Rightarrow>
          (case c_json_parse c body of
             Inl e \<Rightarrow> Inl e
           | Inr j \<Rightarrow> (case token_response j of
                         None \<Rightarrow> Inl ''error decoding response body'' | Some t \<Rightarrow> Inr t)))"

definition mint_claims :: "service_account \<Rightarrow> int \<Rightarrow> claims" where
  "mint_claims sa now_secs =
     \<lparr>cl_iss = sa_client_email sa, cl_scope = fcm_scope, cl_aud = sa_token_uri sa,
      cl_iat = now_secs, cl_exp = now_secs + 3600\<rparr>"

definition token_request :: "'s fcm \<Rightarrow> string \<Rightarrow> http_request" where
  "token_request f assertion =
     \<lparr>hq_url = sa_token_uri (fcm_account f),
      hq_headers = [(''content-type'', ''application/x-www-form-urlencoded'')],
      hq_body = fcm_form_encode f
        [(''grant_type'', token_grant_type), (''assertion'', assertion)],
      hq_pin = None, hq_follow_redirects = True, hq_timeout = fcm_timeout_secs\<rparr>"

definition mint_token :: "'s fcm \<Rightarrow> ('s, string \<times> nat) io" where
  "mint_token f =
     peek (sys_now (fcm_system f)) (\<lambda>t.
     case fcm_sign f (sa_private_key_id (fcm_account f))
            (mint_claims (fcm_account f) (t div 1000000)) (sa_private_key (fcm_account f)) of
       Inl e \<Rightarrow> failE (Provider (''FCM JWT signing failed: '' @ e))
     | Inr assertion \<Rightarrow>
         bindE (mapErr (\<lambda>e. Provider (''FCM token request failed: '' @ e))
           (sys_http (fcm_system f) (token_request f assertion))) (\<lambda>resp.
         if \<not> is_success resp
         then failE (Provider (''FCM token endpoint returned '' @
                sys_status_show (fcm_system f) (hr_status resp) @ '': '' @ text_or_default resp))
         else (case parse_token_response (fcm_codecs f) resp of
                 Inl e \<Rightarrow> failE (Provider (''FCM token response parse failed: '' @ e))
               | Inr t \<Rightarrow> retE t)))"

definition token_lifetime :: "nat \<Rightarrow> time" where
  "token_lifetime expires_in = int (max (expires_in - token_refresh_skew_secs) 1) * 1000000"

definition mint_and_cache :: "'s fcm \<Rightarrow> ('s, string) io" where
  "mint_and_cache f =
     bindE (mint_token f) (\<lambda>(token, expires_in).
     peek (sys_instant (fcm_system f)) (\<lambda>t s.
       (Inr token, fcm_set_cache f
          \<lparr>ct_value = token, ct_refresh_at = t + token_lifetime expires_in\<rparr> s)))"

definition access_token :: "'s fcm \<Rightarrow> ('s, string) io" where
  "access_token f s =
     (case fcm_cache f s of
        None \<Rightarrow> mint_and_cache f s
      | Some cached \<Rightarrow>
          peek (sys_instant (fcm_system f)) (\<lambda>t.
            if t < ct_refresh_at cached then retE (ct_value cached) else mint_and_cache f) s)"

definition preflight :: "'s fcm \<Rightarrow> ('s, unit) io" where
  "preflight f = bindE (access_token f) (\<lambda>_. retE ())"

section \<open>Messages\<close>

text \<open>\<^verbatim>\<open>PushPayload\<close>: a default title, a required body, optional data of any shape.\<close>

definition push_payload_of :: "json \<Rightarrow> push_payload option" where
  "push_payload_of j =
     (case struct_fields [[''title''], [''body''], [''data'']] j of
        Some [t, b, d] \<Rightarrow>
          (case (case t of None \<Rightarrow> Some default_title | Some _ \<Rightarrow> required_string t,
                 required_string b) of
             (Some title, Some body) \<Rightarrow>
               Some \<lparr>pp_title = title, pp_body = body,
                     pp_data = (case d of None \<Rightarrow> None | Some JNull \<Rightarrow> None
                                | Some v \<Rightarrow> Some (as_value v))\<rparr>
           | _ \<Rightarrow> None)
      | _ \<Rightarrow> None)"

definition parse_payload :: "codecs \<Rightarrow> string \<Rightarrow> push_payload" where
  "parse_payload c content =
     (case c_json_parse c content of
        Inl _ \<Rightarrow> \<lparr>pp_title = default_title, pp_body = content, pp_data = None\<rparr>
      | Inr j \<Rightarrow> (case push_payload_of j of
                    Some p \<Rightarrow> p
                  | None \<Rightarrow> \<lparr>pp_title = default_title, pp_body = content, pp_data = None\<rparr>))"

fun platform_block :: "device_platform \<Rightarrow> string \<times> json" where
  "platform_block Android = (''android'', JObj [(''priority'', JStr ''high'')])"
| "platform_block Ios =
     (''apns'', JObj [(''headers'', JObj [(''apns-priority'', JStr ''10'')])])"
| "platform_block Web =
     (''webpush'', JObj [(''headers'', JObj [(''Urgency'', JStr ''high'')])])"

definition build_message :: "device_token \<Rightarrow> push_payload \<Rightarrow> json" where
  "build_message device payload =
     (let base = [(''token'', JStr (d_token device)),
                  (''notification'', JObj [(''title'', JStr (pp_title payload)),
                                           (''body'', JStr (pp_body payload))])];
          with_data = (case pp_data payload of None \<Rightarrow> base | Some d \<Rightarrow> obj_insert ''data'' d base);
          (k, v) = platform_block (d_platform device)
      in JObj (obj_insert k v with_data))"

section \<open>Errors that mean a dead token\<close>

definition json_path :: "string list \<Rightarrow> json \<Rightarrow> json option" where
  "json_path ks j = fold (\<lambda>k acc. Option.bind acc (json_get k)) ks (Some j)"

definition is_invalid_token :: "codecs \<Rightarrow> nat \<Rightarrow> string \<Rightarrow> bool" where
  "is_invalid_token c http_status body \<longleftrightarrow>
     http_status = 404 \<or>
     (case c_json_parse c body of
        Inl _ \<Rightarrow> False
      | Inr raw \<Rightarrow>
          (let v = as_value raw;
               details = (case Option.bind (json_path [''error'', ''details''] v) as_array of
                            Some ds \<Rightarrow> ds | None \<Rightarrow> [])
           in (\<exists>d \<in> set details. case Option.bind (json_get ''errorCode'' d) as_str of
                  Some code \<Rightarrow> code = ''UNREGISTERED'' \<or> code = ''INVALID_ARGUMENT''
                | None \<Rightarrow> False) \<or>
              Option.bind (json_path [''error'', ''status''] v) as_str = Some ''UNREGISTERED''))"

section \<open>Sending\<close>

datatype send_error = InvalidToken string | Retryable string

definition message_request :: "'s fcm \<Rightarrow> string \<Rightarrow> device_token \<Rightarrow> push_payload \<Rightarrow> http_request" where
  "message_request f access device payload =
     \<lparr>hq_url = fcm_base_url f @ ''/v1/projects/'' @ fcm_project_id f @ ''/messages:send'',
      hq_headers = [(''authorization'', ''Bearer '' @ access), (''content-type'', ''application/json'')],
      hq_body = c_json_show (fcm_codecs f) (JObj [(''message'', build_message device payload)]),
      hq_pin = None, hq_follow_redirects = True, hq_timeout = fcm_timeout_secs\<rparr>"

definition send_to_token ::
  "'s fcm \<Rightarrow> string \<Rightarrow> device_token \<Rightarrow> push_payload \<Rightarrow> ('s, send_error, unit) act" where
  "send_to_token f access device payload =
     bindE (mapErr (\<lambda>e. Retryable (''FCM send failed: '' @ e))
       (sys_http (fcm_system f) (message_request f access device payload))) (\<lambda>resp.
     if is_success resp then retE ()
     else let body = text_or_default resp in
       if is_invalid_token (fcm_codecs f) (hr_status resp) body then failE (InvalidToken body)
       else failE (Retryable (''FCM send returned '' @
              sys_status_show (fcm_system f) (hr_status resp) @ '': '' @ body)))"

record tally =
  ta_delivered :: nat
  ta_pruned :: nat
  ta_last_retryable :: "string option"

text \<open>One turn of the loop; a failed revocation is only logged.\<close>

definition send_one ::
  "'s fcm \<Rightarrow> string \<Rightarrow> push_payload \<Rightarrow> device_token \<Rightarrow> tally \<Rightarrow> ('s, noti_error, tally) act" where
  "send_one f access payload device acc =
     attempt (send_to_token f access device payload) (\<lambda>r.
     case r of
       Inr _ \<Rightarrow> retE (acc\<lparr>ta_delivered := ta_delivered acc + 1\<rparr>)
     | Inl (InvalidToken _) \<Rightarrow>
         attempt (dev_revoke (fcm_devices f) (d_token device))
           (\<lambda>_. retE (acc\<lparr>ta_pruned := ta_pruned acc + 1\<rparr>))
     | Inl (Retryable reason) \<Rightarrow> retE (acc\<lparr>ta_last_retryable := Some reason\<rparr>))"

fun send_all ::
  "'s fcm \<Rightarrow> string \<Rightarrow> push_payload \<Rightarrow> device_token list \<Rightarrow> tally \<Rightarrow> ('s, noti_error, tally) act" where
  "send_all f access payload [] acc = retE acc"
| "send_all f access payload (d # ds) acc =
     bindE (send_one f access payload d acc) (\<lambda>acc'. send_all f access payload ds acc')"

definition fcm_result :: "tally \<Rightarrow> string result" where
  "fcm_result acc =
     (if 0 < ta_delivered acc \<or> ta_last_retryable acc = None
      then Inr (''fcm-delivered-'' @ show_nat (ta_delivered acc) @ ''-pruned-'' @
                show_nat (ta_pruned acc))
      else Inl (Provider (case ta_last_retryable acc of
             Some reason \<Rightarrow> reason | None \<Rightarrow> ''FCM delivery failed for all tokens'')))"

definition no_tally :: tally where
  "no_tally = \<lparr>ta_delivered = 0, ta_pruned = 0, ta_last_retryable = None\<rparr>"

definition fcm_send :: "'s fcm \<Rightarrow> string \<Rightarrow> string \<Rightarrow> ('s, string) io" where
  "fcm_send f recipient content =
     (case c_uuid_parse (fcm_codecs f) recipient of
        Inl e \<Rightarrow> failE (Validation (''FCM recipient must be a user_id UUID: '' @ e))
      | Inr user \<Rightarrow>
          (let payload = parse_payload (fcm_codecs f) content in
           bindE (dev_active_for_user (fcm_devices f) user) (\<lambda>tokens.
           if tokens = [] then retE (''fcm-no-devices-'' @ c_uuid_show (fcm_codecs f) user)
           else bindE (access_token f) (\<lambda>access.
                bindE (send_all f access payload tokens no_tally) (\<lambda>acc s.
                (fcm_result acc, s))))))"

definition fcm_provider :: "'s fcm \<Rightarrow> 's provider" where
  "fcm_provider f = \<lparr>prov_send = fcm_send f, prov_provider_id = ''fcm''\<rparr>"

section \<open>What a fan-out did\<close>

text \<open>The tally of a loop is that of the outcomes it saw, one for each device.\<close>

fun count_outcome :: "send_error + unit \<Rightarrow> tally \<Rightarrow> tally" where
  "count_outcome (Inr _) acc = acc\<lparr>ta_delivered := ta_delivered acc + 1\<rparr>"
| "count_outcome (Inl (InvalidToken _)) acc = acc\<lparr>ta_pruned := ta_pruned acc + 1\<rparr>"
| "count_outcome (Inl (Retryable e)) acc = acc\<lparr>ta_last_retryable := Some e\<rparr>"

definition dead_tokens :: "(device_token \<times> (send_error + unit)) list \<Rightarrow> string set" where
  "dead_tokens ps = {d_token d | d e. (d, Inl (InvalidToken e)) \<in> set ps}"

definition tally_of :: "(device_token \<times> (send_error + unit)) list \<Rightarrow> tally \<Rightarrow> tally" where
  "tally_of ps acc = fold (\<lambda>(d, r). count_outcome r) ps acc"

text \<open>The outcomes a loop sees, device by device.\<close>

fun outcomes ::
  "'s fcm \<Rightarrow> string \<Rightarrow> push_payload \<Rightarrow> device_token list \<Rightarrow> 's \<Rightarrow>
   (device_token \<times> (send_error + unit)) list" where
  "outcomes f access payload [] s = []"
| "outcomes f access payload (d # ds) s =
     (case send_to_token f access d payload s of
        (x, s1) \<Rightarrow> (d, x) # outcomes f access payload ds
          (case x of Inl (InvalidToken _) \<Rightarrow> snd (dev_revoke (fcm_devices f) (d_token d) s1)
           | _ \<Rightarrow> s1))"

lemma outcomes_devices [simp]: "map fst (outcomes f access payload ds s) = ds"
  by (induction ds arbitrary: s) (auto split: prod.split)

lemma tally_of_simps [simp]:
  "tally_of [] acc = acc" "tally_of ((d, r) # ps) acc = tally_of ps (count_outcome r acc)"
  by (simp_all add: tally_of_def)

lemma dead_tokens_simps [simp]:
  "dead_tokens [] = {}"
  "dead_tokens ((d, Inl (InvalidToken e)) # ps) = insert (d_token d) (dead_tokens ps)"
  "dead_tokens ((d, Inl (Retryable e)) # ps) = dead_tokens ps"
  "dead_tokens ((d, Inr u) # ps) = dead_tokens ps"
  by (auto simp: dead_tokens_def)

lemma send_one_outcome:
  assumes "send_one f access payload d acc s = (r, s')"
  shows "\<exists>x s1. send_to_token f access d payload s = (x, s1) \<and> r = Inr (count_outcome x acc) \<and>
    s' = (case x of Inl (InvalidToken _) \<Rightarrow> snd (dev_revoke (fcm_devices f) (d_token d) s1)
          | _ \<Rightarrow> s1)"
  using assms unfolding send_one_def attempt_def
  by (cases "send_to_token f access d payload s")
     (auto split: sum.splits send_error.splits prod.splits)

lemma tally_delivered:
  "0 < ta_delivered (tally_of ps acc) \<longleftrightarrow> 0 < ta_delivered acc \<or> (\<exists>(d, r) \<in> set ps. \<not> isl r)"
proof (induction ps arbitrary: acc)
  case (Cons p ps)
  obtain d r where p: "p = (d, r)" by (cases p)
  show ?case unfolding p by (cases "(r, acc)" rule: count_outcome.cases) (auto simp: Cons)
qed simp

lemma tally_retryable:
  "ta_last_retryable (tally_of ps acc) = None \<longleftrightarrow>
     ta_last_retryable acc = None \<and> (\<forall>(d, r) \<in> set ps. \<forall>e. r \<noteq> Inl (Retryable e))"
proof (induction ps arbitrary: acc)
  case (Cons p ps)
  obtain d r where p: "p = (d, r)" by (cases p)
  show ?case unfolding p by (cases "(r, acc)" rule: count_outcome.cases) (auto simp: Cons)
qed simp

text \<open>The send fails only when nothing was delivered and some attempt may be repeated.\<close>

lemma fcm_result_error:
  "isl (fcm_result (tally_of ps no_tally)) \<longleftrightarrow>
     (\<forall>(d, r) \<in> set ps. isl r) \<and> (\<exists>(d, r) \<in> set ps. \<exists>e. r = Inl (Retryable e))"
  using tally_delivered [of ps no_tally] tally_retryable [of ps no_tally]
  by (auto simp: fcm_result_def no_tally_def)

section \<open>The fan-out against a registry\<close>

text \<open>What the provider needs of the registry: which tokens are active for whom, and \<open>up\<close>.\<close>

locale push_registry =
  fixes f :: "'s fcm" and owners :: "'s \<Rightarrow> string \<Rightarrow> uuid option" and up :: "'s \<Rightarrow> bool"
  assumes http_owners: "frame owners (sys_http (fcm_system f) req)"
    and http_up: "keeps up (sys_http (fcm_system f) req)"
    and revoke_owners: "dev_revoke (fcm_devices f) tok s = (r, s') \<Longrightarrow>
          owners s' = (owners s)(tok := None) \<or> owners s' = owners s \<and> isl r"
    and revoke_up: "up s \<Longrightarrow> \<exists>s'. dev_revoke (fcm_devices f) tok s = (Inr (), s') \<and> up s'"
begin

lemma send_to_token_owners: "frame owners (send_to_token f access d payload)"
  unfolding send_to_token_def Let_def
  by (auto intro!: keep_intros http_owners split: if_split)

lemma send_to_token_up: "keeps up (send_to_token f access d payload)"
  unfolding send_to_token_def Let_def
  by (auto intro!: keep_intros http_up split: if_split)

text \<open>While the registry answers, exactly the dead tokens are revoked.\<close>

lemma send_all_revokes:
  assumes "send_all f access payload ds acc s = (r, s')" and "up s"
  shows "r = Inr (tally_of (outcomes f access payload ds s) acc) \<and> up s' \<and>
    owners s' = (\<lambda>tok. if tok \<in> dead_tokens (outcomes f access payload ds s) then None
                     else owners s tok)"
  using assms
proof (induction ds arbitrary: acc s)
  case (Cons d ds)
  obtain r1 s2 where one: "send_one f access payload d acc s = (r1, s2)" by (metis surj_pair)
  obtain x s1 where x: "send_to_token f access d payload s = (x, s1)" "r1 = Inr (count_outcome x acc)"
    and s2: "s2 = (case x of Inl (InvalidToken _) \<Rightarrow> snd (dev_revoke (fcm_devices f) (d_token d) s1)
          | _ \<Rightarrow> s1)"
    using send_one_outcome [OF one] by blast
  have s1: "owners s1 = owners s" "up s1"
    using frame_run [OF send_to_token_owners x(1)] keeps_run [OF send_to_token_up x(1) Cons.prems(2)]
    by auto
  have s2': "up s2 \<and> owners s2 = (\<lambda>tok. if tok \<in> dead_tokens [(d, x)] then None else owners s tok)"
  proof -
    consider u where "x = Inr u" | e where "x = Inl (Retryable e)" | e where "x = Inl (InvalidToken e)"
      by (metis sum.exhaust send_error.exhaust)
    then show ?thesis
    proof cases
      case (3 e)
      obtain s3 where "dev_revoke (fcm_devices f) (d_token d) s1 = (Inr (), s3)" "up s3"
        using revoke_up [OF s1(2)] by blast
      with revoke_owners [OF this(1)] 3 s2 s1 show ?thesis by (auto simp: fun_eq_iff)
    qed (use s1 s2 in auto)
  qed
  have rest: "send_all f access payload ds (count_outcome x acc) s2 = (r, s')"
    using Cons.prems(1) one x(2) by (simp add: act_simps)
  let ?ps = "outcomes f access payload ds s2"
  have all: "outcomes f access payload (d # ds) s = (d, x) # ?ps" using x(1) s2 by simp
  have "dead_tokens ((d, x) # ?ps) = dead_tokens [(d, x)] \<union> dead_tokens ?ps"
    by (auto simp: dead_tokens_def)
  with Cons.IH [OF rest] s2' show ?case unfolding all by auto
qed simp

end

section \<open>The cached access token\<close>

lemma access_token_cached:
  assumes "fcm_cache f s = Some c" and "sys_instant (fcm_system f) s = (t, s1)"
    and "t < ct_refresh_at c"
  shows "access_token f s = (Inr (ct_value c), s1)"
  using assms by (simp add: access_token_def act_simps)

text \<open>A token that was handed out is the cached one.\<close>

lemma access_token_value:
  assumes "access_token f s = (Inr v, s')"
    and "\<And>c s. fcm_cache f (fcm_set_cache f c s) = Some c"
    and "frame (fcm_cache f) (sys_instant (fcm_system f))"
  shows "\<exists>c. fcm_cache f s' = Some c \<and> ct_value c = v"
proof -
  have mint: "\<exists>c. fcm_cache f t' = Some c \<and> ct_value c = v"
    if "mint_and_cache f t = (Inr v, t')" for t t'
    using that assms(2) unfolding mint_and_cache_def
    by (auto elim!: bindE_cases simp: peek_def split: prod.splits)
  show ?thesis
  proof (cases "fcm_cache f s")
    case None
    with assms(1) mint show ?thesis by (simp add: access_token_def)
  next
    case (Some c)
    obtain t s1 where t: "sys_instant (fcm_system f) s = (t, s1)" by (metis surj_pair)
    with Some frame_run [OF assms(3) t] assms(1) mint show ?thesis
      by (auto simp: access_token_def act_simps split: if_splits)
  qed
qed

text \<open>A minted token is used for at least a second, and not within a minute of its expiry.\<close>

lemma token_lifetime_bounds:
  "1000000 \<le> token_lifetime n"
  "61 \<le> n \<Longrightarrow> token_lifetime n = (int n - 60) * 1000000"
  by (auto simp: token_lifetime_def token_refresh_skew_secs_def)

lemma mint_and_cache_value:
  assumes "mint_and_cache f s = (Inr v, s')"
  shows "\<exists>n t s0 s1. sys_instant (fcm_system f) s0 = (t, s1) \<and>
    s' = fcm_set_cache f \<lparr>ct_value = v, ct_refresh_at = t + token_lifetime n\<rparr> s1"
  using assms unfolding mint_and_cache_def
  by (auto elim!: bindE_cases simp: peek_def split: prod.splits) blast

section \<open>What a send leaves alone\<close>

lemma access_token_keeps:
  assumes http: "\<And>req. keeps I (sys_http (fcm_system f) req)"
    and clocks: "keeps I (sys_now (fcm_system f))" "keeps I (sys_instant (fcm_system f))"
    and cache: "\<And>c s. I s \<Longrightarrow> I (fcm_set_cache f c s)"
  shows "keeps I (access_token f)"
proof (rule keepsI)
  fix s assume "I s"
  have mint: "keeps I (mint_token f)"
    unfolding mint_token_def
    by (auto intro!: keep_intros http clocks split: sum.split if_split simp del: failE_apply retE_apply)
  have mint_cache: "keeps I (mint_and_cache f)"
    unfolding mint_and_cache_def
    by (rule keeps_bindE [OF mint])
       (clarsimp split: prod.split, rule keeps_peek [OF clocks(2)], rule keepsI, simp add: cache)
  from \<open>I s\<close> show "I (snd (access_token f s))"
    unfolding access_token_def
    by (auto split: option.split intro!: keepsD [OF mint_cache] keepsD [OF keeps_peek [OF clocks(2)]]
        intro: keep_intros mint_cache split: if_split simp del: retE_apply)
qed

lemma preflight_keeps: "keeps I (access_token f) \<Longrightarrow> keeps I (preflight f)"
  unfolding preflight_def by (intro keep_intros)

lemma fcm_send_keeps:
  assumes http: "\<And>req. keeps I (sys_http (fcm_system f) req)"
    and clocks: "keeps I (sys_now (fcm_system f))" "keeps I (sys_instant (fcm_system f))"
    and devices: "\<And>u. keeps I (dev_active_for_user (fcm_devices f) u)"
      "\<And>tok. keeps I (dev_revoke (fcm_devices f) tok)"
    and cache: "\<And>c s. I s \<Longrightarrow> I (fcm_set_cache f c s)"
  shows "keeps I (fcm_send f recipient content)"
proof -
  note tok = access_token_keeps [OF http clocks cache]
  have one: "keeps I (send_one f a p d acc)" for a p d acc
    unfolding send_one_def send_to_token_def Let_def
    by (auto intro!: keep_intros http devices split: sum.split send_error.split if_split
        simp del: failE_apply retE_apply)
  have all: "keeps I (send_all f a p ds acc)" for a p ds acc
    by (induction ds arbitrary: acc) (auto intro!: keep_intros one simp del: retE_apply)
  show ?thesis
    unfolding fcm_send_def Let_def
    by (auto intro!: keep_intros devices tok all split: sum.split if_split
        simp del: failE_apply retE_apply simp: keeps_def [of I "\<lambda>s. (x, s)" for x])
qed

end
