(* ===== verification/Sockets.thy ===== *)
theory Sockets
  imports System "HOL-Library.AList"
begin

text \<open>
  \<^verbatim>\<open>noti-api/src/websocket.rs\<close> and \<^verbatim>\<open>noti-persistence/src/providers/websocket.rs\<close>: the registry of
  live WebSocket connections, the socket task that serves one, and the provider that sends
  through the registry. A connection is the bounded channel of its task: the messages queued
  in it and whether its receiver lives. \<open>sk_wire\<close> logs what was written to sockets. A send into
  a full channel waits for the receiver; \<open>sk_full\<close> decides whether it drains or goes away.
\<close>

record connection =
  cn_queue :: "string list"
  cn_open :: bool

datatype full_outcome = Drained | Dropped

type_synonym connections = "(uuid \<times> connection) list"

record sockets =
  sk_conns :: "uuid \<Rightarrow> connections option"
  sk_calls :: nat
  sk_gen :: "nat \<Rightarrow> uuid"
  sk_full :: "nat \<Rightarrow> full_outcome"
  sk_rank :: "nat \<Rightarrow> uuid \<Rightarrow> nat"
  sk_wire :: "(uuid \<times> string) list"

definition channel_capacity :: nat where
  "channel_capacity = 100"

section \<open>The connection manager\<close>

definition new_connection :: connection where
  "new_connection = \<lparr>cn_queue = [], cn_open = True\<rparr>"

definition add_connection :: "uuid \<Rightarrow> sockets \<Rightarrow> uuid \<times> sockets" where
  "add_connection user s =
     (let cid = sk_gen s (sk_calls s);
          cs = (case sk_conns s user of Some cs \<Rightarrow> cs | None \<Rightarrow> [])
      in (cid, s\<lparr>sk_calls := Suc (sk_calls s),
               sk_conns := (sk_conns s)(user \<mapsto> AList.update cid new_connection cs)\<rparr>))"

definition remove_connection :: "uuid \<Rightarrow> uuid \<Rightarrow> sockets \<Rightarrow> sockets" where
  "remove_connection user cid s =
     (case sk_conns s user of
        None \<Rightarrow> s
      | Some cs \<Rightarrow>
          (let cs' = AList.delete cid cs in
           s\<lparr>sk_conns := (if cs' = [] then (sk_conns s)(user := None)
                          else (sk_conns s)(user \<mapsto> cs'))\<rparr>))"

definition total_connections :: "uuid list \<Rightarrow> sockets \<Rightarrow> nat" where
  "total_connections users s =
     sum_list (map (\<lambda>u. case sk_conns s u of Some cs \<Rightarrow> length cs | None \<Rightarrow> 0) users)"

definition get_connection :: "sockets \<Rightarrow> uuid \<Rightarrow> uuid \<Rightarrow> connection option" where
  "get_connection s user cid = Option.bind (sk_conns s user) (\<lambda>cs. map_of cs cid)"

definition put_connection :: "uuid \<Rightarrow> uuid \<Rightarrow> connection \<Rightarrow> sockets \<Rightarrow> sockets" where
  "put_connection user cid c s =
     (case sk_conns s user of
        None \<Rightarrow> s
      | Some cs \<Rightarrow> s\<lparr>sk_conns := (sk_conns s)(user \<mapsto> AList.update cid c cs)\<rparr>)"

text \<open>\<^verbatim>\<open>tx.send(message).await\<close>: an error when the receiver is gone.\<close>

definition channel_send :: "uuid \<Rightarrow> uuid \<Rightarrow> string \<Rightarrow> sockets \<Rightarrow> bool \<times> sockets" where
  "channel_send user cid message s =
     (let s' = s\<lparr>sk_calls := Suc (sk_calls s)\<rparr> in
      case get_connection s user cid of
        None \<Rightarrow> (False, s')
      | Some c \<Rightarrow>
          if \<not> cn_open c then (False, s')
          else if length (cn_queue c) < channel_capacity
          then (True, put_connection user cid (c\<lparr>cn_queue := cn_queue c @ [message]\<rparr>) s')
          else (case sk_full s (sk_calls s) of
                  Drained \<Rightarrow> (True, put_connection user cid
                      (c\<lparr>cn_queue := tl (cn_queue c) @ [message]\<rparr>)
                      (s'\<lparr>sk_wire := sk_wire s @ [(cid, hd (cn_queue c))]\<rparr>))
                | Dropped \<Rightarrow> (False, put_connection user cid (c\<lparr>cn_open := False\<rparr>) s')))"

fun send_each :: "uuid \<Rightarrow> string \<Rightarrow> uuid list \<Rightarrow> bool \<Rightarrow> sockets \<Rightarrow> bool \<times> sockets" where
  "send_each user message [] delivered s = (delivered, s)"
| "send_each user message (cid # cids) delivered s =
     (case channel_send user cid message s of
        (True, s') \<Rightarrow> send_each user message cids True s'
      | (False, s') \<Rightarrow> send_each user message cids delivered (remove_connection user cid s'))"

definition send_to_user :: "uuid \<Rightarrow> string \<Rightarrow> (sockets, bool) io" where
  "send_to_user user message s =
     (case sk_conns s user of
        None \<Rightarrow> (Inr False, s)
      | Some cs \<Rightarrow>
          (let senders = sort_key (sk_rank s (sk_calls s)) (map fst cs);
               (delivered, s') = send_each user message senders False s
           in (Inr delivered, s')))"

definition connection_registry :: "sockets websocket_registry" where
  "connection_registry = \<lparr>ws_send_to_user = send_to_user\<rparr>"

section \<open>The upgrade and the socket task\<close>

datatype upgrade = Unauthorized | Upgraded uuid

definition ws_handler ::
  "codecs \<Rightarrow> (string \<Rightarrow> string \<Rightarrow> string + string) \<Rightarrow> string \<Rightarrow> string \<Rightarrow> upgrade" where
  "ws_handler c decode_sub jwt_secret token =
     (case decode_sub jwt_secret token of
        Inl _ \<Rightarrow> Unauthorized
      | Inr sub \<Rightarrow> (case c_uuid_parse c sub of Inl _ \<Rightarrow> Unauthorized | Inr i \<Rightarrow> Upgraded i))"

text \<open>
  What a socket task meets: a frame from the client, an error or end of the stream, or a queued
  message, whose write succeeds or not.
\<close>

datatype socket_event = ClientClose | ClientMessage | ClientError | ClientEnd | Forward bool

text \<open>The loop: \<open>False\<close> when the task has left it.\<close>

fun serve :: "uuid \<Rightarrow> uuid \<Rightarrow> socket_event list \<Rightarrow> sockets \<Rightarrow> bool \<times> sockets" where
  "serve user cid [] s = (True, s)"
| "serve user cid (ClientMessage # es) s = serve user cid es s"
| "serve user cid (Forward ok # es) s =
     (case get_connection s user cid of
        Some c \<Rightarrow>
          (case cn_queue c of
             [] \<Rightarrow> serve user cid es s
           | m # ms \<Rightarrow>
               (let s' = put_connection user cid (c\<lparr>cn_queue := ms\<rparr>) s in
                if ok then serve user cid es (s'\<lparr>sk_wire := sk_wire s' @ [(cid, m)]\<rparr>)
                else (False, s')))
      | None \<Rightarrow> serve user cid es s)"
| "serve user cid (e # es) s = (False, s)"

definition handle_socket :: "uuid \<Rightarrow> socket_event list \<Rightarrow> sockets \<Rightarrow> bool \<times> sockets" where
  "handle_socket user es s =
     (let (cid, s1) = add_connection user s; (running, s2) = serve user cid es s1
      in if running then (True, s2) else (False, remove_connection user cid s2))"

section \<open>The provider\<close>

definition websocket_send ::
  "'s websocket_registry \<Rightarrow> codecs \<Rightarrow> 's system \<Rightarrow> string \<Rightarrow> string \<Rightarrow> ('s, string) io" where
  "websocket_send reg c sys recipient content =
     (case c_uuid_parse c recipient of
        Inl e \<Rightarrow> failE (Internal (''Invalid UUID for WebSocket recipient: '' @ e))
      | Inr user \<Rightarrow>
          bindE (ws_send_to_user reg user content) (\<lambda>connected.
          if connected then peek (sys_new_uuid sys) (\<lambda>u. retE (''ws-'' @ c_uuid_show c u))
          else retE ''not-connected''))"

definition websocket_provider ::
  "'s websocket_registry \<Rightarrow> codecs \<Rightarrow> 's system \<Rightarrow> 's provider" where
  "websocket_provider reg c sys =
     \<lparr>prov_send = websocket_send reg c sys, prov_provider_id = ''websocket''\<rparr>"

section \<open>The registry invariant\<close>

text \<open>A user has an entry exactly while it has connections, each under its own id.\<close>

definition sockets_ok :: "sockets \<Rightarrow> bool" where
  "sockets_ok s \<longleftrightarrow> (\<forall>u cs. sk_conns s u = Some cs \<longrightarrow> cs \<noteq> [] \<and> distinct (map fst cs))"

lemma sockets_okI:
  "(\<And>u cs. sk_conns s u = Some cs \<Longrightarrow> cs \<noteq> [] \<and> distinct (map fst cs)) \<Longrightarrow> sockets_ok s"
  by (simp add: sockets_ok_def)

lemma update_not_Nil [simp]: "AList.update k v xs \<noteq> []"
  by (cases xs) auto

lemma sockets_ok_conns: "sk_conns s = sk_conns s' \<Longrightarrow> sockets_ok s = sockets_ok s'"
  by (simp add: sockets_ok_def)

lemma sockets_ok_put: "sockets_ok s \<Longrightarrow> sockets_ok (put_connection u cid c s)"
  by (auto simp: put_connection_def sockets_ok_def distinct_update split: option.split)

lemma sockets_ok_remove: "sockets_ok s \<Longrightarrow> sockets_ok (remove_connection u cid s)"
  by (auto simp: remove_connection_def sockets_ok_def Let_def distinct_delete split: option.split)

lemma sockets_ok_add: "sockets_ok s \<Longrightarrow> sockets_ok (snd (add_connection u s))"
  by (auto simp: add_connection_def sockets_ok_def Let_def distinct_update split: option.split)

lemma sockets_ok_channel: "sockets_ok s \<Longrightarrow> sockets_ok (snd (channel_send u cid m s))"
  by (auto simp: channel_send_def Let_def sockets_ok_conns [of "s\<lparr>sk_calls := x\<rparr>" s for x]
      sockets_ok_conns [of "s\<lparr>sk_calls := x, sk_wire := y\<rparr>" s for x y]
      intro!: sockets_ok_put split: option.split full_outcome.split)

lemma sockets_ok_send_each:
  "sockets_ok s \<Longrightarrow> sockets_ok (snd (send_each u m cids d s))"
proof (induction cids arbitrary: d s)
  case (Cons cid cids)
  obtain b s' where c: "channel_send u cid m s = (b, s')" by (metis surj_pair)
  with Cons.prems sockets_ok_channel [of s u cid m] have "sockets_ok s'" by simp
  with Cons.IH c show ?case by (cases b) (auto intro: sockets_ok_remove)
qed simp

lemma sockets_ok_send: "sockets_ok s \<Longrightarrow> sockets_ok (snd (send_to_user u m s))"
  by (auto simp: send_to_user_def Let_def split: option.split prod.split)
     (metis snd_conv sockets_ok_send_each)

lemma sockets_ok_serve: "sockets_ok s \<Longrightarrow> sockets_ok (snd (serve u cid es s))"
proof (induction u cid es s rule: serve.induct)
  case (3 u cid ok es s)
  then show ?case
    by (auto simp: Let_def sockets_ok_put sockets_ok_conns [of "t\<lparr>sk_wire := y\<rparr>" t for t y]
        split: option.split list.split)
qed auto

section \<open>Delivery\<close>

lemma get_put [simp]:
  "get_connection s u cid = Some c0 \<Longrightarrow>
   get_connection (put_connection u cid c s) u' cid' =
     (if u' = u \<and> cid' = cid then Some c else get_connection s u' cid')"
  by (auto simp: get_connection_def put_connection_def update_conv' bind_eq_Some_conv
      split: option.split)

lemma get_remove:
  "get_connection (remove_connection u cid s) u' cid' =
     (if u' = u \<and> cid' = cid then None else get_connection s u' cid')"
proof (cases "sk_conns s u")
  case (Some cs)
  have "map_of (AList.delete cid cs) cid' = (if cid' = cid then None else map_of cs cid')" for cid'
    by (simp add: delete_conv')
  moreover have "AList.delete cid cs = [] \<Longrightarrow> cid' \<noteq> cid \<Longrightarrow> map_of cs cid' = None" for cid'
    using calculation [of cid'] by simp
  ultimately show ?thesis
    using Some by (auto simp: get_connection_def remove_connection_def Let_def)
qed (auto simp: get_connection_def remove_connection_def)

text \<open>A task that leaves its loop takes its connection out of the registry.\<close>

lemma handle_socket_cleans_up:
  assumes "handle_socket user es s = (False, s')"
  shows "get_connection s' user (sk_gen s (sk_calls s)) = None"
  using assms
  by (auto simp: handle_socket_def add_connection_def Let_def get_remove split: prod.splits if_splits)

text \<open>A message reported delivered is the last in the queue of some connection of the user.\<close>

lemma channel_send_True:
  assumes "channel_send u cid m s = (True, s')"
  shows "\<exists>c. get_connection s' u cid = Some c \<and> cn_open c \<and> cn_queue c \<noteq> [] \<and> last (cn_queue c) = m"
proof -
  obtain c where c: "get_connection s u cid = Some c" "cn_open c"
    using assms by (auto simp: channel_send_def Let_def split: option.splits if_splits full_outcome.splits)
  then have "get_connection (s\<lparr>sk_calls := x\<rparr>) u cid = Some c"
    "get_connection (s\<lparr>sk_calls := x, sk_wire := y\<rparr>) u cid = Some c" for x y
    by (simp_all add: get_connection_def)
  with assms c show ?thesis
    by (auto simp: channel_send_def Let_def split: if_splits full_outcome.splits)
qed

text \<open>Sending on one connection leaves the others alone.\<close>

lemma get_connection_env [simp]:
  "get_connection (s\<lparr>sk_calls := x\<rparr>) u cid = get_connection s u cid"
  "get_connection (s\<lparr>sk_wire := y\<rparr>) u cid = get_connection s u cid"
  by (simp_all add: get_connection_def)

lemma channel_send_other:
  assumes "channel_send u cid m s = (b, s')" and "cid' \<noteq> cid"
  shows "get_connection s' u cid' = get_connection s u cid'"
proof (cases "get_connection s u cid")
  case None
  with assms show ?thesis by (auto simp: channel_send_def Let_def)
next
  case (Some c)
  then have "get_connection (s\<lparr>sk_calls := x\<rparr>) u cid = Some c"
    "get_connection (s\<lparr>sk_calls := x, sk_wire := y\<rparr>) u cid = Some c" for x y by simp_all
  with assms Some show ?thesis
    by (auto simp: channel_send_def Let_def split: if_splits full_outcome.splits)
qed

lemma send_each_other:
  "cid \<notin> set cids \<Longrightarrow> get_connection (snd (send_each u m cids d s)) u cid = get_connection s u cid"
proof (induction cids arbitrary: d s)
  case (Cons x cids)
  obtain b s' where c: "channel_send u x m s = (b, s')" by (metis surj_pair)
  with Cons channel_send_other [OF c, of cid] show ?case by (cases b) (auto simp: get_remove)
qed simp

definition holds_message :: "sockets \<Rightarrow> uuid \<Rightarrow> string \<Rightarrow> bool" where
  "holds_message s u m \<longleftrightarrow>
     (\<exists>cid c. get_connection s u cid = Some c \<and> cn_open c \<and> cn_queue c \<noteq> [] \<and> last (cn_queue c) = m)"

lemma send_each_True:
  "send_each u m cids False s = (True, s') \<Longrightarrow> distinct cids \<Longrightarrow> holds_message s' u m"
proof (induction cids arbitrary: s)
  case (Cons x cids)
  obtain b s1 where c: "channel_send u x m s = (b, s1)" by (metis surj_pair)
  show ?case
  proof (cases b)
    case True
    obtain cn where
      "get_connection s1 u x = Some cn" "cn_open cn" "cn_queue cn \<noteq> []" "last (cn_queue cn) = m"
      using channel_send_True [of u x m s s1] c True by auto
    moreover have "get_connection s' u x = get_connection s1 u x"
      using send_each_other [of x cids u m True s1] Cons.prems c True by simp
    ultimately show ?thesis unfolding holds_message_def by metis
  qed (use Cons c in auto)
qed simp

lemma send_to_user_True:
  assumes "sockets_ok s" and "send_to_user u m s = (Inr True, s')"
  shows "holds_message s' u m"
proof -
  obtain cs where cs: "sk_conns s u = Some cs"
    and run: "send_each u m (sort_key (sk_rank s (sk_calls s)) (map fst cs)) False s = (True, s')"
    using assms(2) by (auto simp: send_to_user_def Let_def split: option.splits prod.splits)
  from assms(1) cs have "distinct (map fst cs)" by (auto simp: sockets_ok_def)
  then show ?thesis using send_each_True [OF run] by simp
qed

lemma websocket_send_keeps:
  assumes "\<And>u m. keeps I (ws_send_to_user reg u m)" and "keeps I (sys_new_uuid sys)"
  shows "keeps I (websocket_send reg c sys recipient content)"
  unfolding websocket_send_def
  by (auto intro!: keep_intros assms split: sum.split if_split simp del: failE_apply retE_apply)

end
