(* ===== verification/World.thy ===== *)
theory World
  imports Health Repository Orchestrator Templates Devices Cache Rabbit Webhook Smtp Fcm Sockets
begin

text \<open>
  \<^verbatim>\<open>bin/noti-server/src/startup.rs\<close>: the service as it runs. The state of the whole is the
  product of the components' states, the orchestrator is wired to them as at startup, and every
  component's operation is lifted to the product. \<open>net\<close> is the outside world: a log of the
  requests that left the process, and the replies, clocks and random identifiers it got.
  The interpretations discharge the contracts of \<open>Orchestrator\<close> and \<open>Fcm\<close> on this state.
\<close>

section \<open>The outside world\<close>

record net =
  net_calls :: nat
  net_http_log :: "http_request list"
  net_mail_log :: "mail list"
  net_tasks :: "task list"
  net_clock :: "nat \<Rightarrow> time"
  net_monotonic :: "nat \<Rightarrow> time"
  net_random :: "nat \<Rightarrow> uuid"
  net_resolve :: "nat \<Rightarrow> string \<Rightarrow> nat \<Rightarrow> string + ip list"
  net_reply :: "nat \<Rightarrow> http_request \<Rightarrow> string + http_response"
  net_mail_reply :: "nat \<Rightarrow> mail \<Rightarrow> string + string option"

definition tick :: "net \<Rightarrow> net" where
  "tick n = n\<lparr>net_calls := Suc (net_calls n)\<rparr>"

definition net_now :: "net \<Rightarrow> time \<times> net" where
  "net_now n = (net_clock n (net_calls n), tick n)"

definition net_instant :: "net \<Rightarrow> time \<times> net" where
  "net_instant n = (net_monotonic n (net_calls n), tick n)"

definition net_new_uuid :: "net \<Rightarrow> uuid \<times> net" where
  "net_new_uuid n = (net_random n (net_calls n), tick n)"

definition net_lookup :: "string \<Rightarrow> nat \<Rightarrow> (net, string, ip list) act" where
  "net_lookup host port n = (net_resolve n (net_calls n) host port, tick n)"

definition net_http :: "http_request \<Rightarrow> (net, string, http_response) act" where
  "net_http req n =
     (net_reply n (net_calls n) req, (tick n)\<lparr>net_http_log := net_http_log n @ [req]\<rparr>)"

definition net_mail :: "mail \<Rightarrow> (net, string, string option) act" where
  "net_mail m n =
     (net_mail_reply n (net_calls n) m, (tick n)\<lparr>net_mail_log := net_mail_log n @ [m]\<rparr>)"

section \<open>The state of the service\<close>

record world =
  w_notifications :: notification_table
  w_devices :: device_table
  w_redis :: redis
  w_broker :: broker
  w_sockets :: sockets
  w_fcm_token :: "cached_token option"
  w_net :: net

definition lift :: "('w \<Rightarrow> 's) \<Rightarrow> ('s \<Rightarrow> 'w \<Rightarrow> 'w) \<Rightarrow> ('s \<Rightarrow> 'r \<times> 's) \<Rightarrow> 'w \<Rightarrow> 'r \<times> 'w" where
  "lift get put m w = (case m (get w) of (r, s') \<Rightarrow> (r, put s' w))"

abbreviation on_notifications :: "(notification_table \<Rightarrow> 'r \<times> notification_table) \<Rightarrow> world \<Rightarrow> 'r \<times> world"
  where "on_notifications \<equiv> lift w_notifications (\<lambda>t w. w\<lparr>w_notifications := t\<rparr>)"

abbreviation on_devices :: "(device_table \<Rightarrow> 'r \<times> device_table) \<Rightarrow> world \<Rightarrow> 'r \<times> world"
  where "on_devices \<equiv> lift w_devices (\<lambda>t w. w\<lparr>w_devices := t\<rparr>)"

abbreviation on_redis :: "(redis \<Rightarrow> 'r \<times> redis) \<Rightarrow> world \<Rightarrow> 'r \<times> world"
  where "on_redis \<equiv> lift w_redis (\<lambda>t w. w\<lparr>w_redis := t\<rparr>)"

abbreviation on_broker :: "(broker \<Rightarrow> 'r \<times> broker) \<Rightarrow> world \<Rightarrow> 'r \<times> world"
  where "on_broker \<equiv> lift w_broker (\<lambda>t w. w\<lparr>w_broker := t\<rparr>)"

abbreviation on_sockets :: "(sockets \<Rightarrow> 'r \<times> sockets) \<Rightarrow> world \<Rightarrow> 'r \<times> world"
  where "on_sockets \<equiv> lift w_sockets (\<lambda>t w. w\<lparr>w_sockets := t\<rparr>)"

abbreviation on_net :: "(net \<Rightarrow> 'r \<times> net) \<Rightarrow> world \<Rightarrow> 'r \<times> world"
  where "on_net \<equiv> lift w_net (\<lambda>t w. w\<lparr>w_net := t\<rparr>)"

section \<open>Third-party libraries and the deployment\<close>

record libs =
  l_codecs :: codecs
  l_tera :: "string \<Rightarrow> string + tera"
  l_context :: "json \<Rightarrow> string + tera_context"
  l_status_show :: "nat \<Rightarrow> string"
  l_parse_url :: "string \<Rightarrow> string + url"
  l_ip_show :: "ip \<Rightarrow> string"
  l_build_client :: "string \<Rightarrow> ip \<Rightarrow> string + unit"
  l_sign :: "string option \<Rightarrow> claims \<Rightarrow> string \<Rightarrow> string + string"
  l_form_encode :: "(string \<times> string) list \<Rightarrow> string"
  l_parse_mailbox :: "string \<Rightarrow> string + string"
  l_content_type :: "string \<Rightarrow> string + unit"
  l_build :: "mail \<Rightarrow> string + unit"
  l_valid_relay :: "string \<Rightarrow> string + unit"
  l_credentials :: credential_lib

text \<open>What startup built: the template engine, a mail transport or the mock, FCM or the mock.\<close>

record deployment =
  dp_engine :: engine
  dp_smtp :: "smtp_provider option"
  dp_fcm :: "(string \<times> service_account) option"

definition world_system :: "libs \<Rightarrow> world system" where
  "world_system L =
     \<lparr>sys_now = on_net net_now, sys_instant = on_net net_instant,
      sys_new_uuid = on_net net_new_uuid,
      sys_lookup_host = (\<lambda>h p. on_net (net_lookup h p)),
      sys_http = (\<lambda>r. on_net (net_http r)), sys_smtp = (\<lambda>m. on_net (net_mail m)),
      sys_status_show = l_status_show L\<rparr>"

definition world_repo :: "world notification_repository" where
  "world_repo =
     \<lparr>repo_create = (\<lambda>n. on_notifications (create n)),
      repo_get_by_id = (\<lambda>i. on_notifications (get_by_id i)),
      repo_get_by_idempotency_key = (\<lambda>k. on_notifications (get_by_idempotency_key k)),
      repo_update_status = (\<lambda>i st e p. on_notifications (update_status i st e p)),
      repo_increment_retry = (\<lambda>i at. on_notifications (increment_retry i at)),
      repo_get_pending_for_retry = (\<lambda>l. on_notifications (get_pending_for_retry l)),
      repo_reset_stuck_processing = (\<lambda>th. on_notifications (reset_stuck_processing th)),
      repo_list_by_user = (\<lambda>u l off. on_notifications (list_by_user u l off)),
      repo_mark_as_read = (\<lambda>i u. on_notifications (mark_as_read i u)),
      repo_mark_all_as_read = (\<lambda>u. on_notifications (mark_all_as_read u)),
      repo_get_unread_count = (\<lambda>u. on_notifications (get_unread_count u))\<rparr>"

definition world_devices :: "world device_repository" where
  "world_devices =
     \<lparr>dev_register = (\<lambda>u tok p. on_devices (register u tok p)),
      dev_active_for_user = (\<lambda>u. on_devices (active_for_user u)),
      dev_revoke = (\<lambda>tok. on_devices (revoke tok))\<rparr>"

definition world_cache_config :: "libs \<Rightarrow> cache_service_config" where
  "world_cache_config L = \<lparr>cs_prefix = ''noti'', cs_codecs = l_codecs L\<rparr>"

definition world_cache :: "libs \<Rightarrow> world cache_service" where
  "world_cache L =
     (let c = world_cache_config L in
      \<lparr>cache_set_value = (\<lambda>k v ttl. on_redis (set_value c k v ttl)),
       cache_get_value = (\<lambda>k. on_redis (get_value c k)),
       cache_increment_with_ttl = (\<lambda>k ttl. on_redis (increment_with_ttl c k ttl)),
       cache_delete = (\<lambda>k. on_redis (delete c k)),
       cache_lock = (\<lambda>k ttl. on_redis (lock c k ttl)),
       cache_unlock = (\<lambda>k. on_redis (unlock c k))\<rparr>)"

definition world_mq :: "libs \<Rightarrow> world message_queue" where
  "world_mq L =
     \<lparr>mq_publish_dispatch = (\<lambda>i. on_broker (publish_dispatch (l_codecs L) i)),
      mq_publish_retry = (\<lambda>i ms. on_broker (publish_retry (l_codecs L) i ms))\<rparr>"

definition world_registry :: "world websocket_registry" where
  "world_registry = \<lparr>ws_send_to_user = (\<lambda>u m. on_sockets (send_to_user u m))\<rparr>"

definition world_runtime :: "world runtime" where
  "world_runtime =
     \<lparr>rt_now = on_net net_now, rt_new_uuid = on_net net_new_uuid,
      rt_spawn = (\<lambda>task w. w\<lparr>w_net := (w_net w)\<lparr>net_tasks := net_tasks (w_net w) @ [task]\<rparr>\<rparr>)\<rparr>"

definition world_smtp :: "libs \<Rightarrow> smtp_provider \<Rightarrow> world smtp" where
  "world_smtp L p =
     \<lparr>sm_provider = p, sm_system = world_system L, sm_parse_mailbox = l_parse_mailbox L,
      sm_content_type = l_content_type L, sm_build = l_build L\<rparr>"

definition fcm_base :: string where
  "fcm_base = ''https://fcm.googleapis.com''"

definition world_fcm :: "libs \<Rightarrow> string \<Rightarrow> service_account \<Rightarrow> world fcm" where
  "world_fcm L project account =
     \<lparr>fcm_project_id = project, fcm_account = account, fcm_base_url = fcm_base,
      fcm_devices = world_devices, fcm_cache = w_fcm_token,
      fcm_set_cache = (\<lambda>c w. w\<lparr>w_fcm_token := Some c\<rparr>), fcm_system = world_system L,
      fcm_codecs = l_codecs L, fcm_sign = l_sign L, fcm_form_encode = l_form_encode L\<rparr>"

definition world_webhook :: "libs \<Rightarrow> world webhook" where
  "world_webhook L =
     \<lparr>wh_timeout = webhook_timeout_secs, wh_block_private = True, wh_system = world_system L, wh_codecs = l_codecs L,
      wh_parse_url = l_parse_url L, wh_ip_show = l_ip_show L,
      wh_build_client = l_build_client L\<rparr>"

definition email_of :: "libs \<Rightarrow> smtp_provider option \<Rightarrow> world provider" where
  "email_of L p =
     (case p of Some sp \<Rightarrow> smtp_mailer (world_smtp L sp)
      | None \<Rightarrow> mock_email_provider (world_system L) (l_codecs L))"

definition push_of :: "libs \<Rightarrow> (string \<times> service_account) option \<Rightarrow> world provider" where
  "push_of L p =
     (case p of Some (project, account) \<Rightarrow> fcm_provider (world_fcm L project account)
      | None \<Rightarrow> mock_push_provider (world_system L) (l_codecs L))"

definition world_orch :: "libs \<Rightarrow> deployment \<Rightarrow> world orchestrator" where
  "world_orch L dp =
     \<lparr>o_repo = world_repo, o_render = render (dp_engine dp),
      o_email = email_of L (dp_smtp dp),
      o_sms = mock_sms_provider (world_system L) (l_codecs L),
      o_push = push_of L (dp_fcm dp),
      o_webhook = webhook_provider (world_webhook L),
      o_websocket = websocket_provider world_registry (l_codecs L) (world_system L),
      o_cache = world_cache L, o_mq = Some (world_mq L), o_codecs = l_codecs L,
      o_runtime = world_runtime\<rparr>"

section \<open>Components do not touch each other\<close>

lemma lift_apply: "lift get put m w = (fst (m (get w)), put (snd (m (get w))) w)"
  by (simp add: lift_def split: prod.split)

lemma lift_run: "lift get put m w = (r, w') \<Longrightarrow> \<exists>s. m (get w) = (r, s) \<and> w' = put s w"
  by (auto simp: lift_def split: prod.splits)

lemma keeps_lift_other: "(\<And>s w. I (put s w) = I w) \<Longrightarrow> keeps I (lift get put m)"
  by (simp add: keeps_def lift_apply)

lemma keeps_lift_same:
  "(\<And>s w. get (put s w) = s) \<Longrightarrow> keeps J m \<Longrightarrow> keeps (\<lambda>w. J (get w)) (lift get put m)"
  by (simp add: keeps_def lift_apply)

lemma frame_lift_other: "(\<And>s w. g (put s w) = g w) \<Longrightarrow> frame g (lift get put m)"
  by (simp add: frame_def lift_apply)

lemma frame_lift_same:
  "(\<And>s w. get (put s w) = s) \<Longrightarrow> frame g m \<Longrightarrow> frame (\<lambda>w. g (get w)) (lift get put m)"
  by (simp add: frame_def lift_apply)

lemma world_system_simps [simp]:
  "sys_now (world_system L) = on_net net_now" "sys_instant (world_system L) = on_net net_instant"
  "sys_new_uuid (world_system L) = on_net net_new_uuid"
  "sys_lookup_host (world_system L) h p = on_net (net_lookup h p)"
  "sys_http (world_system L) r = on_net (net_http r)"
  "sys_smtp (world_system L) m = on_net (net_mail m)"
  by (simp_all add: world_system_def)

lemma world_fcm_simps [simp]:
  "fcm_system (world_fcm L p a) = world_system L" "fcm_devices (world_fcm L p a) = world_devices"
  "fcm_set_cache (world_fcm L p a) c w = w\<lparr>w_fcm_token := Some c\<rparr>"
  "fcm_cache (world_fcm L p a) w = w_fcm_token w" "fcm_codecs (world_fcm L p a) = l_codecs L"
  by (simp_all add: world_fcm_def)

lemma world_devices_simps [simp]:
  "dev_register world_devices u tok p = on_devices (register u tok p)"
  "dev_active_for_user world_devices u = on_devices (active_for_user u)"
  "dev_revoke world_devices tok = on_devices (revoke tok)"
  by (simp_all add: world_devices_def)

text \<open>
  What a provider may touch: the outside world, the device registry (listing and revoking), the
  socket registry and the cached token. An invariant those keep, every send keeps.
\<close>

locale send_invariant =
  fixes I :: "world \<Rightarrow> bool"
  assumes net_put: "I w \<Longrightarrow> I (w\<lparr>w_net := n\<rparr>)"
    and active_keeps: "keeps I (on_devices (active_for_user u))"
    and revoke_keeps: "keeps I (on_devices (revoke tok))"
    and socket_keeps: "keeps I (on_sockets (send_to_user u msg))"
    and token_put: "I w \<Longrightarrow> I (w\<lparr>w_fcm_token := Some c\<rparr>)"
begin

lemma net_keeps: "keeps I (on_net m)"
  by (simp add: keeps_def lift_apply net_put)

sublocale quiet_system "world_system L" I for L
  by unfold_locales (simp_all add: net_keeps)

lemma fcm_keeps: "keeps I (fcm_send (world_fcm L project account) to content)"
  by (rule fcm_send_keeps) (simp_all add: net_keeps active_keeps revoke_keeps token_put)

lemma webhook_keeps: "keeps I (webhook_send (world_webhook L) to content)"
  by (rule send_keeps) (simp_all add: world_webhook_def net_keeps)

lemma websocket_keeps: "keeps I (websocket_send world_registry c (world_system L) to content)"
  by (rule websocket_send_keeps) (simp_all add: world_registry_def socket_keeps net_keeps)

lemma smtp_keeps_send: "keeps I (smtp_send (world_smtp L sp) to content)"
  by (rule smtp_send_keeps) (simp add: world_smtp_def net_keeps)

lemma provider_keeps: "keeps I (prov_send (provider_for (world_orch L dp) c) to content)"
proof (cases c)
  case Email
  then show ?thesis
    by (cases "dp_smtp dp")
       (simp_all add: provider_for_def world_orch_def email_of_def mock_email_provider_def
         smtp_mailer_def mock_keeps smtp_keeps_send)
next
  case Push
  then show ?thesis
    by (cases "dp_fcm dp")
       (auto simp: provider_for_def world_orch_def push_of_def mock_push_provider_def
         fcm_provider_def mock_keeps fcm_keeps)
next
  case Sms
  then show ?thesis
    by (simp add: provider_for_def world_orch_def mock_sms_provider_def mock_keeps)
next
  case Webhook
  then show ?thesis
    by (simp add: provider_for_def world_orch_def webhook_provider_def webhook_keeps)
next
  case WebSocket
  then show ?thesis
    by (simp add: provider_for_def world_orch_def websocket_provider_def websocket_keeps)
qed

end

text \<open>In particular a provider touches neither the notifications table nor the broker.\<close>

interpretation quiet: send_invariant "\<lambda>w. J (w_notifications w) (w_broker w)" for J
  by unfold_locales (auto intro: keeps_lift_other)

section \<open>The contracts hold\<close>

abbreviation world_life :: "world \<Rightarrow> lives" where
  "world_life w \<equiv> life (w_notifications w)"

definition world_up :: "world \<Rightarrow> bool" where
  "world_up w \<longleftrightarrow> table_up (w_notifications w)"

lemma world_orch_simps [simp]:
  "o_repo (world_orch L dp) = world_repo" "o_mq (world_orch L dp) = Some (world_mq L)"
  "o_runtime (world_orch L dp) = world_runtime" "o_codecs (world_orch L dp) = l_codecs L"
  "o_render (world_orch L dp) = render (dp_engine dp)" "o_cache (world_orch L dp) = world_cache L"
  by (simp_all add: world_orch_def)

lemma world_repo_simps [simp]:
  "repo_create world_repo n = on_notifications (create n)"
  "repo_get_by_id world_repo i = on_notifications (get_by_id i)"
  "repo_update_status world_repo i st e p = on_notifications (update_status i st e p)"
  "repo_increment_retry world_repo i at = on_notifications (increment_retry i at)"
  "repo_get_pending_for_retry world_repo l = on_notifications (get_pending_for_retry l)"
  "repo_reset_stuck_processing world_repo th = on_notifications (reset_stuck_processing th)"
  "repo_list_by_user world_repo u l off = on_notifications (list_by_user u l off)"
  "repo_mark_as_read world_repo i u = on_notifications (mark_as_read i u)"
  "repo_mark_all_as_read world_repo u = on_notifications (mark_all_as_read u)"
  "repo_get_unread_count world_repo u = on_notifications (get_unread_count u)"
  by (simp_all add: world_repo_def)

lemma world_mq_simps [simp]:
  "mq_publish_dispatch (world_mq L) i = on_broker (publish_dispatch (l_codecs L) i)"
  "mq_publish_retry (world_mq L) i ms = on_broker (publish_retry (l_codecs L) i ms)"
  by (simp_all add: world_mq_def)

lemma updates_lift:
  "updates life i f m \<Longrightarrow> updates (\<lambda>w. life (w_notifications w)) i f (on_notifications m)"
  by (simp add: updates_def lift_apply)

lemma up_lift:
  "\<exists>t'. m (w_notifications w) = (Inr a, t') \<and> table_up t' \<Longrightarrow>
   \<exists>w'. on_notifications m w = (Inr a, w') \<and> world_up w'"
  by (auto simp: lift_apply world_up_def)

lemma spawn_world: "spawn (world_orch L dp) task w =
    (Inr (), w\<lparr>w_net := (w_net w)\<lparr>net_tasks := net_tasks (w_net w) @ [task]\<rparr>\<rparr>)"
  by (simp add: spawn_def world_runtime_def)

lemma now_world: "now (world_orch L dp) = on_net net_now"
  by (simp add: now_def world_runtime_def)

interpretation live: delivery_up "world_orch L dp" world_life world_up for L dp
proof unfold_locales
  show "frame world_life (repo_get_by_id (o_repo (world_orch L dp)) i)" for i
    by (simp add: frame_lift_same life_query)
  show "world_life s i = map_option delivery_of x \<and> (\<forall>n. x = Some n \<longrightarrow> n_id n = i)"
    if "repo_get_by_id (o_repo (world_orch L dp)) i s = (Inr x, s')" for i s x s'
    using that get_by_id_sound [of i "w_notifications s" x "snd (get_by_id i (w_notifications s))"]
    by (auto simp: lift_apply prod_eq_iff)
  show "updates world_life i (put_status st e p)
      (repo_update_status (o_repo (world_orch L dp)) i st e p)" for i st e p
    by (simp add: updates_lift update_status_life)
  show "updates world_life i bump_retry (repo_increment_retry (o_repo (world_orch L dp)) i at)" for i at
    by (simp add: updates_lift increment_retry_life)
  show "\<exists>x s'. repo_get_by_id (o_repo (world_orch L dp)) i s = (Inr x, s') \<and> world_up s'"
    if "world_up s" for i s
    using get_by_id_up [of "w_notifications s" i] that
    by (auto simp: world_up_def lift_apply)
  show "\<exists>s'. repo_update_status (o_repo (world_orch L dp)) i st e p s = (Inr (), s') \<and> world_up s'"
    if "world_up s" for i st e p s
    using update_status_up [of "w_notifications s" i st e p] that
    by (auto simp: world_up_def lift_apply)
  show "\<exists>s'. repo_increment_retry (o_repo (world_orch L dp)) i at s = (Inr (), s') \<and> world_up s'"
    if "world_up s" "world_life s i = Some d" "dl_retry d < 2 ^ 31 - 1" for i at s d
    using increment_retry_up [of "w_notifications s" i d at] that
    by (auto simp: world_up_def lift_apply)
  show "frame world_life (prov_send (provider_for (world_orch L dp) c) to content)" for c to content
    unfolding frame_iff_keeps using quiet.provider_keeps [of "\<lambda>t b. life t = v" for v] by blast
  show "keeps world_up (prov_send (provider_for (world_orch L dp) c) to content)" for c to content
    using quiet.provider_keeps [of "\<lambda>t b. table_up t"] unfolding world_up_def .
qed (auto simp: now_world frame_lift_other keeps_lift_other world_up_def frame_def keeps_def
    spawn_world lift_apply)

text \<open>The device registry is what FCM fans out to.\<close>

definition devices_up :: "world \<Rightarrow> bool" where
  "devices_up w \<longleftrightarrow> healthy (w_devices w)"

abbreviation owners :: "world \<Rightarrow> string \<Rightarrow> uuid option" where
  "owners w \<equiv> owner (t_rows (w_devices w))"

interpretation fan: push_registry "world_fcm L project account" owners devices_up
  for L project account
proof unfold_locales
  show "frame owners (sys_http (fcm_system (world_fcm L project account)) req)" for req
    by (simp add: frame_lift_other)
  show "keeps devices_up (sys_http (fcm_system (world_fcm L project account)) req)" for req
    by (simp add: keeps_lift_other devices_up_def)
  show "owners s' = (owners s)(tok := None) \<or> owners s' = owners s \<and> isl r"
    if "dev_revoke (fcm_devices (world_fcm L project account)) tok s = (r, s')" for tok s r s'
    using that revoke_outcome [of tok "w_devices s"] by (auto dest!: lift_run)
  show "\<exists>s'. dev_revoke (fcm_devices (world_fcm L project account)) tok s = (Inr (), s') \<and>
      devices_up s'" if "devices_up s" for tok s
    using that by (simp add: devices_up_def lift_apply revoke_def exec_healthy) (simp add: healthy_def)
qed

end
