(* ===== verification/Samples.thy ===== *)
theory Samples
  imports World
begin

text \<open>
  A small concrete deployment: libraries that print and parse decimal numbers, a world whose
  network answers every request, and tables with one row. The witnesses of the properties run
  on it.
\<close>

definition sample_codecs :: codecs where
  "sample_codecs =
     \<lparr>c_uuid_show = (\<lambda>u. show_nat (unat u)),
      c_uuid_parse = (\<lambda>s. case read_nat s of Some n \<Rightarrow> Inr (of_nat n) | None \<Rightarrow> Inl ''bad uuid''),
      c_time_show = show_int, c_json_show = (\<lambda>_. ''{}''), c_json_encode = (\<lambda>_. Inr ''{}''),
      c_json_parse = (\<lambda>_. Inl ''not json''), c_upper = id\<rparr>"

lemma sample_roundtrip: "uuid_roundtrip sample_codecs"
  by (simp add: uuid_roundtrip_def sample_codecs_def)

definition sample_url :: url where
  "sample_url = \<lparr>u_text = ''https://h/x'', u_scheme = ''https'', u_host = Some ''h'',
     u_port_or_default = Some 443\<rparr>"

definition sample_libs :: libs where
  "sample_libs =
     \<lparr>l_codecs = sample_codecs, l_tera = (\<lambda>_. Inr (\<lambda>_ _ _. Inr ''hello'')),
      l_context = (\<lambda>_. Inr []), l_status_show = show_nat,
      l_parse_url = (\<lambda>s. if s = ''https://h/x'' then Inr sample_url else Inl ''bad url''),
      l_ip_show = (\<lambda>_. ''ip''), l_build_client = (\<lambda>_ _. Inr ()), l_sign = (\<lambda>_ _ _. Inr ''jwt''), l_form_encode = (\<lambda>_. ''form''),
      l_parse_mailbox = Inr, l_content_type = (\<lambda>_. Inr ()), l_build = (\<lambda>_. Inr ()),
      l_valid_relay = (\<lambda>_. Inr ()),
      l_credentials = \<lparr>cr_read_file = (\<lambda>_. Inl ''none''), cr_rsa_pem = (\<lambda>_. Inr ()), cr_client = Inr (),
        cr_type_error = (\<lambda>_. ''missing field'')\<rparr>\<rparr>"

definition sample_row :: "uuid \<Rightarrow> channel_db \<Rightarrow> status_db \<Rightarrow> string \<Rightarrow> notification_row" where
  "sample_row i channel status recipient =
     \<lparr>r_id = i, r_user_id = Some 9, r_channel = channel, r_status = status,
      r_recipient = recipient, r_template_id = ''webhook/x'', r_variables = JObj [],
      r_provider_id = None, r_provider_ref = None, r_retry_count = 0, r_next_retry_at = 0,
      r_error_message = None, r_idempotency_key = Some ''k'', r_created_at = 0, r_updated_at = 0,
      r_sent_at = None, r_read_at = None\<rparr>"

definition sample_table :: "'r list \<Rightarrow> 'r table" where
  "sample_table rs =
     \<lparr>t_rows = rs, t_calls = 0, t_fault = (\<lambda>_. NoFault), t_now = (\<lambda>n. int n),
      t_svc_now = (\<lambda>n. int n), t_rank = (\<lambda>_ _. 0), t_gen_uuid = (\<lambda>n. of_nat (100 + n)),
      t_jsonb = id\<rparr>"

definition sample_net :: net where
  "sample_net =
     \<lparr>net_calls = 0, net_http_log = [], net_mail_log = [], net_tasks = [],
      net_clock = int, net_monotonic = int, net_random = (\<lambda>n. of_nat (1000 + n)),
      net_resolve = (\<lambda>_ _ _. Inr [V4 0x08080808]),
      net_reply = (\<lambda>_ _. Inr \<lparr>hr_status = 200, hr_body = Inr []\<rparr>),
      net_mail_reply = (\<lambda>_ _. Inr (Some ''250 ok''))\<rparr>"

definition sample_redis :: redis where
  "sample_redis = \<lparr>rd_map = (\<lambda>_. None), rd_calls = 0, rd_fault = (\<lambda>_. NoFault), rd_now = int\<rparr>"

definition sample_broker :: broker where
  "sample_broker = \<lparr>bk_log = [], bk_calls = 0, bk_fault = (\<lambda>_. None)\<rparr>"

definition sample_sockets :: sockets where
  "sample_sockets = \<lparr>sk_conns = (\<lambda>_. None), sk_calls = 0, sk_gen = (\<lambda>n. of_nat n),
     sk_full = (\<lambda>_. Drained), sk_rank = (\<lambda>_ _. 0), sk_wire = []\<rparr>"

definition sample_world :: "notification_row list \<Rightarrow> device_row list \<Rightarrow> world" where
  "sample_world rs ds =
     \<lparr>w_notifications = sample_table rs, w_devices = sample_table ds, w_redis = sample_redis,
      w_broker = sample_broker, w_sockets = sample_sockets, w_fcm_token = None,
      w_net = sample_net\<rparr>"

definition sample_deployment :: deployment where
  "sample_deployment =
     \<lparr>dp_engine = \<lparr>en_tera = (\<lambda>_ _. Inr ''hello''), en_context = (\<lambda>_. Inr [])\<rparr>, dp_smtp = None, dp_fcm = None\<rparr>"

definition sample_orch :: "world orchestrator" where
  "sample_orch = world_orch sample_libs sample_deployment"

lemma sample_up: "rows_ok rs \<Longrightarrow> world_up (sample_world rs ds)"
  by (simp add: world_up_def sample_world_def sample_table_def table_up_def healthy_def
      table_ok_def)

lemma sample_encodes: "encodes sample_orch"
  by (simp add: encodes_def sample_orch_def sample_libs_def sample_codecs_def)

lemma sample_rows_ok: "rows_ok [sample_row i c st to]"
  by (simp add: rows_ok_def keys_of_def List.map_filter_def sample_row_def)

lemma sample_life: "world_life (sample_world [sample_row i c st to] ds) i =
    Some \<lparr>dl_status = status_of_db st, dl_retry = 0, dl_error = None, dl_ref = None\<rparr>"
  by (simp add: life_def row_def sample_world_def sample_table_def sample_row_def row_life_def)

end
