(* ===== verification/Claims_Stores.thy ===== *)
theory Claims_Stores
  imports Samples
begin

text \<open>
  Properties of the device registry and of the Redis cache, each with a concrete instance.
\<close>

section \<open>The device registry\<close>

text \<open>
  C26. Registering a token refines an update of the map from tokens to owners: the token then
  belongs to the caller and is active, whoever held it before, revoked or not; no other token
  changes hands, and the returned device is the registered one.
\<close>

theorem register_refines:
  assumes "register user token platform t = (Inr d, t')"
  shows "owner (t_rows t') = (owner (t_rows t))(token := Some user) \<and>
    d_user_id d = user \<and> d_token d = token \<and> d_platform d = platform"
proof -
  obtain r where r: "register_sql user token platform t = (Inr r, t')" "device_into_domain r = Inr d"
    using assms by (auto simp: register_def elim!: bindE_cases)
  from register_sql_effect [OF r(1)] r(2) show ?thesis by (auto simp: device_into_domain_def)
qed

definition sample_device :: device_row where
  "sample_device = \<lparr>k_id = 1, k_user_id = 4, k_token = ''tok'', k_platform = ''ios'',
     k_created_at = 0, k_last_seen_at = 0, k_revoked_at = Some 5\<rparr>"

lemma register_refines_witness:
  "owner (t_rows (snd (register 9 ''tok'' Android (sample_table [sample_device])))) ''tok'' = Some 9"
proof -
  have "register 9 ''tok'' Android (sample_table [sample_device]) =
      (Inr \<lparr>d_id = 1, d_user_id = 9, d_token = ''tok'', d_platform = Android, d_created_at = 0,
             d_last_seen_at = 0\<rparr>, snd (register 9 ''tok'' Android (sample_table [sample_device])))"
    by (simp add: register_def register_sql_def exec_def sample_table_def sample_device_def
        bindE_def device_into_domain_def reactivate_def Let_def db_now_def platform_from_db_def)
  from register_refines [OF this] show ?thesis by simp
qed

text \<open>
  The listing of a user's devices is exactly the set of tokens the registry owns for the user,
  each once, and every listed device names that user.
\<close>

theorem listing_exact:
  assumes "devices_ok t" and "active_for_user user t = (Inr ds, t')"
  shows "set (map d_token ds) = {token. owner (t_rows t) token = Some user} \<and>
    distinct (map d_token ds) \<and> (\<forall>d \<in> set ds. d_user_id d = user)"
  using assms by (rule active_for_user_tokens)

definition active_device :: device_row where
  "active_device = sample_device\<lparr>k_revoked_at := None\<rparr>"

lemma listing_exact_witness:
  "\<exists>ds. fst (active_for_user 4 (sample_table [active_device])) = Inr ds \<and> length ds = 1 \<and>
     set (map d_token ds) = {token. owner [active_device] token = Some 4}"
proof -
  let ?d = "\<lparr>d_id = 1, d_user_id = 4, d_token = ''tok'', d_platform = Ios, d_created_at = 0,
      d_last_seen_at = 0\<rparr>"
  have run: "active_for_user 4 (sample_table [active_device]) =
      (Inr [?d], snd (active_for_user 4 (sample_table [active_device])))"
    by (simp add: active_for_user_def query_def exec_def sample_table_def active_device_def
        sample_device_def bindE_def device_into_domain_def Let_def scan_def active_row_def
        platform_from_db_def)
  have "devices_ok (sample_table [active_device])"
    by (simp add: devices_ok_def registry_ok_def sample_table_def active_device_def
        sample_device_def platform_from_db_def)
  from listing_exact [OF this run] have
    "set (map d_token [?d]) = {token. owner [active_device] token = Some 4}"
    by (simp add: sample_table_def)
  moreover have "fst (active_for_user 4 (sample_table [active_device])) = Inr [?d]"
    by (subst run) simp
  ultimately show ?thesis by (intro exI [of _ "[?d]"]) simp
qed

section \<open>The cache\<close>

text \<open>
  A counter counts: a bump returns 1 exactly when nothing had been counted in the current
  window, and the next bump of the key before the deadline it set returns the successor.
\<close>

theorem counter_counts:
  assumes "increment_with_ttl c key ttl s = (Inr n, s1)" and "0 < ttl"
    and "redis_now s1 < deadline s ttl" and "- (2 ^ 63) \<le> n"
    and "increment_with_ttl c key ttl' s1 = (Inr m, s2)"
  shows "(n = 1 \<longleftrightarrow> count s (full_key c key) = Some 0) \<and> m = n + 1"
proof -
  have n: "count s (full_key c key) = Some (n - 1)" using increment_counts [OF assms(1)] .
  have "n < 2 ^ 63"
    using command_Inr [OF assms(1) [unfolded increment_with_ttl_def]]
    by (auto simp: incr_expire_def redis_int_def split: option.splits if_splits prod.splits)
  moreover have "rd_map s1 (full_key c key) = Some (show_int n, Some (deadline s ttl))"
    using increment_stores [OF assms(1,2)] by simp
  ultimately have "count s1 (full_key c key) = Some n"
    using count_present assms(3,4) by blast
  moreover have "count s1 (full_key c key) = Some (m - 1)" using increment_counts [OF assms(5)] .
  ultimately show ?thesis using n by auto
qed

definition sample_cache :: cache_service_config where
  "sample_cache = \<lparr>cs_prefix = ''noti'', cs_codecs = sample_codecs\<rparr>"

lemma counter_counts_witness:
  "\<exists>s1 s2. increment_with_ttl sample_cache ''k'' 60 sample_redis = (Inr 1, s1) \<and>
     increment_with_ttl sample_cache ''k'' 60 s1 = (Inr 2, s2)"
proof -
  have one: "increment_with_ttl sample_cache ''k'' 60 sample_redis =
      (Inr 1, snd (increment_with_ttl sample_cache ''k'' 60 sample_redis))" (is "_ = (_, ?s1)")
    by (simp add: increment_with_ttl_def command_def incr_expire_def sample_redis_def live_def
        Let_def deadline_def redis_now_def)
  have now: "redis_now ?s1 < deadline sample_redis 60"
    by (simp add: increment_with_ttl_def command_def incr_expire_def sample_redis_def live_def
        Let_def deadline_def redis_now_def)
  have "\<exists>m s2. increment_with_ttl sample_cache ''k'' 60 ?s1 = (Inr m, s2)"
    by (simp add: increment_with_ttl_def command_def incr_expire_def sample_redis_def live_def
        Let_def deadline_def redis_now_def redis_int_show)
  then obtain m s2 where two: "increment_with_ttl sample_cache ''k'' 60 ?s1 = (Inr m, s2)" by blast
  from counter_counts [OF one _ now _ two] two one show ?thesis by auto
qed

end
