(* ===== verification/Claims_Channels.thy ===== *)
theory Claims_Channels
  imports Samples
begin

text \<open>
  Properties of the delivery channels on the state of the service: the webhook guard, mail, push
  fan-out, the queues behind retries, and the socket registry, each with a concrete instance.
\<close>

section \<open>Webhooks\<close>

text \<open>
  C16. Every request a webhook send makes is pinned to an address of the URL's own host that the
  guard does not block, goes out over http or https only, and does not follow redirects, whatever
  name resolution and the server answer.
\<close>

theorem webhook_contacts_admissible:
  "set (net_http_log (w_net (snd (webhook_send (world_webhook L) recipient content w)))) \<subseteq>
     set (net_http_log (w_net w)) \<union> {req. admissible (l_parse_url L) True recipient req}"
proof -
  let ?A = "{req. admissible (l_parse_url L) True recipient req}"
  let ?I = "\<lambda>v. set (net_http_log (w_net v)) \<subseteq> set (net_http_log (w_net w)) \<union> ?A"
  have "keeps ?I (webhook_send (world_webhook L) recipient content)"
    by (rule send_keeps)
       (auto simp: world_webhook_def keeps_def lift_apply net_lookup_def net_new_uuid_def
         net_http_def tick_def)
  from keepsD [OF this, of w] show ?thesis by simp
qed

text \<open>
  C17. The guard's tests on octets are membership in eleven address blocks: loopback, the three
  private ranges, link-local, broadcast, the three documentation ranges, \<^verbatim>\<open>0.0.0.0/8\<close> and the
  shared range \<^verbatim>\<open>100.64.0.0/10\<close>.
\<close>

theorem guard_v4_is_blocks:
  "is_blocked_v4 w \<longleftrightarrow> (\<exists>(a, n) \<in> set blocked_blocks. in_block a n w)"
  by (rule is_blocked_v4_blocks)

text \<open>
  For IPv6 the guard blocks exactly the loopback and unspecified addresses, the unique local
  block, the link-local block, and the mapped form of every blocked IPv4 address.
\<close>

theorem guard_v6_is_blocks:
  "is_blocked_ip (V6 w) \<longleftrightarrow>
     unat w = 1 \<or> unat w = 0 \<or> unat w div 2 ^ 121 = 126 \<or> unat w div 2 ^ 118 = 1018 \<or>
     (unat w div 2 ^ 32 = 65535 \<and> is_blocked_v4 (ucast w))"
  by (rule is_blocked_v6_blocks)

section \<open>Mail\<close>

definition sample_smtp :: "world smtp" where
  "sample_smtp = world_smtp sample_libs
     \<lparr>sp_transport = \<lparr>st_mode = NoTls, st_host = ''mail'', st_port = 1025, st_credentials = None\<rparr>,
      sp_from_email = ''a@b''\<rparr>"

text \<open>
  The subject of every mail is non-empty and free of line breaks and tabs, so a template's
  title cannot inject a header; a mail has an HTML part exactly when its content looks like HTML.
\<close>

theorem mail_subject_clean:
  assumes "build_mail sm recipient content = Inr m"
  shows "m_subject m \<noteq> [] \<and> set (m_subject m) \<inter> {CHR 0x0A, CHR 0x0D, CHR 0x09} = {} \<and>
    m_html m = (if looks_like_html content then Some content else None)"
proof (cases "looks_like_html content")
  case True
  note m = build_mail_html [OF True assms]
  show ?thesis
  proof (cases "extract_subject content")
    case None
    with m True show ?thesis by (simp add: default_subject_def)
  next
    case (Some s)
    with m True extract_subject_clean [OF Some] show ?thesis by auto
  qed
next
  case False
  with build_mail_plain [OF False assms] show ?thesis by (simp add: default_subject_def)
qed

lemma mail_subject_clean_witness:
  "\<exists>m. build_mail sample_smtp ''c@d'' ''hello'' = Inr m \<and> m_subject m \<noteq> [] \<and> m_html m = None"
proof -
  have plain: "\<not> looks_like_html ''hello''" by code_simp
  then have "\<exists>m. build_mail sample_smtp ''c@d'' ''hello'' = Inr m"
    by (simp add: build_mail_def built_def addresses_def sample_smtp_def world_smtp_def
        sample_libs_def)
  then obtain m where m: "build_mail sample_smtp ''c@d'' ''hello'' = Inr m" by blast
  from mail_subject_clean [OF m] plain m show ?thesis by simp
qed

section \<open>Push\<close>

text \<open>
  C27. A push fan-out tries every device once and its tally is that of the outcomes. While the
  registry answers, exactly the tokens that FCM reported dead lose their owner. The send is
  an error exactly when nothing was delivered and some attempt may be repeated.
\<close>

theorem push_fan_out:
  assumes "send_all (world_fcm L project account) access body ds no_tally w = (r, w')"
    and "devices_up w" and "ps = outcomes (world_fcm L project account) access body ds w"
  shows "r = Inr (tally_of ps no_tally) \<and> map fst ps = ds \<and>
    owners w' = (\<lambda>token. if token \<in> dead_tokens ps then None else owners w token) \<and>
    (isl (fcm_result (tally_of ps no_tally)) \<longleftrightarrow>
       (\<forall>(d, x) \<in> set ps. isl x) \<and> (\<exists>(d, x) \<in> set ps. \<exists>e. x = Inl (Retryable e)))"
  using fan.send_all_revokes [OF assms(1,2)] fcm_result_error [of ps] unfolding assms(3) by simp

definition sample_account :: service_account where
  "sample_account = \<lparr>sa_client_email = ''svc'', sa_private_key = ''key'', sa_token_uri = ''https://t'',
     sa_private_key_id = None\<rparr>"

abbreviation sample_fcm :: "world fcm" where
  "sample_fcm \<equiv> world_fcm sample_libs ''proj'' sample_account"

lemma push_fan_out_witness:
  "\<exists>r w'. send_all sample_fcm ''t'' \<lparr>pp_title = ''a'', pp_body = ''b'', pp_data = None\<rparr>
       [\<lparr>d_id = 1, d_user_id = 4, d_token = ''tok'', d_platform = Ios, d_created_at = 0,
         d_last_seen_at = 0\<rparr>] no_tally (sample_world [] []) = (Inr r, w') \<and> owners w' = (\<lambda>_. None)"
proof -
  let ?ds = "[\<lparr>d_id = 1, d_user_id = 4, d_token = ''tok'', d_platform = Ios, d_created_at = 0,
         d_last_seen_at = 0\<rparr>]"
  let ?p = "\<lparr>pp_title = ''a'', pp_body = ''b'', pp_data = None\<rparr>"
  obtain r w' where run: "send_all sample_fcm ''t'' ?p ?ds no_tally (sample_world [] []) = (r, w')"
    by (metis surj_pair)
  have up: "devices_up (sample_world [] [])"
    by (simp add: devices_up_def sample_world_def sample_table_def healthy_def)
  have none: "owners (sample_world [] []) = (\<lambda>_. None)"
    by (simp add: sample_world_def sample_table_def owner_def fun_eq_iff)
  from push_fan_out [OF run up refl] run none show ?thesis by auto
qed

text \<open>
  An access token that was handed out is reused: until its refresh time the next request
  for a token returns the same one and contacts nobody.
\<close>

theorem access_token_reused:
  assumes "access_token (world_fcm L project account) w = (Inr v, w1)"
  shows "\<exists>c. w_fcm_token w1 = Some c \<and>
    (net_monotonic (w_net w1) (net_calls (w_net w1)) < ct_refresh_at c \<longrightarrow>
       (\<exists>w2. access_token (world_fcm L project account) w1 = (Inr v, w2) \<and>
             net_http_log (w_net w2) = net_http_log (w_net w1)))"
proof -
  let ?f = "world_fcm L project account"
  have "frame (fcm_cache ?f) (sys_instant (fcm_system ?f))"
    by (simp add: frame_def lift_apply)
  from access_token_value [OF assms _ this] obtain c where
    c: "fcm_cache ?f w1 = Some c" "ct_value c = v" by auto
  let ?t = "net_monotonic (w_net w1) (net_calls (w_net w1))"
  let ?w2 = "w1\<lparr>w_net := tick (w_net w1)\<rparr>"
  have "sys_instant (fcm_system ?f) w1 = (?t, ?w2)" by (simp add: lift_apply net_instant_def)
  with c access_token_cached [OF c(1)] have "?t < ct_refresh_at c \<Longrightarrow> access_token ?f w1 = (Inr v, ?w2)"
    by auto
  moreover have "net_http_log (w_net ?w2) = net_http_log (w_net w1)" by (simp add: tick_def)
  ultimately show ?thesis using c(1) by auto
qed

lemma access_token_reused_witness:
  "\<exists>w1 w2. access_token sample_fcm (sample_world [] [] \<lparr>w_fcm_token :=
       Some \<lparr>ct_value = ''t'', ct_refresh_at = 9\<rparr>\<rparr>) = (Inr ''t'', w1) \<and>
     access_token sample_fcm w1 = (Inr ''t'', w2) \<and> net_http_log (w_net w2) = []"
proof -
  let ?w = "sample_world [] [] \<lparr>w_fcm_token := Some \<lparr>ct_value = ''t'', ct_refresh_at = 9\<rparr>\<rparr>"
  have run: "access_token sample_fcm ?w = (Inr ''t'', ?w\<lparr>w_net := tick sample_net\<rparr>)"
    by (simp add: access_token_def peek_def lift_apply net_instant_def sample_world_def sample_net_def)
  have "net_monotonic (tick sample_net) (net_calls (tick sample_net)) < 9"
    "net_http_log (tick sample_net) = []"
    by (simp_all add: sample_net_def tick_def)
  with access_token_reused [OF run] run show ?thesis by auto
qed

section \<open>The queues\<close>

lemma show_nat_small: "n < 10 \<Longrightarrow> show_nat n = [digit n]"
  by (simp add: show_nat.simps [of n])

lemma show_nat_large: "10 \<le> n \<Longrightarrow> show_nat n = show_nat (n div 10) @ [digit (n mod 10)]"
  by (subst show_nat.simps) simp

lemma publish_delayed:
  assumes "publish_task c task mins b = (Inr (), b')" and "0 < sint mins"
  shows "\<exists>payload. c_json_encode c (task_json c task) = Inr payload \<and>
    bk_log b' = bk_log b @ [BasicPublish [] ''noti.retry'' payload
      \<lparr>pr_expiration = Some (show_int (sint (mins * 60 * 1000))),
       pr_headers = [(''x-retry-count'', nt_retry_count task)], pr_delivery_mode = None\<rparr>]"
  using assms by (auto simp: publish_task_def mapErr_Inr dest!: amqp_Inr split: sum.splits)

text \<open>
  C18. A retry asks the broker for exactly its backoff: on the declared topology, retry k (1 to 5),
  once published, is one message to the retry queue that expires after 2^k minutes, written in
  milliseconds without overflow, and carries the task of its notification. The retry queue is
  declared with one dead-letter target, and the dispatch queue is the only queue bound to it. When
  a message behind another leaves the queue is up to the broker.
\<close>

theorem retry_asks_backoff:
  assumes "declare_topology b = (Inr (), b1)" and "bk_log b = []"
    and "publish_retry c i (retry_delay_ms k) b1 = (Inr (), b2)" and "0 < k" and "k \<le> max_retries"
  shows "\<exists>text. c_json_encode c (task_json c \<lparr>nt_notification_id = i, nt_retry_count = 1\<rparr>) = Inr text \<and>
     bk_log b2 = bk_log b1 @ [BasicPublish [] ''noti.retry'' text
       \<lparr>pr_expiration = Some (show_int (2 ^ nat k * 60000)), pr_headers = [(''x-retry-count'', 1)],
        pr_delivery_mode = None\<rparr>] \<and>
     {target. QueueDeclare ''noti.retry'' target \<in> set (bk_log b2)} =
       {Some (DeadLetter ''noti.exchange'' ''noti.dispatch'')} \<and>
     {q. QueueBind q ''noti.exchange'' ''noti.dispatch'' \<in> set (bk_log b2)} = {''noti.dispatch''}"
proof -
  have "2 ^ nat k \<le> (2 :: nat) ^ 5"
    using assms(5) by (intro power_increasing) (auto simp: max_retries_def)
  then have small: "(2 :: nat) ^ nat k \<le> 32" by simp
  then have "unat (retry_delay_ms k) = 2 ^ nat k * 60000"
    using retry_delay_exact [of k] assms(4) by simp
  from minutes_exact [OF this] small
  have mins: "sint (retry_delay_ms k div 60000) = 2 ^ nat k"
    "sint (retry_delay_ms k div 60000 * 60 * 1000) = 2 ^ nat k * 60000" by simp_all
  from publish_delayed [OF assms(3) [unfolded publish_retry_def]] obtain task where
    task: "c_json_encode c (task_json c \<lparr>nt_notification_id = i, nt_retry_count = 1\<rparr>) = Inr task"
    and b2: "bk_log b2 = bk_log b1 @ [BasicPublish [] ''noti.retry'' task
       \<lparr>pr_expiration = Some (show_int (2 ^ nat k * 60000)), pr_headers = [(''x-retry-count'', 1)],
        pr_delivery_mode = None\<rparr>]"
    unfolding mins by auto
  show ?thesis
    using task unfolding b2 topology_log [OF assms(1,2)] by (intro exI [of _ task]) auto
qed

lemma sample_topology:
  "\<exists>b1. declare_topology sample_broker = (Inr (), b1) \<and> (\<forall>n. bk_fault b1 n = None)"
  by (simp add: declare_topology_def bindE_def amqp_def sample_broker_def Let_def)

lemmas show_evaluate = show_int_def show_nat_small show_nat_large digit_def char_of_def bit_0

lemma publish_task_works:
  assumes "bk_fault b (bk_calls b) = None"
  shows "\<exists>b'. publish_task sample_codecs task mins b = (Inr (), b')"
proof -
  have ok: "\<exists>b'. amqp op b = (Inr (), b')" for op using assms by (simp add: amqp_def Let_def)
  obtain payload where "c_json_encode sample_codecs (task_json sample_codecs task) = Inr payload"
    by (simp add: sample_codecs_def)
  then have "\<exists>op. publish_task sample_codecs task mins = mapErr Internal (amqp op)"
    unfolding publish_task_def by (cases "0 < sint mins") (simp_all only: sum.case if_True if_False, blast+)
  then obtain op where "publish_task sample_codecs task mins = mapErr Internal (amqp op)" ..
  with ok [of op] show ?thesis by (auto simp: mapErr_Inr)
qed

lemma retry_asks_backoff_witness:
  "\<exists>b1 b2 text. declare_topology sample_broker = (Inr (), b1) \<and>
     publish_retry sample_codecs 7 (retry_delay_ms 3) b1 = (Inr (), b2) \<and>
     bk_log b2 = bk_log b1 @ [BasicPublish [] ''noti.retry'' text
       \<lparr>pr_expiration = Some ''480000'', pr_headers = [(''x-retry-count'', 1)], pr_delivery_mode = None\<rparr>]"
proof -
  obtain b1 b2 where b: "declare_topology sample_broker = (Inr (), b1)"
    "publish_retry sample_codecs 7 (retry_delay_ms 3) b1 = (Inr (), b2)"
    using sample_topology publish_task_works unfolding publish_retry_def by blast
  have shown: "show_int (2 ^ nat 3 * 60000) = ''480000''" by (simp add: show_evaluate)
  have "bk_log sample_broker = []" by (simp add: sample_broker_def)
  from retry_asks_backoff [OF b(1) this b(2)] b shown show ?thesis by (auto simp: max_retries_def)
qed

text \<open>
  Every retry goes to the one retry queue, whatever its delay: a fifth retry published first stands
  before a first retry that expires half an hour earlier.
\<close>

lemma retries_share_queue:
  assumes "publish_retry c i (retry_delay_ms 5) b = (Inr (), b1)"
    and "publish_retry c j (retry_delay_ms 1) b1 = (Inr (), b2)"
  shows "\<exists>x y. bk_log b2 = bk_log b @
    [BasicPublish [] ''noti.retry'' x \<lparr>pr_expiration = Some ''1920000'',
       pr_headers = [(''x-retry-count'', 1)], pr_delivery_mode = None\<rparr>,
     BasicPublish [] ''noti.retry'' y \<lparr>pr_expiration = Some ''120000'',
       pr_headers = [(''x-retry-count'', 1)], pr_delivery_mode = None\<rparr>]"
proof -
  have ms: "unat (retry_delay_ms 5) = 32 * 60000" "unat (retry_delay_ms 1) = 2 * 60000"
    using retry_delay_exact [of 5] retry_delay_exact [of 1] by simp_all
  have mins: "sint (retry_delay_ms 5 div 60000) = 32" "sint (retry_delay_ms 5 div 60000 * 60 * 1000) = 1920000"
    "sint (retry_delay_ms 1 div 60000) = 2" "sint (retry_delay_ms 1 div 60000 * 60 * 1000) = 120000"
    using minutes_exact [OF ms(1)] minutes_exact [OF ms(2)] by simp_all
  have shown: "show_int 1920000 = ''1920000''" "show_int 120000 = ''120000''"
    by (simp_all add: show_evaluate)
  show ?thesis
    using publish_delayed [OF assms(1) [unfolded publish_retry_def]]
      publish_delayed [OF assms(2) [unfolded publish_retry_def]]
    unfolding mins shown by auto
qed

text \<open>
  The dispatch queue is declared without a dead-letter target, so a task that is rejected from it
  has no queue to go to, the retry queue included.
\<close>

lemma dispatch_queue_has_no_dead_letter:
  assumes "declare_topology b = (Inr (), b')" and "bk_log b = []"
  shows "{target. QueueDeclare ''noti.dispatch'' target \<in> set (bk_log b')} = {None}"
  unfolding topology_log [OF assms] by auto

section \<open>Sockets\<close>

text \<open>
  A WebSocket message is reported delivered only if it is the newest message in the queue of
  an open connection of that user.
\<close>

theorem socket_delivery_is_queued:
  assumes "sockets_ok s" and "send_to_user user m s = (Inr True, s')"
  shows "holds_message s' user m"
  using assms by (rule send_to_user_True)

definition connected_sockets :: sockets where
  "connected_sockets = snd (add_connection 9 sample_sockets)"

lemma socket_delivery_is_queued_witness:
  "\<exists>s'. send_to_user 9 ''hi'' connected_sockets = (Inr True, s') \<and> holds_message s' 9 ''hi''"
proof -
  have ok: "sockets_ok connected_sockets"
    unfolding connected_sockets_def
    by (rule sockets_ok_add) (simp add: sockets_ok_def sample_sockets_def)
  have "fst (send_to_user 9 ''hi'' connected_sockets) = Inr True"
    by (simp add: send_to_user_def connected_sockets_def add_connection_def sample_sockets_def
        Let_def channel_send_def get_connection_def new_connection_def channel_capacity_def)
  then have run: "send_to_user 9 ''hi'' connected_sockets =
      (Inr True, snd (send_to_user 9 ''hi'' connected_sockets))" by (simp add: prod_eq_iff)
  from socket_delivery_is_queued [OF ok run] run show ?thesis by blast
qed

text \<open>
  C40. However a socket task ends, its connection leaves the registry, and the registry stays
  well formed: no user keeps an empty entry and no connection id occurs twice.
\<close>

theorem socket_task_cleans_up:
  assumes "handle_socket user es s = (False, s')" and "sockets_ok s"
  shows "get_connection s' user (sk_gen s (sk_calls s)) = None \<and> sockets_ok s'"
proof -
  have "sockets_ok (snd (serve user (fst (add_connection user s)) es (snd (add_connection user s))))"
    by (intro sockets_ok_serve sockets_ok_add assms(2))
  with assms(1) have "sockets_ok s'"
    by (auto simp: handle_socket_def sockets_ok_remove split: prod.splits if_splits)
  with handle_socket_cleans_up [OF assms(1)] show ?thesis by simp
qed

lemma socket_task_cleans_up_witness:
  "\<exists>s'. handle_socket 9 [ClientMessage, ClientClose] sample_sockets = (False, s') \<and> sockets_ok s' \<and>
     get_connection s' 9 0 = None"
proof -
  have run: "handle_socket 9 [ClientMessage, ClientClose] sample_sockets =
      (False, snd (handle_socket 9 [ClientMessage, ClientClose] sample_sockets))"
    by (simp add: handle_socket_def Let_def split: prod.split)
  have "sockets_ok sample_sockets" by (simp add: sockets_ok_def sample_sockets_def)
  from socket_task_cleans_up [OF run this] run show ?thesis by (auto simp: sample_sockets_def)
qed

end
