(* ===== verification/Payloads.thy ===== *)
theory Payloads
  imports Traits
begin

text \<open>
  The typed event payloads of \<^verbatim>\<open>bin/noti-server/src/consumers/events.rs\<close>: a record per struct and
  the decoding its derived \<^verbatim>\<open>Deserialize\<close> does. Every field has a default; a value of the wrong
  type, or a doubled alias, makes the payload malformed.
\<close>

record email_verified_payload =
  ev_user_id :: "string option"
  ev_email :: string
  ev_username :: string

definition de_email_verified :: "json \<Rightarrow> email_verified_payload option" where
  "de_email_verified j = do {
     vs \<leftarrow> struct_fields [[''user_id''], [''email''], [''username'']] j;
     a \<leftarrow> de_opt_string (vs ! 0); b \<leftarrow> de_string (vs ! 1); c \<leftarrow> de_string (vs ! 2);
     Some \<lparr>ev_user_id = a, ev_email = b, ev_username = c\<rparr> }"

record order_matched_payload =
  om_buyer_id :: "string option"
  om_seller_id :: "string option"
  om_amount :: json
  om_price :: json

definition de_order_matched :: "json \<Rightarrow> order_matched_payload option" where
  "de_order_matched j = do {
     vs \<leftarrow> struct_fields [[''buyer_id''], [''seller_id''], [''amount''], [''price'']] j;
     a \<leftarrow> de_opt_string (vs ! 0); b \<leftarrow> de_opt_string (vs ! 1);
     c \<leftarrow> de_value (vs ! 2); d \<leftarrow> de_value (vs ! 3);
     Some \<lparr>om_buyer_id = a, om_seller_id = b, om_amount = c, om_price = d\<rparr> }"

record settlement_processed_payload =
  sp_status :: string
  sp_tx_signature :: string
  sp_buyer_id :: "string option"
  sp_seller_id :: "string option"
  sp_amount :: json
  sp_price :: json

definition de_settlement_processed :: "json \<Rightarrow> settlement_processed_payload option" where
  "de_settlement_processed j = do {
     vs \<leftarrow> struct_fields [[''status''], [''tx_signature''], [''buyer_id''], [''seller_id''],
            [''amount''], [''price'']] j;
     a \<leftarrow> de_string (vs ! 0); b \<leftarrow> de_string (vs ! 1);
     c \<leftarrow> de_opt_string (vs ! 2); d \<leftarrow> de_opt_string (vs ! 3);
     e \<leftarrow> de_value (vs ! 4); f \<leftarrow> de_value (vs ! 5);
     Some \<lparr>sp_status = a, sp_tx_signature = b, sp_buyer_id = c, sp_seller_id = d,
           sp_amount = e, sp_price = f\<rparr> }"

text \<open>\<open>energy_unit\<close> also answers to \<open>unit\<close>.\<close>

record erc_issued_payload =
  ei_user_id :: "string option"
  ei_email :: "string option"
  ei_recipient_email :: "string option"
  ei_energy_amount :: json
  ei_energy_unit :: "string option"

definition de_erc_issued :: "json \<Rightarrow> erc_issued_payload option" where
  "de_erc_issued j = do {
     vs \<leftarrow> struct_fields [[''user_id''], [''email''], [''recipient_email''], [''energy_amount''],
            [''energy_unit'', ''unit'']] j;
     a \<leftarrow> de_opt_string (vs ! 0); b \<leftarrow> de_opt_string (vs ! 1); c \<leftarrow> de_opt_string (vs ! 2);
     d \<leftarrow> de_value (vs ! 3); e \<leftarrow> de_opt_string (vs ! 4);
     Some \<lparr>ei_user_id = a, ei_email = b, ei_recipient_email = c, ei_energy_amount = d,
           ei_energy_unit = e\<rparr> }"

definition default_energy_unit :: string where
  "default_energy_unit = ''MWh''"

record vpp_dispatched_payload =
  vd_cluster_id :: string
  vd_target_kw :: f64
  vd_members_commanded :: nat
  vd_admin_user_id :: "string option"
  vd_user_id :: "string option"

definition de_vpp_dispatched :: "json \<Rightarrow> vpp_dispatched_payload option" where
  "de_vpp_dispatched j = do {
     vs \<leftarrow> struct_fields [[''cluster_id''], [''target_kw''], [''members_commanded''],
            [''admin_user_id''], [''user_id'']] j;
     a \<leftarrow> de_string (vs ! 0); b \<leftarrow> de_f64 (vs ! 1); c \<leftarrow> de_u64 (vs ! 2);
     d \<leftarrow> de_opt_string (vs ! 3); e \<leftarrow> de_opt_string (vs ! 4);
     Some \<lparr>vd_cluster_id = a, vd_target_kw = b, vd_members_commanded = c,
           vd_admin_user_id = d, vd_user_id = e\<rparr> }"

record password_reset_payload =
  pr_user_id :: "string option"
  pr_email :: string
  pr_reset_url :: string
  pr_token :: string

definition de_password_reset :: "json \<Rightarrow> password_reset_payload option" where
  "de_password_reset j = do {
     vs \<leftarrow> struct_fields [[''user_id''], [''email''], [''reset_url''], [''token'']] j;
     a \<leftarrow> de_opt_string (vs ! 0); b \<leftarrow> de_string (vs ! 1); c \<leftarrow> de_string (vs ! 2);
     d \<leftarrow> de_string (vs ! 3);
     Some \<lparr>pr_user_id = a, pr_email = b, pr_reset_url = c, pr_token = d\<rparr> }"

record verification_email_payload =
  ve_user_id :: "string option"
  ve_email :: string
  ve_username :: string
  ve_verification_url :: string
  ve_token :: string

definition de_verification_email :: "json \<Rightarrow> verification_email_payload option" where
  "de_verification_email j = do {
     vs \<leftarrow> struct_fields [[''user_id''], [''email''], [''username''], [''verification_url''],
            [''token'']] j;
     a \<leftarrow> de_opt_string (vs ! 0); b \<leftarrow> de_string (vs ! 1); c \<leftarrow> de_string (vs ! 2);
     d \<leftarrow> de_string (vs ! 3); e \<leftarrow> de_string (vs ! 4);
     Some \<lparr>ve_user_id = a, ve_email = b, ve_username = c, ve_verification_url = d, ve_token = e\<rparr> }"

record price_alert_payload =
  pa_user_id :: "string option"
  pa_target_price :: json
  pa_triggered_price :: json
  pa_condition :: string

definition de_price_alert :: "json \<Rightarrow> price_alert_payload option" where
  "de_price_alert j = do {
     vs \<leftarrow> struct_fields [[''user_id''], [''target_price''], [''triggered_price''],
            [''condition'']] j;
     a \<leftarrow> de_opt_string (vs ! 0); b \<leftarrow> de_value (vs ! 1); c \<leftarrow> de_value (vs ! 2);
     d \<leftarrow> de_string (vs ! 3);
     Some \<lparr>pa_user_id = a, pa_target_price = b, pa_triggered_price = c, pa_condition = d\<rparr> }"

record user_onboarded_payload =
  uo_user_id :: "string option"
  uo_user_account_pda :: string
  uo_transaction_signature :: string

definition de_user_onboarded :: "json \<Rightarrow> user_onboarded_payload option" where
  "de_user_onboarded j = do {
     vs \<leftarrow> struct_fields [[''user_id''], [''user_account_pda''], [''transaction_signature'']] j;
     a \<leftarrow> de_opt_string (vs ! 0); b \<leftarrow> de_string (vs ! 1); c \<leftarrow> de_string (vs ! 2);
     Some \<lparr>uo_user_id = a, uo_user_account_pda = b, uo_transaction_signature = c\<rparr> }"

record meter_onboarded_payload =
  mo_user_id :: "string option"
  mo_meter_id :: string
  mo_meter_type :: string
  mo_transaction_signature :: string

definition de_meter_onboarded :: "json \<Rightarrow> meter_onboarded_payload option" where
  "de_meter_onboarded j = do {
     vs \<leftarrow> struct_fields [[''user_id''], [''meter_id''], [''meter_type''],
            [''transaction_signature'']] j;
     a \<leftarrow> de_opt_string (vs ! 0); b \<leftarrow> de_string (vs ! 1); c \<leftarrow> de_string (vs ! 2);
     d \<leftarrow> de_string (vs ! 3);
     Some \<lparr>mo_user_id = a, mo_meter_id = b, mo_meter_type = c, mo_transaction_signature = d\<rparr> }"

record order_update_payload =
  ou_id :: "string option"
  ou_user_id :: "string option"
  ou_filled_amount :: json
  ou_status :: string

definition de_order_update :: "json \<Rightarrow> order_update_payload option" where
  "de_order_update j = do {
     vs \<leftarrow> struct_fields [[''id''], [''user_id''], [''filled_amount''], [''status'']] j;
     a \<leftarrow> de_opt_string (vs ! 0); b \<leftarrow> de_opt_string (vs ! 1); c \<leftarrow> de_value (vs ! 2);
     d \<leftarrow> de_string (vs ! 3);
     Some \<lparr>ou_id = a, ou_user_id = b, ou_filled_amount = c, ou_status = d\<rparr> }"

record meter_registered_payload =
  mr_user_id :: "string option"
  mr_serial_number :: string
  mr_meter_id :: "string option"
  mr_zone_id :: "int option"
  mr_status :: string

definition de_meter_registered :: "json \<Rightarrow> meter_registered_payload option" where
  "de_meter_registered j = do {
     vs \<leftarrow> struct_fields [[''user_id''], [''serial_number''], [''meter_id''], [''zone_id''],
            [''status'']] j;
     a \<leftarrow> de_opt_string (vs ! 0); b \<leftarrow> de_string (vs ! 1); c \<leftarrow> de_opt_string (vs ! 2);
     d \<leftarrow> de_opt_i32 (vs ! 3); e \<leftarrow> de_string (vs ! 4);
     Some \<lparr>mr_user_id = a, mr_serial_number = b, mr_meter_id = c, mr_zone_id = d, mr_status = e\<rparr> }"

record order_created_payload =
  oc_id :: "string option"
  oc_user_id :: "string option"
  oc_order_type :: string
  oc_side :: string
  oc_energy_amount :: json
  oc_price_per_kwh :: json
  oc_status :: string

definition de_order_created :: "json \<Rightarrow> order_created_payload option" where
  "de_order_created j = do {
     vs \<leftarrow> struct_fields [[''id''], [''user_id''], [''order_type''], [''side''],
            [''energy_amount''], [''price_per_kwh''], [''status'']] j;
     a \<leftarrow> de_opt_string (vs ! 0); b \<leftarrow> de_opt_string (vs ! 1); c \<leftarrow> de_string (vs ! 2);
     d \<leftarrow> de_string (vs ! 3); e \<leftarrow> de_value (vs ! 4); f \<leftarrow> de_value (vs ! 5);
     g \<leftarrow> de_string (vs ! 6);
     Some \<lparr>oc_id = a, oc_user_id = b, oc_order_type = c, oc_side = d, oc_energy_amount = e,
           oc_price_per_kwh = f, oc_status = g\<rparr> }"

record user_logged_in_payload =
  ul_user_id :: "string option"
  ul_username :: string
  ul_ip_address :: "string option"

definition de_user_logged_in :: "json \<Rightarrow> user_logged_in_payload option" where
  "de_user_logged_in j = do {
     vs \<leftarrow> struct_fields [[''user_id''], [''username''], [''ip_address'']] j;
     a \<leftarrow> de_opt_string (vs ! 0); b \<leftarrow> de_string (vs ! 1); c \<leftarrow> de_opt_string (vs ! 2);
     Some \<lparr>ul_user_id = a, ul_username = b, ul_ip_address = c\<rparr> }"

record account_locked_payload =
  al_identifier :: string
  al_lockout_secs :: nat

definition de_account_locked :: "json \<Rightarrow> account_locked_payload option" where
  "de_account_locked j = do {
     vs \<leftarrow> struct_fields [[''identifier''], [''lockout_secs'']] j;
     a \<leftarrow> de_string (vs ! 0); b \<leftarrow> de_u64 (vs ! 1);
     Some \<lparr>al_identifier = a, al_lockout_secs = b\<rparr> }"

text \<open>Both \<^verbatim>\<open>UserWalletUnlinked\<close> and \<^verbatim>\<open>UserWalletPrimaryChanged\<close>.\<close>

record wallet_changed_payload =
  wc_user_id :: "string option"
  wc_wallet_address :: string

definition de_wallet_changed :: "json \<Rightarrow> wallet_changed_payload option" where
  "de_wallet_changed j = do {
     vs \<leftarrow> struct_fields [[''user_id''], [''wallet_address'']] j;
     a \<leftarrow> de_opt_string (vs ! 0); b \<leftarrow> de_string (vs ! 1);
     Some \<lparr>wc_user_id = a, wc_wallet_address = b\<rparr> }"

record wallet_link_requested_payload =
  wr_user_id :: "string option"
  wr_email :: string
  wr_username :: string
  wr_wallet_address :: string
  wr_confirmation_url :: string
  wr_token :: string

definition de_wallet_link_requested :: "json \<Rightarrow> wallet_link_requested_payload option" where
  "de_wallet_link_requested j = do {
     vs \<leftarrow> struct_fields [[''user_id''], [''email''], [''username''], [''wallet_address''],
            [''confirmation_url''], [''token'']] j;
     a \<leftarrow> de_opt_string (vs ! 0); b \<leftarrow> de_string (vs ! 1); c \<leftarrow> de_string (vs ! 2);
     d \<leftarrow> de_string (vs ! 3); e \<leftarrow> de_string (vs ! 4); f \<leftarrow> de_string (vs ! 5);
     Some \<lparr>wr_user_id = a, wr_email = b, wr_username = c, wr_wallet_address = d,
           wr_confirmation_url = e, wr_token = f\<rparr> }"

record user_wallet_linked_payload =
  wl_user_id :: "string option"
  wl_wallet_address :: string
  wl_shard_id :: nat
  wl_transaction_signature :: string

definition de_user_wallet_linked :: "json \<Rightarrow> user_wallet_linked_payload option" where
  "de_user_wallet_linked j = do {
     vs \<leftarrow> struct_fields [[''user_id''], [''wallet_address''], [''shard_id''],
            [''transaction_signature'']] j;
     a \<leftarrow> de_opt_string (vs ! 0); b \<leftarrow> de_string (vs ! 1); c \<leftarrow> de_u64 (vs ! 2);
     d \<leftarrow> de_string (vs ! 3);
     Some \<lparr>wl_user_id = a, wl_wallet_address = b, wl_shard_id = c,
           wl_transaction_signature = d\<rparr> }"

end
