(* ===== verification/Url.thy ===== *)
theory Url
  imports Strings "HOL-Library.Word"
begin

text \<open>
  \<^verbatim>\<open>bin/noti-server/src/consumers/url.rs\<close>: the helpers that build and rewrite callback links.
  The lemmas: percent-encoding only leaves safe characters, loses nothing, and a rewritten link
  keeps its path and query under the configured base.
\<close>

definition build_callback_url :: "string option \<Rightarrow> string \<Rightarrow> string \<Rightarrow> string" where
  "build_callback_url frontend_url path query =
     (case frontend_url of
        None \<Rightarrow> []
      | Some base \<Rightarrow>
          (let base = trim_end_char (CHR 0x2F) base;
               path = (if starts_with path ''/'' then path else ''/'' @ path)
           in if query = [] then base @ path else base @ path @ ''?'' @ query))"

definition code :: "char \<Rightarrow> nat" where
  "code c = of_char c"

definition unreserved :: "char \<Rightarrow> bool" where
  "unreserved c \<longleftrightarrow>
     (65 \<le> code c \<and> code c \<le> 90) \<or> (97 \<le> code c \<and> code c \<le> 122) \<or>
     (48 \<le> code c \<and> code c \<le> 57) \<or> c \<in> {CHR ''-'', CHR ''.'', CHR ''_'', CHR 0x7E}"

definition hex_digit :: "nat \<Rightarrow> char" where
  "hex_digit n = (if n < 10 then char_of (48 + n) else char_of (55 + n))"

definition percent :: "char \<Rightarrow> string" where
  "percent c = [CHR ''%'', hex_digit (code c div 16), hex_digit (code c mod 16)]"

fun urlencode :: "string \<Rightarrow> string" where
  "urlencode [] = []"
| "urlencode (c # s) = (if unreserved c then [c] else percent c) @ urlencode s"

definition rewrite_url :: "string option \<Rightarrow> string \<Rightarrow> string" where
  "rewrite_url frontend_url upstream_url =
     (case frontend_url of
        Some base \<Rightarrow>
          if upstream_url = [] then upstream_url
          else
            (let base = trim_end_char (CHR 0x2F) base;
                 rest = (case find_sub ''://'' upstream_url of
                     None \<Rightarrow> upstream_url
                   | Some scheme_end \<Rightarrow>
                       (let after = drop (scheme_end + 3) upstream_url in
                        case find_sub ''/'' after of
                          None \<Rightarrow> upstream_url
                        | Some slash_pos \<Rightarrow> drop slash_pos after))
             in base @ rest)
      | None \<Rightarrow> upstream_url)"

section \<open>Percent-encoding\<close>

lemma code_lt [simp]: "code c < 256"
  by (simp add: code_def)

lemma char_of_code [simp]: "char_of (code c) = c"
  by (simp add: code_def)

lemma hex_digit_code:
  "n < 16 \<Longrightarrow> code (hex_digit n) = (if n < 10 then 48 + n else 55 + n)"
  by (simp add: hex_digit_def code_def)

lemma hex_digit_inj: "m < 16 \<Longrightarrow> n < 16 \<Longrightarrow> hex_digit m = hex_digit n \<longleftrightarrow> m = n"
proof
  assume "m < 16" "n < 16" "hex_digit m = hex_digit n"
  then have "(if m < 10 then 48 + m else 55 + m) = (if n < 10 then 48 + n else 55 + n)"
    using hex_digit_code [of m] hex_digit_code [of n] by metis
  then show "m = n" using \<open>m < 16\<close> \<open>n < 16\<close> by (auto split: if_splits)
qed simp

lemma percent_inj: "percent c = percent d \<longleftrightarrow> c = d"
proof
  assume "percent c = percent d"
  then have "hex_digit (code c div 16) = hex_digit (code d div 16)"
    "hex_digit (code c mod 16) = hex_digit (code d mod 16)" by (simp_all add: percent_def)
  moreover have "code c div 16 < 16" "code d div 16 < 16"
    by (simp_all add: div_less_iff_less_mult)
  ultimately have "code c div 16 = code d div 16" "code c mod 16 = code d mod 16"
    by (simp_all add: hex_digit_inj)
  then have "code c = code d" by (metis div_mult_mod_eq)
  then show "c = d" by (metis char_of_code)
qed simp

lemma percent_reserved: "\<not> unreserved (CHR ''%'')"
  by (simp add: unreserved_def code_def)

lemma hex_unreserved: "n < 16 \<Longrightarrow> unreserved (hex_digit n)"
  using hex_digit_code [of n] by (auto simp: unreserved_def split: if_splits)

lemma urlencode_safe: "c \<in> set (urlencode s) \<Longrightarrow> unreserved c \<or> c = CHR ''%''"
proof (induction s)
  case (Cons d s)
  have "code d div 16 < 16" by (simp add: div_less_iff_less_mult)
  with Cons hex_unreserved [of "code d div 16"] hex_unreserved [of "code d mod 16"] show ?case
    by (auto simp: percent_def split: if_splits)
qed simp

lemma urlencode_inj: "urlencode s = urlencode t \<Longrightarrow> s = t"
proof (induction s arbitrary: t)
  case Nil
  then show ?case by (cases t) (auto simp: percent_def split: if_splits)
next
  case (Cons c s)
  obtain d t' where t: "t = d # t'"
    using Cons.prems by (cases t) (auto simp: percent_def split: if_splits)
  have eq: "(if unreserved c then [c] else percent c) @ urlencode s =
      (if unreserved d then [d] else percent d) @ urlencode t'"
    using Cons.prems by (simp add: t)
  have "unreserved c = unreserved d"
    using eq percent_reserved by (auto simp: percent_def split: if_splits)
  then have "(if unreserved c then [c] else percent c) = (if unreserved d then [d] else percent d) \<and>
      urlencode s = urlencode t'"
    using eq by (cases "unreserved c") (auto simp: percent_def)
  then have "c = d" "s = t'"
    using \<open>unreserved c = unreserved d\<close> percent_inj Cons.IH by (auto split: if_splits)
  then show ?case by (simp add: t)
qed

section \<open>Rewriting\<close>

lemma starts_with_slash: "starts_with s ''/'' \<longleftrightarrow> s \<noteq> [] \<and> hd s = CHR 0x2F"
  by (cases s) auto

lemma find_sub_slash:
  "CHR 0x2F \<notin> set host \<Longrightarrow> find_sub ''/'' (host @ CHR 0x2F # rest) = Some (length host)"
  by (induction host) auto

lemma find_sub_scheme:
  "CHR '':'' \<notin> set scheme \<Longrightarrow> find_sub ''://'' (scheme @ ''://'' @ rest) = Some (length scheme)"
  by (induction scheme) auto

lemma rewrite_keeps_path:
  assumes "CHR '':'' \<notin> set scheme" and "CHR 0x2F \<notin> set host"
  shows "rewrite_url (Some base) (scheme @ ''://'' @ host @ CHR 0x2F # rest) =
    trim_end_char (CHR 0x2F) base @ CHR 0x2F # rest"
proof -
  have "drop (length scheme + 3) (scheme @ ''://'' @ host @ CHR 0x2F # rest) = host @ CHR 0x2F # rest"
    by simp
  with find_sub_scheme [OF assms(1)] find_sub_slash [OF assms(2)] show ?thesis
    by (simp add: rewrite_url_def Let_def)
qed

end
