(* ===== verification/Events.thy ===== *)
theory Events
  imports Payloads Url Orchestrator
begin

text \<open>
  \<^verbatim>\<open>bin/noti-server/src/consumers/events.rs\<close>: the event handlers. Every handler but one parses
  its payload, decides from it which notifications to queue, and queues them in order with the
  question-mark operator; such a handler is the list of its queue requests, empty where it
  returns early, and \<open>run_requests\<close> performs them. \<open>user_logged_in\<close> first bumps a counter.
  \<open>dispatch_event\<close> is the router.
\<close>

section \<open>Idempotency keys\<close>

record msg_ctx =
  mc_partition :: int
  mc_offset :: int
  mc_event_id :: "string option"

definition idem :: "msg_ctx \<Rightarrow> string \<Rightarrow> string" where
  "idem ctx label =
     (case mc_event_id ctx of
        Some i \<Rightarrow> label @ '':'' @ i
      | None \<Rightarrow> ''kafka:'' @ label @ '':'' @ show_int (mc_partition ctx) @ '':'' @
                show_int (mc_offset ctx))"

section \<open>Requests\<close>

record request =
  rq_user :: "uuid option"
  rq_channel :: notification_channel
  rq_recipient :: string
  rq_template :: string
  rq_variables :: json
  rq_key :: string

definition run_request :: "'s orchestrator \<Rightarrow> request \<Rightarrow> ('s, unit) io" where
  "run_request orch r =
     bindE (queue_notification orch (rq_user r) (rq_channel r) (rq_recipient r) (rq_template r)
       (rq_variables r) (Some (rq_key r))) (\<lambda>_. retE ())"

definition run_requests :: "'s orchestrator \<Rightarrow> request list \<Rightarrow> ('s, unit) io" where
  "run_requests orch rs = forE rs (run_request orch)"

definition parse_uuid :: "codecs \<Rightarrow> string option \<Rightarrow> uuid option" where
  "parse_uuid c s =
     Option.bind s (\<lambda>v. case c_uuid_parse c v of Inl _ \<Rightarrow> None | Inr u \<Rightarrow> Some u)"

definition plain :: "codecs \<Rightarrow> json \<Rightarrow> string" where
  "plain c v = (case as_str v of Some s \<Rightarrow> s | None \<Rightarrow> c_json_show c v)"

definition queue_push :: "codecs \<Rightarrow> uuid \<Rightarrow> string \<Rightarrow> string \<Rightarrow> string \<Rightarrow> request" where
  "queue_push c uid title body key =
     \<lparr>rq_user = Some uid, rq_channel = Push, rq_recipient = c_uuid_show c uid,
      rq_template = ''push_notification.txt.tera'',
      rq_variables = JObj [(''title'', JStr title), (''body'', JStr body)], rq_key = key\<rparr>"

definition queue_ws :: "codecs \<Rightarrow> uuid \<Rightarrow> string \<Rightarrow> (string \<times> json) list \<Rightarrow> string \<Rightarrow> request" where
  "queue_ws c uid template vars key =
     \<lparr>rq_user = Some uid, rq_channel = WebSocket, rq_recipient = c_uuid_show c uid,
      rq_template = template, rq_variables = JObj vars, rq_key = key\<rparr>"

definition queue_email ::
  "uuid option \<Rightarrow> string \<Rightarrow> string \<Rightarrow> (string \<times> json) list \<Rightarrow> string \<Rightarrow> request" where
  "queue_email user email template vars key =
     \<lparr>rq_user = user, rq_channel = Email, rq_recipient = email, rq_template = template,
      rq_variables = JObj vars, rq_key = key\<rparr>"

text \<open>\<open>parse\<close>: a malformed payload skips the event.\<close>

definition with_payload :: "'p option \<Rightarrow> ('p \<Rightarrow> request list) \<Rightarrow> request list" where
  "with_payload p f = (case p of None \<Rightarrow> [] | Some p \<Rightarrow> f p)"

definition with_user :: "uuid option \<Rightarrow> (uuid \<Rightarrow> request list) \<Rightarrow> request list" where
  "with_user u f = (case u of None \<Rightarrow> [] | Some uid \<Rightarrow> f uid)"

definition json_nat :: "nat \<Rightarrow> json" where
  "json_nat n = JNum (PosInt n)"

section \<open>Accounts\<close>

definition email_verified :: "codecs \<Rightarrow> string option \<Rightarrow> msg_ctx \<Rightarrow> json \<Rightarrow> request list" where
  "email_verified c frontend_url ctx data = with_payload (de_email_verified data) (\<lambda>p.
     if ev_email p = [] then []
     else (let dashboard_url = (case frontend_url of
                 None \<Rightarrow> ''https://app.gridtokenx.xyz''
               | Some base \<Rightarrow> trim_end_char (CHR 0x2F) base)
       in [queue_email (parse_uuid c (ev_user_id p)) (ev_email p) ''welcome.html.tera''
             [(''name'', JStr (ev_username p)), (''dashboard_url'', JStr dashboard_url)]
             (idem ctx ''email_verified'')]))"

definition password_reset_requested ::
  "codecs \<Rightarrow> string option \<Rightarrow> msg_ctx \<Rightarrow> json \<Rightarrow> request list" where
  "password_reset_requested c frontend_url ctx data = with_payload (de_password_reset data) (\<lambda>p.
     let reset_url =
           (if pr_reset_url p \<noteq> [] then rewrite_url frontend_url (pr_reset_url p)
            else if pr_token p \<noteq> []
            then build_callback_url frontend_url ''reset-password'' (''token='' @ pr_token p)
            else pr_reset_url p)
     in if pr_email p = [] then []
        else [queue_email (parse_uuid c (pr_user_id p)) (pr_email p) ''password_reset.html.tera''
                [(''reset_url'', JStr reset_url)] (idem ctx ''pwd_reset'')])"

definition verification_email_requested ::
  "codecs \<Rightarrow> string option \<Rightarrow> msg_ctx \<Rightarrow> json \<Rightarrow> request list" where
  "verification_email_requested c frontend_url ctx data =
     with_payload (de_verification_email data) (\<lambda>p.
     let verification_url =
           (if ve_verification_url p \<noteq> [] then rewrite_url frontend_url (ve_verification_url p)
            else if ve_token p \<noteq> []
            then build_callback_url frontend_url ''verify''
                   (''token='' @ urlencode (ve_token p) @ ''&email='' @ urlencode (ve_email p))
            else ve_verification_url p)
     in if ve_email p = [] then []
        else if verification_url = [] then []
        else [queue_email (parse_uuid c (ve_user_id p)) (ve_email p) ''verify_email.html.tera''
                [(''name'', JStr (ve_username p)), (''verification_url'', JStr verification_url)]
                (idem ctx ''verify_email'')])"

definition account_locked :: "msg_ctx \<Rightarrow> json \<Rightarrow> request list" where
  "account_locked ctx data = with_payload (de_account_locked data) (\<lambda>p.
     if CHR 0x40 \<notin> set (al_identifier p) then []
     else (let lockout_minutes = max ((al_lockout_secs p + 59) div 60) 1
       in [queue_email None (al_identifier p) ''account_locked.html.tera''
             [(''identifier'', JStr (al_identifier p)),
              (''lockout_minutes'', json_nat lockout_minutes)]
             (idem ctx ''account_locked'')]))"

definition user_onboarded :: "codecs \<Rightarrow> msg_ctx \<Rightarrow> json \<Rightarrow> request list" where
  "user_onboarded c ctx data = with_payload (de_user_onboarded data) (\<lambda>p.
     with_user (parse_uuid c (uo_user_id p)) (\<lambda>uid.
       [queue_ws c uid ''user_onboarded.txt.tera''
          [(''user_account_pda'', JStr (uo_user_account_pda p)),
           (''transaction_signature'', JStr (uo_transaction_signature p))]
          (idem ctx ''onboard'')]))"

text \<open>The login alert: the first sign-in from an address within the memory window.\<close>

definition login_ip_memory_secs :: nat where
  "login_ip_memory_secs = 90 * 24 * 60 * 60"

definition login_key :: "codecs \<Rightarrow> uuid \<Rightarrow> string \<Rightarrow> string" where
  "login_key c uid ip = ''login_ip:'' @ c_uuid_show c uid @ '':'' @ ip"

definition login_alert :: "codecs \<Rightarrow> msg_ctx \<Rightarrow> user_logged_in_payload \<Rightarrow> uuid \<Rightarrow> string \<Rightarrow> request list" where
  "login_alert c ctx p uid ip =
     [queue_ws c uid ''new_login.txt.tera''
        [(''username'', JStr (ul_username p)), (''ip_address'', JStr ip)] (idem ctx ''new_login''),
      queue_push c uid ''Security Alert: New Sign-In''
        (''Your account was signed in from a new IP address ('' @ ip @ '').'')
        (idem ctx ''new_login:push'')]"

definition user_logged_in :: "'s orchestrator \<Rightarrow> msg_ctx \<Rightarrow> json \<Rightarrow> ('s, unit) io" where
  "user_logged_in orch ctx data =
     (let c = o_codecs orch in
      case de_user_logged_in data of
        None \<Rightarrow> retE ()
      | Some p \<Rightarrow>
          (case parse_uuid c (ul_user_id p) of
             None \<Rightarrow> retE ()
           | Some uid \<Rightarrow>
               (case ul_ip_address p of
                  None \<Rightarrow> retE ()
                | Some ip \<Rightarrow>
                    if ip = [] then retE ()
                    else attempt (bump_counter orch (login_key c uid ip) login_ip_memory_secs)
                      (\<lambda>r. case r of
                         Inl _ \<Rightarrow> retE ()
                       | Inr seen \<Rightarrow>
                           if seen > 1 then retE ()
                           else run_requests orch (login_alert c ctx p uid ip)))))"

section \<open>Trading\<close>

definition order_matched_party ::
  "codecs \<Rightarrow> msg_ctx \<Rightarrow> order_matched_payload \<Rightarrow> string \<Rightarrow> string option \<Rightarrow> request list" where
  "order_matched_party c ctx p role i =
     with_user (parse_uuid c i) (\<lambda>uid.
       [queue_ws c uid ''trade_matched.txt.tera''
          [(''role'', JStr role), (''amount'', om_amount p), (''price'', om_price p)]
          (idem ctx (''matched:'' @ role @ '':ws'')),
        queue_push c uid ''Trade Matched''
          (''Your '' @ role @ '' order matched: '' @ plain c (om_amount p) @ '' kWh @ '' @
           plain c (om_price p))
          (idem ctx (''matched:'' @ role @ '':push''))])"

definition order_matched :: "codecs \<Rightarrow> msg_ctx \<Rightarrow> json \<Rightarrow> request list" where
  "order_matched c ctx data = with_payload (de_order_matched data) (\<lambda>p.
     order_matched_party c ctx p ''buyer'' (om_buyer_id p) @
     order_matched_party c ctx p ''seller'' (om_seller_id p))"

definition order_created :: "codecs \<Rightarrow> msg_ctx \<Rightarrow> json \<Rightarrow> request list" where
  "order_created c ctx data = with_payload (de_order_created data) (\<lambda>p.
     with_user (parse_uuid c (oc_user_id p)) (\<lambda>uid.
       [queue_ws c uid ''order_created.txt.tera''
          [(''order_id'', JStr (case oc_id p of Some i \<Rightarrow> i | None \<Rightarrow> [])),
           (''order_type'', JStr (oc_order_type p)), (''side'', JStr (oc_side p)),
           (''energy_amount'', JStr (plain c (oc_energy_amount p))),
           (''price_per_kwh'', JStr (plain c (oc_price_per_kwh p))),
           (''status'', JStr (oc_status p))]
          (idem ctx ''order_created'')]))"

definition order_update :: "codecs \<Rightarrow> msg_ctx \<Rightarrow> json \<Rightarrow> request list" where
  "order_update c ctx data = with_payload (de_order_update data) (\<lambda>p.
     with_user (parse_uuid c (ou_user_id p)) (\<lambda>uid.
       let order_id = (case ou_id p of Some i \<Rightarrow> i | None \<Rightarrow> []);
           filled = plain c (ou_filled_amount p)
       in queue_ws c uid ''order_update.txt.tera''
            [(''order_id'', JStr order_id), (''filled_amount'', JStr filled),
             (''status'', JStr (ou_status p))] (idem ctx ''order_update'') #
          (if ou_status p = ''filled'' \<or> ou_status p = ''cancelled'' \<or> ou_status p = ''expired''
           then [queue_push c uid ''Order Update''
                   (''Your order is '' @ ou_status p @ '' ('' @ filled @ '' kWh filled).'')
                   (idem ctx ''order_update:push'')]
           else [])))"

definition settlement_party ::
  "codecs \<Rightarrow> msg_ctx \<Rightarrow> settlement_processed_payload \<Rightarrow> string \<Rightarrow> string \<Rightarrow> string option \<Rightarrow>
   request list" where
  "settlement_party c ctx p status role i =
     with_user (parse_uuid c i) (\<lambda>uid.
       [queue_ws c uid ''settlement_processed.txt.tera''
          [(''role'', JStr role), (''status'', JStr status),
           (''tx_signature'', JStr (sp_tx_signature p)),
           (''amount'', sp_amount p), (''price'', sp_price p)]
          (idem ctx (''settlement:'' @ role)),
        queue_push c uid ''Trade Settled''
          (''Your '' @ role @ '' trade settled ('' @ status @ ''): '' @ plain c (sp_amount p) @
           '' kWh @ '' @ plain c (sp_price p))
          (idem ctx (''settlement:'' @ role @ '':push''))])"

definition settlement_processed :: "codecs \<Rightarrow> msg_ctx \<Rightarrow> json \<Rightarrow> request list" where
  "settlement_processed c ctx data = with_payload (de_settlement_processed data) (\<lambda>p.
     let status = (if sp_status p = [] then ''unknown'' else sp_status p)
     in settlement_party c ctx p status ''buyer'' (sp_buyer_id p) @
        settlement_party c ctx p status ''seller'' (sp_seller_id p))"

definition price_alert_triggered :: "codecs \<Rightarrow> msg_ctx \<Rightarrow> json \<Rightarrow> request list" where
  "price_alert_triggered c ctx data = with_payload (de_price_alert data) (\<lambda>p.
     with_user (parse_uuid c (pa_user_id p)) (\<lambda>uid.
       [queue_ws c uid ''price_alert_triggered.txt.tera''
          [(''condition'', JStr (pa_condition p)), (''target_price'', pa_target_price p),
           (''triggered_price'', pa_triggered_price p)] (idem ctx ''price_alert''),
        queue_push c uid ''Price Alert Triggered''
          (''Alert fired ('' @ pa_condition p @ '' '' @ plain c (pa_target_price p) @
           ''). Market price: '' @ plain c (pa_triggered_price p))
          (idem ctx ''price_alert:push'')]))"

section \<open>Energy\<close>

definition erc_issued :: "codecs \<Rightarrow> msg_ctx \<Rightarrow> json \<Rightarrow> request list" where
  "erc_issued c ctx data = with_payload (de_erc_issued data) (\<lambda>p.
     let email = (case ei_email p of
            Some e \<Rightarrow> if e \<noteq> [] then e
                      else (case ei_recipient_email p of Some r \<Rightarrow> r | None \<Rightarrow> [])
          | None \<Rightarrow> (case ei_recipient_email p of Some r \<Rightarrow> r | None \<Rightarrow> []))
     in if email = [] then []
        else (let unit = (case map_option trim (ei_energy_unit p) of
                Some u \<Rightarrow> if u \<noteq> [] then u else default_energy_unit
              | None \<Rightarrow> default_energy_unit)
          in [queue_email (parse_uuid c (ei_user_id p)) email ''erc_issued.html.tera''
                [(''amount'', ei_energy_amount p), (''unit'', JStr unit)] (idem ctx ''erc'')]))"

definition vpp_dispatched :: "codecs \<Rightarrow> msg_ctx \<Rightarrow> json \<Rightarrow> request list" where
  "vpp_dispatched c ctx data = with_payload (de_vpp_dispatched data) (\<lambda>p.
     with_user (parse_uuid c (case vd_admin_user_id p of Some a \<Rightarrow> Some a | None \<Rightarrow> vd_user_id p))
       (\<lambda>uid.
       [queue_ws c uid ''vpp_dispatched.txt.tera''
          [(''cluster_id'', JStr (vd_cluster_id p)), (''target_kw'', JNum (Float (vd_target_kw p))),
           (''members_count'', json_nat (vd_members_commanded p))]
          (idem ctx ''vpp_dispatch'')]))"

definition meter_registered :: "codecs \<Rightarrow> msg_ctx \<Rightarrow> json \<Rightarrow> request list" where
  "meter_registered c ctx data = with_payload (de_meter_registered data) (\<lambda>p.
     with_user (parse_uuid c (mr_user_id p)) (\<lambda>uid.
       [queue_ws c uid ''meter_registered.txt.tera''
          [(''serial_number'', JStr (mr_serial_number p)),
           (''meter_id'', JStr (case mr_meter_id p of Some m \<Rightarrow> m | None \<Rightarrow> [])),
           (''zone_id'', JStr (case mr_zone_id p of Some z \<Rightarrow> show_int z | None \<Rightarrow> [])),
           (''status'', JStr (mr_status p))]
          (idem ctx ''meter_registered'')]))"

definition meter_onboarded :: "codecs \<Rightarrow> msg_ctx \<Rightarrow> json \<Rightarrow> request list" where
  "meter_onboarded c ctx data = with_payload (de_meter_onboarded data) (\<lambda>p.
     with_user (parse_uuid c (mo_user_id p)) (\<lambda>uid.
       [queue_ws c uid ''meter_onboarded.txt.tera''
          [(''meter_id'', JStr (mo_meter_id p)), (''meter_type'', JStr (mo_meter_type p)),
           (''transaction_signature'', JStr (mo_transaction_signature p))]
          (idem ctx ''meter'')]))"

section \<open>Wallets\<close>

definition wallet_link_requested ::
  "codecs \<Rightarrow> string option \<Rightarrow> msg_ctx \<Rightarrow> json \<Rightarrow> request list" where
  "wallet_link_requested c frontend_url ctx data =
     with_payload (de_wallet_link_requested data) (\<lambda>p.
     let confirmation_url =
           (if wr_confirmation_url p \<noteq> [] then rewrite_url frontend_url (wr_confirmation_url p)
            else if wr_token p \<noteq> []
            then build_callback_url frontend_url ''wallet/confirm''
                   (''token='' @ urlencode (wr_token p) @ ''&wallet='' @
                    urlencode (wr_wallet_address p))
            else wr_confirmation_url p)
     in if wr_email p = [] \<or> wr_wallet_address p = [] then []
        else if confirmation_url = [] then []
        else [queue_email (parse_uuid c (wr_user_id p)) (wr_email p) ''confirm_wallet.html.tera''
                [(''name'', JStr (wr_username p)),
                 (''wallet_address'', JStr (wr_wallet_address p)),
                 (''confirmation_url'', JStr confirmation_url)]
                (idem ctx ''wallet_confirm'')])"

definition security_alert ::
  "codecs \<Rightarrow> uuid \<Rightarrow> string \<Rightarrow> string \<Rightarrow> string \<Rightarrow> json \<Rightarrow> string \<Rightarrow> string \<Rightarrow> request" where
  "security_alert c uid headline summary wallet shard signature key =
     queue_ws c uid ''security_alert.txt.tera''
       [(''headline'', JStr headline), (''summary'', JStr summary),
        (''wallet_address'', JStr wallet), (''shard_id'', shard),
        (''transaction_signature'', JStr signature)] key"

definition user_wallet_linked :: "codecs \<Rightarrow> msg_ctx \<Rightarrow> json \<Rightarrow> request list" where
  "user_wallet_linked c ctx data = with_payload (de_user_wallet_linked data) (\<lambda>p.
     with_user (parse_uuid c (wl_user_id p)) (\<lambda>uid.
       [security_alert c uid ''New Wallet Linked''
          ''A new Solana wallet has been linked to your GridTokenX account.''
          (wl_wallet_address p) (json_nat (wl_shard_id p)) (wl_transaction_signature p)
          (idem ctx ''wallet_link''),
        queue_push c uid ''Security Alert: Wallet Linked''
          (''A wallet ('' @ wl_wallet_address p @ '') was linked to your account.'')
          (idem ctx ''wallet_link:push'')]))"

definition user_wallet_unlinked :: "codecs \<Rightarrow> msg_ctx \<Rightarrow> json \<Rightarrow> request list" where
  "user_wallet_unlinked c ctx data = with_payload (de_wallet_changed data) (\<lambda>p.
     with_user (parse_uuid c (wc_user_id p)) (\<lambda>uid.
       [security_alert c uid ''Wallet Unlinked''
          ''A Solana wallet was removed from your GridTokenX account.''
          (wc_wallet_address p) (JStr []) [] (idem ctx ''wallet_unlink''),
        queue_push c uid ''Security Alert: Wallet Unlinked''
          (''A wallet ('' @ wc_wallet_address p @ '') was removed from your account.'')
          (idem ctx ''wallet_unlink:push'')]))"

definition em_dash :: string where
  "em_dash = [CHR 0xE2, CHR 0x80, CHR 0x94]"

definition user_wallet_primary_changed :: "codecs \<Rightarrow> msg_ctx \<Rightarrow> json \<Rightarrow> request list" where
  "user_wallet_primary_changed c ctx data = with_payload (de_wallet_changed data) (\<lambda>p.
     with_user (parse_uuid c (wc_user_id p)) (\<lambda>uid.
       [security_alert c uid ''Primary Wallet Changed''
          (''A different Solana wallet is now the primary wallet for your GridTokenX account '' @
           em_dash @ '' settlements will use it.'')
          (wc_wallet_address p) (JStr []) [] (idem ctx ''wallet_primary''),
        queue_push c uid ''Security Alert: Primary Wallet Changed''
          (''Your primary wallet is now '' @ wc_wallet_address p @ ''.'')
          (idem ctx ''wallet_primary:push'')]))"

section \<open>The router\<close>

text \<open>The requests of every event but a login; nothing for a type that is not a trigger.\<close>

definition event_requests ::
  "codecs \<Rightarrow> string option \<Rightarrow> msg_ctx \<Rightarrow> string \<Rightarrow> json \<Rightarrow> request list" where
  "event_requests c frontend_url ctx etype data =
     (if etype = ''UserRegistered'' then []
      else if etype = ''EmailVerified'' then email_verified c frontend_url ctx data
      else if etype = ''OrderMatched'' then order_matched c ctx data
      else if etype = ''SettlementProcessed'' then settlement_processed c ctx data
      else if etype = ''ErcIssued'' then erc_issued c ctx data
      else if etype = ''VppDispatched'' then vpp_dispatched c ctx data
      else if etype = ''PriceAlertTriggered'' then price_alert_triggered c ctx data
      else if etype = ''PasswordResetRequested''
        then password_reset_requested c frontend_url ctx data
      else if etype = ''VerificationEmailRequested''
        then verification_email_requested c frontend_url ctx data
      else if etype = ''UserOnboarded'' then user_onboarded c ctx data
      else if etype = ''MeterOnboarded'' then meter_onboarded c ctx data
      else if etype = ''WalletLinkRequested''
        then wallet_link_requested c frontend_url ctx data
      else if etype = ''UserWalletLinked'' then user_wallet_linked c ctx data
      else if etype = ''UserWalletUnlinked'' then user_wallet_unlinked c ctx data
      else if etype = ''UserWalletPrimaryChanged'' then user_wallet_primary_changed c ctx data
      else if etype = ''AccountLocked'' then account_locked ctx data
      else if etype = ''OrderCreated'' then order_created c ctx data
      else if etype = ''OrderUpdate'' then order_update c ctx data
      else if etype = ''MeterRegistered'' \<or> etype = ''MeterUpdated''
        then meter_registered c ctx data
      else [])"

definition dispatch_event ::
  "'s orchestrator \<Rightarrow> string option \<Rightarrow> msg_ctx \<Rightarrow> string \<Rightarrow> json \<Rightarrow> ('s, unit) io" where
  "dispatch_event orch frontend_url ctx etype data =
     (if etype = ''UserLoggedIn'' then user_logged_in orch ctx data
      else run_requests orch
             (event_requests (o_codecs orch) frontend_url ctx etype data))"

section \<open>What a handler asks for\<close>

lemma idem_label [simp]: "idem ctx l = idem ctx l' \<longleftrightarrow> l = l'"
  by (simp add: idem_def split: option.split)

text \<open>The part of a list after the last colon.\<close>

lemma append_colon:
  assumes "l @ CHR '':'' # i = l' @ CHR '':'' # i'" and "CHR '':'' \<notin> set i" and "CHR '':'' \<notin> set i'"
  shows "i = i'"
proof -
  have after: "takeWhile (\<lambda>c. c \<noteq> CHR '':'') (rev (l @ CHR '':'' # i)) = rev i"
    if "CHR '':'' \<notin> set i" for l i :: string
    using that by (simp add: takeWhile_append2 takeWhile_tail) (metis takeWhile_eq_all_conv set_rev)
  from after [OF assms(2), of l] after [OF assms(3), of l'] assms(1) show ?thesis by simp
qed

lemma idem_event:
  assumes "idem ctx l = idem ctx' l'" and "mc_event_id ctx = Some i" and "mc_event_id ctx' = Some i'"
    and "CHR '':'' \<notin> set i" and "CHR '':'' \<notin> set i'"
  shows "i = i'"
  using assms append_colon [of l i l' i'] by (simp add: idem_def)

text \<open>
  A request is addressed when its channel can reach its recipient: a mail has an address, a
  message for a user's devices or sockets names that user.
\<close>

definition addressed :: "codecs \<Rightarrow> request \<Rightarrow> bool" where
  "addressed c r \<longleftrightarrow>
     (rq_channel r = Email \<and> rq_recipient r \<noteq> []) \<or>
     ((rq_channel r = WebSocket \<or> rq_channel r = Push) \<and>
        (\<exists>u. rq_user r = Some u \<and> rq_recipient r = c_uuid_show c u))"

definition batch_ok :: "codecs \<Rightarrow> msg_ctx \<Rightarrow> request list \<Rightarrow> bool" where
  "batch_ok c ctx rs \<longleftrightarrow>
     distinct (map rq_key rs) \<and> (\<forall>r \<in> set rs. addressed c r \<and> (\<exists>l. rq_key r = idem ctx l))"

lemma addressed_makers [simp]:
  "addressed c (queue_push c u title body key)" "addressed c (queue_ws c u template vars key)"
  "addressed c (queue_email user email template vars key) \<longleftrightarrow> email \<noteq> []"
  "addressed c (security_alert c u h sm wallet shard sig key)"
  by (simp_all add: addressed_def queue_push_def queue_ws_def queue_email_def security_alert_def)

lemma key_makers [simp]:
  "rq_key (queue_push c u title body key) = key" "rq_key (queue_ws c u template vars key) = key"
  "rq_key (queue_email user email template vars key) = key"
  "rq_key (security_alert c u h sm wallet shard sig key) = key"
  by (simp_all add: queue_push_def queue_ws_def queue_email_def security_alert_def)

lemma batch_Nil [simp]: "batch_ok c ctx []"
  by (simp add: batch_ok_def)

lemma batch_payload: "(\<And>p. batch_ok c ctx (f p)) \<Longrightarrow> batch_ok c ctx (with_payload x f)"
  by (simp add: with_payload_def split: option.split)

lemma batch_user: "(\<And>u. batch_ok c ctx (f u)) \<Longrightarrow> batch_ok c ctx (with_user x f)"
  by (simp add: with_user_def split: option.split)

lemmas batch_intros = batch_payload batch_user

named_theorems handler_defs \<open>the handlers that are lists of requests\<close>

declare email_verified_def [handler_defs] password_reset_requested_def [handler_defs]
  verification_email_requested_def [handler_defs] account_locked_def [handler_defs]
  user_onboarded_def [handler_defs] order_created_def [handler_defs] order_update_def [handler_defs]
  price_alert_triggered_def [handler_defs] erc_issued_def [handler_defs]
  vpp_dispatched_def [handler_defs] meter_registered_def [handler_defs]
  meter_onboarded_def [handler_defs] wallet_link_requested_def [handler_defs]
  user_wallet_linked_def [handler_defs] user_wallet_unlinked_def [handler_defs]
  user_wallet_primary_changed_def [handler_defs]

lemma batch_handlers:
  "batch_ok c ctx (email_verified c fe ctx data)" "batch_ok c ctx (password_reset_requested c fe ctx data)"
  "batch_ok c ctx (verification_email_requested c fe ctx data)" "batch_ok c ctx (account_locked ctx data)"
  "batch_ok c ctx (user_onboarded c ctx data)" "batch_ok c ctx (order_created c ctx data)"
  "batch_ok c ctx (order_update c ctx data)" "batch_ok c ctx (price_alert_triggered c ctx data)"
  "batch_ok c ctx (erc_issued c ctx data)" "batch_ok c ctx (vpp_dispatched c ctx data)"
  "batch_ok c ctx (meter_registered c ctx data)" "batch_ok c ctx (meter_onboarded c ctx data)"
  "batch_ok c ctx (wallet_link_requested c fe ctx data)" "batch_ok c ctx (user_wallet_linked c ctx data)"
  "batch_ok c ctx (user_wallet_unlinked c ctx data)"
  "batch_ok c ctx (user_wallet_primary_changed c ctx data)"
  unfolding handler_defs Let_def by (intro batch_intros; force simp: batch_ok_def)+

lemma batch_parties:
  assumes "\<And>u. batch_ok c ctx (f u)" and "\<And>u. batch_ok c ctx (g u)"
    and "\<And>u v. rq_key ` set (f u) \<inter> rq_key ` set (g v) = {}"
  shows "batch_ok c ctx (with_user a f @ with_user b g)"
  using assms by (auto simp: batch_ok_def with_user_def split: option.split)

lemma batch_order_matched: "batch_ok c ctx (order_matched c ctx data)"
  unfolding order_matched_def order_matched_party_def
  by (intro batch_payload batch_parties) (auto simp: batch_ok_def)

lemma batch_settlement: "batch_ok c ctx (settlement_processed c ctx data)"
  unfolding settlement_processed_def settlement_party_def Let_def
  by (intro batch_payload batch_parties) (auto simp: batch_ok_def)

lemma batch_event: "batch_ok c ctx (event_requests c fe ctx etype data)"
  by (simp add: event_requests_def batch_handlers batch_order_matched batch_settlement)

lemma batch_login: "batch_ok c ctx (login_alert c ctx p uid ip)"
  by (auto simp: login_alert_def batch_ok_def)

end
