(* ===== verification/Catalogue.thy ===== *)
theory Catalogue
  imports Events Templates
begin

text \<open>
  What the documents say the events are turned into, and what the templates need. The table is
  the one of \<^verbatim>\<open>ARCHITECTURE.md\<close> and \<^verbatim>\<open>README.md\<close> (event, channel, template, variables);
  \<open>shipped\<close> lists the files under \<^verbatim>\<open>templates/\<close> with the variables each prints without a test
  or a default around it. The lemmas compare both with the handlers of \<open>Events\<close>.
\<close>

section \<open>What an event asks for\<close>

text \<open>The requests of a login are those of its first sign-in from an address.\<close>

definition login_batch :: "codecs \<Rightarrow> msg_ctx \<Rightarrow> json \<Rightarrow> request list" where
  "login_batch c ctx data = with_payload (de_user_logged_in data) (\<lambda>p.
     with_user (parse_uuid c (ul_user_id p)) (\<lambda>uid.
       case ul_ip_address p of
         None \<Rightarrow> [] | Some ip \<Rightarrow> if ip = [] then [] else login_alert c ctx p uid ip))"

definition event_batch ::
  "codecs \<Rightarrow> string option \<Rightarrow> msg_ctx \<Rightarrow> string \<Rightarrow> json \<Rightarrow> request list" where
  "event_batch c frontend_url ctx etype data =
     (if etype = ''UserLoggedIn'' then login_batch c ctx data
      else event_requests c frontend_url ctx etype data)"

lemma batch_of_event: "batch_ok c ctx (event_batch c frontend_url ctx etype data)"
  unfolding event_batch_def login_batch_def using batch_event
  by (auto intro!: batch_payload batch_user batch_login split: option.split)

text \<open>Handling an event performs its batch, or, for a login, possibly nothing.\<close>

lemma login_performs:
  "(\<exists>s'. user_logged_in orch ctx data s = (Inr (), s')) \<or>
   (\<exists>s'. user_logged_in orch ctx data s = run_requests orch (login_batch (o_codecs orch) ctx data) s')"
  by (auto simp: user_logged_in_def login_batch_def with_payload_def with_user_def Let_def attempt_def
      split: option.split sum.split prod.split)

lemma event_performs:
  "(\<exists>s'. dispatch_event orch frontend_url ctx etype data s = (Inr (), s')) \<or>
   (\<exists>s'. dispatch_event orch frontend_url ctx etype data s =
      run_requests orch (event_batch (o_codecs orch) frontend_url ctx etype data) s')"
  using login_performs [of orch ctx data s] by (auto simp: dispatch_event_def event_batch_def)

section \<open>The documented table\<close>

type_synonym kind = "notification_channel \<times> string \<times> string list"

fun members :: "json \<Rightarrow> string list" where
  "members (JObj kvs) = map fst kvs"
| "members _ = []"

definition kind_of :: "request \<Rightarrow> kind" where
  "kind_of r = (rq_channel r, rq_template r, members (rq_variables r))"

definition push_kind :: kind where
  "push_kind = (Push, ''push_notification.txt.tera'', [''title'', ''body''])"

definition security_alert_kind :: kind where
  "security_alert_kind = (WebSocket, ''security_alert.txt.tera'',
     [''headline'', ''summary'', ''wallet_address'', ''shard_id'', ''transaction_signature''])"

definition meter_registered_kind :: kind where
  "meter_registered_kind = (WebSocket, ''meter_registered.txt.tera'',
     [''serial_number'', ''meter_id'', ''zone_id'', ''status''])"

definition event_table :: "(string \<times> kind list) list" where
  "event_table =
     [(''UserRegistered'', []),
      (''EmailVerified'', [(Email, ''welcome.html.tera'', [''name'', ''dashboard_url''])]),
      (''VppDispatched'',
        [(WebSocket, ''vpp_dispatched.txt.tera'', [''cluster_id'', ''target_kw'', ''members_count''])]),
      (''OrderMatched'',
        [(WebSocket, ''trade_matched.txt.tera'', [''role'', ''amount'', ''price'']), push_kind]),
      (''SettlementProcessed'',
        [(WebSocket, ''settlement_processed.txt.tera'',
          [''role'', ''status'', ''tx_signature'', ''amount'', ''price'']), push_kind]),
      (''PriceAlertTriggered'',
        [(WebSocket, ''price_alert_triggered.txt.tera'',
          [''condition'', ''target_price'', ''triggered_price'']), push_kind]),
      (''ErcIssued'', [(Email, ''erc_issued.html.tera'', [''amount'', ''unit''])]),
      (''PasswordResetRequested'', [(Email, ''password_reset.html.tera'', [''reset_url''])]),
      (''VerificationEmailRequested'',
        [(Email, ''verify_email.html.tera'', [''name'', ''verification_url''])]),
      (''UserOnboarded'',
        [(WebSocket, ''user_onboarded.txt.tera'', [''user_account_pda'', ''transaction_signature''])]),
      (''MeterOnboarded'',
        [(WebSocket, ''meter_onboarded.txt.tera'',
          [''meter_id'', ''meter_type'', ''transaction_signature''])]),
      (''UserWalletLinked'', [security_alert_kind, push_kind]),
      (''UserWalletUnlinked'', [security_alert_kind, push_kind]),
      (''UserWalletPrimaryChanged'', [security_alert_kind, push_kind]),
      (''AccountLocked'',
        [(Email, ''account_locked.html.tera'', [''identifier'', ''lockout_minutes''])]),
      (''UserLoggedIn'',
        [(WebSocket, ''new_login.txt.tera'', [''username'', ''ip_address'']), push_kind]),
      (''OrderCreated'',
        [(WebSocket, ''order_created.txt.tera'',
          [''order_id'', ''order_type'', ''side'', ''energy_amount'', ''price_per_kwh'', ''status''])]),
      (''OrderUpdate'',
        [(WebSocket, ''order_update.txt.tera'', [''order_id'', ''filled_amount'', ''status'']),
         push_kind]),
      (''MeterRegistered'', [meter_registered_kind]), (''MeterUpdated'', [meter_registered_kind]),
      (''WalletLinkRequested'',
        [(Email, ''confirm_wallet.html.tera'', [''name'', ''wallet_address'', ''confirmation_url''])])]"

definition kinds_of_event :: "string \<Rightarrow> kind list" where
  "kinds_of_event etype = (case map_of event_table etype of None \<Rightarrow> [] | Some ks \<Rightarrow> ks)"

text \<open>A push goes out only beside a socket message for the same user, under another key.\<close>

definition push_beside_socket :: "request list \<Rightarrow> bool" where
  "push_beside_socket rs \<longleftrightarrow> (\<forall>p \<in> set rs. rq_channel p = Push \<longrightarrow>
     (\<exists>w \<in> set rs. rq_channel w = WebSocket \<and> rq_user w = rq_user p \<and> rq_key w \<noteq> rq_key p))"

fun is_object :: "json \<Rightarrow> bool" where
  "is_object (JObj _) = True"
| "is_object _ = False"

definition fits :: "kind list \<Rightarrow> request list \<Rightarrow> bool" where
  "fits ks rs \<longleftrightarrow> kind_of ` set rs \<subseteq> set ks \<and> push_beside_socket rs \<and>
     (\<forall>r \<in> set rs. is_object (rq_variables r))"

section \<open>The handlers stay within the table\<close>

lemma fits_Nil [simp]: "fits ks []"
  by (simp add: fits_def push_beside_socket_def)

lemma fits_append: "fits ks rs \<Longrightarrow> fits ks rs' \<Longrightarrow> fits ks (rs @ rs')"
  by (auto simp: fits_def push_beside_socket_def)

lemma fits_payload: "(\<And>p. fits ks (f p)) \<Longrightarrow> fits ks (with_payload x f)"
  by (simp add: with_payload_def split: option.split)

lemma fits_user: "(\<And>u. fits ks (f u)) \<Longrightarrow> fits ks (with_user x f)"
  by (simp add: with_user_def split: option.split)

lemmas fits_intros = fits_payload fits_user fits_append

lemma kind_makers [simp]:
  "kind_of (queue_push c u title body key) = push_kind"
  "kind_of (queue_ws c u template vars key) = (WebSocket, template, map fst vars)"
  "kind_of (queue_email user email template vars key) = (Email, template, map fst vars)"
  by (simp_all add: kind_of_def queue_push_def queue_ws_def queue_email_def push_kind_def)

lemma channel_makers [simp]:
  "rq_channel (queue_push c u title body key) = Push" "rq_user (queue_push c u title body key) = Some u"
  "rq_channel (queue_ws c u template vars key) = WebSocket" "rq_user (queue_ws c u template vars key) = Some u"
  "rq_channel (queue_email user email template vars key) = Email"
  "is_object (rq_variables (queue_push c u title body key))"
  "is_object (rq_variables (queue_ws c u template vars key))"
  "is_object (rq_variables (queue_email user email template vars key))"
  by (simp_all add: queue_push_def queue_ws_def queue_email_def)

lemma fits_one [simp]: "rq_channel r \<noteq> Push \<Longrightarrow> is_object (rq_variables r) \<Longrightarrow> fits ks [r] \<longleftrightarrow> kind_of r \<in> set ks"
  by (simp add: fits_def push_beside_socket_def)

lemma fits_two:
  "rq_channel w = WebSocket \<Longrightarrow> rq_user w = rq_user p \<Longrightarrow> rq_key w \<noteq> rq_key p \<Longrightarrow>
   is_object (rq_variables w) \<Longrightarrow> is_object (rq_variables p) \<Longrightarrow> fits ks [w, p] \<longleftrightarrow> kind_of w \<in> set ks \<and> kind_of p \<in> set ks"
  by (auto simp: fits_def push_beside_socket_def)

named_theorems row_of \<open>the row of the table for an event\<close>

lemma rows [row_of]:
  "kinds_of_event ''EmailVerified'' = [(Email, ''welcome.html.tera'', [''name'', ''dashboard_url''])]"
  "kinds_of_event ''VppDispatched'' =
     [(WebSocket, ''vpp_dispatched.txt.tera'', [''cluster_id'', ''target_kw'', ''members_count''])]"
  "kinds_of_event ''OrderMatched'' =
     [(WebSocket, ''trade_matched.txt.tera'', [''role'', ''amount'', ''price'']), push_kind]"
  "kinds_of_event ''SettlementProcessed'' = [(WebSocket, ''settlement_processed.txt.tera'',
      [''role'', ''status'', ''tx_signature'', ''amount'', ''price'']), push_kind]"
  "kinds_of_event ''PriceAlertTriggered'' = [(WebSocket, ''price_alert_triggered.txt.tera'',
      [''condition'', ''target_price'', ''triggered_price'']), push_kind]"
  "kinds_of_event ''ErcIssued'' = [(Email, ''erc_issued.html.tera'', [''amount'', ''unit''])]"
  "kinds_of_event ''PasswordResetRequested'' = [(Email, ''password_reset.html.tera'', [''reset_url''])]"
  "kinds_of_event ''VerificationEmailRequested'' =
     [(Email, ''verify_email.html.tera'', [''name'', ''verification_url''])]"
  "kinds_of_event ''UserOnboarded'' =
     [(WebSocket, ''user_onboarded.txt.tera'', [''user_account_pda'', ''transaction_signature''])]"
  "kinds_of_event ''MeterOnboarded'' =
     [(WebSocket, ''meter_onboarded.txt.tera'', [''meter_id'', ''meter_type'', ''transaction_signature''])]"
  by (simp_all add: kinds_of_event_def event_table_def)

lemma more_rows [row_of]:
  "kinds_of_event ''UserWalletLinked'' = [security_alert_kind, push_kind]"
  "kinds_of_event ''UserWalletUnlinked'' = [security_alert_kind, push_kind]"
  "kinds_of_event ''UserWalletPrimaryChanged'' = [security_alert_kind, push_kind]"
  "kinds_of_event ''AccountLocked'' =
     [(Email, ''account_locked.html.tera'', [''identifier'', ''lockout_minutes''])]"
  "kinds_of_event ''UserLoggedIn'' =
     [(WebSocket, ''new_login.txt.tera'', [''username'', ''ip_address'']), push_kind]"
  "kinds_of_event ''OrderCreated'' = [(WebSocket, ''order_created.txt.tera'',
      [''order_id'', ''order_type'', ''side'', ''energy_amount'', ''price_per_kwh'', ''status''])]"
  "kinds_of_event ''OrderUpdate'' =
     [(WebSocket, ''order_update.txt.tera'', [''order_id'', ''filled_amount'', ''status'']), push_kind]"
  "kinds_of_event ''MeterRegistered'' = [meter_registered_kind]"
  "kinds_of_event ''MeterUpdated'' = [meter_registered_kind]"
  "kinds_of_event ''WalletLinkRequested'' =
     [(Email, ''confirm_wallet.html.tera'', [''name'', ''wallet_address'', ''confirmation_url''])]"
  by (simp_all add: kinds_of_event_def event_table_def)

lemma row_registered: "kinds_of_event ''UserRegistered'' = []"
  by (simp add: kinds_of_event_def event_table_def)

lemma fits_handlers:
  "fits (kinds_of_event ''EmailVerified'') (email_verified c fe ctx data)"
  "fits (kinds_of_event ''PasswordResetRequested'') (password_reset_requested c fe ctx data)"
  "fits (kinds_of_event ''VerificationEmailRequested'') (verification_email_requested c fe ctx data)"
  "fits (kinds_of_event ''AccountLocked'') (account_locked ctx data)"
  "fits (kinds_of_event ''UserOnboarded'') (user_onboarded c ctx data)"
  "fits (kinds_of_event ''OrderCreated'') (order_created c ctx data)"
  "fits (kinds_of_event ''ErcIssued'') (erc_issued c ctx data)"
  "fits (kinds_of_event ''VppDispatched'') (vpp_dispatched c ctx data)"
  "fits (kinds_of_event ''MeterRegistered'') (meter_registered c ctx data)"
  "fits (kinds_of_event ''MeterUpdated'') (meter_registered c ctx data)"
  "fits (kinds_of_event ''MeterOnboarded'') (meter_onboarded c ctx data)"
  "fits (kinds_of_event ''WalletLinkRequested'') (wallet_link_requested c fe ctx data)"
  unfolding handler_defs Let_def row_of
  by (intro fits_intros; simp add: meter_registered_kind_def)+

lemma fits_pushers:
  "fits (kinds_of_event ''OrderUpdate'') (order_update c ctx data)"
  "fits (kinds_of_event ''PriceAlertTriggered'') (price_alert_triggered c ctx data)"
  "fits (kinds_of_event ''UserWalletLinked'') (user_wallet_linked c ctx data)"
  "fits (kinds_of_event ''UserWalletUnlinked'') (user_wallet_unlinked c ctx data)"
  "fits (kinds_of_event ''UserWalletPrimaryChanged'') (user_wallet_primary_changed c ctx data)"
  "fits (kinds_of_event ''OrderMatched'') (order_matched c ctx data)"
  "fits (kinds_of_event ''SettlementProcessed'') (settlement_processed c ctx data)"
  "fits (kinds_of_event ''UserLoggedIn'') (login_batch c ctx data)"
  unfolding handler_defs order_matched_def order_matched_party_def settlement_processed_def
    settlement_party_def login_batch_def login_alert_def security_alert_def Let_def row_of
  by (intro fits_intros; simp add: fits_two security_alert_kind_def split: option.split)+

lemma unknown_event:
  "etype \<notin> fst ` set event_table \<Longrightarrow> event_batch c fe ctx etype data = []"
  by (simp add: event_batch_def event_requests_def event_table_def)

lemma fits_event: "fits (kinds_of_event etype) (event_batch c fe ctx etype data)"
proof (cases "etype \<in> fst ` set event_table")
  case True
  then show ?thesis
    by (auto simp: event_table_def event_batch_def event_requests_def fits_handlers fits_pushers)
next
  case False
  then show ?thesis by (simp add: unknown_event)
qed

section \<open>Every row of the table is reached\<close>

text \<open>A payload for each event: every text is that of a user's identifier, every link is given.\<close>

definition typical_payload :: "string \<Rightarrow> json" where
  "typical_payload user = JObj
     [(''user_id'', JStr user), (''buyer_id'', JStr user), (''email'', JStr ''a@b''),
      (''identifier'', JStr ''a@b''), (''ip_address'', JStr ''1.1.1.1''), (''status'', JStr ''filled''),
      (''wallet_address'', JStr ''w''), (''confirmation_url'', JStr ''http://h/c''),
      (''verification_url'', JStr ''http://h/v'')]"

lemma fields_typical [simp]:
  "struct_fields fs (typical_payload user) =
     (if list_all (\<lambda>ns. length (field_values ns
          [(''user_id'', JStr user), (''buyer_id'', JStr user), (''email'', JStr ''a@b''),
           (''identifier'', JStr ''a@b''), (''ip_address'', JStr ''1.1.1.1''), (''status'', JStr ''filled''),
           (''wallet_address'', JStr ''w''), (''confirmation_url'', JStr ''http://h/c''),
           (''verification_url'', JStr ''http://h/v'')]) \<le> 1) fs
      then Some (map (\<lambda>ns. case field_values ns
          [(''user_id'', JStr user), (''buyer_id'', JStr user), (''email'', JStr ''a@b''),
           (''identifier'', JStr ''a@b''), (''ip_address'', JStr ''1.1.1.1''), (''status'', JStr ''filled''),
           (''wallet_address'', JStr ''w''), (''confirmation_url'', JStr ''http://h/c''),
           (''verification_url'', JStr ''http://h/v'')] of [] \<Rightarrow> None | v # _ \<Rightarrow> Some v) fs)
      else None)"
  by (simp add: struct_fields_def typical_payload_def)

lemma typical_links [simp]: "rewrite_url fe ''http://h/v'' \<noteq> []" "rewrite_url fe ''http://h/c'' \<noteq> []"
proof -
  have "find_sub ''://'' ''http://h/v'' = Some 4" "find_sub ''/'' ''h/v'' = Some 1"
    "find_sub ''://'' ''http://h/c'' = Some 4" "find_sub ''/'' ''h/c'' = Some 1" by code_simp+
  then show "rewrite_url fe ''http://h/v'' \<noteq> []" "rewrite_url fe ''http://h/c'' \<noteq> []"
    by (simp_all add: rewrite_url_def Let_def split: option.split)
qed

lemmas payload_defs = de_email_verified_def de_order_matched_def de_settlement_processed_def
  de_erc_issued_def de_vpp_dispatched_def de_password_reset_def de_verification_email_def
  de_price_alert_def de_user_onboarded_def de_meter_onboarded_def de_order_update_def
  de_meter_registered_def de_order_created_def de_user_logged_in_def de_account_locked_def
  de_wallet_changed_def de_wallet_link_requested_def de_user_wallet_linked_def

lemma typical_user:
  "uuid_roundtrip c \<Longrightarrow> parse_uuid c (Some (c_uuid_show c u)) = Some u"
  by (simp add: parse_uuid_def uuid_roundtripD)

lemma no_user [simp]: "parse_uuid c None = None"
  by (simp add: parse_uuid_def)

lemma kind_alert [simp]: "kind_of (security_alert c u h m w shard sig key) = security_alert_kind"
  by (simp add: security_alert_def security_alert_kind_def)

lemmas typical_simps = payload_defs field_values_def with_payload_def with_user_def typical_user
  Let_def row_of

lemma reached_handlers:
  fixes u :: uuid
  assumes "uuid_roundtrip c"
  defines "data \<equiv> typical_payload (c_uuid_show c u)"
  shows
  "kind_of ` set (email_verified c fe ctx data) = set (kinds_of_event ''EmailVerified'')"
  "kind_of ` set (password_reset_requested c fe ctx data) = set (kinds_of_event ''PasswordResetRequested'')"
  "kind_of ` set (verification_email_requested c fe ctx data) =
     set (kinds_of_event ''VerificationEmailRequested'')"
  "kind_of ` set (account_locked ctx data) = set (kinds_of_event ''AccountLocked'')"
  "kind_of ` set (user_onboarded c ctx data) = set (kinds_of_event ''UserOnboarded'')"
  "kind_of ` set (order_created c ctx data) = set (kinds_of_event ''OrderCreated'')"
  "kind_of ` set (erc_issued c ctx data) = set (kinds_of_event ''ErcIssued'')"
  "kind_of ` set (vpp_dispatched c ctx data) = set (kinds_of_event ''VppDispatched'')"
  "kind_of ` set (meter_registered c ctx data) = set (kinds_of_event ''MeterRegistered'')"
  "kind_of ` set (meter_registered c ctx data) = set (kinds_of_event ''MeterUpdated'')"
  "kind_of ` set (meter_onboarded c ctx data) = set (kinds_of_event ''MeterOnboarded'')"
  "kind_of ` set (wallet_link_requested c fe ctx data) = set (kinds_of_event ''WalletLinkRequested'')"
  unfolding data_def handler_defs
  by (simp_all add: assms(1) typical_simps meter_registered_kind_def)

lemma reached_pushers:
  fixes u :: uuid
  assumes "uuid_roundtrip c"
  defines "data \<equiv> typical_payload (c_uuid_show c u)"
  shows
  "kind_of ` set (order_update c ctx data) = set (kinds_of_event ''OrderUpdate'')"
  "kind_of ` set (price_alert_triggered c ctx data) = set (kinds_of_event ''PriceAlertTriggered'')"
  "kind_of ` set (user_wallet_linked c ctx data) = set (kinds_of_event ''UserWalletLinked'')"
  "kind_of ` set (user_wallet_unlinked c ctx data) = set (kinds_of_event ''UserWalletUnlinked'')"
  "kind_of ` set (user_wallet_primary_changed c ctx data) = set (kinds_of_event ''UserWalletPrimaryChanged'')"
  "kind_of ` set (order_matched c ctx data) = set (kinds_of_event ''OrderMatched'')"
  "kind_of ` set (settlement_processed c ctx data) = set (kinds_of_event ''SettlementProcessed'')"
  "kind_of ` set (login_batch c ctx data) = set (kinds_of_event ''UserLoggedIn'')"
proof -
  note simps = assms(1) typical_simps
  show "kind_of ` set (order_update c ctx data) = set (kinds_of_event ''OrderUpdate'')"
    by (simp add: simps data_def order_update_def)
  show "kind_of ` set (price_alert_triggered c ctx data) = set (kinds_of_event ''PriceAlertTriggered'')"
    by (simp add: simps data_def price_alert_triggered_def)
  show "kind_of ` set (user_wallet_linked c ctx data) = set (kinds_of_event ''UserWalletLinked'')"
    by (simp add: simps data_def user_wallet_linked_def)
  show "kind_of ` set (user_wallet_unlinked c ctx data) = set (kinds_of_event ''UserWalletUnlinked'')"
    by (simp add: simps data_def user_wallet_unlinked_def)
  show "kind_of ` set (user_wallet_primary_changed c ctx data) =
      set (kinds_of_event ''UserWalletPrimaryChanged'')"
    by (simp add: simps data_def user_wallet_primary_changed_def)
  show "kind_of ` set (order_matched c ctx data) = set (kinds_of_event ''OrderMatched'')"
    by (simp add: simps data_def order_matched_def order_matched_party_def)
  show "kind_of ` set (settlement_processed c ctx data) = set (kinds_of_event ''SettlementProcessed'')"
    by (simp add: simps data_def settlement_processed_def settlement_party_def)
  show "kind_of ` set (login_batch c ctx data) = set (kinds_of_event ''UserLoggedIn'')"
    by (simp add: simps data_def login_batch_def login_alert_def)
qed

lemma reached_event:
  assumes "uuid_roundtrip c"
  shows "kind_of ` set (event_batch c fe ctx etype (typical_payload (c_uuid_show c u))) =
    set (kinds_of_event etype)"
proof (cases "etype \<in> fst ` set event_table")
  case True
  then have "etype \<in> set (map fst event_table)" by simp
  then show ?thesis
    unfolding event_table_def list.map set_simps insert_iff empty_iff fst_conv
    by (elim disjE FalseE; simp add: event_batch_def event_requests_def reached_handlers [OF assms]
        reached_pushers [OF assms] row_registered more_rows(8,9))
next
  case False
  then have "map_of event_table etype = None" by (simp only: map_of_eq_None_iff) simp
  then have "kinds_of_event etype = []" by (simp add: kinds_of_event_def)
  with False show ?thesis by (simp add: unknown_event)
qed

section \<open>The templates\<close>

text \<open>
  A file under \<^verbatim>\<open>templates/\<close> and the variables it prints where nothing stands in for one that is
  missing: not those under an \<^verbatim>\<open>if\<close> on the variable itself, nor those with a \<^verbatim>\<open>default\<close> filter.
\<close>

definition shipped :: "(string \<times> string list) list" where
  "shipped =
     [(''account_locked.html.tera'', [''identifier'', ''lockout_minutes'']),
      (''account_locked.txt.tera'', [''identifier'', ''lockout_minutes'']),
      (''confirm_wallet.html.tera'', [''wallet_address'', ''confirmation_url'']),
      (''confirm_wallet.txt.tera'', [''wallet_address'', ''confirmation_url'']),
      (''erc_issued.html.tera'', [''amount'']), (''erc_issued.txt.tera'', [''amount'']),
      (''meter_onboarded.txt.tera'', [''meter_id'', ''meter_type'', ''transaction_signature'']),
      (''meter_registered.txt.tera'', [''serial_number'', ''meter_id'', ''status'']),
      (''new_login.html.tera'', []), (''new_login.txt.tera'', [''username'', ''ip_address'']),
      (''order_created.txt.tera'',
        [''side'', ''energy_amount'', ''price_per_kwh'', ''order_id'', ''order_type'', ''status'']),
      (''order_update.txt.tera'', [''status'', ''filled_amount'', ''order_id'']),
      (''password_reset.html.tera'', [''reset_url'']), (''password_reset.txt.tera'', [''reset_url'']),
      (''price_alert_triggered.txt.tera'', [''condition'', ''target_price'', ''triggered_price'']),
      (''push_notification.txt.tera'', [''title'', ''body'']),
      (''security_alert.txt.tera'', [''headline'', ''summary'', ''wallet_address'']),
      (''settlement_processed.txt.tera'', [''role'', ''status'', ''tx_signature'', ''amount'', ''price'']),
      (''trade_matched.txt.tera'', [''role'', ''amount'', ''price'']),
      (''user_onboarded.txt.tera'', [''user_account_pda'', ''transaction_signature'']),
      (''verify_email.html.tera'', [''verification_url'']), (''verify_email.txt.tera'', [''verification_url'']),
      (''vpp_dispatched.txt.tera'', [''cluster_id'', ''target_kw'', ''members_count'']),
      (''welcome.html.tera'', []), (''welcome.txt.tera'', [])]"

definition fills :: "string \<Rightarrow> string list \<Rightarrow> bool" where
  "fills template names \<longleftrightarrow>
     (case map_of shipped template of None \<Rightarrow> False | Some needs \<Rightarrow> set needs \<subseteq> set names)"

text \<open>
  Documented behaviour of \<^verbatim>\<open>tera\<close> with these files: an object is a context of its members, and a
  template renders once every variable it prints is in the context.
\<close>

definition tera_ok :: "engine \<Rightarrow> bool" where
  "tera_ok e \<longleftrightarrow> (\<forall>kvs. en_context e (JObj kvs) = Inr kvs) \<and>
     (\<forall>template context. fills template (map fst context) \<longrightarrow>
        (\<exists>text. en_tera e template context = Inr text))"

lemma render_fills:
  "tera_ok e \<Longrightarrow> fills template (map fst kvs) \<Longrightarrow> \<exists>text. render e template (JObj kvs) = Inr text"
  by (auto simp: tera_ok_def render_def) (metis map_sum.simps(2) id_apply)

text \<open>Every kind in the table fills its template and the text form shown in a list.\<close>

definition kind_fills :: "kind \<Rightarrow> bool" where
  "kind_fills k = (case k of (_, template, names) \<Rightarrow>
     fills template names \<and> fills (text_template_id template) names)"

lemma table_fills: "list_all (\<lambda>(e, ks). list_all kind_fills ks) event_table"
  by code_simp

lemma event_kind_fills: "k \<in> set (kinds_of_event e) \<Longrightarrow> kind_fills k"
proof -
  assume "k \<in> set (kinds_of_event e)"
  then obtain ks where "map_of event_table e = Some ks" "k \<in> set ks"
    by (cases "map_of event_table e") (auto simp: kinds_of_event_def)
  with map_of_SomeD [OF this(1)] table_fills show ?thesis by (auto simp: list_all_iff)
qed

lemma event_fills:
  assumes "r \<in> set (event_batch c fe ctx etype data)"
  obtains kvs where "rq_variables r = JObj kvs" and "fills (rq_template r) (map fst kvs)"
    and "fills (text_template_id (rq_template r)) (map fst kvs)"
proof -
  from assms fits_event [of etype c fe ctx data]
  have "kind_fills (kind_of r)" "is_object (rq_variables r)"
    by (auto simp: fits_def intro: event_kind_fills)
  moreover then obtain kvs where "rq_variables r = JObj kvs" by (cases "rq_variables r") auto
  ultimately show ?thesis using that by (auto simp: kind_fills_def kind_of_def)
qed

end
