(* ===== verification/Consumers.thy ===== *)
theory Consumers
  imports Events Health
begin

text \<open>
  \<^verbatim>\<open>bin/noti-server/src/consumers/mod.rs\<close>: the Kafka consumer (supervisor, session, worker) and
  the RabbitMQ consumer. A loop over an external source is a function of the list of things it
  meets, so its behaviour is stated for every such list. The poll loop of a session only changes
  the health record and the worker only the orchestrator's state and the commit log, so the
  session is the loop followed by the worker on the records the loop handed over.
\<close>

section \<open>Handling a record\<close>

record owned_record =
  or_payload :: "string option"
  or_topic :: string
  or_partition :: int
  or_offset :: int

definition envelope_type :: "json \<Rightarrow> string" where
  "envelope_type event =
     (case Option.bind (json_get ''event_type'' event) as_str of
        Some t \<Rightarrow> t | None \<Rightarrow> ''unknown'')"

definition envelope_data :: "json \<Rightarrow> json" where
  "envelope_data event = (case json_get ''data'' event of Some d \<Rightarrow> d | None \<Rightarrow> JObj [])"

definition envelope_ctx :: "owned_record \<Rightarrow> json \<Rightarrow> msg_ctx" where
  "envelope_ctx rec event =
     \<lparr>mc_partition = or_partition rec, mc_offset = or_offset rec,
      mc_event_id = Option.bind (json_get ''id'' event) as_str\<rparr>"

definition handle_record ::
  "'s orchestrator \<Rightarrow> string option \<Rightarrow> owned_record \<Rightarrow> ('s, string, unit) act" where
  "handle_record orch frontend_url rec =
     (case or_payload rec of
        None \<Rightarrow> retE ()
      | Some text \<Rightarrow>
          (case c_json_parse (o_codecs orch) text of
             Inl e \<Rightarrow> failE e
           | Inr raw \<Rightarrow>
               (let event = as_value raw in
                mapErr error_to_string
                  (dispatch_event orch frontend_url (envelope_ctx rec event)
                     (envelope_type event) (envelope_data event)))))"

section \<open>The worker\<close>

record commits =
  km_log :: "(string \<times> int \<times> int) list"
  km_calls :: nat
  km_fails :: "nat \<Rightarrow> bool"

text \<open>The commit is of the next offset to read; its failure is only logged.\<close>

definition commit_offset :: "string \<Rightarrow> int \<Rightarrow> int \<Rightarrow> commits \<Rightarrow> commits" where
  "commit_offset topic part off k =
     (let k' = k\<lparr>km_calls := Suc (km_calls k)\<rparr> in
      if km_fails k (km_calls k) then k'
      else k'\<lparr>km_log := km_log k @ [(topic, part, off + 1)]\<rparr>)"

fun worker ::
  "'s orchestrator \<Rightarrow> string option \<Rightarrow> owned_record list \<Rightarrow> 's \<times> commits \<Rightarrow> 's \<times> commits" where
  "worker orch frontend_url [] (s, k) = (s, k)"
| "worker orch frontend_url (rec # recs) (s, k) =
     (case handle_record orch frontend_url rec s of
        (Inr _, s') \<Rightarrow> worker orch frontend_url recs
            (s', commit_offset (or_topic rec) (or_partition rec) (or_offset rec) k)
      | (Inl _, s') \<Rightarrow> worker orch frontend_url recs (s', k))"

section \<open>The poll loop\<close>

datatype kafka_error = AllBrokersDown | OtherKafkaError string

definition is_fatal_kafka_error :: "kafka_error \<Rightarrow> bool" where
  "is_fatal_kafka_error e = (case e of AllBrokersDown \<Rightarrow> True | OtherKafkaError _ \<Rightarrow> False)"

text \<open>What the select meets, with the clock it reads; \<open>Record\<close> says if the worker still listens.\<close>

datatype poll_event =
    Cancelled
  | IdleTick int
  | Record int owned_record bool
  | RecvError int kafka_error

datatype session_end = StillPolling | Shutdown | SessionError string

fun poll_loop ::
  "poll_event list \<Rightarrow> consumer_health \<Rightarrow> session_end \<times> owned_record list \<times> consumer_health" where
  "poll_loop [] h = (StillPolling, [], h)"
| "poll_loop (Cancelled # es) h = (Shutdown, [], h)"
| "poll_loop (IdleTick at # es) h = poll_loop es (mark_progress at h)"
| "poll_loop (Record at rec listening # es) h =
     (let h' = mark_progress at h in
      if \<not> listening then (SessionError ''Kafka worker channel closed'', [], h')
      else (case poll_loop es h' of (r, recs, h'') \<Rightarrow> (r, rec # recs, h'')))"
| "poll_loop (RecvError at e # es) h =
     (if is_fatal_kafka_error e then (SessionError ''Kafka recv error (fatal)'', [], h)
      else poll_loop es (mark_progress at h))"

text \<open>Creating the client or subscribing may fail before the first poll.\<close>

definition run_kafka_session ::
  "'s orchestrator \<Rightarrow> string option \<Rightarrow> string + unit \<Rightarrow> poll_event list \<Rightarrow> consumer_health \<Rightarrow>
   's \<times> commits \<Rightarrow> session_end \<times> consumer_health \<times> 's \<times> commits" where
  "run_kafka_session orch frontend_url subscribed es h st =
     (case subscribed of
        Inl e \<Rightarrow> (SessionError e, h, st)
      | Inr _ \<Rightarrow>
          (case poll_loop es h of (r, recs, h') \<Rightarrow> (r, h', worker orch frontend_url recs st)))"

section \<open>The supervisor\<close>

definition initial_backoff :: nat where
  "initial_backoff = 1"

definition max_backoff :: nat where
  "max_backoff = 30"

definition next_backoff :: "nat \<Rightarrow> nat" where
  "next_backoff current = min (current * 2) max_backoff"

text \<open>
  The session factory is injected. One turn of the loop: whether the token was cancelled before it,
  the session, and whether the token fired during the backoff. A session works on the health record
  and on a state of its own; one that has met everything there is is still running.
\<close>

type_synonym 'st session_run = "consumer_health \<Rightarrow> 'st \<Rightarrow> session_end \<times> consumer_health \<times> 'st"

record 'st turn =
  tn_cancelled :: bool
  tn_session :: "'st session_run"
  tn_cancelled_in_backoff :: bool

datatype supervisor = Supervising | Stopped

fun supervise_from ::
  "nat \<Rightarrow> 'st turn list \<Rightarrow> consumer_health \<Rightarrow> 'st \<Rightarrow>
   supervisor \<times> nat list \<times> consumer_health \<times> 'st" where
  "supervise_from backoff [] h st = (Supervising, [], h, st)"
| "supervise_from backoff (t # ts) h st =
     (if tn_cancelled t then (Stopped, [], mark_down h, st)
      else
        (case tn_session t h st of
           (StillPolling, h', st') \<Rightarrow> (Supervising, [], h', st')
         | (Shutdown, h', st') \<Rightarrow> (Stopped, [], mark_down h', st')
         | (SessionError _, h', st') \<Rightarrow>
             (let h2 = mark_down h' in
              if tn_cancelled_in_backoff t then (Stopped, [], mark_down h2, st')
              else (case supervise_from (next_backoff backoff) ts h2 st' of
                      (r, slept, h3, st3) \<Rightarrow> (r, backoff # slept, h3, st3)))))"

definition supervise ::
  "'st turn list \<Rightarrow> consumer_health \<Rightarrow> 'st \<Rightarrow> supervisor \<times> nat list \<times> consumer_health \<times> 'st" where
  "supervise = supervise_from initial_backoff"

section \<open>The RabbitMQ consumer\<close>

datatype disposition = Ack | NackToDlx

text \<open>A task has two required fields.\<close>

definition task_of :: "codecs \<Rightarrow> json \<Rightarrow> (uuid \<times> int) option" where
  "task_of c j =
     (case struct_fields [[''notification_id''], [''retry_count'']] j of
        Some [Some (JStr i), Some (JNum n)] \<Rightarrow>
          (case (c_uuid_parse c i, de_opt_i32 (Some (JNum n))) of
             (Inr u, Some (Some k)) \<Rightarrow> Some (u, k)
           | _ \<Rightarrow> None)
      | _ \<Rightarrow> None)"

definition process_dispatch_payload ::
  "'s orchestrator \<Rightarrow> string \<Rightarrow> 's \<Rightarrow> disposition \<times> 's" where
  "process_dispatch_payload orch data s =
     (case (case c_json_parse (o_codecs orch) data of
              Inl _ \<Rightarrow> None | Inr j \<Rightarrow> task_of (o_codecs orch) j) of
        None \<Rightarrow> (Ack, s)
      | Some (i, _) \<Rightarrow>
          (case dispatch orch i s of
             (Inr _, s') \<Rightarrow> (Ack, s') | (Inl _, s') \<Rightarrow> (NackToDlx, s')))"

text \<open>What the consumer meets; a delivery says whether its acknowledgement goes through.\<close>

datatype delivery_event = TokenCancelled | StreamClosed | Delivery string bool | DeliveryError

datatype consumer_end = StillConsuming | ConsumerStopped | ConsumerError

fun rabbitmq_loop ::
  "'s orchestrator \<Rightarrow> delivery_event list \<Rightarrow> 's \<Rightarrow> consumer_end \<times> disposition list \<times> 's" where
  "rabbitmq_loop orch [] s = (StillConsuming, [], s)"
| "rabbitmq_loop orch (TokenCancelled # es) s = (ConsumerStopped, [], s)"
| "rabbitmq_loop orch (StreamClosed # es) s = (ConsumerStopped, [], s)"
| "rabbitmq_loop orch (DeliveryError # es) s = rabbitmq_loop orch es s"
| "rabbitmq_loop orch (Delivery data acked # es) s =
     (case process_dispatch_payload orch data s of
        (d, s') \<Rightarrow>
          if \<not> acked then (ConsumerError, [], s')
          else (case rabbitmq_loop orch es s' of (r, ds, s'') \<Rightarrow> (r, d # ds, s'')))"

section \<open>Facts\<close>

lemma next_backoff_le: "next_backoff b \<le> max_backoff"
  by (simp add: next_backoff_def)

lemma next_backoff_pos: "0 < b \<Longrightarrow> 0 < next_backoff b"
  by (simp add: next_backoff_def max_backoff_def)

text \<open>A turn either ends the loop or goes on to the next session after one backoff.\<close>

lemma supervise_cases:
  assumes "supervise_from b (t # ts) h st = (r, slept, h', st')"
  obtains (last) "slept = []" and "r = Stopped \<longrightarrow> (\<exists>h1. h' = mark_down h1)"
  | (again) h2 st2 slept' where "slept = b # slept'"
      and "supervise_from (next_backoff b) ts h2 st2 = (r, slept', h', st')"
proof -
  obtain e h1 st1 where run: "tn_session t h st = (e, h1, st1)" by (metis prod_cases3)
  consider (stop) "tn_cancelled t \<or> (\<forall>m. e \<noteq> SessionError m) \<or> tn_cancelled_in_backoff t"
    | (go) m where "\<not> tn_cancelled t" "e = SessionError m" "\<not> tn_cancelled_in_backoff t" by blast
  then show thesis
  proof cases
    case stop
    with assms run show thesis
      by (intro last) (auto simp: Let_def split: if_splits session_end.splits)
  next
    case go
    obtain r' sl h3 st3 where "supervise_from (next_backoff b) ts (mark_down h1) st1 = (r', sl, h3, st3)"
      by (metis prod_cases4)
    with assms run go show thesis by (intro again) (auto simp: Let_def)
  qed
qed

lemma doubled_backoff: "min (next_backoff b * 2 ^ i) max_backoff = min (b * 2 ^ Suc i) max_backoff"
proof (cases "b * 2 \<le> max_backoff")
  case True
  then show ?thesis by (simp add: next_backoff_def min_def mult.assoc)
next
  case False
  then have nb: "next_backoff b = max_backoff" by (simp add: next_backoff_def)
  have "1 \<le> (2 :: nat) ^ i" by simp
  then have m: "x * 1 \<le> x * 2 ^ i" for x :: nat by (rule mult_le_mono2)
  have "max_backoff \<le> max_backoff * 2 ^ i" "max_backoff \<le> b * 2 ^ Suc i"
    using False m [of max_backoff] le_trans [OF _ m [of "b * 2"], of max_backoff]
    by (simp_all only: mult_1_right power_Suc mult.assoc [symmetric])
  then show ?thesis unfolding nb by (simp only: min_absorb2)
qed

lemma supervise_sleeps:
  "supervise_from b ts h st = (r, slept, h', st') \<Longrightarrow> b \<le> max_backoff \<Longrightarrow> i < length slept \<Longrightarrow>
   slept ! i = min (b * 2 ^ i) max_backoff"
proof (induction ts arbitrary: b h st slept i)
  case (Cons t ts)
  from Cons.prems(1) show ?case
  proof (cases rule: supervise_cases)
    case last
    with Cons.prems show ?thesis by simp
  next
    case (again h2 st2 slept')
    with Cons.prems show ?thesis
      using Cons.IH [OF again(2) next_backoff_le] by (cases i) (simp_all only: doubled_backoff, auto)
  qed
qed simp

lemma not_connected_mark_down [simp]: "\<not> h_connected (mark_down h)"
  by (simp add: mark_down_def)

lemma supervise_stopped_down:
  "supervise_from b ts h st = (Stopped, slept, h', st') \<Longrightarrow> \<not> h_connected h'"
proof (induction ts arbitrary: b h st slept)
  case (Cons t ts)
  from Cons.prems show ?case by (cases rule: supervise_cases) (auto dest: Cons.IH)
qed simp

text \<open>The records of a run whose handling succeeded.\<close>

fun handled :: "'s orchestrator \<Rightarrow> string option \<Rightarrow> owned_record list \<Rightarrow> 's \<Rightarrow> owned_record list" where
  "handled orch frontend_url [] s = []"
| "handled orch frontend_url (rec # recs) s =
     (case handle_record orch frontend_url rec s of
        (Inr _, s') \<Rightarrow> rec # handled orch frontend_url recs s'
      | (Inl _, s') \<Rightarrow> handled orch frontend_url recs s')"

lemma commit_log:
  "\<forall>n. \<not> km_fails k n \<Longrightarrow>
   km_log (commit_offset t p off k) = km_log k @ [(t, p, off + 1)] \<and>
   km_fails (commit_offset t p off k) = km_fails k"
  by (simp add: commit_offset_def Let_def)

lemma worker_commits:
  "\<forall>n. \<not> km_fails k n \<Longrightarrow>
   km_log (snd (worker orch fe recs (s, k))) = km_log k @
     map (\<lambda>r. (or_topic r, or_partition r, or_offset r + 1)) (handled orch fe recs s)"
proof (induction recs arbitrary: s k)
  case (Cons rec recs)
  obtain x s' where h: "handle_record orch fe rec s = (x, s')" by (metis surj_pair)
  show ?case
  proof (cases x)
    case (Inl e)
    with h Cons show ?thesis by simp
  next
    case (Inr u)
    with h Cons commit_log [OF Cons.prems, of "or_topic rec" "or_partition rec" "or_offset rec"]
    show ?thesis by simp
  qed
qed simp

text \<open>A task that ends badly is rejected, a task that cannot be read is dropped.\<close>

lemma process_unreadable:
  "c_json_parse (o_codecs orch) data = Inl e \<Longrightarrow> process_dispatch_payload orch data s = (Ack, s)"
  by (simp add: process_dispatch_payload_def)

lemma process_task:
  assumes "c_json_parse (o_codecs orch) data = Inr j" and "task_of (o_codecs orch) j = Some (i, k)"
  shows "process_dispatch_payload orch data s =
    (if isl (fst (dispatch orch i s)) then NackToDlx else Ack, snd (dispatch orch i s))"
  using assms by (auto simp: process_dispatch_payload_def split: prod.split sum.split)

section \<open>Invariants of the consumers\<close>

context intake_invariant
begin

lemma requests_keeps: "keeps I (run_requests orch rs)"
  unfolding run_requests_def run_request_def
  by (auto simp del: retE_apply intro!: keep_intros queue_keeps)

lemma event_keeps: "keeps I (dispatch_event orch fe ctx etype data)"
  unfolding dispatch_event_def user_logged_in_def Let_def
  by (auto simp del: retE_apply split: if_split option.split sum.split
      intro!: keep_intros requests_keeps bump_keeps)

lemma record_keeps: "keeps I (handle_record orch fe rec)"
  unfolding handle_record_def Let_def
  by (auto simp del: retE_apply failE_apply split: option.split sum.split
      intro!: keep_intros event_keeps)

end

context orchestrator_invariant
begin

lemma payload_keeps: "keeps I (process_dispatch_payload orch data)"
proof (rule keepsI)
  fix s assume "I s"
  then show "I (snd (process_dispatch_payload orch data s))"
    using keepsD [OF dispatch_keeps]
    by (auto simp: process_dispatch_payload_def split: sum.split option.split prod.split)
       (metis snd_conv)+
qed

end

end
