(* ===== verification/Api.thy ===== *)
theory Api
  imports Orchestrator Devices Health
begin

text \<open>
  \<^verbatim>\<open>noti-api\<close>: the REST handlers (\<^verbatim>\<open>handlers.rs\<close>), the user context they extract
  (\<^verbatim>\<open>auth.rs\<close>) and the gRPC service (\<^verbatim>\<open>grpc.rs\<close>). A handler fails with the status and text
  of its response. Service roles and JWT validation belong to other crates, header decoding to
  \<^verbatim>\<open>http\<close>, lower-casing to the Unicode tables: they are fields of the record \<open>api\<close>.
\<close>

section \<open>The state of the application\<close>

record ('s, 'r) api =
  ap_orchestrator :: "'s orchestrator"
  ap_device_repo :: "'s device_repository"
  ap_api_gateway :: 'r
  ap_admin :: 'r
  ap_require_any :: "'r \<Rightarrow> 'r list \<Rightarrow> string + unit"
  ap_lowercase :: "string \<Rightarrow> string"
  ap_header_text :: "string \<Rightarrow> string option"
  ap_jwt_secret :: string
  ap_jwt_subject :: "string \<Rightarrow> string \<Rightarrow> string + string"

type_synonym headers = "string \<Rightarrow> string option"
type_synonym http_error = "nat \<times> string"
type_synonym ('s, 'a) handler = "('s, http_error, 'a) act"

abbreviation internal_error :: "noti_error \<Rightarrow> http_error" where
  "internal_error e \<equiv> (500, error_to_string e)"

section \<open>Who is calling\<close>

definition user_id_header :: string where
  "user_id_header = ''x-gridtokenx-user-id''"

definition user_context :: "('s, 'r) api \<Rightarrow> headers \<Rightarrow> http_error + uuid" where
  "user_context A hs =
     (case Option.bind (hs user_id_header) (ap_header_text A) of
        Some text \<Rightarrow>
          (case c_uuid_parse (o_codecs (ap_orchestrator A)) text of
             Inr user \<Rightarrow> Inr user
           | Inl _ \<Rightarrow> Inl (401, ''Missing or invalid User ID header''))
      | None \<Rightarrow> Inl (401, ''Missing or invalid User ID header''))"

definition require_role :: "('s, 'r) api \<Rightarrow> 'r \<Rightarrow> ('s, unit) handler" where
  "require_role A role =
     (case ap_require_any A role [ap_api_gateway A, ap_admin A] of
        Inl msg \<Rightarrow> failE (403, msg) | Inr u \<Rightarrow> retE u)"

section \<open>Health\<close>

definition ready_stale_after_secs :: int where
  "ready_stale_after_secs = 90"

definition health_check :: "nat \<times> json" where
  "health_check = (200, JObj [(''status'', JStr ''ok''), (''service'', JStr ''gridtokenx-noti'')])"

definition health_live :: "nat \<times> json" where
  "health_live = (200, JObj [(''status'', JStr ''alive'')])"

definition health_ready :: "int \<Rightarrow> consumer_health \<Rightarrow> nat \<times> json" where
  "health_ready clock h =
     (let t = unix_now_secs clock in
      if is_ready t ready_stale_after_secs h
      then (200, JObj [(''status'', JStr ''ready''), (''kafka_consumer'', JStr ''connected'')])
      else (503, JObj [(''status'', JStr ''not_ready''),
                       (''kafka_consumer'', JStr ''down_or_stale''),
                       (''last_progress_secs_ago'',
                          json_int (saturating_sub_i64 t (last_progress_secs h)))]))"

section \<open>Notifications\<close>

record list_params =
  lp_limit :: "int option"
  lp_offset :: "int option"

record list_response =
  lr_notifications :: "notification_view list"
  lr_unread_count :: int
  lr_total :: nat

definition page_limit :: "int option \<Rightarrow> int" where
  "page_limit l = max 1 (min 100 (case l of Some n \<Rightarrow> n | None \<Rightarrow> 20))"

definition page_offset :: "int option \<Rightarrow> int" where
  "page_offset l = max (case l of Some n \<Rightarrow> n | None \<Rightarrow> 0) 0"

definition success :: json where
  "success = JObj [(''success'', JBool True)]"

definition list_notifications ::
  "('s, 'r) api \<Rightarrow> 'r \<Rightarrow> uuid \<Rightarrow> list_params \<Rightarrow> ('s, list_response) handler" where
  "list_notifications A role user params =
     bindE (require_role A role) (\<lambda>_.
     bindE (mapErr internal_error
       (list_user_notification_views (ap_orchestrator A) user
          (page_limit (lp_limit params)) (page_offset (lp_offset params)))) (\<lambda>ns.
     bindE (mapErr internal_error (orch_get_unread_count (ap_orchestrator A) user)) (\<lambda>unread.
     retE \<lparr>lr_notifications = ns, lr_unread_count = unread, lr_total = length ns\<rparr>)))"

definition mark_notification_as_read ::
  "('s, 'r) api \<Rightarrow> 'r \<Rightarrow> uuid \<Rightarrow> uuid \<Rightarrow> ('s, json) handler" where
  "mark_notification_as_read A role user i =
     bindE (require_role A role) (\<lambda>_.
     bindE (mapErr internal_error (orch_mark_as_read (ap_orchestrator A) i user)) (\<lambda>_.
     retE success))"

definition mark_all_notifications_as_read ::
  "('s, 'r) api \<Rightarrow> 'r \<Rightarrow> uuid \<Rightarrow> ('s, json) handler" where
  "mark_all_notifications_as_read A role user =
     bindE (require_role A role) (\<lambda>_.
     bindE (mapErr internal_error (orch_mark_all_as_read (ap_orchestrator A) user)) (\<lambda>_.
     retE success))"

section \<open>Devices\<close>

record register_device_request =
  rd_token :: string
  rd_platform :: string

definition register_device ::
  "('s, 'r) api \<Rightarrow> 'r \<Rightarrow> uuid \<Rightarrow> register_device_request \<Rightarrow> ('s, json) handler" where
  "register_device A role user req =
     bindE (require_role A role) (\<lambda>_.
     case platform_from_db (ap_lowercase A (rd_platform req)) of
       None \<Rightarrow> failE (400, ''platform must be one of: android, ios, web'')
     | Some platform \<Rightarrow>
         if trim (rd_token req) = [] then failE (400, ''token must not be empty'')
         else bindE (mapErr internal_error
                (dev_register (ap_device_repo A) user (rd_token req) platform)) (\<lambda>device.
              retE (JObj [(''success'', JBool True),
                (''device_id'',
                   JStr (c_uuid_show (o_codecs (ap_orchestrator A)) (d_id device)))])))"

definition revoke_device :: "('s, 'r) api \<Rightarrow> 'r \<Rightarrow> uuid \<Rightarrow> string \<Rightarrow> ('s, json) handler" where
  "revoke_device A role user token =
     bindE (require_role A role) (\<lambda>_.
     bindE (mapErr internal_error (dev_revoke (ap_device_repo A) token)) (\<lambda>_.
     retE success))"

definition list_devices :: "('s, 'r) api \<Rightarrow> 'r \<Rightarrow> uuid \<Rightarrow> ('s, device_token list) handler" where
  "list_devices A role user =
     bindE (require_role A role) (\<lambda>_.
     mapErr internal_error (dev_active_for_user (ap_device_repo A) user))"

text \<open>The routes: the role and the user are extracted first, then the handler runs.\<close>

datatype rest_call =
    ListNotifications list_params
  | MarkRead uuid
  | MarkAllRead
  | RegisterDevice register_device_request
  | RevokeDevice string
  | ListDevices

datatype rest_body = Page list_response | Body json | DeviceList "device_token list"

definition rest :: "('s, 'r) api \<Rightarrow> 'r \<Rightarrow> headers \<Rightarrow> rest_call \<Rightarrow> ('s, rest_body) handler" where
  "rest A role hs call =
     (case user_context A hs of
        Inl e \<Rightarrow> failE e
      | Inr user \<Rightarrow>
          (case call of
             ListNotifications p \<Rightarrow>
               bindE (list_notifications A role user p) (\<lambda>x. retE (Page x))
           | MarkRead i \<Rightarrow> bindE (mark_notification_as_read A role user i) (\<lambda>x. retE (Body x))
           | MarkAllRead \<Rightarrow> bindE (mark_all_notifications_as_read A role user) (\<lambda>x. retE (Body x))
           | RegisterDevice req \<Rightarrow> bindE (register_device A role user req) (\<lambda>x. retE (Body x))
           | RevokeDevice tok \<Rightarrow> bindE (revoke_device A role user tok) (\<lambda>x. retE (Body x))
           | ListDevices \<Rightarrow> bindE (list_devices A role user) (\<lambda>x. retE (DeviceList x))))"

section \<open>gRPC\<close>

datatype connect_error =
    Unauthenticated string
  | InvalidArgument string
  | ConnectInternal string
  | ConnectNotFound string

datatype proto_channel = ChEmail | ChSms | ChPush | ChWebhook | ChWebsocket

datatype enum_value = Known proto_channel | Unknown int

record send_request =
  sr_user_id :: string
  sr_channel :: enum_value
  sr_recipient :: string
  sr_template_id :: string
  sr_variables_json :: string
  sr_idempotency_key :: string

record send_response =
  ns_notification_id :: string
  ns_status :: string

record status_response =
  st_notification_id :: string
  st_status :: string
  st_error_message :: string
  st_sent_at :: string

definition authenticate :: "('s, 'r) api \<Rightarrow> headers \<Rightarrow> connect_error + string" where
  "authenticate A hs =
     (case Option.bind (hs ''authorization'') (ap_header_text A) of
        None \<Rightarrow> Inl (Unauthenticated ''missing authorization header'')
      | Some header \<Rightarrow>
          (let token = trim (case strip_prefix ''Bearer '' header of
                               Some t \<Rightarrow> t | None \<Rightarrow> header) in
           if token = [] then Inl (Unauthenticated ''empty bearer token'')
           else (case ap_jwt_subject A (ap_jwt_secret A) token of
                   Inl _ \<Rightarrow> Inl (Unauthenticated ''invalid or expired token'')
                 | Inr subject \<Rightarrow> Inr subject)))"

definition channel_of_proto :: "enum_value \<Rightarrow> notification_channel" where
  "channel_of_proto v =
     (case v of
        Known ChEmail \<Rightarrow> Email | Known ChSms \<Rightarrow> Sms | Known ChPush \<Rightarrow> Push
      | Known ChWebhook \<Rightarrow> Webhook | Known ChWebsocket \<Rightarrow> WebSocket | Unknown _ \<Rightarrow> Email)"

definition optional_user :: "codecs \<Rightarrow> string \<Rightarrow> connect_error + uuid option" where
  "optional_user c text =
     (if text = [] then Inr None
      else map_sum InvalidArgument Some (c_uuid_parse c text))"

definition request_variables :: "codecs \<Rightarrow> string \<Rightarrow> connect_error + json" where
  "request_variables c text =
     (if text = [] then Inr (JObj [])
      else map_sum (\<lambda>e. InvalidArgument (''variables_json must be valid JSON: '' @ e)) as_value
             (c_json_parse c text))"

definition send_notification ::
  "('s, 'r) api \<Rightarrow> headers \<Rightarrow> send_request \<Rightarrow> ('s, connect_error, send_response) act" where
  "send_notification A hs req =
     (let orch = ap_orchestrator A; c = o_codecs orch in
      bindE (Pair (authenticate A hs)) (\<lambda>_.
      bindE (Pair (optional_user c (sr_user_id req))) (\<lambda>user.
      bindE (Pair (request_variables c (sr_variables_json req))) (\<lambda>variables.
      bindE (mapErr (\<lambda>e. ConnectInternal (error_to_string e))
        (queue_notification orch user (channel_of_proto (sr_channel req)) (sr_recipient req)
           (sr_template_id req) variables
           (if sr_idempotency_key req = [] then None else Some (sr_idempotency_key req)))) (\<lambda>i.
      retE \<lparr>ns_notification_id = c_uuid_show c i, ns_status = ''accepted''\<rparr>)))))"

text \<open>The derived \<^verbatim>\<open>Debug\<close> of a status prints the name of its constructor.\<close>

fun status_debug :: "notification_status \<Rightarrow> string" where
  "status_debug Pending = ''Pending''"
| "status_debug Processing = ''Processing''"
| "status_debug Sent = ''Sent''"
| "status_debug Delivered = ''Delivered''"
| "status_debug Failed = ''Failed''"
| "status_debug PermanentFailure = ''PermanentFailure''"

definition get_notification_status ::
  "('s, 'r) api \<Rightarrow> headers \<Rightarrow> string \<Rightarrow> ('s, connect_error, status_response) act" where
  "get_notification_status A hs text =
     (let orch = ap_orchestrator A; c = o_codecs orch in
      bindE (Pair (authenticate A hs)) (\<lambda>_.
      bindE (Pair (map_sum InvalidArgument id (c_uuid_parse c text))) (\<lambda>i.
      bindE (mapErr (\<lambda>e. ConnectInternal (error_to_string e)) (get_status orch i)) (\<lambda>found.
      case found of
        None \<Rightarrow> failE (ConnectNotFound ''Notification not found'')
      | Some n \<Rightarrow> retE
          \<lparr>st_notification_id = c_uuid_show c (n_id n),
           st_status = map ascii_lower (status_debug (n_status n)),
           st_error_message = (case n_error_message n of Some m \<Rightarrow> m | None \<Rightarrow> []),
           st_sent_at = (case n_sent_at n of Some t \<Rightarrow> c_time_show c t | None \<Rightarrow> [])\<rparr>))))"

section \<open>Facts\<close>

lemma page_limit_bounds: "1 \<le> page_limit l" "page_limit l \<le> 100"
  by (simp_all add: page_limit_def)

lemma page_offset_nonneg: "0 \<le> page_offset l"
  by (simp add: page_offset_def)

lemma rest_unauthorised:
  "user_context A hs = Inl e \<Longrightarrow> rest A role hs call s = (Inl e, s)"
  by (simp add: rest_def)

lemma rest_forbidden:
  assumes "ap_require_any A role [ap_api_gateway A, ap_admin A] = Inl msg"
    and "user_context A hs = Inr user"
  shows "rest A role hs call s = (Inl (403, msg), s)"
  using assms
  by (cases call) (simp_all add: rest_def require_role_def bindE_def list_notifications_def
      mark_notification_as_read_def mark_all_notifications_as_read_def register_device_def
      revoke_device_def list_devices_def)

lemma authenticate_Inr:
  "authenticate A hs = Inr subject \<Longrightarrow>
   \<exists>header token. Option.bind (hs ''authorization'') (ap_header_text A) = Some header \<and>
     token \<noteq> [] \<and> ap_jwt_subject A (ap_jwt_secret A) token = Inr subject"
  by (auto simp: authenticate_def Let_def split: option.splits if_splits sum.splits)

lemma send_unauthenticated:
  "authenticate A hs = Inl e \<Longrightarrow> send_notification A hs req s = (Inl e, s)"
  by (simp add: send_notification_def Let_def)

lemma status_debug_inj: "map ascii_lower (status_debug a) = map ascii_lower (status_debug b) \<longleftrightarrow> a = b"
  by (cases a; cases b) (simp_all add: ascii_lower_def)

section \<open>Invariants of the handlers\<close>

locale api_invariant = intake_invariant "ap_orchestrator A" I
  for A :: "('s, 'r) api" and I :: "'s \<Rightarrow> bool" +
  assumes register_keeps: "keeps I (dev_register (ap_device_repo A) u tok p)"
    and active_keeps: "keeps I (dev_active_for_user (ap_device_repo A) u)"
    and revoke_keeps: "keeps I (dev_revoke (ap_device_repo A) tok)"
begin

lemma role_keeps: "keeps I (require_role A role)"
  by (auto simp: require_role_def simp del: retE_apply failE_apply intro!: keep_intros
      split: sum.split)

lemma rest_keeps: "keeps I (rest A role hs call)"
  unfolding rest_def list_notifications_def mark_notification_as_read_def
    mark_all_notifications_as_read_def register_device_def revoke_device_def list_devices_def
    orch_get_unread_count_def orch_mark_as_read_def orch_mark_all_as_read_def
  by (auto simp del: retE_apply failE_apply split: sum.split option.split rest_call.split if_split
      intro!: keep_intros role_keeps views_keeps read_call_keeps register_keeps active_keeps
        revoke_keeps)

lemma result_keeps: "keeps I (Pair r)"
  by (simp add: keeps_def)

lemma send_notification_keeps: "keeps I (send_notification A hs req)"
  unfolding send_notification_def Let_def
  by (auto simp del: retE_apply bindE_value bindE_error intro!: keep_intros result_keeps queue_keeps)

lemma get_notification_status_keeps: "keeps I (get_notification_status A hs text)"
  unfolding get_notification_status_def Let_def get_status_def
  by (auto simp del: retE_apply failE_apply bindE_value bindE_error split: option.split
      intro!: keep_intros result_keeps get_keeps)

end

end
