(* ===== verification/Startup.thy ===== *)
theory Startup
  imports World Consumers Api
begin

text \<open>
  \<^verbatim>\<open>noti-core/src/config.rs\<close> and the body of \<^verbatim>\<open>run\<close> in \<^verbatim>\<open>bin/noti-server/src/startup.rs\<close>: the
  configuration with its defaults, the connections in their order, the choice of providers,
  the Kafka subscription, the recovery sweep, and what the service then consists of. Routes are in
  \<open>Routes\<close>, servers and shutdown in \<open>Process\<close>. Connecting and migrating are parameters (\<open>infra\<close>).
\<close>

section \<open>Configuration\<close>

definition default_log_level :: string where "default_log_level = ''info''"
definition default_port :: "16 word" where "default_port = 8080"
definition default_db_max_connections :: "32 word" where "default_db_max_connections = 20"
definition default_db_min_connections :: "32 word" where "default_db_min_connections = 5"
definition default_db_acquire_timeout :: "64 word" where "default_db_acquire_timeout = 30"
definition default_db_idle_timeout :: "64 word" where "default_db_idle_timeout = 600"

definition default_kafka_user_events :: string where
  "default_kafka_user_events = ''iam.user.events''"

definition default_kafka_audit_events :: string where
  "default_kafka_audit_events = ''iam.audit.events''"

definition default_kafka_trading_triggers :: string where
  "default_kafka_trading_triggers = ''trading.triggers''"

definition default_kafka_meter_events :: string where
  "default_kafka_meter_events = ''meter_events''"

record config =
  cf_port :: "16 word"
  cf_database_url :: string
  cf_migration_database_url :: "string option"
  cf_kafka_brokers :: string
  cf_rabbitmq_url :: string
  cf_redis_url :: string
  cf_log_level :: string
  cf_database_max_connections :: "32 word"
  cf_database_min_connections :: "32 word"
  cf_database_acquire_timeout_secs :: "64 word"
  cf_database_idle_timeout_secs :: "64 word"
  cf_twilio_account_sid :: "string option"
  cf_twilio_auth_token :: "string option"
  cf_fcm_project_id :: "string option"
  cf_fcm_credentials_path :: "string option"
  cf_smtp_host :: "string option"
  cf_smtp_port :: "16 word option"
  cf_smtp_user :: "string option"
  cf_smtp_pass :: "string option"
  cf_smtp_from :: "string option"
  cf_smtp_tls_mode :: "string option"
  cf_jwt_secret :: string
  cf_frontend_url :: "string option"
  cf_grpc_port :: "16 word option"
  cf_kafka_topic_user_events :: string
  cf_kafka_topic_audit_events :: string
  cf_kafka_topic_trading_triggers :: string
  cf_kafka_topic_meter_events :: string

text \<open>
  What the sources provide, after the \<^verbatim>\<open>config\<close> crate has merged and typed them; a field the
  sources lack takes its default, and a required one makes deserialization fail.
\<close>

record sources =
  so_port :: "16 word option"
  so_database_url :: "string option"
  so_kafka_brokers :: "string option"
  so_rabbitmq_url :: "string option"
  so_redis_url :: "string option"
  so_jwt_secret :: "string option"
  so_log_level :: "string option"
  so_database_max_connections :: "32 word option"
  so_database_min_connections :: "32 word option"
  so_database_acquire_timeout_secs :: "64 word option"
  so_database_idle_timeout_secs :: "64 word option"
  so_kafka_topic_user_events :: "string option"
  so_kafka_topic_audit_events :: "string option"
  so_kafka_topic_trading_triggers :: "string option"
  so_kafka_topic_meter_events :: "string option"
  so_optional :: "string \<Rightarrow> string option"
  so_smtp_port :: "16 word option"
  so_grpc_port :: "16 word option"

definition unwrap_or :: "'a \<Rightarrow> 'a option \<Rightarrow> 'a" where
  "unwrap_or d x = (case x of Some y \<Rightarrow> y | None \<Rightarrow> d)"

definition read_config :: "sources \<Rightarrow> config option" where
  "read_config so =
     do { database_url \<leftarrow> so_database_url so;
          kafka_brokers \<leftarrow> so_kafka_brokers so;
          rabbitmq_url \<leftarrow> so_rabbitmq_url so;
          redis_url \<leftarrow> so_redis_url so;
          jwt_secret \<leftarrow> so_jwt_secret so;
          Some \<lparr>cf_port = unwrap_or default_port (so_port so),
            cf_database_url = database_url,
            cf_migration_database_url = so_optional so ''migration_database_url'',
            cf_kafka_brokers = kafka_brokers, cf_rabbitmq_url = rabbitmq_url,
            cf_redis_url = redis_url,
            cf_log_level = unwrap_or default_log_level (so_log_level so),
            cf_database_max_connections =
              unwrap_or default_db_max_connections (so_database_max_connections so),
            cf_database_min_connections =
              unwrap_or default_db_min_connections (so_database_min_connections so),
            cf_database_acquire_timeout_secs =
              unwrap_or default_db_acquire_timeout (so_database_acquire_timeout_secs so),
            cf_database_idle_timeout_secs =
              unwrap_or default_db_idle_timeout (so_database_idle_timeout_secs so),
            cf_twilio_account_sid = so_optional so ''twilio_account_sid'',
            cf_twilio_auth_token = so_optional so ''twilio_auth_token'',
            cf_fcm_project_id = so_optional so ''fcm_project_id'',
            cf_fcm_credentials_path = so_optional so ''fcm_credentials_path'',
            cf_smtp_host = so_optional so ''smtp_host'', cf_smtp_port = so_smtp_port so,
            cf_smtp_user = so_optional so ''smtp_user'',
            cf_smtp_pass = so_optional so ''smtp_pass'',
            cf_smtp_from = so_optional so ''smtp_from'',
            cf_smtp_tls_mode = so_optional so ''smtp_tls_mode'',
            cf_jwt_secret = jwt_secret, cf_frontend_url = so_optional so ''frontend_url'',
            cf_grpc_port = so_grpc_port so,
            cf_kafka_topic_user_events =
              unwrap_or default_kafka_user_events (so_kafka_topic_user_events so),
            cf_kafka_topic_audit_events =
              unwrap_or default_kafka_audit_events (so_kafka_topic_audit_events so),
            cf_kafka_topic_trading_triggers =
              unwrap_or default_kafka_trading_triggers (so_kafka_topic_trading_triggers so),
            cf_kafka_topic_meter_events =
              unwrap_or default_kafka_meter_events (so_kafka_topic_meter_events so)\<rparr> }"

section \<open>Infrastructure\<close>

record pool_options =
  po_max_connections :: "32 word"
  po_min_connections :: "32 word option"
  po_acquire_timeout :: "64 word option"
  po_idle_timeout :: "64 word option"

record infra =
  in_pool :: "pool_options \<Rightarrow> string \<Rightarrow> string + unit"
  in_migrate :: "string + unit"
  in_redis :: "string \<Rightarrow> string + unit"
  in_amqp :: "string \<Rightarrow> string + unit"

definition migration_url :: "config \<Rightarrow> string" where
  "migration_url c = unwrap_or (cf_database_url c) (cf_migration_database_url c)"

definition migration_pool :: pool_options where
  "migration_pool = \<lparr>po_max_connections = 1, po_min_connections = None,
     po_acquire_timeout = None, po_idle_timeout = None\<rparr>"

definition high_priority_pool :: "config \<Rightarrow> pool_options" where
  "high_priority_pool c =
     \<lparr>po_max_connections = cf_database_max_connections c,
      po_min_connections = Some (cf_database_min_connections c),
      po_acquire_timeout = Some (cf_database_acquire_timeout_secs c),
      po_idle_timeout = Some (cf_database_idle_timeout_secs c)\<rparr>"

definition low_priority_pool :: "config \<Rightarrow> pool_options" where
  "low_priority_pool c =
     \<lparr>po_max_connections = cf_database_max_connections c div 2,
      po_min_connections = Some (cf_database_min_connections c),
      po_acquire_timeout = Some (cf_database_acquire_timeout_secs c),
      po_idle_timeout = Some (cf_database_idle_timeout_secs c)\<rparr>"

text \<open>\<^verbatim>\<open>anyhow\<close>'s \<^verbatim>\<open>context\<close>: the text of the error is that of its outermost context.\<close>

definition needs :: "string \<Rightarrow> string + unit \<Rightarrow> ('s, string, unit) act" where
  "needs ctx r = (case r of Inl _ \<Rightarrow> failE ctx | Inr u \<Rightarrow> retE u)"

definition connect_infrastructure :: "infra \<Rightarrow> config \<Rightarrow> (world, string, unit) act" where
  "connect_infrastructure I c =
     bindE (needs ''Failed to connect to PostgreSQL for migrations''
       (in_pool I migration_pool (migration_url c))) (\<lambda>_.
     bindE (needs ''Failed to run database migrations'' (in_migrate I)) (\<lambda>_.
     bindE (needs ''Failed to connect to High Priority PostgreSQL''
       (in_pool I (high_priority_pool c) (cf_database_url c))) (\<lambda>_.
     bindE (needs ''Failed to connect to Low Priority PostgreSQL''
       (in_pool I (low_priority_pool c) (cf_database_url c))) (\<lambda>_.
     bindE (needs ''Failed to create Redis client'' (in_redis I (cf_redis_url c))) (\<lambda>_.
     if cf_rabbitmq_url c = []
     then failE ''RABBITMQ_URL is required: durable retry queue cannot start without a broker''
     else
       bindE (needs ''Failed to connect to RabbitMQ'' (in_amqp I (cf_rabbitmq_url c))) (\<lambda>_.
       mapErr (\<lambda>_. ''Failed to connect to RabbitMQ'') (on_broker declare_topology)))))))"

section \<open>Providers\<close>

definition choose_email :: "libs \<Rightarrow> config \<Rightarrow> string + smtp_provider option" where
  "choose_email L c =
     (case cf_smtp_host c of
        None \<Rightarrow> Inr None
      | Some host \<Rightarrow>
          map_sum id Some
            (smtp_new (l_valid_relay L) host (unat (unwrap_or 587 (cf_smtp_port c)))
               (cf_smtp_user c) (cf_smtp_pass c)
               (unwrap_or ''no-reply@gridtokenx.com'' (cf_smtp_from c)) (cf_smtp_tls_mode c)))"

text \<open>The preflight mints a token; its result is only logged.\<close>

definition choose_push :: "libs \<Rightarrow> config \<Rightarrow> (world, 'e, (string \<times> service_account) option) act" where
  "choose_push L c =
     (case (cf_fcm_project_id c, cf_fcm_credentials_path c) of
        (Some project, Some path) \<Rightarrow>
          (case from_credentials_file (l_credentials L) (l_codecs L) path of
             Inr account \<Rightarrow>
               attempt (preflight (world_fcm L project account))
                 (\<lambda>_. retE (Some (project, account)))
           | Inl _ \<Rightarrow> retE None)
      | _ \<Rightarrow> retE None)"

section \<open>The boot sequence\<close>

definition stuck_processing_secs :: int where "stuck_processing_secs = 300"
definition recovery_batch :: int where "recovery_batch = 1000"

record subscription =
  su_brokers :: string
  su_group :: string
  su_topics :: "string list"

definition subscription_of :: "config \<Rightarrow> subscription option" where
  "subscription_of c =
     (if cf_kafka_brokers c = [] then None
      else Some \<lparr>su_brokers = cf_kafka_brokers c, su_group = ''noti-service-group'',
        su_topics = [cf_kafka_topic_user_events c, cf_kafka_topic_audit_events c,
          cf_kafka_topic_trading_triggers c, cf_kafka_topic_meter_events c]\<rparr>)"

definition initial_health :: "config \<Rightarrow> consumer_health" where
  "initial_health c = (if cf_kafka_brokers c = [] then mark_disabled health_new else health_new)"

text \<open>The sum is 16-bit arithmetic; a release build wraps.\<close>

definition grpc_port :: "config \<Rightarrow> 16 word" where
  "grpc_port c = unwrap_or (cf_port c + 10) (cf_grpc_port c)"

record service =
  sv_deployment :: deployment
  sv_subscription :: "subscription option"
  sv_health :: consumer_health
  sv_http_port :: "16 word"
  sv_grpc_port :: "16 word"

definition boot :: "libs \<Rightarrow> infra \<Rightarrow> config \<Rightarrow> (world, string, service) act" where
  "boot L I c =
     bindE (connect_infrastructure I c) (\<lambda>_.
     bindE (Pair (template_engine_new (l_tera L) (l_context L) ''./templates'')) (\<lambda>engine.
     bindE (Pair (choose_email L c)) (\<lambda>email.
     bindE (choose_push L c) (\<lambda>push.
     let dp = \<lparr>dp_engine = engine, dp_smtp = email, dp_fcm = push\<rparr> in
     attempt (recover_pending (world_orch L dp) stuck_processing_secs recovery_batch) (\<lambda>_.
     retE \<lparr>sv_deployment = dp, sv_subscription = subscription_of c,
           sv_health = initial_health c, sv_http_port = cf_port c,
           sv_grpc_port = grpc_port c\<rparr>)))))"

section \<open>Facts\<close>

lemma needs_Inr: "needs ctx r s = (Inr u, s') \<longleftrightarrow> (\<exists>x. r = Inr x) \<and> s' = s"
  by (cases r) (auto simp: needs_def)

lemma connect_infrastructure_Inr:
  assumes "connect_infrastructure I c w = (Inr u, w')"
  shows "cf_rabbitmq_url c \<noteq> []" and "on_broker declare_topology w = (Inr (), w')"
  using assms unfolding connect_infrastructure_def
  by (auto elim!: bindE_cases simp: needs_Inr mapErr_Inr split: if_splits)

end
