(* ===== verification/Intake.thy ===== *)
theory Intake
  imports World Consumers
begin

text \<open>
  Ingestion and recovery on the state of the service: what queueing a notification does to the
  table, the broker and the runtime, and that a batch of requests whose keys the table already
  holds changes none of them. A recovery sweep hands over rows of its backlog, each once, as many as
  its limit allows, and nothing else.
\<close>

section \<open>Handing a notification over\<close>

definition dispatch_properties :: properties where
  "dispatch_properties = default_properties\<lparr>pr_delivery_mode := Some 2\<rparr>"

definition dispatch_op :: "string \<Rightarrow> amqp_op" where
  "dispatch_op text = BasicPublish ''noti.exchange'' ''noti.dispatch'' text dispatch_properties"

text \<open>A notification is handed over once its task is published or a process task will run it.\<close>

definition handed_over :: "libs \<Rightarrow> uuid \<Rightarrow> world \<Rightarrow> bool" where
  "handed_over L i w \<longleftrightarrow>
     (\<exists>text. c_json_encode (l_codecs L)
          (task_json (l_codecs L) \<lparr>nt_notification_id = i, nt_retry_count = 0\<rparr>) = Inr text \<and>
        dispatch_op text \<in> set (bk_log (w_broker w))) \<or>
     DispatchTask i \<in> set (net_tasks (w_net w))"

text \<open>Logs only grow.\<close>

definition extends :: "world \<Rightarrow> world \<Rightarrow> bool" where
  "extends w w' \<longleftrightarrow>
     set (bk_log (w_broker w)) \<subseteq> set (bk_log (w_broker w')) \<and>
     set (net_tasks (w_net w)) \<subseteq> set (net_tasks (w_net w'))"

lemma extends_refl [simp]: "extends w w"
  by (simp add: extends_def)

lemma extends_trans: "extends w w' \<Longrightarrow> extends w' w'' \<Longrightarrow> extends w w''"
  by (auto simp: extends_def)

lemma handed_over_mono: "handed_over L i w \<Longrightarrow> extends w w' \<Longrightarrow> handed_over L i w'"
  by (auto simp: handed_over_def extends_def)

lemma publish_dispatch_run:
  assumes "publish_dispatch c i b = (r, b')"
  shows "(\<exists>text. r = Inr () \<and> c_json_encode c
        (task_json c \<lparr>nt_notification_id = i, nt_retry_count = 0\<rparr>) = Inr text \<and>
      bk_log b' = bk_log b @ [dispatch_op text]) \<or> (isl r \<and> bk_log b' = bk_log b)"
  using assms
  by (auto simp: publish_dispatch_def publish_task_def mapErr_def amqp_def Let_def dispatch_op_def
      dispatch_properties_def split: sum.splits option.splits)

lemma trigger_run:
  assumes "trigger_dispatch (world_orch L dp) i w = (r, w')"
  shows "r = Inr ()" and "handed_over L i w'" and "extends w w'"
    and "w_notifications w' = w_notifications w" and "net_calls (w_net w') = net_calls (w_net w)"
    and "net_random (w_net w') = net_random (w_net w)" and "w_devices w' = w_devices w"
proof -
  obtain x b where p: "publish_dispatch (l_codecs L) i (w_broker w) = (x, b)" by (metis surj_pair)
  from publish_dispatch_run [OF p] assms p
  have *: "r = Inr () \<and> handed_over L i w' \<and> extends w w' \<and> w_notifications w' = w_notifications w \<and>
      net_calls (w_net w') = net_calls (w_net w) \<and> net_random (w_net w') = net_random (w_net w) \<and>
      w_devices w' = w_devices w"
    by (auto simp: trigger_dispatch_def attempt_def lift_def spawn_world handed_over_def extends_def
        split: sum.splits)
  then show "r = Inr ()" "handed_over L i w'" "extends w w'" "w_notifications w' = w_notifications w"
    "net_calls (w_net w') = net_calls (w_net w)" "net_random (w_net w') = net_random (w_net w)"
    "w_devices w' = w_devices w" by blast+
qed

section \<open>Recovery\<close>

text \<open>
  Exactly the identifiers \<open>ids\<close> are handed over between \<open>w\<close> and \<open>w'\<close>: each is published once or
  spawned once, and the logs gain nothing else.
\<close>

definition task_texts :: "libs \<Rightarrow> uuid list \<Rightarrow> string list \<Rightarrow> bool" where
  "task_texts L ids texts \<longleftrightarrow> list_all2 (\<lambda>i payload. c_json_encode (l_codecs L)
     (task_json (l_codecs L) \<lparr>nt_notification_id = i, nt_retry_count = 0\<rparr>) = Inr payload) ids texts"

definition hands_over :: "libs \<Rightarrow> uuid list \<Rightarrow> world \<Rightarrow> world \<Rightarrow> bool" where
  "hands_over L ids w w' \<longleftrightarrow> (\<exists>published texts spawned.
     task_texts L published texts \<and>
     bk_log (w_broker w') = bk_log (w_broker w) @ map dispatch_op texts \<and>
     net_tasks (w_net w') = net_tasks (w_net w) @ map DispatchTask spawned \<and>
     mset published + mset spawned = mset ids)"

lemma hands_over_Nil [simp]:
  "bk_log (w_broker w') = bk_log (w_broker w) \<Longrightarrow> net_tasks (w_net w') = net_tasks (w_net w) \<Longrightarrow>
     hands_over L [] w w'"
  by (simp add: hands_over_def task_texts_def)

lemma hands_over_append:
  assumes "hands_over L ks w w1" and "hands_over L js w1 w2"
  shows "hands_over L (ks @ js) w w2"
proof -
  obtain p t q where one: "task_texts L p t" "bk_log (w_broker w1) = bk_log (w_broker w) @ map dispatch_op t"
    "net_tasks (w_net w1) = net_tasks (w_net w) @ map DispatchTask q" "mset p + mset q = mset ks"
    using assms(1) unfolding hands_over_def by blast
  obtain p' t' q' where two: "task_texts L p' t'"
    "bk_log (w_broker w2) = bk_log (w_broker w1) @ map dispatch_op t'"
    "net_tasks (w_net w2) = net_tasks (w_net w1) @ map DispatchTask q'" "mset p' + mset q' = mset js"
    using assms(2) unfolding hands_over_def by blast
  have "task_texts L (p @ p') (t @ t')"
    using one(1) two(1) by (simp add: task_texts_def list_all2_appendI)
  moreover have "mset (p @ p') + mset (q @ q') = mset (ks @ js)"
    unfolding mset_append one(4) [symmetric] two(4) [symmetric] by (simp add: ac_simps)
  moreover have "bk_log (w_broker w2) = bk_log (w_broker w) @ map dispatch_op (t @ t')"
    "net_tasks (w_net w2) = net_tasks (w_net w) @ map DispatchTask (q @ q')"
    using one two by simp_all
  ultimately show ?thesis unfolding hands_over_def by blast
qed

lemma hands_over_each:
  assumes "hands_over L ids w w'" and "i \<in> set ids"
  shows "handed_over L i w'"
proof -
  obtain p t q where one: "task_texts L p t" "bk_log (w_broker w') = bk_log (w_broker w) @ map dispatch_op t"
    "net_tasks (w_net w') = net_tasks (w_net w) @ map DispatchTask q" "mset p + mset q = mset ids"
    using assms(1) unfolding hands_over_def by blast
  have "i \<in> set p \<or> i \<in> set q"
    using assms(2) one(4) by (metis set_mset_mset set_mset_union Un_iff)
  then show ?thesis
  proof
    assume "i \<in> set p"
    then obtain k where k: "k < length p" "p ! k = i" by (auto simp: in_set_conv_nth)
    with one(1) have "k < length t" and "c_json_encode (l_codecs L)
        (task_json (l_codecs L) \<lparr>nt_notification_id = i, nt_retry_count = 0\<rparr>) = Inr (t ! k)"
      by (auto simp: task_texts_def list_all2_conv_all_nth)
    then show ?thesis using one(2) by (auto simp: handed_over_def)
  qed (use one(3) in \<open>simp add: handed_over_def\<close>)
qed

lemma trigger_one:
  assumes "trigger_dispatch (world_orch L dp) i w = (r, w')"
  shows "hands_over L [i] w w'"
proof -
  obtain x b where p: "publish_dispatch (l_codecs L) i (w_broker w) = (x, b)" by (metis surj_pair)
  show ?thesis
  proof (cases "isl x")
    case True
    then have "bk_log (w_broker w') = bk_log (w_broker w) @ map dispatch_op []"
      "net_tasks (w_net w') = net_tasks (w_net w) @ map DispatchTask [i]" "task_texts L [] []"
      using publish_dispatch_run [OF p] assms p
      by (auto simp: trigger_dispatch_def attempt_def lift_def spawn_world task_texts_def split: sum.splits)
    then show ?thesis unfolding hands_over_def by fastforce
  next
    case False
    then obtain payload where "bk_log (w_broker w') = bk_log (w_broker w) @ map dispatch_op [payload]"
      "net_tasks (w_net w') = net_tasks (w_net w) @ map DispatchTask []" "task_texts L [i] [payload]"
      using publish_dispatch_run [OF p] assms p
      by (auto simp: trigger_dispatch_def attempt_def lift_def spawn_world task_texts_def split: sum.splits)
    then show ?thesis unfolding hands_over_def by fastforce
  qed
qed

lemma trigger_all:
  "forE found (\<lambda>n. trigger_dispatch (world_orch L dp) (n_id n)) w = (r, w') \<Longrightarrow>
     r = Inr () \<and> w_notifications w' = w_notifications w \<and> hands_over L (map n_id found) w w'"
proof (induction found arbitrary: w)
  case (Cons n found)
  obtain x w1 where t: "trigger_dispatch (world_orch L dp) (n_id n) w = (x, w1)" by (metis surj_pair)
  note t' = trigger_run [OF t]
  with Cons.prems t have "forE found (\<lambda>n. trigger_dispatch (world_orch L dp) (n_id n)) w1 = (r, w')"
    by (simp add: bindE_def)
  from Cons.IH [OF this] t'(4) hands_over_append [OF trigger_one [OF t]] show ?case by simp
qed simp

text \<open>
  The rows a sweep may pick: due when the second statement runs, or stuck when the first does. It
  picks the first of them the database returns, up to the limit.
\<close>

definition swept :: "int \<Rightarrow> notification_table \<Rightarrow> notification_table" where
  "swept threshold t = snd (reset_stuck_processing threshold t)"

definition picked :: "int \<Rightarrow> int \<Rightarrow> notification_table \<Rightarrow> notification_row list" where
  "picked threshold limit t =
     take (nat limit) (filter (due (db_now (swept threshold t))) (scan r_id (swept threshold t)))"

definition backlog :: "int \<Rightarrow> notification_table \<Rightarrow> notification_row list" where
  "backlog threshold t =
     filter (\<lambda>r. due (t_now t (Suc (t_calls t))) r \<or> stuck threshold (db_now t) r) (t_rows t)"

text \<open>The database clock does not run back between the two statements.\<close>

definition steady_clock :: "notification_table \<Rightarrow> bool" where
  "steady_clock t \<longleftrightarrow> db_now t \<le> t_now t (Suc (t_calls t))"

lemma swept_rows:
  "healthy t \<Longrightarrow> t_rows (swept threshold t) = update_where (stuck threshold (db_now t))
     (\<lambda>r. r\<lparr>r_status := PendingDb, r_next_retry_at := db_now t, r_updated_at := db_now t\<rparr>) (t_rows t)"
  by (simp add: swept_def reset_stuck_processing_def Let_def exec_healthy)

lemma swept_now: "healthy t \<Longrightarrow> db_now (swept threshold t) = t_now t (Suc (t_calls t))"
  by (simp add: swept_def reset_stuck_processing_def Let_def exec_healthy db_now_def)

lemma length_filter_scan: "length (filter P (scan key t)) = length (filter P (t_rows t))"
  by (metis mset_filter mset_scan size_mset)

lemma length_filter_mono: "(\<And>x. P x \<Longrightarrow> Q x) \<Longrightarrow> length (filter P xs) \<le> length (filter Q xs)"
  by (induction xs) (auto intro: le_SucI)

lemma picked_ids:
  assumes "healthy t" and "distinct (map r_id (t_rows t))"
  shows "distinct (map r_id (picked threshold limit t))"
    and "r_id ` set (picked threshold limit t) \<subseteq> r_id ` set (backlog threshold t)"
    and "length (picked threshold limit t) \<le> length (backlog threshold t)"
    and "steady_clock t \<Longrightarrow> length (picked threshold limit t) = min (nat limit) (length (backlog threshold t))"
proof -
  let ?due = "due (t_now t (Suc (t_calls t)))" and ?s = "swept threshold t"
  let ?f = "\<lambda>r. if stuck threshold (db_now t) r
    then r\<lparr>r_status := PendingDb, r_next_retry_at := db_now t, r_updated_at := db_now t\<rparr> else r"
  have rows: "t_rows ?s = map ?f (t_rows t)" using swept_rows [OF assms(1)] by (simp add: update_where_def)
  have ids: "map r_id (t_rows ?s) = map r_id (t_rows t)" unfolding rows by simp
  have "mset (map r_id (scan r_id ?s)) = mset (map r_id (t_rows ?s))" by (simp add: scan_def)
  with ids assms(2) have "distinct (map r_id (scan r_id ?s))" by (metis mset_eq_imp_distinct_iff)
  then show "distinct (map r_id (picked threshold limit t))"
    unfolding picked_def take_map [symmetric] by (intro distinct_take distinct_map_filter)
  have "set (scan r_id ?s) = ?f ` set (t_rows t)" by (simp add: scan_def rows)
  then show "r_id ` set (picked threshold limit t) \<subseteq> r_id ` set (backlog threshold t)"
    using set_take_subset [of "nat limit" "filter ?due (scan r_id ?s)"]
    by (fastforce simp: picked_def swept_now [OF assms(1)] backlog_def split: if_splits)
  have len: "length (filter ?due (scan r_id ?s)) = length (filter (\<lambda>r. ?due (?f r)) (t_rows t))"
    unfolding length_filter_scan rows filter_map length_map by (simp add: comp_def)
  have "length (filter (\<lambda>r. ?due (?f r)) (t_rows t)) \<le> length (backlog threshold t)"
    unfolding backlog_def by (rule length_filter_mono) (simp split: if_splits)
  with len show "length (picked threshold limit t) \<le> length (backlog threshold t)"
    by (simp add: picked_def swept_now [OF assms(1)])
  assume "steady_clock t"
  then have "(\<lambda>r. ?due (?f r)) = (\<lambda>r. ?due r \<or> stuck threshold (db_now t) r)"
    by (auto simp: fun_eq_iff due_def secs_def steady_clock_def stuck_def)
  with len show "length (picked threshold limit t) = min (nat limit) (length (backlog threshold t))"
    by (simp add: picked_def swept_now [OF assms(1)] backlog_def min.commute)
qed

text \<open>When the limit covers the backlog, the whole of it is picked.\<close>

lemma picked_all:
  assumes "healthy t" and "distinct (map r_id (t_rows t))" and "steady_clock t"
    and "length (backlog threshold t) \<le> nat limit"
  shows "r_id ` set (picked threshold limit t) = r_id ` set (backlog threshold t)"
proof -
  note p = picked_ids [OF assms(1,2), of threshold limit]
  have "distinct (map r_id (backlog threshold t))"
    using assms(2) unfolding backlog_def by (rule distinct_map_filter)
  then have "card (r_id ` set (backlog threshold t)) = length (backlog threshold t)"
    by (metis distinct_card length_map list.set_map)
  moreover have "card (r_id ` set (picked threshold limit t)) = length (backlog threshold t)"
    using p(1) p(4) [OF assms(3)] assms(4) by (metis distinct_card length_map list.set_map min_absorb2)
  ultimately show ?thesis using p(2) by (simp add: card_subset_eq)
qed

lemma recover_run:
  assumes "recover_pending (world_orch L dp) threshold limit w = (Inr k, w')"
  shows "k = length (picked threshold limit (w_notifications w))"
    and "t_rows (w_notifications w') = t_rows (swept threshold (w_notifications w))"
    and "hands_over L (map r_id (picked threshold limit (w_notifications w))) w w'"
proof -
  let ?t = "w_notifications w"
  obtain x w1 where reset: "on_notifications (reset_stuck_processing threshold) w = (Inr x, w1)"
    using assms by (auto simp: recover_pending_def elim!: bindE_cases)
  then have w1: "w_notifications w1 = swept threshold ?t" by (auto simp: lift_apply swept_def)
  obtain found w2 where get: "on_notifications (get_pending_for_retry limit) w1 = (Inr found, w2)"
    and rest: "forE found (\<lambda>n. trigger_dispatch (world_orch L dp) (n_id n)) w2 = (Inr (), w')"
    and k: "k = length found"
    using assms reset by (auto simp: recover_pending_def act_simps elim!: bindE_cases)
  from get have "get_pending_for_retry limit (w_notifications w1) = (Inr found, w_notifications w2)"
    by (auto simp: lift_apply prod_eq_iff)
  then have found: "found = map into_domain (picked threshold limit ?t)"
    and rows: "t_rows (w_notifications w2) = t_rows (swept threshold ?t)"
    unfolding get_pending_for_retry_def w1 by (auto simp: picked_def dest!: query_Inr split: if_splits)
  have same: "w_broker w2 = w_broker w" "w_net w2 = w_net w"
    using reset get by (auto simp: lift_apply)
  have ids: "map n_id found = map r_id (picked threshold limit ?t)" unfolding found by simp
  from trigger_all [OF rest] rows have "t_rows (w_notifications w') = t_rows (swept threshold ?t)"
    "hands_over L (map n_id found) w2 w'" by simp_all
  then show "k = length (picked threshold limit ?t)"
    "t_rows (w_notifications w') = t_rows (swept threshold ?t)"
    "hands_over L (map r_id (picked threshold limit ?t)) w w'"
    unfolding ids hands_over_def same using found k by simp_all
qed

lemma recover_total:
  assumes up: "table_up (w_notifications w)" and "0 \<le> limit"
  shows "\<exists>k w'. recover_pending (world_orch L dp) threshold limit w = (Inr k, w')"
proof -
  obtain x w1 where reset: "on_notifications (reset_stuck_processing threshold) w = (Inr x, w1)"
    and h: "healthy (w_notifications w1)"
    using up by (simp add: lift_apply reset_stuck_processing_def Let_def exec_healthy table_up_def
        healthy_def)
  obtain found w2 where get: "on_notifications (get_pending_for_retry limit) w1 = (Inr found, w2)"
    using h assms(2) by (simp add: lift_apply get_pending_for_retry_def query_healthy)
  obtain w3 where "forE found (\<lambda>n. trigger_dispatch (world_orch L dp) (n_id n)) w2 = (Inr (), w3)"
    using trigger_all by (metis surj_pair)
  with reset get show ?thesis by (simp add: recover_pending_def act_simps)
qed

section \<open>Queueing\<close>

text \<open>What a call may leave alone, and what only moves forward.\<close>

definition same_stores :: "world \<Rightarrow> world \<Rightarrow> bool" where
  "same_stores w w' \<longleftrightarrow>
     t_rows (w_notifications w') = t_rows (w_notifications w) \<and> w_broker w' = w_broker w \<and>
     w_redis w' = w_redis w \<and> w_devices w' = w_devices w \<and>
     net_tasks (w_net w') = net_tasks (w_net w)"

definition later :: "world \<Rightarrow> world \<Rightarrow> bool" where
  "later w w' \<longleftrightarrow> net_random (w_net w') = net_random (w_net w) \<and>
     net_calls (w_net w) \<le> net_calls (w_net w')"

lemma same_stores_refl [simp]: "same_stores w w"
  by (simp add: same_stores_def)

lemma same_stores_trans: "same_stores w w' \<Longrightarrow> same_stores w' w'' \<Longrightarrow> same_stores w w''"
  by (simp add: same_stores_def)

lemma later_refl [simp]: "later w w"
  by (simp add: later_def)

lemma later_trans: "later w w' \<Longrightarrow> later w' w'' \<Longrightarrow> later w w''"
  by (auto simp: later_def)

text \<open>The identifiers still to be drawn are not in the table: what random UUIDs promise.\<close>

definition fresh_ids :: "world \<Rightarrow> bool" where
  "fresh_ids w \<longleftrightarrow>
     (\<forall>k \<ge> net_calls (w_net w). net_random (w_net w) k \<notin> r_id ` set (t_rows (w_notifications w)))"

lemma fresh_ids_later: "fresh_ids w \<Longrightarrow> later w w' \<Longrightarrow>
    t_rows (w_notifications w') = t_rows (w_notifications w) \<Longrightarrow> fresh_ids w'"
  by (auto simp: fresh_ids_def later_def)

lemmas net_ops = net_now_def net_new_uuid_def tick_def

text \<open>The record a call stores, with the three clock readings.\<close>

definition queued_record ::
  "world \<Rightarrow> uuid option \<Rightarrow> notification_channel \<Rightarrow> string \<Rightarrow> string \<Rightarrow> json \<Rightarrow> string option \<Rightarrow>
   notification" where
  "queued_record w user channel recipient template vars key =
     (let n = w_net w; k = net_calls n in
      new_notification (net_random n k) user channel recipient template vars key
        (net_clock n (k + 1)) (net_clock n (k + 2)) (net_clock n (k + 3)))"

definition drawn :: "world \<Rightarrow> world" where
  "drawn w = w\<lparr>w_net := (w_net w)\<lparr>net_calls := net_calls (w_net w) + 4\<rparr>\<rparr>"

lemma queue_unfold:
  "queue_notification (world_orch L dp) user channel recipient template vars key w =
     bindE (on_notifications (create (queued_record w user channel recipient template vars key)))
       (\<lambda>saved. if n_id saved \<noteq> net_random (w_net w) (net_calls (w_net w)) then retE (n_id saved)
          else bindE (cache_idempotency_key (world_orch L dp) key (n_id saved)) (\<lambda>_.
               bindE (trigger_dispatch (world_orch L dp) (n_id saved)) (\<lambda>_.
               retE (n_id saved)))) (drawn w)"
  by (simp add: queue_notification_def world_runtime_def now_world peek_def lift_apply net_ops
      queued_record_def drawn_def Let_def numeral_eq_Suc)

lemma n_id_queued [simp]:
  "n_id (queued_record w u c r t v k) = net_random (w_net w) (net_calls (w_net w))"
  "n_idempotency_key (queued_record w u c r t v k) = k"
  "n_status (queued_record w u c r t v k) = Pending"
  "n_user_id (queued_record w u c r t v k) = u" "n_channel (queued_record w u c r t v k) = c"
  "n_recipient (queued_record w u c r t v k) = r" "n_template_id (queued_record w u c r t v k) = t"
  by (simp_all add: queued_record_def new_notification_def Let_def)

lemma drawn_simps [simp]:
  "w_notifications (drawn w) = w_notifications w" "w_broker (drawn w) = w_broker w"
  "w_redis (drawn w) = w_redis w" "w_devices (drawn w) = w_devices w"
  "net_tasks (w_net (drawn w)) = net_tasks (w_net w)" "later w (drawn w)"
  "net_random (w_net (drawn w)) = net_random (w_net w)"
  by (simp_all add: drawn_def later_def)

lemma table_up_create:
  assumes "table_up t" and "create n t = (x, t')"
  shows "table_up t'"
  using assms keeps_run [OF keeps_create assms(2)] unfolding table_up_def create_def
  by (metis healthy_exec_run)

text \<open>A known key: nothing but the drawn identifier and clocks.\<close>

lemma queue_known:
  assumes up: "table_up (w_notifications w)"
    and known: "key_conflict (Some k) (t_rows (w_notifications w)) = Some r"
    and fresh: "net_random (w_net w) (net_calls (w_net w)) \<noteq> r_id r"
  shows "\<exists>w'. queue_notification (world_orch L dp) user channel recipient template vars (Some k) w =
      (Inr (r_id r), w') \<and> same_stores w w' \<and> later w w' \<and> table_up (w_notifications w')"
proof -
  let ?n = "queued_record w user channel recipient template vars (Some k)"
  have c: "create ?n (w_notifications w) = (Inr (into_domain r),
      (w_notifications w)\<lparr>t_calls := Suc (t_calls (w_notifications w))\<rparr>)"
    using up known by (simp add: create_def exec_healthy table_up_def)
  from table_up_create [OF up c] c fresh show ?thesis
    by (simp add: queue_unfold bindE_def lift_apply same_stores_def) (simp add: drawn_def later_def)
qed

text \<open>A new key: one more row, handed over.\<close>

lemma cache_key_run:
  assumes "cache_idempotency_key (world_orch L dp) key i w = (r, w')"
  shows "r = Inr () \<and> w_notifications w' = w_notifications w \<and> w_net w' = w_net w \<and>
    w_broker w' = w_broker w \<and> w_devices w' = w_devices w"
  using assms
  by (auto simp: cache_idempotency_key_def attempt_def world_cache_def Let_def lift_apply
      split: option.splits)

lemma queue_new:
  assumes up: "table_up (w_notifications w)"
    and new: "key_conflict key (t_rows (w_notifications w)) = None"
    and fresh: "fresh_ids w"
  shows "\<exists>w'. queue_notification (world_orch L dp) user channel recipient template vars key w =
      (Inr (net_random (w_net w) (net_calls (w_net w))), w') \<and>
      t_rows (w_notifications w') = t_rows (w_notifications w) @
        [inserted_row (t_jsonb (w_notifications w))
           (queued_record w user channel recipient template vars key)] \<and>
      handed_over L (net_random (w_net w) (net_calls (w_net w))) w' \<and>
      extends w w' \<and> later w w' \<and> w_devices w' = w_devices w \<and> table_up (w_notifications w')"
proof -
  let ?i = "net_random (w_net w) (net_calls (w_net w))"
  let ?n = "queued_record w user channel recipient template vars key"
  let ?row = "inserted_row (t_jsonb (w_notifications w)) ?n"
  let ?t = "(w_notifications w)\<lparr>t_calls := Suc (t_calls (w_notifications w)),
      t_rows := t_rows (w_notifications w) @ [?row]\<rparr>"
  have "?i \<notin> r_id ` set (t_rows (w_notifications w))" using fresh by (simp add: fresh_ids_def)
  then have c: "create ?n (w_notifications w) = (Inr (into_domain ?row), ?t)"
    using up new by (simp add: create_def exec_healthy table_up_def Let_def)
  let ?w1 = "(drawn w)\<lparr>w_notifications := ?t\<rparr>"
  obtain x w2 where k: "cache_idempotency_key (world_orch L dp) key ?i ?w1 = (x, w2)"
    by (metis surj_pair)
  note k' = cache_key_run [OF k]
  obtain y w3 where t: "trigger_dispatch (world_orch L dp) ?i w2 = (y, w3)" by (metis surj_pair)
  note t' = trigger_run [OF t]
  have "queue_notification (world_orch L dp) user channel recipient template vars key w = (Inr ?i, w3)"
    using c k k' t t'(1) by (simp add: queue_unfold bindE_def lift_apply)
  moreover have "extends w w3" using t'(3) k' by (auto simp: extends_def drawn_def)
  moreover have "later w w3" using t'(5,6) k' by (simp add: later_def drawn_def)
  moreover have "w_devices w3 = w_devices w" using t'(7) k' by simp
  moreover have "table_up (w_notifications w3)" using t'(4) k' table_up_create [OF up c] by simp
  ultimately show ?thesis using t'(2,4) k' by auto
qed

lemma key_conflict_append:
  "key_conflict (Some k) (rs @ xs) =
     (case key_conflict (Some k) rs of Some r \<Rightarrow> Some r | None \<Rightarrow> key_conflict (Some k) xs)"
  by (induction rs) (auto simp: key_conflict_def)

lemma create_keyed:
  assumes "create n t = (Inr saved, t')" and k: "n_idempotency_key n = Some k"
  shows "(\<exists>new. t_rows t' = t_rows t @ new) \<and>
    (\<exists>r. key_conflict (Some k) (t_rows t') = Some r \<and> r_id r = n_id saved)"
proof (cases "key_conflict (Some k) (t_rows t)")
  case (Some r)
  with assms exec_Inr [OF assms(1) [unfolded create_def]] show ?thesis by auto
next
  case None
  with assms exec_Inr [OF assms(1) [unfolded create_def]]
  have "saved = into_domain (inserted_row (t_jsonb t) n)"
    "t_rows t' = t_rows t @ [inserted_row (t_jsonb t) n]"
    by (auto simp: Let_def split: if_splits)
  moreover have "key_conflict (Some k) [inserted_row (t_jsonb t) n] = Some (inserted_row (t_jsonb t) n)"
    using k by (simp add: key_conflict_def)
  ultimately show ?thesis using None by (simp add: key_conflict_append)
qed

text \<open>Once a keyed request is accepted, its key is in the table.\<close>

lemma queue_keyed:
  assumes up: "table_up (w_notifications w)"
    and run: "queue_notification (world_orch L dp) user channel recipient template vars (Some k) w =
      (Inr i, w')"
  shows "table_up (w_notifications w')"
    and "\<exists>new. t_rows (w_notifications w') = t_rows (w_notifications w) @ new"
    and "\<exists>r. key_conflict (Some k) (t_rows (w_notifications w')) = Some r \<and> r_id r = i"
proof -
  let ?n = "queued_record w user channel recipient template vars (Some k)"
  obtain saved w1 where w1: "on_notifications (create ?n) (drawn w) = (Inr saved, w1)"
    and i: "i = n_id saved" and same: "w_notifications w' = w_notifications w1"
    using run unfolding queue_unfold
    by (rule bindE_cases)
       (auto elim!: bindE_cases split: if_splits dest!: cache_key_run trigger_run(4))
  then obtain t' where c: "create ?n (w_notifications w) = (Inr saved, t')"
    and rest: "w_notifications w' = t'" "i = n_id saved"
    by (auto dest!: lift_run)
  from create_keyed [OF c n_id_queued(2)] table_up_create [OF up c] rest
  show "table_up (w_notifications w')"
    "\<exists>new. t_rows (w_notifications w') = t_rows (w_notifications w) @ new"
    "\<exists>r. key_conflict (Some k) (t_rows (w_notifications w')) = Some r \<and> r_id r = i" by auto
qed

section \<open>Batches of requests\<close>

lemma run_request_Inr:
  "run_request orch r w = (Inr u, w') \<Longrightarrow>
   \<exists>i. queue_notification orch (rq_user r) (rq_channel r) (rq_recipient r) (rq_template r)
     (rq_variables r) (Some (rq_key r)) w = (Inr i, w')"
  unfolding run_request_def by (erule bindE_cases) auto

definition known_keys :: "world \<Rightarrow> string set" where
  "known_keys w = set (keys_of (t_rows (w_notifications w)))"

lemma known_iff: "k \<in> known_keys w \<longleftrightarrow> key_conflict (Some k) (t_rows (w_notifications w)) \<noteq> None"
  using key_conflict_None [of "Some k"] by (auto simp: known_keys_def)

lemma known_keys_append:
  "t_rows (w_notifications w') = t_rows (w_notifications w) @ new \<Longrightarrow> known_keys w \<subseteq> known_keys w'"
  by (auto simp: known_keys_def set_keys_of)

lemma requests_keyed:
  assumes "run_requests (world_orch L dp) rs w = (Inr u, w')" and "table_up (w_notifications w)"
  shows "table_up (w_notifications w') \<and> known_keys w \<subseteq> known_keys w' \<and>
    rq_key ` set rs \<subseteq> known_keys w'"
  using assms unfolding run_requests_def
proof (induction rs arbitrary: w)
  case (Cons r rs)
  then obtain i w1 where q: "queue_notification (world_orch L dp) (rq_user r) (rq_channel r)
      (rq_recipient r) (rq_template r) (rq_variables r) (Some (rq_key r)) w = (Inr i, w1)"
    and rest: "forE rs (run_request (world_orch L dp)) w1 = (Inr u, w')"
    by (auto elim!: bindE_cases dest!: run_request_Inr)
  note q' = queue_keyed [OF Cons.prems(2) q]
  from q'(2) have "known_keys w \<subseteq> known_keys w1" using known_keys_append by blast
  moreover from q'(3) have "rq_key r \<in> known_keys w1" by (auto simp: known_iff)
  ultimately show ?case using Cons.IH [OF rest q'(1)] by auto
qed simp

text \<open>A batch whose keys are all known is accepted and stores, publishes and spawns nothing.\<close>

lemma requests_again:
  assumes "table_up (w_notifications w)" and "fresh_ids w" and "rq_key ` set rs \<subseteq> known_keys w"
  shows "\<exists>w'. run_requests (world_orch L dp) rs w = (Inr (), w') \<and> same_stores w w'"
  using assms unfolding run_requests_def
proof (induction rs arbitrary: w)
  case (Cons r rs)
  then obtain x where x: "key_conflict (Some (rq_key r)) (t_rows (w_notifications w)) = Some x"
    by (auto simp: known_iff)
  then have "r_id x \<in> r_id ` set (t_rows (w_notifications w))" using key_conflict_Some by blast
  with Cons.prems(2) have "net_random (w_net w) (net_calls (w_net w)) \<noteq> r_id x"
    by (auto simp: fresh_ids_def)
  from queue_known [OF Cons.prems(1) x this, of L dp "rq_user r" "rq_channel r" "rq_recipient r"
      "rq_template r" "rq_variables r"]
  obtain w1 where w1: "run_request (world_orch L dp) r w = (Inr (), w1)" "same_stores w w1"
    "later w w1" "table_up (w_notifications w1)"
    by (auto simp: run_request_def act_simps)
  from w1 Cons.prems have "known_keys w1 = known_keys w" "fresh_ids w1"
    by (auto simp: known_keys_def same_stores_def intro: fresh_ids_later)
  with Cons.IH [OF w1(4)] Cons.prems(3) obtain w2 where
    "forE rs (run_request (world_orch L dp)) w1 = (Inr (), w2)" "same_stores w1 w2" by auto
  with w1 same_stores_trans show ?case by (auto simp: act_simps)
qed simp

end
