(* ===== verification/Service.thy ===== *)
theory Service
  imports Startup Intake
begin

text \<open>
  The running service: the events it handles, each by the operation of the component that
  handles it, and the runs over any sequence of them. A run interleaves whole operations.
  The lemmas: every event keeps the invariants of the three stores, and moves every
  notification along its life cycle.
\<close>

section \<open>The application\<close>

text \<open>What the handlers get from other crates.\<close>

record 'r gate =
  g_api_gateway :: 'r
  g_admin :: 'r
  g_require_any :: "'r \<Rightarrow> 'r list \<Rightarrow> string + unit"
  g_lowercase :: "string \<Rightarrow> string"
  g_header_text :: "string \<Rightarrow> string option"
  g_jwt_secret :: string
  g_jwt_subject :: "string \<Rightarrow> string \<Rightarrow> string + string"

definition world_api :: "libs \<Rightarrow> deployment \<Rightarrow> 'r gate \<Rightarrow> (world, 'r) api" where
  "world_api L dp g =
     \<lparr>ap_orchestrator = world_orch L dp, ap_device_repo = world_devices,
      ap_api_gateway = g_api_gateway g, ap_admin = g_admin g,
      ap_require_any = g_require_any g, ap_lowercase = g_lowercase g,
      ap_header_text = g_header_text g, ap_jwt_secret = g_jwt_secret g,
      ap_jwt_subject = g_jwt_subject g\<rparr>"

lemma world_api_simps [simp]:
  "ap_orchestrator (world_api L dp g) = world_orch L dp"
  "ap_device_repo (world_api L dp g) = world_devices"
  by (simp_all add: world_api_def)

section \<open>Events and runs\<close>

datatype 'r service_event =
    RestCall 'r headers rest_call
  | SendCall headers send_request
  | StatusCall headers string
  | KafkaRecord owned_record
  | TaskDelivery string
  | ProcessTask task
  | Sweep int int
  | SocketOpened uuid
  | SocketServed uuid uuid "socket_event list"
  | SocketClosed uuid uuid

fun perform ::
  "libs \<Rightarrow> deployment \<Rightarrow> 'r gate \<Rightarrow> string option \<Rightarrow> 'r service_event \<Rightarrow> world \<Rightarrow> world" where
  "perform L dp g fe (RestCall role hs call) w = snd (rest (world_api L dp g) role hs call w)"
| "perform L dp g fe (SendCall hs req) w = snd (send_notification (world_api L dp g) hs req w)"
| "perform L dp g fe (StatusCall hs i) w = snd (get_notification_status (world_api L dp g) hs i w)"
| "perform L dp g fe (KafkaRecord rec) w = snd (handle_record (world_orch L dp) fe rec w)"
| "perform L dp g fe (TaskDelivery data) w =
     snd (process_dispatch_payload (world_orch L dp) data w)"
| "perform L dp g fe (ProcessTask task) w = snd (run_task (world_orch L dp) task w)"
| "perform L dp g fe (Sweep threshold limit) w =
     snd (recover_pending (world_orch L dp) threshold limit w)"
| "perform L dp g fe (SocketOpened user) w = snd (on_sockets (add_connection user) w)"
| "perform L dp g fe (SocketServed user cid es) w = snd (on_sockets (serve user cid es) w)"
| "perform L dp g fe (SocketClosed user cid) w =
     w\<lparr>w_sockets := remove_connection user cid (w_sockets w)\<rparr>"

definition run_service ::
  "libs \<Rightarrow> deployment \<Rightarrow> 'r gate \<Rightarrow> string option \<Rightarrow> 'r service_event list \<Rightarrow> world \<Rightarrow> world" where
  "run_service L dp g fe es w = fold (perform L dp g fe) es w"

section \<open>The stores stay well formed\<close>

definition service_ok :: "world \<Rightarrow> bool" where
  "service_ok w \<longleftrightarrow>
     table_ok (w_notifications w) \<and> devices_ok (w_devices w) \<and> sockets_ok (w_sockets w)"

lemma world_cache_simps [simp]:
  "cache_set_value (world_cache L) k v ttl = on_redis (set_value (world_cache_config L) k v ttl)"
  "cache_increment_with_ttl (world_cache L) k ttl =
     on_redis (increment_with_ttl (world_cache_config L) k ttl)"
  by (simp_all add: world_cache_def Let_def)

lemma service_ok_notifications:
  "keeps table_ok m \<Longrightarrow> keeps service_ok (on_notifications m)"
  by (simp add: keeps_def service_ok_def lift_apply)

lemma service_ok_devices: "keeps devices_ok m \<Longrightarrow> keeps service_ok (on_devices m)"
  by (simp add: keeps_def service_ok_def lift_apply)

lemma service_ok_sockets:
  "(\<And>s. sockets_ok s \<Longrightarrow> sockets_ok (snd (m s))) \<Longrightarrow> keeps service_ok (on_sockets m)"
  by (simp add: keeps_def service_ok_def lift_apply)

lemma service_ok_other:
  "keeps service_ok (on_net m)" "keeps service_ok (on_redis m')" "keeps service_ok (on_broker m'')"
  by (simp_all add: keeps_def service_ok_def lift_apply)

lemma service_ok_put [simp]:
  "service_ok (w\<lparr>w_net := n\<rparr>) = service_ok w" "service_ok (w\<lparr>w_fcm_token := c\<rparr>) = service_ok w"
  by (simp_all add: service_ok_def)

interpretation ok: send_invariant service_ok
  by unfold_locales
     (auto intro!: service_ok_devices service_ok_sockets keeps_devices_ok sockets_ok_send)

lemma spawn_keeps_net: "(\<And>w n. I w \<Longrightarrow> I (w\<lparr>w_net := n\<rparr>)) \<Longrightarrow> keeps I (spawn (world_orch L dp) task)"
  by (simp add: keeps_def spawn_world)

lemma runtime_world [simp]: "rt_new_uuid world_runtime = on_net net_new_uuid"
  by (simp add: world_runtime_def)

interpretation ok_api: api_invariant "world_api L dp g" service_ok for L dp g
  by unfold_locales
     (auto simp: now_world intro!: service_ok_notifications service_ok_devices service_ok_other
       keeps_table_ok keeps_devices_ok spawn_keeps_net)

interpretation ok_orch: orchestrator_invariant "world_orch L dp" service_ok for L dp
  by unfold_locales
     (auto simp: now_world intro!: service_ok_notifications service_ok_other
       keeps_table_ok spawn_keeps_net ok.provider_keeps)

lemma perform_ok: "service_ok w \<Longrightarrow> service_ok (perform L dp g fe e w)"
proof (induction L dp g fe e w rule: perform.induct)
  case (8 L dp g fe user w)
  then show ?case by (simp add: service_ok_def lift_apply sockets_ok_add)
next
  case (9 L dp g fe user cid es w)
  then show ?case by (simp add: service_ok_def lift_apply sockets_ok_serve)
next
  case (10 L dp g fe user cid w)
  then show ?case by (simp add: service_ok_def sockets_ok_remove)
qed (simp_all add: keepsD [OF ok_api.rest_keeps] keepsD [OF ok_api.send_notification_keeps]
    keepsD [OF ok_api.get_notification_status_keeps] keepsD [OF ok_orch.record_keeps]
    keepsD [OF ok_orch.payload_keeps] keepsD [OF ok_orch.run_task_keeps]
    keepsD [OF ok_orch.recover_keeps])

section \<open>Every notification follows its life cycle\<close>

text \<open>Reading from a state, the lives only evolve.\<close>

lemma evolve_notifications:
  assumes "\<And>t. lives_evolve (life t) (life (snd (m t)))"
  shows "keeps (\<lambda>w. lives_evolve l (world_life w)) (on_notifications m)"
  using assms by (auto simp: keeps_def lift_apply intro: lives_evolve_trans)

lemma evolve_frame: "frame life m \<Longrightarrow> lives_evolve (life t) (life (snd (m t)))"
  by (simp add: frame_def)

lemma evolve_other:
  "keeps (\<lambda>w. lives_evolve l (world_life w)) (on_net m)"
  "keeps (\<lambda>w. lives_evolve l (world_life w)) (on_redis m')"
  "keeps (\<lambda>w. lives_evolve l (world_life w)) (on_broker m'')"
  "keeps (\<lambda>w. lives_evolve l (world_life w)) (on_devices m''')"
  by (simp_all add: keeps_def lift_apply)

interpretation evolve: api_invariant "world_api L dp g" "\<lambda>w. lives_evolve l (world_life w)"
  for L dp g l
  by unfold_locales
     (auto simp: now_world intro!: evolve_notifications evolve_frame evolve_other spawn_keeps_net
       life_create life_reset life_query life_mark_as_read life_mark_all_as_read)

lemma dispatch_evolves: "lives_evolve (world_life w) (world_life (snd (dispatch (world_orch L dp) i w)))"
  using live.dispatch_follows [OF surjective_pairing] by (auto simp: follows_def)

lemma run_task_evolves:
  "lives_evolve (world_life w) (world_life (snd (run_task (world_orch L dp) task w)))"
proof -
  have "snd (run_task (world_orch L dp) task w) = snd (dispatch (world_orch L dp) i w)"
    if "task = DispatchTask i \<or> task = RetryTask i ms" for i ms
    using that by (auto simp: attempt_def split: prod.split)
  with dispatch_evolves show ?thesis by (cases task) metis+
qed

lemma payload_evolves:
  "lives_evolve (world_life w) (world_life (snd (process_dispatch_payload (world_orch L dp) data w)))"
proof -
  have "snd (process_dispatch_payload (world_orch L dp) data w) = w \<or>
      (\<exists>i. snd (process_dispatch_payload (world_orch L dp) data w) =
         snd (dispatch (world_orch L dp) i w))"
    by (auto simp: process_dispatch_payload_def split: sum.split option.split prod.split)
       (metis snd_conv)+
  with dispatch_evolves show ?thesis by (metis lives_evolve_refl)
qed

lemmas evolve_record = evolve.record_keeps [unfolded world_api_simps]
lemmas evolve_recover = evolve.recover_keeps [unfolded world_api_simps]

lemma perform_evolves: "lives_evolve (world_life w) (world_life (perform L dp g fe e w))"
  by (cases e)
     (simp_all add: keepsD [OF evolve.rest_keeps] keepsD [OF evolve.send_notification_keeps]
       keepsD [OF evolve.get_notification_status_keeps] keepsD [OF evolve_record]
       keepsD [OF evolve_recover] run_task_evolves payload_evolves lift_apply)

lemma run_service_induct:
  assumes "P w w" and "\<And>w' e. P w w' \<Longrightarrow> P w (perform L dp g fe e w')"
  shows "P w (run_service L dp g fe es w)"
  unfolding run_service_def
proof (induction es rule: rev_induct)
  case (snoc e es)
  with assms(2) show ?case by simp
qed (simp add: assms(1))

end
