(* ===== verification/Claims_Intake.thy ===== *)
theory Claims_Intake
  imports Catalogue Service Samples
begin

text \<open>
  Properties of the way in: what the event handlers ask for, the links and views they build, the
  consumers, and readiness, each with a concrete instance.
\<close>

section \<open>Events\<close>

text \<open>
  The notifications one event asks for carry pairwise distinct idempotency keys, whatever its
  type and payload, so none of them is taken for a duplicate of another.
\<close>

theorem event_keys_distinct:
  "distinct (map rq_key (event_batch c frontend_url ctx etype data))"
  using batch_of_event [of c ctx] by (auto simp: batch_ok_def)

text \<open>
  C9. Two events with different ids that contain no colon (as UUIDs do not) never ask for the same
  idempotency key, whatever their types, sign-ins included: a fresh event is not dropped for an
  older one.
\<close>

theorem events_do_not_collide:
  assumes "mc_event_id ctx = Some i" and "mc_event_id ctx' = Some i'" and "i \<noteq> i'"
    and "CHR '':'' \<notin> set i" and "CHR '':'' \<notin> set i'"
  shows "rq_key ` set (event_batch c frontend_url ctx etype data) \<inter>
    rq_key ` set (event_batch c' frontend_url' ctx' etype' data') = {}"
proof -
  have False if "r \<in> set (event_batch c frontend_url ctx etype data)"
    "r' \<in> set (event_batch c' frontend_url' ctx' etype' data')" "rq_key r = rq_key r'" for r r'
  proof -
    have "\<exists>l. rq_key r = idem ctx l" "\<exists>l. rq_key r' = idem ctx' l"
      using that(1,2) batch_of_event [of c ctx frontend_url etype data]
        batch_of_event [of c' ctx' frontend_url' etype' data'] by (simp_all add: batch_ok_def)
    then obtain l l' where "rq_key r = idem ctx l" "rq_key r' = idem ctx' l'" by blast
    with that(3) have "idem ctx l = idem ctx' l'" by simp
    from idem_event [OF this assms(1,2,4,5)] assms(3) show False by blast
  qed
  then show ?thesis by blast
qed

abbreviation sample_ctx :: "string \<Rightarrow> msg_ctx" where
  "sample_ctx i \<equiv> \<lparr>mc_partition = 0, mc_offset = 7, mc_event_id = Some i\<rparr>"

abbreviation sample_locked :: json where
  "sample_locked \<equiv> JObj [(''identifier'', JStr ''a@b''), (''lockout_secs'', JNum (PosInt 61))]"

lemma sample_locked_read:
  "de_account_locked sample_locked = Some \<lparr>al_identifier = ''a@b'', al_lockout_secs = 61\<rparr>"
  by code_simp

text \<open>A lockout and a sign-in, with different event ids.\<close>

abbreviation sample_login :: json where
  "sample_login \<equiv> JObj [(''user_id'', JStr ''9''), (''ip_address'', JStr ''1.1.1.1'')]"

abbreviation sample_login_payload :: user_logged_in_payload where
  "sample_login_payload \<equiv>
     \<lparr>ul_user_id = Some ''9'', ul_username = [], ul_ip_address = Some ''1.1.1.1''\<rparr>"

lemma sample_login_read:
  "de_user_logged_in sample_login = Some sample_login_payload"
  "parse_uuid sample_codecs (ul_user_id sample_login_payload) = Some 9"
  by code_simp+

lemma sample_login_batch: "event_batch sample_codecs None ctx ''UserLoggedIn'' sample_login =
    login_alert sample_codecs ctx sample_login_payload 9 ''1.1.1.1''"
  using sample_login_read by (simp add: event_batch_def login_batch_def with_payload_def with_user_def)

lemma events_do_not_collide_witness:
  "rq_key ` set (event_batch sample_codecs None (sample_ctx ''e1'') ''AccountLocked'' sample_locked)
     = {''account_locked:e1''} \<and>
   rq_key ` set (event_batch sample_codecs None (sample_ctx ''e2'') ''UserLoggedIn'' sample_login)
     = {''new_login:e2'', ''new_login:push:e2''} \<and>
   rq_key ` set (event_batch sample_codecs None (sample_ctx ''e1'') ''AccountLocked'' sample_locked) \<inter>
   rq_key ` set (event_batch sample_codecs None (sample_ctx ''e2'') ''UserLoggedIn'' sample_login) = {}"
proof (intro conjI)
  show "rq_key ` set (event_batch sample_codecs None (sample_ctx ''e1'') ''AccountLocked''
      sample_locked) = {''account_locked:e1''}"
    by (simp add: event_batch_def event_requests_def account_locked_def with_payload_def
        sample_locked_read Let_def queue_email_def idem_def)
  show "rq_key ` set (event_batch sample_codecs None (sample_ctx ''e2'') ''UserLoggedIn'' sample_login)
      = {''new_login:e2'', ''new_login:push:e2''}"
    by (simp add: sample_login_batch login_alert_def queue_ws_def queue_push_def idem_def)
qed (rule events_do_not_collide, auto)


text \<open>
  A sign-in from an address already counted in the memory window raises no alert, whether or
  not the cache answers: the table, the broker and the outside world are left as they were.
\<close>

theorem known_address_is_silent:
  assumes "de_user_logged_in data = Some p" and "parse_uuid (l_codecs L) (ul_user_id p) = Some uid"
    and "ul_ip_address p = Some ip" and "1 \<le> n"
    and "count (w_redis w) (full_key (world_cache_config L) (login_key (l_codecs L) uid ip)) = Some n"
  shows "\<exists>w'. user_logged_in (world_orch L dp) ctx data w = (Inr (), w') \<and>
    w_notifications w' = w_notifications w \<and> w_broker w' = w_broker w \<and> w_net w' = w_net w"
proof -
  let ?k = "login_key (l_codecs L) uid ip"
  obtain r rd where bump: "increment_with_ttl (world_cache_config L) ?k login_ip_memory_secs
      (w_redis w) = (r, rd)" by (metis surj_pair)
  have "1 < m" if "r = Inr m" for m
    using increment_counts [OF bump [unfolded that]] assms(4,5) by simp
  then have "case r of Inl _ \<Rightarrow> True | Inr m \<Rightarrow> 1 < m" by (cases r) auto
  with bump assms(1-3) show ?thesis
    by (cases "ip = []"; cases r)
       (auto simp: user_logged_in_def Let_def attempt_def bump_counter_def lift_apply)
qed

definition seen_world :: world where
  "seen_world = sample_world [] [] \<lparr>w_redis := sample_redis
     \<lparr>rd_map := [''noti:login_ip:9:1.1.1.1'' \<mapsto> (''3'', None)]\<rparr>\<rparr>"

lemma known_address_is_silent_witness:
  "\<exists>w'. user_logged_in sample_orch (sample_ctx ''e'') sample_login seen_world = (Inr (), w') \<and>
     w_broker w' = sample_broker"
proof -
  let ?p = "\<lparr>ul_user_id = Some ''9'', ul_username = [], ul_ip_address = Some ''1.1.1.1''\<rparr>"
  have p: "de_user_logged_in sample_login = Some ?p" by code_simp
  have u: "parse_uuid (l_codecs sample_libs) (ul_user_id ?p) = Some 9" by code_simp
  have k: "full_key (world_cache_config sample_libs) (login_key (l_codecs sample_libs) 9 ''1.1.1.1'') =
      ''noti:login_ip:9:1.1.1.1''" by code_simp
  have three: "redis_int ''3'' = Some 3" by code_simp
  have c: "count (w_redis seen_world) (full_key (world_cache_config sample_libs)
      (login_key (l_codecs sample_libs) 9 ''1.1.1.1'')) = Some 3"
    unfolding k by (simp add: count_def live_def seen_world_def three)
  have "ul_ip_address ?p = Some ''1.1.1.1''" by simp
  from known_address_is_silent [OF p u this _ c, of sample_deployment "sample_ctx ''e''"] show ?thesis
    by (auto simp: sample_orch_def seen_world_def sample_world_def)
qed

section \<open>Links and views\<close>

text \<open>
  Percent-encoding loses nothing and leaves only unreserved characters and the percent sign,
  so an encoded token or address cannot break out of its query value.
\<close>

theorem urlencode_injective_safe:
  "(urlencode s = urlencode t \<longleftrightarrow> s = t) \<and> set (urlencode s) \<subseteq> {c. unreserved c \<or> c = CHR ''%''}"
  using urlencode_inj [of s t] urlencode_safe [of _ s] by auto

text \<open>
  Rewriting a link to the configured frontend keeps its path and query and replaces scheme,
  host and port, with exactly one slash between base and path.
\<close>

theorem rewritten_link_keeps_path:
  assumes "CHR '':'' \<notin> set scheme" and "CHR 0x2F \<notin> set host"
  shows "rewrite_url (Some base) (scheme @ ''://'' @ host @ CHR 0x2F # tail) =
    trim_end_char (CHR 0x2F) base @ CHR 0x2F # tail"
  using assms by (rule rewrite_keeps_path)

lemma rewritten_link_keeps_path_witness:
  "rewrite_url (Some ''https://ui/'') (''http'' @ ''://'' @ ''localhost:4001'' @ CHR 0x2F # ''verify?t=1'')
     = ''https://ui/verify?t=1''"
  by (subst rewritten_link_keeps_path) simp_all

section \<open>Consumers\<close>

lemma task_json_roundtrip:
  assumes "uuid_roundtrip c" and "in_i32 k"
  shows "task_of c (task_json c \<lparr>nt_notification_id = i, nt_retry_count = k\<rparr>) = Some (i, k)"
  using assms
  by (simp add: task_of_def task_json_def struct_fields_def field_values_def json_int_def
      uuid_roundtripD)

text \<open>
  C31. A task that the service published is read back as the task it was, so consuming it dispatches
  that notification; the message is acknowledged exactly when the dispatch succeeded.
\<close>

theorem published_task_is_dispatched:
  assumes "uuid_roundtrip (l_codecs L)" and "in_i32 k"
    and "c_json_parse (l_codecs L) text =
      Inr (task_json (l_codecs L) \<lparr>nt_notification_id = i, nt_retry_count = k\<rparr>)"
  shows "process_dispatch_payload (world_orch L dp) text w =
    (if isl (fst (dispatch (world_orch L dp) i w)) then NackToDlx else Ack,
     snd (dispatch (world_orch L dp) i w))"
  using process_task [of "world_orch L dp"] assms(3) task_json_roundtrip [OF assms(1,2)] by simp

definition task_libs :: libs where
  "task_libs = sample_libs\<lparr>l_codecs := sample_codecs\<lparr>c_json_parse :=
     (\<lambda>_. Inr (task_json sample_codecs \<lparr>nt_notification_id = 7, nt_retry_count = 0\<rparr>))\<rparr>\<rparr>"

lemma published_task_is_dispatched_witness:
  "fst (process_dispatch_payload (world_orch task_libs sample_deployment) ''task''
     (sample_world [] [])) = NackToDlx"
proof -
  have rt: "uuid_roundtrip (l_codecs task_libs)"
    using sample_roundtrip by (simp add: uuid_roundtrip_def task_libs_def)
  have parse: "c_json_parse (l_codecs task_libs) ''task'' =
      Inr (task_json (l_codecs task_libs) \<lparr>nt_notification_id = 7, nt_retry_count = 0\<rparr>)"
    by (simp add: task_libs_def task_json_def)
  have missing: "isl (fst (dispatch (world_orch task_libs sample_deployment) 7 (sample_world [] [])))"
    by (simp add: dispatch_def bindE_def lift_apply get_by_id_def query_def exec_def sample_world_def
        sample_table_def Let_def)
  have "in_i32 0" by (simp add: in_i32_def)
  from published_task_is_dispatched [OF rt this parse] missing show ?thesis by simp
qed

text \<open>
  While commits succeed, the offsets a Kafka worker commits are those after the records it
  handled without an error, in the order it handled them, and no others.
\<close>

theorem committed_offsets_are_handled:
  assumes "\<forall>n. \<not> km_fails k n"
  shows "km_log (snd (worker orch frontend_url recs (s, k))) = km_log k @
    map (\<lambda>r. (or_topic r, or_partition r, or_offset r + 1)) (handled orch frontend_url recs s)"
  using assms by (rule worker_commits)

abbreviation sample_commits :: commits where
  "sample_commits \<equiv> \<lparr>km_log = [], km_calls = 0, km_fails = (\<lambda>_. False)\<rparr>"

abbreviation sample_record :: "string option \<Rightarrow> int \<Rightarrow> owned_record" where
  "sample_record body off \<equiv>
     \<lparr>or_payload = body, or_topic = ''t'', or_partition = 0, or_offset = off\<rparr>"

lemma committed_offsets_are_handled_witness:
  "km_log (snd (worker sample_orch None [sample_record None 4] (sample_world [] [], sample_commits)))
     = [(''t'', 0, 5)]"
  by (subst committed_offsets_are_handled) (simp_all add: handle_record_def)

text \<open>
  C29. A record whose handling fails is passed over: the worker neither retries nor stops, and the
  next record of the partition that succeeds commits an offset beyond it.
\<close>

theorem failed_record_is_passed_over:
  assumes "handle_record orch frontend_url bad s = (Inl e, s1)"
    and "handle_record orch frontend_url good s1 = (Inr u, s2)"
    and "or_topic good = or_topic bad" and "or_partition good = or_partition bad"
    and "or_offset bad < or_offset good" and "\<forall>n. \<not> km_fails k n"
  shows "\<exists>off. worker orch frontend_url [bad, good] (s, k) =
      (s2, commit_offset (or_topic bad) (or_partition bad) (or_offset good) k) \<and>
    last (km_log (snd (worker orch frontend_url [bad, good] (s, k)))) =
      (or_topic bad, or_partition bad, off) \<and> or_offset bad < off"
  using assms commit_log [OF assms(6)] by auto

lemma failed_record_is_passed_over_witness:
  "last (km_log (snd (worker sample_orch None [sample_record (Some ''x'') 4, sample_record None 5]
     (sample_world [] [], sample_commits)))) = (''t'', 0, 6)"
proof -
  have bad: "handle_record sample_orch None (sample_record (Some ''x'') 4) (sample_world [] []) =
      (Inl ''not json'', sample_world [] [])"
    by (simp add: handle_record_def sample_orch_def sample_libs_def sample_codecs_def)
  have good: "handle_record sample_orch None (sample_record None 5) (sample_world [] []) =
      (Inr (), sample_world [] [])" by (simp add: handle_record_def)
  from failed_record_is_passed_over [OF bad good, of sample_commits] show ?thesis
    by (auto simp: commit_offset_def Let_def)
qed

section \<open>Readiness\<close>

text \<open>
  C38. After any history of signals the readiness probe answers 200 exactly when the consumer was
  disabled or its last own signal was progress at most 90 seconds old, and 503 otherwise.
\<close>

theorem readiness_reflects_history:
  "fst (health_ready clock (after_signals sigs)) =
    (if Disabled \<in> set sigs \<or>
        (\<exists>t. last_loop_signal sigs = Some (Progress t) \<and> unix_now_secs clock - t \<le> 90)
     then 200 else 503)"
proof -
  have "is_ready (unix_now_secs clock) 90 (after_signals sigs) \<longleftrightarrow> Disabled \<in> set sigs \<or>
      (\<exists>t. last_loop_signal sigs = Some (Progress t) \<and> unix_now_secs clock - t \<le> 90)"
    by (simp add: is_ready_after saturating_sub_le_iff i64_max_def)
  then show ?thesis by (simp add: health_ready_def Let_def ready_stale_after_secs_def)
qed

end
