(* ===== verification/Interleaving.thy ===== *)
theory Interleaving
  imports Samples
begin

text \<open>
  \<^verbatim>\<open>dispatch\<close> one await at a time. A worker is the point it has reached; a step performs one
  call on the shared state. \<open>run_dispatch\<close> shows that a worker running alone is \<open>dispatch\<close>;
  \<open>interleave\<close> runs two workers on one state under a schedule, as two tasks of a process or two
  replicas do.
\<close>

datatype point =
    Fetch
  | Claim notification
  | Send notification string
  | Record notification_status "string option" "string option" "unit result"
  | ReadClock notification noti_error
  | Bump notification noti_error time
  | Requeue notification noti_error
  | Schedule u32
  | Returned "unit result"

text \<open>Between the claim and the send nothing is awaited.\<close>

definition after_claim :: "'s orchestrator \<Rightarrow> notification \<Rightarrow> point" where
  "after_claim orch n =
     (case o_render orch (n_template_id n) (n_variables n) of
        Inl e \<Rightarrow> Record PermanentFailure (Some (error_to_string e)) None (Inl e)
      | Inr content \<Rightarrow>
          (case payload orch n content of Inl e \<Rightarrow> Returned (Inl e) | Inr body \<Rightarrow> Send n body))"

fun worker_step :: "'s orchestrator \<Rightarrow> uuid \<Rightarrow> point \<Rightarrow> 's \<Rightarrow> point \<times> 's" where
  "worker_step orch i Fetch s =
     (case repo_get_by_id (o_repo orch) i s of
        (Inl e, s') \<Rightarrow> (Returned (Inl e), s')
      | (Inr None, s') \<Rightarrow>
          (Returned (Inl (NotFound (''notification '' @ c_uuid_show (o_codecs orch) i))), s')
      | (Inr (Some n), s') \<Rightarrow>
          (if n_status n \<noteq> Pending \<and> n_status n \<noteq> Processing then Returned (Inr ()) else Claim n, s'))"
| "worker_step orch i (Claim n) s =
     (case repo_update_status (o_repo orch) i Processing None None s of
        (Inl e, s') \<Rightarrow> (Returned (Inl e), s') | (Inr _, s') \<Rightarrow> (after_claim orch n, s'))"
| "worker_step orch i (Send n body) s =
     (case prov_send (provider_for orch (n_channel n)) (n_recipient n) body s of
        (Inr ref, s') \<Rightarrow> (Record Sent None (Some ref) (Inr ()), s')
      | (Inl e, s') \<Rightarrow>
          (if n_retry_count n \<ge> max_retries
           then Record PermanentFailure (Some (error_to_string e)) None (Inl e)
           else ReadClock n e, s'))"
| "worker_step orch i (Record st e p r) s =
     (case repo_update_status (o_repo orch) i st e p s of
        (Inl err, s') \<Rightarrow> (Returned (Inl err), s') | (Inr _, s') \<Rightarrow> (Returned r, s'))"
| "worker_step orch i (ReadClock n e) s =
     (case now orch s of (t, s') \<Rightarrow> (Bump n e t, s'))"
| "worker_step orch i (Bump n e t) s =
     (case repo_increment_retry (o_repo orch) i
             (t + int (unat (retry_delay_ms (n_retry_count n + 1))) * 1000) s of
        (Inl err, s') \<Rightarrow> (Returned (Inl err), s') | (Inr _, s') \<Rightarrow> (Requeue n e, s'))"
| "worker_step orch i (Requeue n e) s =
     (case repo_update_status (o_repo orch) i Pending (Some (error_to_string e)) None s of
        (Inl err, s') \<Rightarrow> (Returned (Inl err), s')
      | (Inr _, s') \<Rightarrow> (Schedule (retry_delay_ms (n_retry_count n + 1)), s'))"
| "worker_step orch i (Schedule ms) s =
     (case schedule_retry orch i ms s of (r, s') \<Rightarrow> (Returned r, s'))"
| "worker_step orch i (Returned r) s = (Returned r, s)"

fun worker_run :: "'s orchestrator \<Rightarrow> uuid \<Rightarrow> nat \<Rightarrow> point \<Rightarrow> 's \<Rightarrow> point \<times> 's" where
  "worker_run orch i 0 pt s = (pt, s)"
| "worker_run orch i (Suc k) pt s =
     (case worker_step orch i pt s of (pt', s') \<Rightarrow> worker_run orch i k pt' s')"

text \<open>Two workers; the schedule says which one moves.\<close>

fun interleave ::
  "'s orchestrator \<Rightarrow> uuid \<Rightarrow> bool list \<Rightarrow> point \<times> point \<Rightarrow> 's \<Rightarrow> (point \<times> point) \<times> 's" where
  "interleave orch i [] ab s = (ab, s)"
| "interleave orch i (first # sched) (a, b) s =
     (if first then (case worker_step orch i a s of (a', s') \<Rightarrow> interleave orch i sched (a', b) s')
      else (case worker_step orch i b s of (b', s') \<Rightarrow> interleave orch i sched (a, b') s'))"

section \<open>A worker alone\<close>

lemma run_returned [simp]: "worker_run orch i k (Returned r) s = (Returned r, s)"
  by (induction k) simp_all

lemma run_add: "worker_run orch i (m + k) pt s =
    (case worker_run orch i m pt s of (pt', s') \<Rightarrow> worker_run orch i k pt' s')"
  by (induction m arbitrary: pt s) (simp_all split: prod.split)

lemma run_record:
  "worker_run orch i (Suc k) (Record st e p r) s =
     (case bindE (repo_update_status (o_repo orch) i st e p) (\<lambda>_ s'. (r, s')) s of
        (x, s') \<Rightarrow> (Returned x, s'))"
  by (simp add: bindE_def split: prod.split sum.split)

lemma run_clock:
  assumes "n_retry_count n < max_retries"
  shows "worker_run orch i (Suc (Suc (Suc (Suc k)))) (ReadClock n e) s =
    (case on_send_error orch i n e s of (x, s') \<Rightarrow> (Returned x, s'))"
  using assms
  by (simp add: on_send_error_def Let_def bindE_def peek_def split: prod.split sum.split)

lemma run_send:
  "worker_run orch i (5 + k) (Send n body) s =
     (case deliver orch i n body s of (x, s') \<Rightarrow> (Returned x, s'))"
proof -
  have five: "5 + k = Suc (Suc (Suc (Suc (Suc k))))" by simp
  obtain x s1 where send: "prov_send (provider_for orch (n_channel n)) (n_recipient n) body s = (x, s1)"
    by (metis surj_pair)
  show ?thesis
  proof (cases x)
    case (Inr ref)
    with send show ?thesis
      unfolding five by (simp add: deliver_def attempt_def split: prod.split sum.split)
  next
    case (Inl e)
    show ?thesis
    proof (cases "n_retry_count n < max_retries")
      case True
      with send Inl show ?thesis
        unfolding five worker_run.simps(2) [of orch i _ "Send n body"]
        by (simp add: deliver_def attempt_def run_clock del: worker_run.simps)
    next
      case False
      with send Inl show ?thesis
        unfolding five worker_run.simps(2) [of orch i _ "Send n body"]
        by (simp add: deliver_def attempt_def on_send_error_def bindE_def split: prod.split sum.split)
    qed
  qed
qed

lemma run_claimed:
  fixes orch :: "'s orchestrator"
  shows "worker_run orch i (5 + 0) (after_claim orch n) s =
     (case render_and_deliver orch i n s of (x, s') \<Rightarrow> (Returned x, s'))"
proof (cases "o_render orch (n_template_id n) (n_variables n)")
  case (Inl e)
  have "failE e = (Pair (Inl e) :: 's \<Rightarrow> unit result \<times> 's)" by (simp add: fun_eq_iff)
  with Inl run_record [of orch i 4] show ?thesis
    by (simp add: after_claim_def render_and_deliver_def del: failE_apply)
next
  case (Inr content)
  show ?thesis
  proof (cases "payload orch n content")
    case (Inl e)
    with Inr show ?thesis by (simp add: after_claim_def render_and_deliver_def)
  next
    case (Inr body)
    with \<open>o_render _ _ _ = Inr content\<close> show ?thesis
      by (simp only: after_claim_def render_and_deliver_def sum.case run_send)
  qed
qed

text \<open>Seven steps are enough for every path through \<^verbatim>\<open>dispatch\<close>.\<close>

lemma run_fetch:
  assumes "\<And>n s. worker_run orch i m (after_claim orch n) s =
     (case render_and_deliver orch i n s of (x, s') \<Rightarrow> (Returned x, s'))"
  shows "worker_run orch i (Suc (Suc m)) Fetch s =
    (case dispatch orch i s of (x, s') \<Rightarrow> (Returned x, s'))"
  unfolding dispatch_def
  by (auto simp: bindE_def assms split: prod.split sum.split option.split)

lemma run_dispatch:
  "worker_run orch i 7 Fetch s = (case dispatch orch i s of (x, s') \<Rightarrow> (Returned x, s'))"
  using run_fetch [OF run_claimed, of orch i s] by simp

section \<open>Two workers\<close>

text \<open>
  The read and the claim of \<^verbatim>\<open>dispatch\<close> are two statements. Where a second worker has read the
  row before the first has recorded its delivery, both send, and the second claim reopens a
  notification that is already recorded as sent.
\<close>

lemma fetch_open:
  assumes "world_up w" and "row (t_rows (w_notifications w)) i = Some r"
    and "open_status (status_of_db (r_status r))"
  shows "\<exists>w'. worker_step (world_orch L dp) i Fetch w = (Claim (into_domain r), w') \<and> world_up w' \<and>
    t_rows (w_notifications w') = t_rows (w_notifications w)"
proof -
  obtain w' where "repo_get_by_id (o_repo (world_orch L dp)) i w = (Inr (Some (into_domain r)), w')"
    "world_up w'" "t_rows (w_notifications w') = t_rows (w_notifications w)"
    using assms(1,2)
    by (auto simp: lift_apply get_by_id_def query_def exec_healthy world_up_def table_up_def
        table_ok_def healthy_def row_def)
  moreover have "n_status (into_domain r) = Pending \<or> n_status (into_domain r) = Processing"
    using assms(3) by (cases "r_status r") (auto simp: into_domain_def open_status_def)
  ultimately show ?thesis by (intro exI [of _ w']) auto
qed

lemma claim_step:
  assumes "world_up w" and "world_life w i = Some d"
  shows "\<exists>w' d'. worker_step (world_orch L dp) i (Claim n) w = (after_claim (world_orch L dp) n, w') \<and>
    world_up w' \<and> world_life w' i = Some d' \<and> dl_status d' = Processing"
proof -
  obtain s where "repo_update_status (o_repo (world_orch L dp)) i Processing None None w = (Inr (), s)"
    "world_up s" "world_life s = set_life i (put_status Processing None None) (world_life w)"
    by (rule live.status_run [OF assms(1)])
  then show ?thesis using assms(2) by (auto simp: set_life_def put_status_def)
qed

text \<open>Both workers read, then the first delivers, then the second claims.\<close>

definition delivered :: "bool list" where
  "delivered = [True, False, True, True]"

lemma interleave_append:
  "interleave orch i (xs @ ys) ab s =
     (case interleave orch i xs ab s of (ab', s') \<Rightarrow> interleave orch i ys ab' s')"
  by (induction xs arbitrary: ab s) (auto split: prod.split)

lemma late_claim:
  assumes up: "world_up w" and d: "world_life w i = Some d" "open_status (dl_status d)"
    and sent: "fst (fst (interleave (world_orch L dp) i delivered (Fetch, Fetch) w)) =
      Record Sent None (Some ref) (Inr ())"
  shows "\<exists>n body w3 w5 d5 w6 d6.
    interleave (world_orch L dp) i [True, False, True] (Fetch, Fetch) w = ((Send n body, Claim n), w3) \<and>
    interleave (world_orch L dp) i (delivered @ [True]) (Fetch, Fetch) w =
      ((Returned (Inr ()), Claim n), w5) \<and>
    world_life w5 i = Some d5 \<and> dl_status d5 = Sent \<and> dl_ref d5 = Some ref \<and>
    interleave (world_orch L dp) i (delivered @ [True, False]) (Fetch, Fetch) w =
      ((Returned (Inr ()), Send n body), w6) \<and>
    world_life w6 i = Some d6 \<and> dl_status d6 = Processing"
proof -
  let ?o = "world_orch L dp"
  obtain r where r: "row (t_rows (w_notifications w)) i = Some r" "d = row_life r"
    using d(1) by (auto simp: life_def)
  let ?n = "into_domain r"
  have open_row: "open_status (status_of_db (r_status r))" using d(2) r(2) by (simp add: row_life_def)
  obtain w1 where w1: "worker_step ?o i Fetch w = (Claim ?n, w1)" "world_up w1"
    "t_rows (w_notifications w1) = t_rows (w_notifications w)"
    using fetch_open [OF up r(1) open_row] by blast
  obtain w2 where w2: "worker_step ?o i Fetch w1 = (Claim ?n, w2)" "world_up w2"
    "t_rows (w_notifications w2) = t_rows (w_notifications w)"
    using fetch_open [OF w1(2) r(1) [folded w1(3)] open_row] w1(3) by metis
  have l2: "world_life w2 i = Some d" using w2(3) d(1) by (metis life_eqI)
  obtain w3 d3 where w3: "worker_step ?o i (Claim ?n) w2 = (after_claim ?o ?n, w3)" "world_up w3"
    "world_life w3 i = Some d3"
    using claim_step [OF w2(2) l2] by blast
  obtain pt w4 where w4: "worker_step ?o i (after_claim ?o ?n) w3 = (pt, w4)" by (metis surj_pair)
  have pt: "pt = Record Sent None (Some ref) (Inr ())"
    using sent w1(1) w2(1) w3(1) w4 by (simp add: delivered_def del: worker_step.simps)
  obtain body where body: "after_claim ?o ?n = Send ?n body"
    using w4 pt by (auto simp: after_claim_def split: sum.splits prod.splits)
  have up4: "world_up w4" "world_life w4 = world_life w3"
    using w4 pt w3(2) keeps_run [OF live.send_up] frame_run [OF live.send_frame]
    unfolding body by (auto split: prod.splits sum.splits if_splits)
  obtain w5 where w5: "repo_update_status (o_repo ?o) i Sent None (Some ref) w4 = (Inr (), w5)" "world_up w5"
    "world_life w5 = set_life i (put_status Sent None (Some ref)) (world_life w4)"
    using live.status_run [OF up4(1)] by metis
  have l5: "world_life w5 i = Some (put_status Sent None (Some ref) d3)"
    using w5(3) up4(2) w3(3) by (simp add: set_life_def)
  have step5: "worker_step ?o i pt w4 = (Returned (Inr ()), w5)" unfolding pt using w5(1) by simp
  obtain w6 d6 where w6: "worker_step ?o i (Claim ?n) w5 = (Send ?n body, w6)"
    "world_life w6 i = Some d6" "dl_status d6 = Processing"
    using claim_step [OF w5(2) l5, of L dp ?n] body by metis
  note steps = w1(1) w2(1) w3(1) [unfolded body] w4 [unfolded body] step5 w6(1)
  show ?thesis
    using steps l5 w6(2,3)
    by (intro exI [of _ ?n] exI [of _ body] exI [of _ w3] exI [of _ w5]
          exI [of _ "put_status Sent None (Some ref) d3"] exI [of _ w6] exI [of _ d6])
       (simp add: delivered_def put_status_def del: worker_step.simps)
qed

end
