(* ===== verification/Claims_Delivery.thy ===== *)
theory Claims_Delivery
  imports Interleaving Service Samples
begin

text \<open>
  Properties of ingestion, delivery and recovery over the whole service: what queueing stores and
  hands over, idempotency, backoff, settling, and what two workers on one notification can do.
\<close>

section \<open>Queueing\<close>

text \<open>
  While the database answers, a request with a new key is stored as exactly one new pending
  row, returned by its identifier, and handed over: its task is published, or a task of the
  process will run it when the broker refuses.
\<close>

theorem new_request_is_handed_over:
  assumes "table_up (w_notifications w)" and "fresh_ids w"
    and "key_conflict key (t_rows (w_notifications w)) = None"
  shows "\<exists>i r w'. queue_notification (world_orch L dp) user channel recipient template vars key w =
      (Inr i, w') \<and> t_rows (w_notifications w') = t_rows (w_notifications w) @ [r] \<and>
    r_id r = i \<and> r_status r = PendingDb \<and> r_idempotency_key r = key \<and> r_user_id r = user \<and>
    r_recipient r = recipient \<and> handed_over L i w'"
  using queue_new [OF assms(1,3,2), of L dp user channel recipient template vars]
  by (auto simp: inserted_row_def)

text \<open>A service whose identifiers do not repeat.\<close>

definition fresh_world :: "notification_row list \<Rightarrow> world" where
  "fresh_world rs = sample_world rs [] \<lparr>w_net := sample_net
     \<lparr>net_random := (\<lambda>n. if n = 0 then 1000 else 2000)\<rparr>\<rparr>"

lemma fresh_world_up:
  "table_up (w_notifications (fresh_world []))" "fresh_ids (fresh_world [])"
  "t_rows (w_notifications (fresh_world [])) = []"
  by (simp_all add: table_up_def healthy_def table_ok_def rows_ok_def keys_of_def fresh_world_def
      sample_world_def sample_table_def List.map_filter_def fresh_ids_def)

lemma new_request_is_handed_over_witness:
  "\<exists>i w'. queue_notification sample_orch (Some 9) Push ''9'' ''push/x'' (JObj []) (Some ''k'')
      (fresh_world []) = (Inr i, w') \<and> handed_over sample_libs i w'"
proof -
  have "key_conflict (Some ''k'') (t_rows (w_notifications (fresh_world []))) = None"
    by (simp add: fresh_world_up key_conflict_def)
  from new_request_is_handed_over [OF fresh_world_up(1,2) this, of sample_libs sample_deployment]
  show ?thesis unfolding sample_orch_def by meson
qed

text \<open>
  C15. A second request with a key already accepted answers with the identifier of the first and
  stores, publishes and spawns nothing, whatever else it carries.
\<close>

theorem same_key_is_answered_once:
  assumes "table_up (w_notifications w)"
    and "queue_notification (world_orch L dp) user channel recipient template vars (Some k) w =
      (Inr i, w1)" and "fresh_ids w1"
  shows "\<exists>w2. queue_notification (world_orch L dp) user' channel' recipient' template' vars' (Some k) w1
      = (Inr i, w2) \<and> same_stores w1 w2"
proof -
  note q = queue_keyed [OF assms(1,2)]
  then obtain r where r: "key_conflict (Some k) (t_rows (w_notifications w1)) = Some r" "r_id r = i"
    by blast
  then have "i \<in> r_id ` set (t_rows (w_notifications w1))" using key_conflict_Some by blast
  with assms(3) r(2) have "net_random (w_net w1) (net_calls (w_net w1)) \<noteq> r_id r"
    by (auto simp: fresh_ids_def)
  from queue_known [OF q(1) r(1) this] r(2) show ?thesis by blast
qed

abbreviation first_call :: "unit \<Rightarrow> uuid result \<times> world" where
  "first_call u \<equiv> queue_notification sample_orch (Some 9) Push ''9'' ''push/x'' (JObj []) (Some ''k'')
     (fresh_world [])"

lemma fresh_after:
  assumes "t_rows (w_notifications w) = [r]" and "r_id r = 1000" and "later (fresh_world []) w"
    and "0 < net_calls (w_net w)"
  shows "fresh_ids w"
  using assms by (auto simp: fresh_ids_def later_def fresh_world_def)

lemma same_key_is_answered_once_witness:
  "\<exists>w1 w2. first_call () = (Inr 1000, w1) \<and>
     queue_notification sample_orch None Email ''a@b'' ''x.html'' JNull (Some ''k'') w1 = (Inr 1000, w2) \<and>
     same_stores w1 w2"
proof -
  have new: "key_conflict (Some ''k'') (t_rows (w_notifications (fresh_world []))) = None"
    by (simp add: fresh_world_up key_conflict_def)
  have id: "net_random (w_net (fresh_world [])) (net_calls (w_net (fresh_world []))) = 1000"
    by (simp add: fresh_world_def sample_net_def)
  from queue_new [OF fresh_world_up(1) new fresh_world_up(2), of sample_libs sample_deployment
      "Some 9" Push "''9''" "''push/x''" "JObj []"] id
  obtain w1 where w1: "first_call () = (Inr 1000, w1)" "later (fresh_world []) w1"
    "\<exists>r. t_rows (w_notifications w1) = [r] \<and> r_id r = 1000"
    by (auto simp: sample_orch_def fresh_world_up inserted_row_def)
  have "net_calls (w_net (snd (first_call ()))) = 4" by code_simp
  with w1 have "fresh_ids w1" using fresh_after by auto
  from same_key_is_answered_once [OF fresh_world_up(1) w1(1) [unfolded sample_orch_def] this] w1(1)
  show ?thesis unfolding sample_orch_def by blast
qed

definition record_type :: "codecs \<Rightarrow> owned_record \<Rightarrow> string" where
  "record_type c rec =
     (case Option.bind (or_payload rec) (\<lambda>s. case c_json_parse c s of Inl _ \<Rightarrow> None | Inr raw \<Rightarrow> Some raw) of
        None \<Rightarrow> [] | Some raw \<Rightarrow> envelope_type (as_value raw))"

text \<open>
  C8. A Kafka record handled successfully and delivered again (at-least-once delivery) succeeds
  again and adds nothing: no row, no published task, no task of the process. Sign-ins, which
  count, are the exception.
\<close>

theorem redelivered_record_adds_nothing:
  assumes "table_up (w_notifications w)"
    and "handle_record (world_orch L dp) frontend_url rec w = (Inr u, w1)" and "fresh_ids w1"
    and "record_type (l_codecs L) rec \<noteq> ''UserLoggedIn''"
  shows "\<exists>w2. handle_record (world_orch L dp) frontend_url rec w1 = (Inr (), w2) \<and> same_stores w1 w2"
proof (cases "or_payload rec")
  case (Some body)
  with assms(2) obtain raw where raw: "c_json_parse (l_codecs L) body = Inr raw"
    by (auto simp: handle_record_def split: sum.splits)
  let ?e = "as_value raw"
  let ?rs = "event_requests (l_codecs L) frontend_url (envelope_ctx rec ?e) (envelope_type ?e)
    (envelope_data ?e)"
  have run: "handle_record (world_orch L dp) frontend_url rec =
      mapErr error_to_string (run_requests (world_orch L dp) ?rs)"
    using Some raw assms(4) by (simp add: handle_record_def record_type_def dispatch_event_def Let_def)
  with assms(2) have first: "run_requests (world_orch L dp) ?rs w = (Inr u, w1)"
    by (simp add: mapErr_Inr)
  from requests_keyed [OF first assms(1)] requests_again [OF _ assms(3)] run show ?thesis
    by (auto simp: mapErr_Inr)
qed (simp add: handle_record_def)

definition locked_libs :: libs where
  "locked_libs = sample_libs\<lparr>l_codecs := sample_codecs\<lparr>c_json_parse :=
     (\<lambda>_. Inr (JObj [(''id'', JStr ''e1''), (''event_type'', JStr ''AccountLocked''),
       (''data'', JObj [(''identifier'', JStr ''a@b''), (''lockout_secs'', JNum (PosInt 61))])]))\<rparr>\<rparr>"

abbreviation locked_orch :: "world orchestrator" where
  "locked_orch \<equiv> world_orch locked_libs sample_deployment"

abbreviation locked_record :: owned_record where
  "locked_record \<equiv> \<lparr>or_payload = Some ''locked'', or_topic = ''t'', or_partition = 0, or_offset = 4\<rparr>"

text \<open>Nothing on the way in touches the source of identifiers.\<close>

interpretation draws: intake_invariant "world_orch L dp" "\<lambda>w. net_random (w_net w) = f" for L dp f
  by unfold_locales
     (auto simp: keeps_def lift_apply now_world spawn_world net_ops)

definition locked_world :: world where
  "locked_world = snd (handle_record locked_orch None locked_record (fresh_world []))"

lemma redelivered_record_adds_nothing_witness:
  "\<exists>w2. handle_record locked_orch None locked_record locked_world = (Inr (), w2) \<and>
     same_stores locked_world w2 \<and> length (t_rows (w_notifications w2)) = 1"
proof -
  have ids: "map r_id (t_rows (w_notifications locked_world)) = [1000]" by code_simp
  then have len: "length (t_rows (w_notifications locked_world)) = 1" by (metis length_map length_Cons list.size(3) One_nat_def)
  from ids have one: "r_id ` set (t_rows (w_notifications locked_world)) = {1000}"
    by (metis list.set(1,2) list.set_map)
  have "fst (handle_record locked_orch None locked_record (fresh_world [])) = Inr ()" by code_simp
  then have run: "handle_record locked_orch None locked_record (fresh_world []) = (Inr (), locked_world)"
    by (simp add: locked_world_def prod_eq_iff)
  have "record_type (l_codecs locked_libs) locked_record = ''AccountLocked''" by code_simp
  then have kind: "record_type (l_codecs locked_libs) locked_record \<noteq> ''UserLoggedIn''" by simp
  have "net_random (w_net locked_world) = net_random (w_net (fresh_world []))"
    using keepsD [OF draws.record_keeps] unfolding locked_world_def by blast
  moreover have "net_calls (w_net locked_world) = 4" by code_simp
  ultimately have fresh: "fresh_ids locked_world"
    unfolding fresh_ids_def one by (simp add: fresh_world_def)
  from redelivered_record_adds_nothing [OF fresh_world_up(1) run fresh kind] len
  show ?thesis by (auto simp: same_stores_def)
qed

section \<open>Delivery\<close>

text \<open>
  The delay before retry number k is exactly 2^k minutes, saturating at 2^16 - 1 minutes, for
  every k a row can hold: the multiplications never overflow 32 bits.
\<close>

theorem backoff_exact:
  "unat (retry_delay_ms k) = min (2 ^ nat \<bar>k\<bar>) (2 ^ 16 - 1) * 60000"
  by (rule retry_delay_exact)

text \<open>
  Dispatching a settled notification reads the row and does nothing else: no status changes,
  nothing is sent, published or spawned.
\<close>

theorem settled_dispatch_only_reads:
  assumes "world_up w" and "world_life w i = Some d" and "settled (dl_status d)"
  shows "\<exists>w'. dispatch (world_orch L dp) i w = (Inr (), w') \<and> same_stores w w' \<and> w_net w' = w_net w"
  using live.dispatch_settled [OF assms, of L dp]
  by (auto simp: lift_apply same_stores_def get_by_id_def)

abbreviation sent_world :: world where
  "sent_world \<equiv> sample_world [sample_row 7 WebhookDb SentDb ''https://h/x''] []"

lemma settled_dispatch_only_reads_witness:
  "\<exists>w'. dispatch sample_orch 7 sent_world = (Inr (), w') \<and> same_stores sent_world w' \<and>
     w_net w' = w_net sent_world"
  unfolding sample_orch_def
  by (rule settled_dispatch_only_reads [OF sample_up [OF sample_rows_ok] sample_life])
     (simp add: settled_def open_status_def)

text \<open>
  C13. Whatever the providers answer, dispatching a notification again and again settles it: as
  many dispatches as attempts are left (six for a fresh one) are enough.
\<close>

theorem redispatching_settles:
  assumes "world_up w" and "world_life w i = Some d" and "attempts_left d \<le> n"
    and "dl_retry d \<le> max_retries" and "encodes (world_orch L dp)"
  shows "\<exists>d'. world_life (redispatch (world_orch L dp) i n w) i = Some d' \<and> settled (dl_status d')"
  using assms by (rule live.redispatch_settles)

lemma redispatching_settles_witness:
  "\<exists>d'. world_life (redispatch sample_orch 7 6
       (sample_world [sample_row 7 WebhookDb PendingDb ''nowhere''] [])) 7 = Some d' \<and>
     settled (dl_status d')"
  unfolding sample_orch_def
  by (rule redispatching_settles [OF sample_up [OF sample_rows_ok] sample_life])
     (use sample_encodes in \<open>simp_all add: attempts_left_def settled_def open_status_def
        max_retries_def sample_orch_def\<close>)

section \<open>Workers\<close>

text \<open>
  C24. Whatever open notification two workers take up, they can both send it: nothing excludes a
  second worker between the read and the claim. Both read it, the first claims it, sends it and
  records it as sent; then the second claims it, which reopens a notification already sent, and
  stands before sending the same content again.
\<close>

theorem two_workers_send_twice:
  assumes "world_up w" and "world_life w i = Some d" and "open_status (dl_status d)"
    and "fst (fst (interleave (world_orch L dp) i [True, False, True, True] (Fetch, Fetch) w)) =
      point.Record Sent None (Some ref) (Inr ())"
  shows "\<exists>n body w3 w5 d5 w6 d6.
    interleave (world_orch L dp) i [True, False, True] (Fetch, Fetch) w = ((Send n body, Claim n), w3) \<and>
    interleave (world_orch L dp) i [True, False, True, True, True] (Fetch, Fetch) w =
      ((Returned (Inr ()), Claim n), w5) \<and>
    world_life w5 i = Some d5 \<and> dl_status d5 = Sent \<and> dl_ref d5 = Some ref \<and>
    interleave (world_orch L dp) i [True, False, True, True, True, False] (Fetch, Fetch) w =
      ((Returned (Inr ()), Send n body), w6) \<and>
    world_life w6 i = Some d6 \<and> dl_status d6 = Processing"
  using late_claim [OF assms(1-3), of L dp ref] assms(4) unfolding delivered_def by simp

definition racing_world :: world where
  "racing_world = sample_world [sample_row 7 WebhookDb PendingDb ''https://h/x''] []"

definition accepted :: "point \<Rightarrow> bool" where
  "accepted pt = (case pt of point.Record st None (Some ref) (Inr u) \<Rightarrow> st = Sent | _ \<Rightarrow> False)"

lemma accepted_iff: "accepted pt \<longleftrightarrow> (\<exists>ref. pt = point.Record Sent None (Some ref) (Inr ()))"
  by (auto simp: accepted_def split: point.split option.split sum.split)

lemma two_workers_send_twice_witness:
  "\<exists>n body w6. interleave sample_orch 7 [True, False, True, True, True, False] (Fetch, Fetch) racing_world =
     ((Returned (Inr ()), Send n body), w6)"
proof -
  have up: "world_up racing_world" unfolding racing_world_def by (rule sample_up [OF sample_rows_ok])
  have life: "world_life racing_world 7 =
      Some \<lparr>dl_status = status_of_db PendingDb, dl_retry = 0, dl_error = None, dl_ref = None\<rparr>"
    unfolding racing_world_def by (rule sample_life)
  have "accepted (fst (fst (interleave sample_orch 7 [True, False, True, True] (Fetch, Fetch) racing_world)))"
    by code_simp
  then obtain ref where "fst (fst (interleave sample_orch 7 [True, False, True, True] (Fetch, Fetch)
      racing_world)) = point.Record Sent None (Some ref) (Inr ())"
    by (auto simp: accepted_iff)
  from two_workers_send_twice [OF up life _ this [unfolded sample_orch_def]]
  show ?thesis unfolding sample_orch_def by (simp add: open_status_def del: interleave.simps) blast
qed

text \<open>After the seventh step of that schedule the webhook has received both requests.\<close>

lemma both_requests_leave:
  "length (net_http_log (w_net (snd (interleave sample_orch 7
     [True, False, True, True, True, False, False] (Fetch, Fetch) racing_world)))) = 2"
  by code_simp

end
