(* ===== verification/Claims_Edge.thy ===== *)
theory Claims_Edge
  imports Service Samples
begin

text \<open>
  Properties of the edge of the service: what the HTTP and gRPC handlers may read and change on
  behalf of a caller, and what a completed boot guarantees.
\<close>

abbreviation sample_gate :: "unit gate" where
  "sample_gate \<equiv> \<lparr>g_api_gateway = (), g_admin = (), g_require_any = (\<lambda>_ _. Inr ()), g_lowercase = id,
     g_header_text = Some, g_jwt_secret = ''s'', g_jwt_subject = (\<lambda>_ _. Inr ''9'')\<rparr>"

abbreviation sample_api :: "(world, unit) api" where
  "sample_api \<equiv> world_api sample_libs sample_deployment sample_gate"

section \<open>Reading\<close>

text \<open>
  C32. A page of notifications holds at most 100, each once, all of them the caller's own; the
  unread counter beside it is the number of the caller's unread rows.
\<close>

theorem page_is_own_and_bounded:
  assumes "list_notifications (world_api L dp g) role user params w = (Inr page, w')"
    and "rows_ok (t_rows (w_notifications w))"
  shows "length (lr_notifications page) \<le> 100 \<and>
    distinct (map (n_id \<circ> v_notification) (lr_notifications page)) \<and>
    (\<forall>v \<in> set (lr_notifications page). n_user_id (v_notification v) = Some user) \<and>
    lr_unread_count page = int (length (filter (unread_of user) (t_rows (w_notifications w))))"
proof -
  let ?t = "w_notifications w"
  obtain ns w1 where l: "list_user_notification_views (world_orch L dp) user
      (page_limit (lp_limit params)) (page_offset (lp_offset params)) w = (Inr ns, w1)"
    and u: "orch_get_unread_count (world_orch L dp) user w1 = (Inr (lr_unread_count page), w')"
    and ns: "lr_notifications page = ns"
    using assms(1) by (auto simp: list_notifications_def mapErr_Inr require_role_def act_simps
      elim!: bindE_cases split: sum.splits)
  from l obtain xs where xs: "on_notifications
      (list_by_user user (page_limit (lp_limit params)) (page_offset (lp_offset params))) w = (Inr xs, w1)"
    "ns = map (list_view (world_orch L dp)) xs"
    by (auto simp: list_user_notification_views_def elim!: bindE_cases)
  from xs obtain t where t: "list_by_user user (page_limit (lp_limit params))
      (page_offset (lp_offset params)) ?t = (Inr xs, t)" "w_notifications w1 = t"
    by (auto dest!: lift_run)
  note page = list_by_user_page [OF t(1) assms(2)]
  from u t(2) page(4) have unread: "lr_unread_count page =
      int (length (filter (unread_of user) (t_rows ?t)))"
    by (auto simp: orch_get_unread_count_def get_unread_count_def dest!: lift_run query_Inr)
  have "v_notification \<circ> list_view (world_orch L dp) = id"
    by (simp add: fun_eq_iff list_view_def view_new_simps)
  then have "map v_notification ns = xs"
    using xs(2) by (simp add: comp_def fun_eq_iff)
  with page unread page_limit_bounds [of "lp_limit params"] ns show ?thesis
    by (auto simp flip: map_map)
qed

lemma page_is_own_and_bounded_witness:
  "\<exists>page w'. list_notifications sample_api () 9 \<lparr>lp_limit = Some 500, lp_offset = None\<rparr>
      (sample_world [sample_row 7 WebSocketDb SentDb ''9''] []) = (Inr page, w') \<and>
     length (lr_notifications page) \<le> 100 \<and> lr_unread_count page = 1"
proof -
  let ?w = "sample_world [sample_row 7 WebSocketDb SentDb ''9''] []"
  let ?call = "list_notifications sample_api () 9 \<lparr>lp_limit = Some 500, lp_offset = None\<rparr> ?w"
  have ok: "rows_ok (t_rows (w_notifications ?w))"
    using sample_rows_ok by (simp add: sample_world_def sample_table_def)
  have "case fst ?call of Inl _ \<Rightarrow> False | Inr page \<Rightarrow> lr_unread_count page = 1" by code_simp
  then obtain page w' where run: "?call = (Inr page, w')" and "lr_unread_count page = 1"
    by (cases ?call) (auto split: sum.splits)
  with page_is_own_and_bounded [OF run ok] show ?thesis by auto
qed

section \<open>Writing\<close>

definition read_mark :: "uuid \<Rightarrow> notification_row \<Rightarrow> notification_row \<Rightarrow> bool" where
  "read_mark user r r' \<longleftrightarrow> r' = r \<or>
     (unread_of user r \<and> (\<exists>t. r' = r\<lparr>r_read_at := Some t, r_updated_at := t\<rparr>))"

lemma mark_rows:
  assumes "\<And>r. p r \<Longrightarrow> unread_of user r"
  shows "list_all2 (read_mark user) (t_rows t) (t_rows (snd (exec (Inr ((), update_where p
      (\<lambda>r. r\<lparr>r_read_at := Some (db_now t), r_updated_at := db_now t\<rparr>) (t_rows t))) t)))"
proof -
  let ?f = "\<lambda>r. r\<lparr>r_read_at := Some (db_now t), r_updated_at := db_now t\<rparr>"
  have "list_all2 (read_mark user) (t_rows t) (update_where p ?f (t_rows t))"
    using assms by (auto simp: update_where_def list_all2_map2 list_all2_same read_mark_def)
  moreover have "list_all2 (read_mark user) (t_rows t) (t_rows t)"
    by (simp add: list_all2_same read_mark_def)
  ultimately show ?thesis
    using exec_rows [of "Inr ((), update_where p ?f (t_rows t))" t] by auto
qed

text \<open>
  C33. Marking as read, one or all, changes only rows of the caller that were unread, and of those
  only the time of reading and of the update; every other row and store is as it was.
\<close>

theorem marking_touches_own_rows:
  assumes "rest (world_api L dp g) role hs call w = (res, w')" and "call = MarkRead i \<or> call = MarkAllRead"
    and "user_context (world_api L dp g) hs = Inr user"
  shows "list_all2 (read_mark user) (t_rows (w_notifications w)) (t_rows (w_notifications w')) \<and>
    w' = w\<lparr>w_notifications := w_notifications w'\<rparr>"
proof -
  let ?t = "w_notifications w"
  have rs: "list_all2 (read_mark user) rs rs" for rs
    by (simp add: list_all2_same read_mark_def)
  have "list_all2 (read_mark user) (t_rows ?t) (t_rows (snd (mark_as_read j user ?t)))"
    "list_all2 (read_mark user) (t_rows ?t) (t_rows (snd (mark_all_as_read user ?t)))" for j
    using mark_rows [of "\<lambda>r. r_id r = j \<and> unread_of user r" user ?t] mark_rows [of "unread_of user" user ?t]
    by (simp_all add: mark_as_read_def mark_all_as_read_def)
  with assms rs show ?thesis
    by (auto simp: rest_def mark_notification_as_read_def mark_all_notifications_as_read_def
        require_role_def orch_mark_as_read_def orch_mark_all_as_read_def lift_apply mapErr_def bindE_def
        split: sum.splits prod.splits)
qed

abbreviation nine :: headers where
  "nine \<equiv> (\<lambda>_. Some ''9'')"

lemma sample_user: "user_context sample_api nine = Inr 9"
  by code_simp

lemma marking_touches_own_rows_witness:
  "\<exists>res w'. rest sample_api () nine (MarkRead 7) (sample_world [sample_row 7 WebSocketDb SentDb ''9'',
       (sample_row 8 WebSocketDb SentDb ''4'')\<lparr>r_user_id := Some 4\<rparr>] []) = (res, w') \<and>
     map r_read_at (t_rows (w_notifications w')) = [Some 0, None] \<and> w_broker w' = sample_broker"
proof -
  let ?w = "sample_world [sample_row 7 WebSocketDb SentDb ''9'',
       (sample_row 8 WebSocketDb SentDb ''4'')\<lparr>r_user_id := Some 4\<rparr>] []"
  obtain res w' where run: "rest sample_api () nine (MarkRead 7) ?w = (res, w')" by (metis surj_pair)
  have "map r_read_at (t_rows (w_notifications (snd (rest sample_api () nine (MarkRead 7) ?w)))) =
      [Some 0, None]" by code_simp
  moreover have "w_broker w' = w_broker ?w"
    using marking_touches_own_rows [OF run _ sample_user, of 7] by (metis world.select_convs(4) world.surjective world.update_convs(1))
  ultimately show ?thesis using run by (auto simp: sample_world_def)
qed

section \<open>Devices\<close>

text \<open>
  A registration is refused, with 400 and without touching any store, exactly when the
  platform is not one of the three or the token is blank.
\<close>

theorem bad_registration_is_refused:
  assumes "g_require_any g role [g_api_gateway g, g_admin g] = Inr ()"
    and "user_context (world_api L dp g) hs = Inr user"
  shows "(\<exists>msg. rest (world_api L dp g) role hs (RegisterDevice req) w = (Inl (400, msg), w)) \<longleftrightarrow>
    g_lowercase g (rd_platform req) \<notin> {''android'', ''ios'', ''web''} \<or> trim (rd_token req) = []"
  using assms
  by (auto simp: rest_def register_device_def require_role_def world_api_def bindE_def mapErr_def
      platform_from_db_def map_sum_Inl split: sum.splits prod.splits)

lemma bad_registration_is_refused_witness:
  "\<exists>msg. rest sample_api () nine (RegisterDevice \<lparr>rd_token = ''t'', rd_platform = ''symbian''\<rparr>)
     (sample_world [] []) = (Inl (400, msg), sample_world [] [])"
  by (subst bad_registration_is_refused [OF _ sample_user]) simp_all

section \<open>Boot\<close>

lemma choose_push_keeps:
  assumes "\<And>req. keeps J (on_net (net_http req))" and "keeps J (on_net net_now)"
    and "keeps J (on_net net_instant)" and "\<And>w c. J w \<Longrightarrow> J (w\<lparr>w_fcm_token := Some c\<rparr>)"
  shows "keeps J (choose_push L c)"
proof -
  have "keeps J (access_token (world_fcm L project account))" for project account
    by (rule access_token_keeps) (simp_all add: assms)
  then show ?thesis
    unfolding choose_push_def
    by (auto simp del: retE_apply intro!: keep_intros preflight_keeps split: option.split sum.split)
qed

text \<open>The log of the broker only grows.\<close>

lemma publish_dispatch_grows:
  "op \<in> set (bk_log b) \<Longrightarrow> op \<in> set (bk_log (snd (publish_dispatch c i b)))"
  using publish_dispatch_run [of c i b] by (cases "publish_dispatch c i b") auto

interpretation logs: intake_invariant "world_orch L dp" "\<lambda>w. ops \<subseteq> set (bk_log (w_broker w))"
  for L dp ops
  by unfold_locales
     (auto simp: keeps_def lift_apply now_world spawn_world publish_dispatch_grows)

text \<open>
  C39. A boot that completes had a configured broker, whose topology it declared: without
  \<^verbatim>\<open>RABBITMQ_URL\<close>, which ARCHITECTURE.md lists as optional, no boot completes. It subscribes to Kafka
  exactly when brokers are configured, and then readiness starts as not ready.
\<close>

theorem boot_completes_with_broker:
  assumes "boot L I c w = (Inr sv, w')"
  shows "cf_rabbitmq_url c \<noteq> [] \<and>
    (\<exists>b. declare_topology (w_broker w) = (Inr (), b) \<and> set (bk_log b) \<subseteq> set (bk_log (w_broker w'))) \<and>
    (sv_subscription sv = None \<longleftrightarrow> cf_kafka_brokers c = []) \<and>
    (fst (health_ready clock (sv_health sv)) = 200 \<longleftrightarrow> cf_kafka_brokers c = [])"
proof -
  obtain u w1 where conn: "connect_infrastructure I c w = (Inr u, w1)"
    using assms by (auto simp: boot_def elim!: bindE_cases)
  note up = connect_infrastructure_Inr [OF conn]
  then obtain b where b: "declare_topology (w_broker w) = (Inr (), b)" "w_broker w1 = b"
    by (auto dest!: lift_run)
  let ?J = "\<lambda>v. set (bk_log b) \<subseteq> set (bk_log (w_broker v))"
  from assms conn obtain engine email push w2 x where push: "(choose_push L c :: (world, string, _) act) w1 = (Inr push, w2)"
    and sv: "sv_subscription sv = subscription_of c" "sv_health sv = initial_health c"
    and sweep: "recover_pending (world_orch L \<lparr>dp_engine = engine, dp_smtp = email,
      dp_fcm = push\<rparr>) stuck_processing_secs recovery_batch w2 = (x, w')"
    unfolding boot_def bindE_Inr [of "connect_infrastructure I c", OF conn]
    by (auto elim!: bindE_cases simp: attempt_def Let_def split: prod.splits)
  have "?J w2" using keeps_run [OF choose_push_keeps [of ?J] push] b by (simp add: keeps_def lift_apply)
  with keeps_run [OF logs.recover_keeps sweep] have "?J w'" .
  moreover have "(sv_subscription sv = None \<longleftrightarrow> cf_kafka_brokers c = []) \<and>
      (fst (health_ready clock (sv_health sv)) = 200 \<longleftrightarrow> cf_kafka_brokers c = [])"
    unfolding sv by (simp add: subscription_of_def initial_health_def health_ready_def Let_def
        is_ready_def health_new_def mark_disabled_def)
  ultimately show ?thesis using up b by blast
qed

definition sample_sources :: sources where
  "sample_sources = \<lparr>so_port = None, so_database_url = Some ''postgres:'', so_kafka_brokers = Some ''k:9092'',
     so_rabbitmq_url = Some ''amqp:'', so_redis_url = Some ''redis:'', so_jwt_secret = Some ''s'',
     so_log_level = None, so_database_max_connections = None, so_database_min_connections = None,
     so_database_acquire_timeout_secs = None, so_database_idle_timeout_secs = None,
     so_kafka_topic_user_events = None, so_kafka_topic_audit_events = None,
     so_kafka_topic_trading_triggers = None, so_kafka_topic_meter_events = None,
     so_optional = (\<lambda>_. None), so_smtp_port = None, so_grpc_port = None\<rparr>"

definition sample_infra :: infra where
  "sample_infra = \<lparr>in_pool = (\<lambda>_ _. Inr ()), in_migrate = Inr (), in_redis = (\<lambda>_. Inr ()),
     in_amqp = (\<lambda>_. Inr ())\<rparr>"

definition sample_boot :: "(string + service) \<times> world" where
  "sample_boot = boot sample_libs sample_infra (the (read_config sample_sources)) (sample_world [] [])"

lemma sample_boot_runs: "\<exists>sv w'. sample_boot = (Inr sv, w')"
proof -
  have "\<not> isl (fst sample_boot)" by code_simp
  then show ?thesis by (metis isl_def prod.collapse sum.exhaust)
qed

lemma boot_completes_with_broker_witness:
  "\<exists>sv w'. sample_boot = (Inr sv, w') \<and> set (bk_log (w_broker w')) \<noteq> {} \<and>
     sv_subscription sv \<noteq> None \<and> fst (health_ready 0 (sv_health sv)) \<noteq> 200"
proof -
  obtain sv w' where run: "sample_boot = (Inr sv, w')" using sample_boot_runs by blast
  note booted = boot_completes_with_broker [OF run [unfolded sample_boot_def], of 0]
  have brokers: "cf_kafka_brokers (the (read_config sample_sources)) \<noteq> []" by code_simp
  from booted obtain b where b: "declare_topology sample_broker = (Inr (), b)"
    "set (bk_log b) \<subseteq> set (bk_log (w_broker w'))" by (auto simp: sample_world_def)
  have "bk_log b \<noteq> []" using topology_log [OF b(1)] by (simp add: sample_broker_def)
  with b(2) have "set (bk_log (w_broker w')) \<noteq> {}" by auto
  with booted brokers run show ?thesis by blast
qed

end
