(* ===== verification/Scheduler.thy ===== *)
theory Scheduler
  imports Prelude
begin

text \<open>
  Tasks of one kind on one state, interleaved at their awaits: a task is the point where it stands,
  a step function moves it, and a schedule is the list of the tasks that move. What is proved here
  once: a step that always comes closer to the end finishes every task that moves often enough,
  and an invariant of the state, or of tasks and state, that every step keeps is kept.
\<close>

type_synonym ('p, 's) step = "'p \<Rightarrow> 's \<Rightarrow> 'p \<times> 's"

definition move :: "('p, 's) step \<Rightarrow> nat \<Rightarrow> 'p list \<Rightarrow> 's \<Rightarrow> 'p list \<times> 's" where
  "move step k ps s =
     (if k < length ps then (case step (ps ! k) s of (p', s') \<Rightarrow> (ps[k := p'], s')) else (ps, s))"

fun run_tasks :: "('p, 's) step \<Rightarrow> nat list \<Rightarrow> 'p list \<Rightarrow> 's \<Rightarrow> 'p list \<times> 's" where
  "run_tasks step [] ps s = (ps, s)"
| "run_tasks step (k # ks) ps s =
     (case move step k ps s of (ps', s') \<Rightarrow> run_tasks step ks ps' s')"

lemma move_length: "move step k ps s = (ps', s') \<Longrightarrow> length ps' = length ps"
  by (auto simp: move_def split: if_splits prod.splits)

lemma run_tasks_length: "run_tasks step ks ps s = (ps', s') \<Longrightarrow> length ps' = length ps"
  by (induction ks arbitrary: ps s) (auto split: prod.splits dest: move_length)

lemma run_tasks_append:
  "run_tasks step (ks @ ls) ps s =
     (case run_tasks step ks ps s of (ps', s') \<Rightarrow> run_tasks step ls ps' s')"
  by (induction ks arbitrary: ps s) (simp_all split: prod.split)

text \<open>An invariant of tasks and state.\<close>

lemma run_tasks_invariant:
  assumes "J ps s" and "run_tasks step ks ps s = (ps', s')"
    and kept: "\<And>ps s k p' s'. J ps s \<Longrightarrow> k < length ps \<Longrightarrow> step (ps ! k) s = (p', s') \<Longrightarrow> J (ps[k := p']) s'"
  shows "J ps' s'"
  using assms(1,2)
proof (induction ks arbitrary: ps s)
  case (Cons k ks)
  obtain ps1 s1 where m: "move step k ps s = (ps1, s1)" by (metis surj_pair)
  with Cons.prems(1) have "J ps1 s1" by (auto simp: move_def kept split: if_splits prod.splits)
  with Cons.IH Cons.prems(2) m show ?case by simp
qed simp

lemma run_tasks_keeps:
  assumes "\<And>p s. I s \<Longrightarrow> I (snd (step p s))" and "I s"
  shows "I (snd (run_tasks step ks ps s))"
proof -
  obtain ps' s' where run: "run_tasks step ks ps s = (ps', s')" by (metis surj_pair)
  have "I s'" by (rule run_tasks_invariant [of "\<lambda>_. I", OF assms(2) run]) (metis assms(1) snd_conv)
  with run show ?thesis by simp
qed

text \<open>What a task carries through all its points.\<close>

lemma run_tasks_map:
  assumes "\<And>p s p' s'. step p s = (p', s') \<Longrightarrow> f p' = f p" and "run_tasks step ks ps s = (ps', s')"
  shows "map f ps' = map f ps"
  by (rule run_tasks_invariant [of "\<lambda>qs _. map f qs = map f ps", OF refl assms(2)])
     (metis assms(1) list_update_id map_update nth_map)

text \<open>Steps that come closer to the end.\<close>

locale finishing =
  fixes step :: "('p, 's) step" and left :: "'p \<Rightarrow> nat"
  assumes step_left: "step p s = (p', s') \<Longrightarrow> left p' \<le> left p - 1"
begin

lemma move_left:
  assumes "move step k ps s = (ps', s')" and "j < length ps"
  shows "left (ps' ! j) \<le> left (ps ! j) - (if j = k then 1 else 0)"
  using assms step_left by (auto simp: move_def split: if_splits prod.splits)

lemma run_left:
  "run_tasks step ks ps s = (ps', s') \<Longrightarrow> j < length ps \<Longrightarrow>
   left (ps' ! j) \<le> left (ps ! j) - count_list ks j"
proof (induction ks arbitrary: ps s)
  case (Cons k ks)
  obtain ps1 s1 where m: "move step k ps s = (ps1, s1)" by (metis surj_pair)
  from Cons.prems m have "run_tasks step ks ps1 s1 = (ps', s')" by simp
  from Cons.IH [OF this] Cons.prems(2) move_length [OF m] move_left [OF m Cons.prems(2)] show ?case
    by (auto split: if_splits)
qed simp

lemma run_finished:
  assumes "run_tasks step ks ps s = (ps', s')" and "j < length ps" and "left (ps ! j) \<le> count_list ks j"
  shows "left (ps' ! j) = 0"
  using run_left [OF assms(1,2)] assms(3) by simp

end

end
