(* ===== verification/Workers.thy ===== *)
theory Workers
  imports Interleaving Scheduler
begin

text \<open>
  Any number of workers, each dispatching one notification await by await (\<open>Interleaving\<close>), on
  one state, under any schedule. While the database answers, workers on different notifications
  do not interfere: each ends as a dispatch of its notification alone may end. Workers on the same
  notification may interfere (\<open>late_claim\<close> of \<open>Interleaving\<close>), but even they lose no row and change
  no more of one than its delivery.
\<close>

type_synonym pool = "(uuid \<times> point) list"

definition job_step :: "'s orchestrator \<Rightarrow> uuid \<times> point \<Rightarrow> 's \<Rightarrow> (uuid \<times> point) \<times> 's" where
  "job_step orch job s =
     (case job of (i, pt) \<Rightarrow> (case worker_step orch i pt s of (pt', s') \<Rightarrow> ((i, pt'), s')))"

definition run_pool :: "'s orchestrator \<Rightarrow> nat list \<Rightarrow> pool \<Rightarrow> 's \<Rightarrow> pool \<times> 's" where
  "run_pool orch = run_tasks (job_step orch)"

definition start_pool :: "uuid list \<Rightarrow> pool" where
  "start_pool ids = map (\<lambda>i. (i, Fetch)) ids"

lemma job_step_Pair [simp]:
  "job_step orch (i, pt) s = (case worker_step orch i pt s of (pt', s') \<Rightarrow> ((i, pt'), s'))"
  by (simp add: job_step_def)

lemma run_pool_ids: "run_pool orch ks ws s = (ws', s') \<Longrightarrow> map fst ws' = map fst ws"
  unfolding run_pool_def
  by (rule run_tasks_map) (auto simp: job_step_def split: prod.splits)

section \<open>Every worker finishes\<close>

fun steps_left :: "point \<Rightarrow> nat" where
  "steps_left Fetch = 7"
| "steps_left (Claim n) = 6"
| "steps_left (Send n body) = 5"
| "steps_left (ReadClock n e) = 4"
| "steps_left (Bump n e t) = 3"
| "steps_left (Requeue n e) = 2"
| "steps_left (Record st e p r) = 1"
| "steps_left (Schedule ms) = 1"
| "steps_left (Returned r) = 0"

lemma steps_left_0: "steps_left pt = 0 \<longleftrightarrow> (\<exists>r. pt = Returned r)"
  by (cases pt) simp_all

lemma steps_left_after_claim: "steps_left (after_claim orch n) \<le> 5"
  by (simp add: after_claim_def split: sum.split)

lemma step_finishes: "worker_step orch i pt s = (pt', s') \<Longrightarrow> steps_left pt' \<le> steps_left pt - 1"
  using steps_left_after_claim [of orch]
  by (cases pt) (auto split: prod.splits sum.splits option.splits if_splits)

interpretation jobs: finishing "job_step orch" "\<lambda>job. steps_left (snd job)" for orch
  by unfold_locales (auto simp: job_step_def split: prod.splits dest!: step_finishes)

lemma pool_returns:
  assumes "run_pool orch ks (start_pool ids) s = (ws, s')"
  shows "\<forall>k < length ids. 7 \<le> count_list ks k \<longrightarrow> (\<exists>r. ws ! k = (ids ! k, Returned r))"
proof (intro allI impI)
  fix k assume k: "k < length ids" "7 \<le> count_list ks k"
  have start: "map fst (start_pool ids) = ids" by (simp add: start_pool_def comp_def)
  then have ids: "map fst ws = ids" using run_pool_ids [OF assms] by simp
  have len: "k < length ws" "k < length (start_pool ids)" using k(1) ids start by (metis length_map)+
  have "snd (start_pool ids ! k) = Fetch" using k(1) by (simp add: start_pool_def)
  then have "steps_left (snd (start_pool ids ! k)) \<le> count_list ks k" using k(2) by simp
  from jobs.run_finished [OF assms [unfolded run_pool_def] len(2) this]
  have "steps_left (snd (ws ! k)) = 0" .
  then show "\<exists>r. ws ! k = (ids ! k, Returned r)"
    using ids len(1) steps_left_0 by (metis nth_map prod.collapse)
qed

section \<open>Workers keep what their calls keep\<close>

locale worker_invariant =
  fixes orch :: "'s orchestrator" and I :: "'s \<Rightarrow> bool"
  assumes get_keeps: "keeps I (repo_get_by_id (o_repo orch) i)"
    and status_keeps: "keeps I (repo_update_status (o_repo orch) i st e p)"
    and retry_keeps: "keeps I (repo_increment_retry (o_repo orch) i at)"
    and provider_send_keeps: "keeps I (prov_send (provider_for orch c) to content)"
    and clock_keeps: "keeps I (now orch)"
    and schedule_keeps: "keeps I (schedule_retry orch i ms)"
begin

lemma step_keeps: "I s \<Longrightarrow> I (snd (worker_step orch i pt s))"
  using keepsD [OF get_keeps, of s] keepsD [OF status_keeps, of s] keepsD [OF retry_keeps, of s]
    keepsD [OF provider_send_keeps, of s] keepsD [OF clock_keeps, of s] keepsD [OF schedule_keeps, of s]
  by (cases pt) (auto split: prod.split sum.split option.split, (metis snd_conv)+)

lemma pool_keeps: "I s \<Longrightarrow> I (snd (run_pool orch ks ws s))"
  unfolding run_pool_def
  by (rule run_tasks_keeps) (use step_keeps in \<open>auto simp: job_step_def split: prod.split, (metis snd_conv)+\<close>)

end

text \<open>
  What any number of workers, on any notifications, leaves of the table: the same rows in the same
  order, whose addressee, content, key, creation and read mark are as they were, and whose retry
  counts have not fallen.
\<close>

definition row_core ::
  "notification_row \<Rightarrow> uuid \<times> uuid option \<times> channel_db \<times> string \<times> string \<times> json \<times> string option \<times> time \<times>
     time option" where
  "row_core r = (r_id r, r_user_id r, r_channel r, r_recipient r, r_template_id r, r_variables r,
     r_idempotency_key r, r_created_at r, r_read_at r)"

definition row_follows :: "notification_row \<Rightarrow> notification_row \<Rightarrow> bool" where
  "row_follows r r' \<longleftrightarrow> row_core r' = row_core r \<and> r_retry_count r \<le> r_retry_count r'"

abbreviation rows_follow :: "notification_row list \<Rightarrow> notification_row list \<Rightarrow> bool" where
  "rows_follow \<equiv> list_all2 row_follows"

lemma row_follows_refl [simp]: "row_follows r r"
  by (simp add: row_follows_def)

lemma row_follows_trans: "row_follows r1 r2 \<Longrightarrow> row_follows r2 r3 \<Longrightarrow> row_follows r1 r3"
  by (simp add: row_follows_def)

lemma rows_follow_ids: "rows_follow rs rs' \<Longrightarrow> map r_id rs' = map r_id rs"
  by (induction rule: list_all2_induct) (simp_all add: row_follows_def row_core_def)

lemma rows_follow_update:
  "rows_follow rs0 rs \<Longrightarrow> (\<And>r. row_follows r (f r)) \<Longrightarrow> rows_follow rs0 (update_where p f rs)"
  unfolding update_where_def list_all2_map2
  by (erule list_all2_mono) (auto intro: row_follows_trans)

lemma keeps_rows_exec:
  assumes "\<And>a rs t. out t = Inr (a, rs) \<Longrightarrow> rows_follow rs0 (t_rows t) \<Longrightarrow> rows_follow rs0 rs"
  shows "keeps (\<lambda>w. rows_follow rs0 (t_rows (w_notifications w))) (on_notifications (\<lambda>t. exec (out t) t))"
proof (rule keepsI)
  fix w :: world assume kept: "rows_follow rs0 (t_rows (w_notifications w))"
  from exec_rows [of "out (w_notifications w)" "w_notifications w"] assms [OF _ kept] kept
  show "rows_follow rs0 (t_rows (w_notifications (snd (on_notifications (\<lambda>t. exec (out t) t) w))))"
    by (auto simp: lift_apply)
qed

interpretation pooled: worker_invariant "world_orch L dp"
  "\<lambda>w. rows_follow rs0 (t_rows (w_notifications w))" for L dp rs0
proof unfold_locales
  let ?I = "\<lambda>w. rows_follow rs0 (t_rows (w_notifications w))"
  show "keeps ?I (repo_get_by_id (o_repo (world_orch L dp)) i)" for i
    unfolding world_orch_simps world_repo_simps get_by_id_def [abs_def] query_def
    by (rule keeps_rows_exec) auto
  show "keeps ?I (repo_update_status (o_repo (world_orch L dp)) i st e p)" for i st e p
    unfolding world_orch_simps world_repo_simps update_status_def [abs_def] Let_def
    by (rule keeps_rows_exec) (auto intro!: rows_follow_update simp: row_follows_def row_core_def)
  show "keeps ?I (repo_increment_retry (o_repo (world_orch L dp)) i at)" for i at
    unfolding world_orch_simps world_repo_simps increment_retry_def [abs_def]
    by (rule keeps_rows_exec)
       (auto intro!: rows_follow_update simp: row_follows_def row_core_def split: if_splits)
  show "keeps ?I (prov_send (provider_for (world_orch L dp) c) to content)" for c to content
    by (rule quiet.provider_keeps [of "\<lambda>t b. rows_follow rs0 (t_rows t)"])
  show "keeps ?I (now (world_orch L dp))"
    by (simp add: now_world keeps_def lift_apply)
  have "keeps ?I (mq_publish_retry (world_mq L) i ms)" "keeps ?I (spawn (world_orch L dp) t)" for i ms t
    by (simp_all add: keeps_def lift_apply spawn_world)
  then show "keeps ?I (schedule_retry (world_orch L dp) i ms)" for i ms
    unfolding schedule_retry_def world_orch_simps
    by (auto split: sum.split intro!: keep_intros simp del: retE_apply world_mq_simps)
qed

lemma pool_rows:
  "rows_follow (t_rows (w_notifications w)) (t_rows (w_notifications (snd (run_pool (world_orch L dp) ks ws w))))"
  by (rule pooled.pool_keeps) (simp add: list_all2_refl)

section \<open>Workers on different notifications\<close>

definition worker_outcome :: "bool \<Rightarrow> delivery \<Rightarrow> unit result \<Rightarrow> delivery \<Rightarrow> bool" where
  "worker_outcome enc d r d' \<longleftrightarrow>
     (if settled (dl_status d) then r = Inr () \<and> d' = d else dispatch_outcome enc d r d')"

abbreviation claimed :: "delivery \<Rightarrow> delivery" where
  "claimed d \<equiv> put_status Processing None None d"

text \<open>Where a notification stands that was \<open>d\<close> when its worker started.\<close>

fun on_track :: "bool \<Rightarrow> delivery \<Rightarrow> point \<Rightarrow> delivery \<Rightarrow> bool" where
  "on_track enc d Fetch d' \<longleftrightarrow> d' = d"
| "on_track enc d (Claim n) d' \<longleftrightarrow> open_status (dl_status d) \<and> d' = d \<and> d = delivery_of n"
| "on_track enc d (Send n body) d' \<longleftrightarrow>
     open_status (dl_status d) \<and> d' = claimed d \<and> d = delivery_of n"
| "on_track enc d (ReadClock n e) d' \<longleftrightarrow>
     open_status (dl_status d) \<and> d' = claimed d \<and> dl_retry d < max_retries"
| "on_track enc d (Bump n e t) d' \<longleftrightarrow>
     open_status (dl_status d) \<and> d' = claimed d \<and> dl_retry d < max_retries"
| "on_track enc d (Requeue n e) d' \<longleftrightarrow>
     open_status (dl_status d) \<and> d' = bump_retry (claimed d) \<and> dl_retry d < max_retries"
| "on_track enc d (Record st m p r) d' \<longleftrightarrow>
     open_status (dl_status d) \<and> d' = claimed d \<and>
     ((\<exists>ref. st = Sent \<and> m = None \<and> p = Some ref \<and> r = Inr ()) \<or>
      (\<exists>e. st = PermanentFailure \<and> m = Some (error_to_string e) \<and> p = None \<and> r = Inl e))"
| "on_track enc d (Schedule ms) d' \<longleftrightarrow>
     open_status (dl_status d) \<and> dl_retry d < max_retries \<and>
     (\<exists>e. d' = put_status Pending (Some (error_to_string e)) None (bump_retry d))"
| "on_track enc d (Returned r) d' \<longleftrightarrow> worker_outcome enc d r d'"

lemma put_status_bump: "put_status st e p (bump_retry (claimed d)) = put_status st e p (bump_retry d)"
  by (simp add: put_status_def bump_retry_def)

lemma open_not_settled [simp]: "open_status st \<Longrightarrow> \<not> settled st"
  by (simp add: settled_def)

context delivery_up
begin

lemma track_done:
  assumes "up s1" and "life s1 = set_life i f (life s)" and "life s i = Some d'"
    and "on_track enc d pt' (f d')"
  shows "up s1 \<and> (\<exists>d''. life s1 = set_life i (\<lambda>_. d'') (life s) \<and> on_track enc d pt' d'')"
  using assms by (auto simp: set_life_def intro!: exI [of _ "f d'"])

lemma track_step:
  assumes up: "up s" and d: "life s i = Some d'" and track: "on_track (encodes orch) d pt d'"
    and step: "worker_step orch i pt s = (pt', s')"
  shows "up s' \<and> (\<exists>d''. life s' = set_life i (\<lambda>_. d'') (life s) \<and> on_track (encodes orch) d pt' d'')"
proof (cases pt)
  case Fetch
  show ?thesis
  proof (cases rule: get_run [OF up, of i])
    case (2 n s1)
    then have "life s1 = set_life i (\<lambda>_. d') (life s)" using d by (auto simp: set_life_def)
    with Fetch 2 d track step show ?thesis
      by (auto simp: worker_outcome_def settled_def open_status_def split: if_splits)
  qed (use d in simp)
next
  case (Claim n)
  obtain s1 where s1: "repo_update_status (o_repo orch) i Processing None None s = (Inr (), s1)" "up s1"
    "life s1 = set_life i claimed (life s)" using status_run [OF up] .
  have "on_track (encodes orch) d (after_claim orch n) (claimed d)"
    using track Claim payload_error [of orch n]
    by (auto simp: after_claim_def worker_outcome_def dispatch_outcome_def split: sum.split)
  with Claim track step s1 d show ?thesis by (auto simp: set_life_def)
next
  case (Send n body)
  obtain x s1 where send: "prov_send (provider_for orch (n_channel n)) (n_recipient n) body s = (x, s1)"
    by (metis surj_pair)
  have s1: "up s1" "life s1 = set_life i (\<lambda>_. d') (life s)"
    using keeps_run [OF send_up send up] frame_run [OF send_frame send] d by (auto simp: set_life_def)
  with Send track step send show ?thesis by (cases x) (auto split: if_splits)
next
  case (Record st m p r)
  obtain s1 where s1: "repo_update_status (o_repo orch) i st m p s = (Inr (), s1)" "up s1"
    "life s1 = set_life i (put_status st m p) (life s)" using status_run [OF up] .
  have "on_track (encodes orch) d (Returned r) (put_status st m p d')"
    using track Record by (auto simp: worker_outcome_def dispatch_outcome_def)
  moreover have "pt' = Returned r" "s' = s1" using Record step s1(1) by auto
  ultimately show ?thesis using track_done [OF s1(2,3) d] by metis
next
  case (ReadClock n e)
  obtain t s1 where now: "now orch s = (t, s1)" by (metis surj_pair)
  have "up s1" "life s1 = set_life i (\<lambda>_. d') (life s)"
    using keeps_run [OF now_up now up] frame_run [OF now_frame now] d by (auto simp: set_life_def)
  with ReadClock track step now show ?thesis by auto
next
  case (Bump n e t)
  have "dl_retry d' < 2 ^ 31 - 1" using track Bump by (simp add: max_retries_def)
  from retry_run [OF up d this] obtain s1 where
    "repo_increment_retry (o_repo orch) i (t + int (unat (retry_delay_ms (n_retry_count n + 1))) * 1000) s =
      (Inr (), s1)" "up s1" "life s1 = set_life i bump_retry (life s)" by blast
  with Bump track step d show ?thesis by (auto simp: set_life_def)
next
  case (Requeue n e)
  obtain s1 where s1: "repo_update_status (o_repo orch) i Pending (Some (error_to_string e)) None s =
      (Inr (), s1)" "up s1" "life s1 = set_life i (put_status Pending (Some (error_to_string e)) None) (life s)"
    using status_run [OF up] .
  have "on_track (encodes orch) d (Schedule (retry_delay_ms (n_retry_count n + 1)))
      (put_status Pending (Some (error_to_string e)) None d')"
    using track Requeue by (auto simp: put_status_bump)
  moreover have "pt' = Schedule (retry_delay_ms (n_retry_count n + 1))" "s' = s1"
    using Requeue step s1(1) by auto
  ultimately show ?thesis using track_done [OF s1(2,3) d] by metis
next
  case (Schedule ms)
  obtain s1 where s1: "schedule_retry orch i ms s = (Inr (), s1)" "life s1 = life s" "up s \<Longrightarrow> up s1"
    using schedule_run by blast
  have "life s1 = set_life i id (life s)" using s1(2) by (simp add: set_life_def option.map_id)
  moreover have "on_track (encodes orch) d (Returned (Inr ())) (id d')"
    using track Schedule by (auto simp: worker_outcome_def dispatch_outcome_def)
  moreover have "pt' = Returned (Inr ())" "s' = s1" using Schedule step s1(1) by auto
  ultimately show ?thesis using track_done [OF s1(3) [OF up] _ d] by metis
next
  case (Returned r)
  then have "life s' = set_life i id (life s)" "on_track (encodes orch) d pt' (id d')" "up s'"
    using track step up by (auto simp: set_life_def option.map_id)
  then show ?thesis using track_done [OF _ _ d] by metis
qed

definition all_on_track :: "lives \<Rightarrow> pool \<Rightarrow> 's \<Rightarrow> bool" where
  "all_on_track l ws s \<longleftrightarrow> up s \<and> distinct (map fst ws) \<and>
     (\<forall>(i, pt) \<in> set ws. \<exists>d d'. l i = Some d \<and> life s i = Some d' \<and> on_track (encodes orch) d pt d') \<and>
     (\<forall>i. i \<notin> fst ` set ws \<longrightarrow> life s i = l i)"

lemma step_on_track:
  assumes "all_on_track l ws s" and True: "k < length ws" and "job_step orch (ws ! k) s = (job', s')"
  shows "all_on_track l (ws[k := job']) s'"
proof -
  obtain i pt where k: "ws ! k = (i, pt)" by (metis surj_pair)
  obtain pt' where step: "worker_step orch i pt s = (pt', s')" and job': "job' = (i, pt')"
    using assms(3) k by (auto split: prod.splits)
  let ?ws' = "ws[k := (i, pt')]"
  have mem: "(i, pt) \<in> set ws" using True k by (metis nth_mem)
  then obtain d d' where d: "l i = Some d" "life s i = Some d'" "on_track (encodes orch) d pt d'"
    using assms(1) by (auto simp: all_on_track_def)
  from track_step [OF _ d(2,3) step] assms(1) obtain d'' where
    up: "up s'" and life': "life s' = set_life i (\<lambda>_. d'') (life s)"
    and track: "on_track (encodes orch) d pt' d''" by (auto simp: all_on_track_def)
  have ids: "map fst ?ws' = map fst ws" using k by (metis fst_conv list_update_id map_update nth_map True)
  have others: "life s' j = life s j" if "j \<noteq> i" for j using that life' by simp
  have "\<exists>d d'. l j = Some d \<and> life s' j = Some d' \<and> on_track (encodes orch) d q d'"
    if "(j, q) \<in> set ?ws'" for j q
  proof (cases "j = i")
    case True
    have "distinct (map fst ?ws')" using assms(1) ids by (simp add: all_on_track_def)
    moreover have "(i, pt') \<in> set ?ws'" using \<open>k < length ws\<close> by (simp add: set_update_memI)
    ultimately have "q = pt'" using that True by (metis eq_key_imp_eq_value)
    with True d life' track show ?thesis by auto
  next
    case False
    with that have "(j, q) \<in> set ws" using set_update_subset_insert by fastforce
    with assms(1) others [OF False] show ?thesis by (auto simp: all_on_track_def)
  qed
  moreover have "life s' j = l j" if "j \<notin> fst ` set ?ws'" for j
  proof -
    have "fst ` set ?ws' = fst ` set ws" using ids by (metis list.set_map)
    with that mem have "j \<notin> fst ` set ws" "j \<noteq> i" by force+
    with assms(1) others show ?thesis by (auto simp: all_on_track_def)
  qed
  ultimately show ?thesis using up ids assms(1) job' by (auto simp: all_on_track_def)
qed

lemma run_pool_on_track:
  assumes "all_on_track l ws s" and "run_pool orch ks ws s = (ws', s')"
  shows "all_on_track l ws' s'"
  by (rule run_tasks_invariant [of "all_on_track l", OF assms(1) assms(2) [unfolded run_pool_def] step_on_track])

lemma pool_result:
  assumes "up s" and "distinct ids" and "\<forall>i \<in> set ids. life s i \<noteq> None"
    and "\<forall>k < length ids. 7 \<le> count_list ks k" and run: "run_pool orch ks (start_pool ids) s = (ws, s')"
  shows "up s' \<and> (\<forall>k < length ids. \<exists>d r d'. life s (ids ! k) = Some d \<and> ws ! k = (ids ! k, Returned r) \<and>
      life s' (ids ! k) = Some d' \<and> worker_outcome (encodes orch) d r d') \<and>
    (\<forall>i. i \<notin> set ids \<longrightarrow> life s' i = life s i)"
proof -
  have start: "map fst (start_pool ids) = ids" by (simp add: start_pool_def comp_def)
  have "all_on_track (life s) (start_pool ids) s"
    using assms(1-3) start by (auto simp: all_on_track_def start_pool_def comp_def)
  from run_pool_on_track [OF this run] have track: "all_on_track (life s) ws s'" .
  have ids: "map fst ws = ids" using run_pool_ids [OF run] start by simp
  have "\<exists>d r d'. life s (ids ! k) = Some d \<and> ws ! k = (ids ! k, Returned r) \<and>
      life s' (ids ! k) = Some d' \<and> worker_outcome (encodes orch) d r d'" if k: "k < length ids" for k
  proof -
    have len: "k < length ws" using k ids by (metis length_map)
    obtain r where r: "ws ! k = (ids ! k, Returned r)"
      using pool_returns [OF run] assms(4) k by blast
    then have "(ids ! k, Returned r) \<in> set ws" using len by (metis nth_mem)
    with track r show ?thesis by (fastforce simp: all_on_track_def)
  qed
  moreover have "fst ` set ws = set ids" using ids by (metis list.set_map)
  ultimately show ?thesis using track by (auto simp: all_on_track_def)
qed

end

end
