(* ===== verification/Admission.thy ===== *)
theory Admission
  imports Intake Scheduler
begin

text \<open>
  \<^verbatim>\<open>queue_notification\<close> of \<^verbatim>\<open>orchestrator/queue.rs\<close> one await at a time, as \<open>Interleaving\<close> does for
  \<^verbatim>\<open>dispatch\<close>: drawing the identifier and the clocks is one block, then the row is saved, the key
  cached, and the task handed over. Any number of requests interleave under any schedule. The
  lemmas: alone, four steps compute \<open>queue_notification\<close>; together, requests with one new key
  leave one row and one hand-over, and all answer with its identifier.
\<close>

record admission =
  ad_user :: "uuid option"
  ad_channel :: notification_channel
  ad_recipient :: string
  ad_template :: string
  ad_variables :: json
  ad_key :: "string option"

datatype entry =
    is_Arrived: Arrived admission
  | Save notification
  | Remember uuid "string option"
  | HandOver uuid
  | Answered "uuid result"

text \<open>The record is built before the first await.\<close>

definition draw_record :: "'s orchestrator \<Rightarrow> admission \<Rightarrow> 's \<Rightarrow> notification \<times> 's" where
  "draw_record orch a s =
     (case rt_new_uuid (o_runtime orch) s of (requested, s1) \<Rightarrow>
      case now orch s1 of (next_retry, s2) \<Rightarrow>
      case now orch s2 of (created, s3) \<Rightarrow>
      case now orch s3 of (updated, s4) \<Rightarrow>
        (new_notification requested (ad_user a) (ad_channel a) (ad_recipient a) (ad_template a)
           (ad_variables a) (ad_key a) next_retry created updated, s4))"

fun entry_step :: "'s orchestrator \<Rightarrow> entry \<Rightarrow> 's \<Rightarrow> entry \<times> 's" where
  "entry_step orch (Arrived a) s = (case draw_record orch a s of (n, s') \<Rightarrow> (Save n, s'))"
| "entry_step orch (Save n) s =
     (case repo_create (o_repo orch) n s of
        (Inl e, s') \<Rightarrow> (Answered (Inl e), s')
      | (Inr saved, s') \<Rightarrow>
          (if n_id saved \<noteq> n_id n then Answered (Inr (n_id saved))
           else Remember (n_id saved) (n_idempotency_key n), s'))"
| "entry_step orch (Remember i key) s =
     (case cache_idempotency_key orch key i s of
        (Inl e, s') \<Rightarrow> (Answered (Inl e), s') | (Inr _, s') \<Rightarrow> (HandOver i, s'))"
| "entry_step orch (HandOver i) s =
     (case trigger_dispatch orch i s of
        (Inl e, s') \<Rightarrow> (Answered (Inl e), s') | (Inr _, s') \<Rightarrow> (Answered (Inr i), s'))"
| "entry_step orch (Answered r) s = (Answered r, s)"

fun entry_left :: "entry \<Rightarrow> nat" where
  "entry_left (Arrived a) = 4"
| "entry_left (Save n) = 3"
| "entry_left (Remember i key) = 2"
| "entry_left (HandOver i) = 1"
| "entry_left (Answered r) = 0"

definition run_entries :: "'s orchestrator \<Rightarrow> nat list \<Rightarrow> entry list \<Rightarrow> 's \<Rightarrow> entry list \<times> 's" where
  "run_entries orch = run_tasks (entry_step orch)"

interpretation entries: finishing "entry_step orch" entry_left for orch
proof
  show "entry_left p' \<le> entry_left p - 1" if "entry_step orch p s = (p', s')" for p p' :: entry and s s'
    using that by (cases p) (auto split: prod.splits sum.splits)
qed

lemma entry_left_0: "entry_left p = 0 \<longleftrightarrow> (\<exists>r. p = Answered r)"
  by (cases p) simp_all

section \<open>Alone\<close>

lemma entry_alone:
  "run_entries orch [0, 0, 0, 0] [Arrived a] s =
     (case queue_notification orch (ad_user a) (ad_channel a) (ad_recipient a) (ad_template a)
        (ad_variables a) (ad_key a) s of (r, s') \<Rightarrow> ([Answered r], s'))"
  by (auto simp: run_entries_def move_def queue_notification_def draw_record_def peek_def bindE_def
      new_notification_def split: prod.split sum.split)

section \<open>Together\<close>

lemma filter_update:
  "j < length xs \<Longrightarrow>
   length (filter P (xs[j := y])) + (if P (xs ! j) then 1 else 0) =
   length (filter P xs) + (if P y then 1 else 0)"
proof (induction xs arbitrary: j)
  case (Cons x xs)
  show ?case using Cons.prems Cons.IH [of "j - 1"] by (cases j) auto
qed simp

lemma draw_world: "draw_record (world_orch L dp) a w =
    (queued_record w (ad_user a) (ad_channel a) (ad_recipient a) (ad_template a) (ad_variables a) (ad_key a),
     drawn w)"
  by (simp add: draw_record_def world_runtime_def now_world lift_apply net_ops queued_record_def
      drawn_def Let_def numeral_eq_Suc)

text \<open>The tasks published, and those left to the process.\<close>

definition handovers :: "world \<Rightarrow> nat" where
  "handovers w = length (bk_log (w_broker w)) + length (net_tasks (w_net w))"

lemma trigger_once:
  assumes "trigger_dispatch (world_orch L dp) i w = (r, w')"
  shows "handovers w' = Suc (handovers w)"
proof -
  obtain x b where p: "publish_dispatch (l_codecs L) i (w_broker w) = (x, b)" by (metis surj_pair)
  from publish_dispatch_run [OF p] assms p show ?thesis
    by (auto simp: trigger_dispatch_def attempt_def lift_def spawn_world handovers_def split: sum.splits)
qed

text \<open>A request that has saved its row and not yet handed it over.\<close>

fun holds_row :: "entry \<Rightarrow> bool" where
  "holds_row (Remember i key) = True"
| "holds_row (HandOver i) = True"
| "holds_row _ = False"

text \<open>What a point may look like before a row is saved, and after the row of \<open>i\<close> is.\<close>

fun before_row :: "string \<Rightarrow> uuid set \<Rightarrow> entry \<Rightarrow> bool" where
  "before_row k drawn_ids (Arrived a) \<longleftrightarrow> ad_key a = Some k"
| "before_row k drawn_ids (Save n) \<longleftrightarrow> n_idempotency_key n = Some k \<and> n_id n \<in> drawn_ids"
| "before_row k drawn_ids _ \<longleftrightarrow> False"

fun after_row :: "string \<Rightarrow> uuid set \<Rightarrow> uuid \<Rightarrow> entry \<Rightarrow> bool" where
  "after_row k drawn_ids i (Arrived a) \<longleftrightarrow> ad_key a = Some k"
| "after_row k drawn_ids i (Save n) \<longleftrightarrow>
     n_idempotency_key n = Some k \<and> n_id n \<in> drawn_ids \<and> n_id n \<noteq> i"
| "after_row k drawn_ids i (Remember j key) \<longleftrightarrow> j = i"
| "after_row k drawn_ids i (HandOver j) \<longleftrightarrow> j = i"
| "after_row k drawn_ids i (Answered r) \<longleftrightarrow> r = Inr i"

definition ids_since :: "world \<Rightarrow> world \<Rightarrow> uuid set" where
  "ids_since w0 w = net_random (w_net w0) ` {net_calls (w_net w0)..<net_calls (w_net w)}"

definition unsaved :: "entry list \<Rightarrow> bool" where
  "unsaved ps \<longleftrightarrow> (\<forall>j < length ps. \<forall>j' < length ps. \<forall>n n'.
     ps ! j = Save n \<longrightarrow> ps ! j' = Save n' \<longrightarrow> j \<noteq> j' \<longrightarrow> n_id n \<noteq> n_id n')"

definition holders :: "entry list \<Rightarrow> nat" where
  "holders ps = length (filter holds_row ps)"

text \<open>The identifiers of the run are drawn below \<open>bound\<close>: four calls for each request to arrive.\<close>

definition arrivals :: "entry list \<Rightarrow> nat" where
  "arrivals ps = length (filter is_Arrived ps)"

definition admitting :: "libs \<Rightarrow> string \<Rightarrow> world \<Rightarrow> nat \<Rightarrow> entry list \<Rightarrow> world \<Rightarrow> bool" where
  "admitting L k w0 bound ps w \<longleftrightarrow>
     net_calls (w_net w) + 4 * arrivals ps \<le> bound \<and>
     table_up (w_notifications w) \<and> net_random (w_net w) = net_random (w_net w0) \<and>
     net_calls (w_net w0) \<le> net_calls (w_net w) \<and> unsaved ps \<and>
     (t_rows (w_notifications w) = t_rows (w_notifications w0) \<and> handovers w = handovers w0 \<and>
        (\<forall>p \<in> set ps. before_row k (ids_since w0 w) p) \<or>
      (\<exists>r. t_rows (w_notifications w) = t_rows (w_notifications w0) @ [r] \<and>
         r_idempotency_key r = Some k \<and> r_id r \<in> ids_since w0 w \<and>
         (\<forall>p \<in> set ps. after_row k (ids_since w0 w) (r_id r) p) \<and>
         holders ps + handovers w = Suc (handovers w0) \<and>
         (holders ps = 0 \<longrightarrow> handed_over L (r_id r) w)))"

lemma before_mono: "before_row k A p \<Longrightarrow> A \<subseteq> B \<Longrightarrow> before_row k B p"
  by (cases p) auto

lemma after_mono: "after_row k A i p \<Longrightarrow> A \<subseteq> B \<Longrightarrow> after_row k B i p"
  by (cases p) auto

lemma before_after: "before_row k A p \<Longrightarrow> (\<And>n. p = Save n \<Longrightarrow> n_id n \<noteq> i) \<Longrightarrow> after_row k A i p"
  by (cases p) auto

lemma unsaved_update:
  assumes "unsaved ps" and "\<And>n. p' = Save n \<Longrightarrow> \<forall>m. Save m \<in> set ps \<longrightarrow> n_id m \<noteq> n_id n"
  shows "unsaved (ps[j := p'])"
  unfolding unsaved_def
proof (intro allI impI)
  fix a b n n'
  assume len: "a < length (ps[j := p'])" "b < length (ps[j := p'])" and "a \<noteq> b"
    and at: "ps[j := p'] ! a = Save n" "ps[j := p'] ! b = Save n'"
  consider "a = j" "b \<noteq> j" | "a \<noteq> j" "b = j" | "a \<noteq> j" "b \<noteq> j" using \<open>a \<noteq> b\<close> by blast
  then show "n_id n \<noteq> n_id n'"
  proof cases
    case 1
    with len at have "p' = Save n" "Save n' \<in> set ps" by (auto simp: in_set_conv_nth)
    with assms(2) show ?thesis by metis
  next
    case 2
    with len at have "p' = Save n'" "Save n \<in> set ps" by (auto simp: in_set_conv_nth)
    with assms(2) show ?thesis by metis
  next
    case 3
    with len at \<open>a \<noteq> b\<close> assms(1) show ?thesis unfolding unsaved_def by auto
  qed
qed

lemma set_update: "(\<And>x. x \<in> set xs \<Longrightarrow> P x) \<Longrightarrow> P y \<Longrightarrow> \<forall>x \<in> set (xs[j := y]). P x"
  using set_update_subset_insert by fastforce

lemma holders_update:
  "j < length ps \<Longrightarrow>
   holders (ps[j := p']) + (if holds_row (ps ! j) then 1 else 0) =
   holders ps + (if holds_row p' then 1 else 0)"
  unfolding holders_def by (rule filter_update)

lemma before_free: "before_row k A p \<Longrightarrow> \<not> holds_row p"
  by (cases p) simp_all

lemma before_holders: "\<forall>p \<in> set ps. before_row k A p \<Longrightarrow> holders ps = 0"
  unfolding holders_def by (auto simp: filter_empty_conv dest: before_free)

lemma arrivals_update:
  "j < length ps \<Longrightarrow>
   arrivals (ps[j := p']) + (if is_Arrived (ps ! j) then 1 else 0) =
   arrivals ps + (if is_Arrived p' then 1 else 0)"
  unfolding arrivals_def by (rule filter_update)

lemma drawn_next:
  assumes "inj_on (net_random (w_net w0)) {net_calls (w_net w0)..<bound}"
    and "net_random (w_net w) = net_random (w_net w0)" and "net_calls (w_net w0) \<le> net_calls (w_net w)"
    and "net_calls (w_net w) < bound"
  shows "net_random (w_net w) (net_calls (w_net w)) \<in> ids_since w0 (drawn w)"
    and "net_random (w_net w) (net_calls (w_net w)) \<notin> ids_since w0 w"
    and "ids_since w0 w \<subseteq> ids_since w0 (drawn w)"
proof -
  show "net_random (w_net w) (net_calls (w_net w)) \<in> ids_since w0 (drawn w)"
    using assms(2,3) by (auto simp: ids_since_def drawn_def)
  show "ids_since w0 w \<subseteq> ids_since w0 (drawn w)" by (auto simp: ids_since_def drawn_def)
  show "net_random (w_net w) (net_calls (w_net w)) \<notin> ids_since w0 w"
  proof
    assume "net_random (w_net w) (net_calls (w_net w)) \<in> ids_since w0 w"
    then obtain n where "net_calls (w_net w0) \<le> n" "n < net_calls (w_net w)"
      "net_random (w_net w0) n = net_random (w_net w0) (net_calls (w_net w))"
      using assms(2) by (auto simp: ids_since_def)
    with assms(1,3,4) show False by (auto dest: inj_onD)
  qed
qed

lemma step_arrived:
  assumes "admitting L k w0 bound ps w" and "inj_on (net_random (w_net w0)) {net_calls (w_net w0)..<bound}"
    and "j < length ps" and "ps ! j = Arrived a"
    and "entry_step (world_orch L dp) (ps ! j) w = (p', w')"
  shows "admitting L k w0 bound (ps[j := p']) w'"
proof -
  let ?n = "queued_record w (ad_user a) (ad_channel a) (ad_recipient a) (ad_template a)
    (ad_variables a) (ad_key a)"
  have p': "p' = Save ?n" and w': "w' = drawn w" using assms(4,5) by (simp_all add: draw_world)
  note J = assms(1) [unfolded admitting_def]
  note next_id = drawn_next [OF assms(2), of w]
  have arrived: "Suc (arrivals (ps[j := p'])) = arrivals ps"
    using arrivals_update [OF assms(3), of p'] assms(4) p' by simp
  have nw: "net_random (w_net w) = net_random (w_net w0)" "net_calls (w_net w0) \<le> net_calls (w_net w)"
    "net_calls (w_net w) < bound"
    using J arrived by simp_all
  have seen: "n_id m \<in> ids_since w0 w" if "Save m \<in> set ps" for m using J that by fastforce
  have unsaved: "unsaved (ps[j := p'])"
    using J seen next_id(2) [OF nw] unfolding p' by (intro unsaved_update) auto
  have a: "Arrived a \<in> set ps" using assms(3,4) by (metis nth_mem)
  have holders: "holders (ps[j := p']) = holders ps"
    using holders_update [OF assms(3), of p'] assms(4) p' by simp
  have hand: "handovers w' = handovers w" "handed_over L i w' = handed_over L i w" for i
    unfolding w' by (simp_all add: handovers_def handed_over_def)
  from J show ?thesis
  proof (elim conjE disjE exE)
    assume rows: "t_rows (w_notifications w) = t_rows (w_notifications w0)" "handovers w = handovers w0"
      and pts: "\<forall>p \<in> set ps. before_row k (ids_since w0 w) p"
    have "ad_key a = Some k" using pts a by auto
    then have "\<forall>p \<in> set (ps[j := p']). before_row k (ids_since w0 w') p"
      using pts next_id(1,3) [OF nw] unfolding w' p' by (intro set_update) (auto intro: before_mono)
    with rows hand unsaved J arrived show ?thesis unfolding admitting_def w' by (auto simp: drawn_def)
  next
    fix r
    assume rows: "t_rows (w_notifications w) = t_rows (w_notifications w0) @ [r]"
      "r_idempotency_key r = Some k" "r_id r \<in> ids_since w0 w"
      and pts: "\<forall>p \<in> set ps. after_row k (ids_since w0 w) (r_id r) p"
      and count: "holders ps + handovers w = Suc (handovers w0)" "holders ps = 0 \<longrightarrow> handed_over L (r_id r) w"
    have "ad_key a = Some k" using pts a by auto
    then have "\<forall>p \<in> set (ps[j := p']). after_row k (ids_since w0 w') (r_id r) p"
      using pts next_id [OF nw] rows(3) unfolding w' p' by (intro set_update) (auto intro: after_mono)
    moreover have "r_id r \<in> ids_since w0 w'" using rows(3) next_id(3) [OF nw] w' by blast
    ultimately show ?thesis using rows hand unsaved J count holders arrived
      unfolding admitting_def w' by (auto simp: drawn_def)
  qed
qed

text \<open>Saving: the first to save leaves the row, the others find it.\<close>

lemma step_saved:
  assumes "admitting L k w0 bound ps w" and "fresh_ids w0"
    and "key_conflict (Some k) (t_rows (w_notifications w0)) = None"
    and "j < length ps" and "ps ! j = Save n"
    and "entry_step (world_orch L dp) (ps ! j) w = (p', w')"
  shows "admitting L k w0 bound (ps[j := p']) w'"
proof -
  note J = assms(1) [unfolded admitting_def]
  let ?t = "w_notifications w" and ?rows0 = "t_rows (w_notifications w0)"
  have up: "table_up ?t" using J by blast
  have n: "Save n \<in> set ps" using assms(4,5) by (metis nth_mem)
  then have key: "n_idempotency_key n = Some k" and drawn_id: "n_id n \<in> ids_since w0 w" using J by fastforce+
  have free: "\<not> holds_row (ps ! j)" using assms(5) by simp
  have arrived: "arrivals (ps[j := p']) = arrivals ps" if "\<not> is_Arrived p'"
    using arrivals_update [OF assms(4), of p'] assms(5) that by simp
  obtain x t' where c: "create n ?t = (x, t')" by (metis surj_pair)
  have up': "table_up t'" using table_up_create [OF up c] .
  from J show ?thesis
  proof (elim conjE disjE exE)
    assume rows: "t_rows ?t = ?rows0" "handovers w = handovers w0"
      and pts: "\<forall>p \<in> set ps. before_row k (ids_since w0 w) p" and "unsaved ps"
    let ?r = "inserted_row (t_jsonb ?t) n"
    have "n_id n \<notin> r_id ` set (t_rows ?t)"
      using assms(2) drawn_id unfolding rows(1) fresh_ids_def ids_since_def
      by (elim imageE) simp
    then have x: "x = Inr (into_domain ?r)" and rows': "t_rows t' = ?rows0 @ [?r]"
      using c up assms(3) key rows(1) by (auto simp: create_def exec_healthy table_up_def Let_def)
    have p': "p' = Remember (n_id n) (Some k)" and w': "w' = w\<lparr>w_notifications := t'\<rparr>"
      using assms(5,6) c x key by (auto simp: lift_apply)
    have others: "after_row k (ids_since w0 w) (n_id n) q" if "l < length ps" "l \<noteq> j" "q = ps ! l" for l q
    proof (rule before_after)
      show "before_row k (ids_since w0 w) q" using pts that by simp
      show "n_id m \<noteq> n_id n" if "q = Save m" for m
        using \<open>unsaved ps\<close> assms(4,5) that \<open>l < length ps\<close> \<open>l \<noteq> j\<close> \<open>q = ps ! l\<close>
        unfolding unsaved_def by metis
    qed
    have "\<forall>p \<in> set (ps[j := p']). after_row k (ids_since w0 w') (r_id ?r) p"
    proof
      fix q assume "q \<in> set (ps[j := p'])"
      then obtain l where "l < length ps" "q = ps[j := p'] ! l" by (auto simp: in_set_conv_nth)
      with others p' show "after_row k (ids_since w0 w') (r_id ?r) q"
        by (cases "l = j") (simp_all add: w' ids_since_def)
    qed
    moreover have "holders (ps[j := p']) = 1"
      using holders_update [OF assms(4), of p'] before_holders [OF pts] free p' by simp
    moreover have "unsaved (ps[j := p'])" using \<open>unsaved ps\<close> p' by (intro unsaved_update) auto
    ultimately show ?thesis
      using J rows rows' up' key drawn_id arrived p' unfolding admitting_def w'
      by (auto simp: handovers_def ids_since_def)
  next
    fix r
    assume rows: "t_rows ?t = ?rows0 @ [r]" "r_idempotency_key r = Some k" "r_id r \<in> ids_since w0 w"
      and pts: "\<forall>p \<in> set ps. after_row k (ids_since w0 w) (r_id r) p" and "unsaved ps"
      and count: "holders ps + handovers w = Suc (handovers w0)" "holders ps = 0 \<longrightarrow> handed_over L (r_id r) w"
    have "key_conflict (Some k) (t_rows ?t) = Some r"
      using assms(3) rows by (simp add: key_conflict_append) (simp add: key_conflict_def)
    then have x: "x = Inr (into_domain r)" and rows': "t_rows t' = t_rows ?t"
      using c up key by (auto simp: create_def exec_healthy table_up_def)
    have "n_id n \<noteq> r_id r" using pts n by auto
    then have p': "p' = Answered (Inr (r_id r))" and w': "w' = w\<lparr>w_notifications := t'\<rparr>"
      using assms(5,6) c x by (auto simp: lift_apply)
    have "\<forall>p \<in> set (ps[j := p']). after_row k (ids_since w0 w) (r_id r) p"
      using pts p' by (intro set_update) auto
    moreover have "holders (ps[j := p']) = holders ps"
      using holders_update [OF assms(4), of p'] free p' by simp
    moreover have "unsaved (ps[j := p'])" using \<open>unsaved ps\<close> p' by (intro unsaved_update) auto
    ultimately show ?thesis
      using J rows rows' up' count arrived p' unfolding admitting_def w'
      by (auto simp: handovers_def handed_over_def ids_since_def)
  qed
qed

text \<open>The last two steps of the request that saved the row.\<close>

lemma step_holding:
  assumes "admitting L k w0 bound ps w" and "j < length ps" and "holds_row (ps ! j)"
    and "entry_step (world_orch L dp) (ps ! j) w = (p', w')"
  shows "admitting L k w0 bound (ps[j := p']) w'"
proof -
  note J = assms(1) [unfolded admitting_def]
  have mem: "ps ! j \<in> set ps" using assms(2) by simp
  have "\<not> before_row k A (ps ! j)" for A using assms(3) before_free by blast
  with J mem obtain r where rows: "t_rows (w_notifications w) = t_rows (w_notifications w0) @ [r]"
      "r_idempotency_key r = Some k" "r_id r \<in> ids_since w0 w"
    and pts: "\<forall>p \<in> set ps. after_row k (ids_since w0 w) (r_id r) p"
    and count: "holders ps + handovers w = Suc (handovers w0)" by blast
  have one: "holders (ps[j := p']) + 1 = holders ps + (if holds_row p' then 1 else 0)"
    using holders_update [OF assms(2), of p'] assms(3) by simp
  have unsaved: "unsaved (ps[j := p'])" if "\<And>n. p' \<noteq> Save n"
    using J that by (intro unsaved_update) auto
  have arrived: "arrivals (ps[j := p']) = arrivals ps" if "\<not> is_Arrived p'"
    using arrivals_update [OF assms(2), of p'] assms(3) that by (cases "ps ! j") simp_all
  show ?thesis
  proof (cases "ps ! j")
    case (Remember i key)
    obtain x w1 where k: "cache_idempotency_key (world_orch L dp) key i w = (x, w1)" by (metis surj_pair)
    note k' = cache_key_run [OF k]
    have p': "p' = HandOver i" and w': "w' = w1" and i: "i = r_id r"
      using assms(4) Remember k k' pts mem by fastforce+
    have "\<forall>p \<in> set (ps[j := p']). after_row k (ids_since w0 w) (r_id r) p"
      using pts p' i by (intro set_update) auto
    moreover have "holders (ps[j := p']) = holders ps" using one p' by simp
    moreover have "holders ps \<noteq> 0"
      using assms(3) mem unfolding holders_def by (auto simp: filter_empty_conv)
    ultimately show ?thesis using J rows count unsaved k' p' arrived
      unfolding admitting_def w' by (auto simp: handovers_def ids_since_def)
  next
    case (HandOver i)
    obtain x w1 where t: "trigger_dispatch (world_orch L dp) i w = (x, w1)" by (metis surj_pair)
    note t' = trigger_run [OF t] trigger_once [OF t]
    have p': "p' = Answered (Inr i)" and w': "w' = w1" and i: "i = r_id r"
      using assms(4) HandOver t t'(1) pts mem by fastforce+
    have "\<forall>p \<in> set (ps[j := p']). after_row k (ids_since w0 w) (r_id r) p"
      using pts p' i by (intro set_update) auto
    moreover have "Suc (holders (ps[j := p'])) = holders ps" using one p' by simp
    ultimately show ?thesis using J rows count unsaved t' p' i arrived
      unfolding admitting_def w' by (auto simp: ids_since_def)
  qed (use assms(3) in simp_all)
qed

lemma step_admitting:
  assumes "admitting L k w0 bound ps w" and "fresh_ids w0"
    and "inj_on (net_random (w_net w0)) {net_calls (w_net w0)..<bound}"
    and "key_conflict (Some k) (t_rows (w_notifications w0)) = None"
    and "j < length ps" and "entry_step (world_orch L dp) (ps ! j) w = (p', w')"
  shows "admitting L k w0 bound (ps[j := p']) w'"
proof (cases "ps ! j")
  case (Arrived a)
  from step_arrived [OF assms(1,3,5) this assms(6)] show ?thesis .
next
  case (Save n)
  from step_saved [OF assms(1,2,4,5) this assms(6)] show ?thesis .
next
  case (Answered r)
  with assms(6) have "p' = ps ! j" "w' = w" by auto
  with assms(1) show ?thesis by simp
qed (use step_holding [OF assms(1,5) _ assms(6)] in simp_all)

lemma admit_once:
  assumes "table_up (w_notifications w)" and "fresh_ids w"
    and "inj_on (net_random (w_net w)) {net_calls (w_net w)..<net_calls (w_net w) + 4 * length as}"
    and "key_conflict (Some k) (t_rows (w_notifications w)) = None"
    and "\<forall>a \<in> set as. ad_key a = Some k" and "as \<noteq> []"
    and "\<forall>j < length as. 4 \<le> count_list ks j"
    and "run_entries (world_orch L dp) ks (map Arrived as) w = (ps, w')"
  shows "\<exists>r. t_rows (w_notifications w') = t_rows (w_notifications w) @ [r] \<and>
    r_idempotency_key r = Some k \<and> ps = replicate (length as) (Answered (Inr (r_id r))) \<and>
    handovers w' = Suc (handovers w) \<and> handed_over L (r_id r) w'"
proof -
  have run: "run_tasks (entry_step (world_orch L dp)) ks (map Arrived as) w = (ps, w')"
    using assms(8) by (simp add: run_entries_def)
  have "unsaved (map Arrived as)" by (simp add: unsaved_def)
  let ?bound = "net_calls (w_net w) + 4 * length as"
  have "arrivals (map Arrived as) = length as" by (simp add: arrivals_def comp_def filter_map)
  with \<open>unsaved (map Arrived as)\<close> assms(1,5) have start: "admitting L k w ?bound (map Arrived as) w"
    by (simp add: admitting_def)
  have final: "admitting L k w ?bound ps w'"
    by (rule run_tasks_invariant [of "admitting L k w ?bound", OF start run])
       (rule step_admitting [OF _ assms(2-4)])
  have len: "length ps = length as" using run_tasks_length [OF run] by simp
  have "entry_left (ps ! j) = 0" if "j < length as" for j
    using entries.run_finished [OF run] that assms(7) by simp
  then have ans: "\<exists>r. p = Answered r" if "p \<in> set ps" for p
    using that len entry_left_0 by (metis in_set_conv_nth)
  have "\<not> holds_row p" if "p \<in> set ps" for p using ans [OF that] by auto
  then have none: "holders ps = 0" by (auto simp: holders_def filter_empty_conv)
  have "ps \<noteq> []" using len assms(6) by auto
  then have "\<not> (\<forall>p \<in> set ps. before_row k A p)" for A
    using ans by (metis before_row.simps(5) list.set_sel(1))
  with final none obtain r where r: "t_rows (w_notifications w') = t_rows (w_notifications w) @ [r]"
    "r_idempotency_key r = Some k" "\<forall>p \<in> set ps. after_row k (ids_since w w') (r_id r) p"
    "handovers w' = Suc (handovers w)" "handed_over L (r_id r) w'"
    by (auto simp: admitting_def)
  have "\<forall>p \<in> set ps. p = Answered (Inr (r_id r))" using ans r(3) by fastforce
  then have "ps = replicate (length as) (Answered (Inr (r_id r)))"
    using len by (metis replicate_eqI)
  with r show ?thesis by blast
qed

end
