(* ===== verification/Session.thy ===== *)
theory Session
  imports Consumers
begin

text \<open>
  One Kafka session (\<^verbatim>\<open>run_kafka_session\<close> of \<^verbatim>\<open>consumers/mod.rs\<close>) as it runs: the poll loop and the
  worker are two tasks joined by a bounded channel, and the scheduler decides who moves. The
  step relation has one rule per kind of move. Every move keeps \<open>outcome_of\<close>, the result the
  session is heading for, so every schedule ends where \<open>run_kafka_session\<close> says; no schedule
  runs forever, and one that can move no more has handled every record it polled.
\<close>

definition channel_cap :: nat where
  "channel_cap = 512"

record 's session =
  ss_events :: "poll_event list"
  ss_health :: consumer_health
  ss_sending :: "owned_record option"
  ss_channel :: "owned_record list"
  ss_ended :: "session_end option"
  ss_store :: "'s \<times> commits"

definition session_start ::
  "poll_event list \<Rightarrow> consumer_health \<Rightarrow> 's \<times> commits \<Rightarrow> 's session" where
  "session_start es h st =
     \<lparr>ss_events = es, ss_health = h, ss_sending = None, ss_channel = [], ss_ended = None,
      ss_store = st\<rparr>"

text \<open>One turn of the select. A record is first offered to the channel, which may be full.\<close>

definition poll_once :: "poll_event \<Rightarrow> 's session \<Rightarrow> 's session" where
  "poll_once e c =
     (case e of
        Cancelled \<Rightarrow> c\<lparr>ss_ended := Some Shutdown\<rparr>
      | IdleTick at \<Rightarrow> c\<lparr>ss_health := mark_progress at (ss_health c)\<rparr>
      | Record at rec listening \<Rightarrow>
          (let c' = c\<lparr>ss_health := mark_progress at (ss_health c)\<rparr> in
           if listening then c'\<lparr>ss_sending := Some rec\<rparr>
           else c'\<lparr>ss_ended := Some (SessionError ''Kafka worker channel closed'')\<rparr>)
      | RecvError at e \<Rightarrow>
          if is_fatal_kafka_error e
          then c\<lparr>ss_ended := Some (SessionError ''Kafka recv error (fatal)'')\<rparr>
          else c\<lparr>ss_health := mark_progress at (ss_health c)\<rparr>)"

text \<open>
  The loop polls while it has neither ended nor waits for room in the channel; the worker takes
  the oldest record, also after the loop has ended (the channel is drained).
\<close>

inductive session_step ::
  "'s orchestrator \<Rightarrow> string option \<Rightarrow> 's session \<Rightarrow> 's session \<Rightarrow> bool"
  for orch frontend_url where
  poll: "session_step orch frontend_url c (poll_once e c\<lparr>ss_events := es\<rparr>)"
    if "ss_ended c = None" and "ss_sending c = None" and "ss_events c = e # es"
| put: "session_step orch frontend_url c
      (c\<lparr>ss_sending := None, ss_channel := ss_channel c @ [rec]\<rparr>)"
    if "ss_sending c = Some rec" and "length (ss_channel c) < channel_cap"
| work: "session_step orch frontend_url c
      (c\<lparr>ss_channel := recs, ss_store := worker orch frontend_url [rec] (ss_store c)\<rparr>)"
    if "ss_channel c = rec # recs"

inductive_cases session_stepE: "session_step orch frontend_url c c'"

abbreviation session_steps ::
  "'s orchestrator \<Rightarrow> string option \<Rightarrow> 's session \<Rightarrow> 's session \<Rightarrow> bool" where
  "session_steps orch frontend_url \<equiv> (session_step orch frontend_url)\<^sup>*\<^sup>*"

section \<open>The outcome is fixed\<close>

definition in_hand :: "'s session \<Rightarrow> owned_record list" where
  "in_hand c = ss_channel c @ (case ss_sending c of None \<Rightarrow> [] | Some rec \<Rightarrow> [rec])"

definition still_to_poll ::
  "'s session \<Rightarrow> session_end \<times> owned_record list \<times> consumer_health" where
  "still_to_poll c =
     (case ss_ended c of Some r \<Rightarrow> (r, [], ss_health c)
      | None \<Rightarrow> poll_loop (ss_events c) (ss_health c))"

definition outcome_of ::
  "'s orchestrator \<Rightarrow> string option \<Rightarrow> 's session \<Rightarrow> session_end \<times> consumer_health \<times> 's \<times> commits" where
  "outcome_of orch frontend_url c =
     (case still_to_poll c of (r, recs, h) \<Rightarrow>
        (r, h, worker orch frontend_url (in_hand c @ recs) (ss_store c)))"

lemma worker_append:
  "worker orch fe (xs @ ys) st = worker orch fe ys (worker orch fe xs st)"
proof (induction xs arbitrary: st)
  case Nil
  then show ?case by (cases st) simp
next
  case (Cons x xs)
  then show ?case by (cases st) (simp split: prod.split sum.split)
qed

lemma worker_Cons: "worker orch fe (x # xs) st = worker orch fe xs (worker orch fe [x] st)"
  using worker_append [of orch fe "[x]" xs st] by simp

lemma poll_keeps_outcome:
  assumes "ss_ended c = None" and "ss_sending c = None" and "ss_events c = e # es"
  shows "outcome_of orch fe (poll_once e c\<lparr>ss_events := es\<rparr>) = outcome_of orch fe c"
  using assms
  by (cases e)
     (auto simp: outcome_of_def still_to_poll_def in_hand_def poll_once_def Let_def split: prod.split)

lemma step_keeps_outcome:
  assumes "session_step orch fe c c'"
  shows "outcome_of orch fe c' = outcome_of orch fe c"
  using assms
proof (cases rule: session_step.cases)
  case (poll e es)
  then show ?thesis using poll_keeps_outcome by simp
next
  case (work rec recs)
  then have same: "still_to_poll c' = still_to_poll c" "in_hand c = rec # in_hand c'"
    "ss_store c' = worker orch fe [rec] (ss_store c)"
    by (auto simp: still_to_poll_def in_hand_def split: option.split)
  show ?thesis
    unfolding outcome_of_def same append_Cons worker_Cons [of orch fe rec "in_hand c' @ _"] ..
next
  case (put rec)
  then have "still_to_poll c' = still_to_poll c" "in_hand c = in_hand c'" "ss_store c' = ss_store c"
    by (auto simp: still_to_poll_def in_hand_def split: option.split)
  then show ?thesis by (simp add: outcome_of_def)
qed

lemma steps_keep_outcome:
  "session_steps orch fe c c' \<Longrightarrow> outcome_of orch fe c' = outcome_of orch fe c"
  by (induction rule: rtranclp_induct) (simp_all add: step_keeps_outcome)

lemma outcome_start:
  "outcome_of orch fe (session_start es h st) = run_kafka_session orch fe (Inr u) es h st"
  by (simp add: outcome_of_def still_to_poll_def in_hand_def session_start_def run_kafka_session_def
      split: prod.split)

section \<open>The channel is bounded\<close>

lemma step_keeps_cap:
  "session_step orch fe c c' \<Longrightarrow> length (ss_channel c) \<le> channel_cap \<Longrightarrow>
   length (ss_channel c') \<le> channel_cap"
  by (erule session_stepE)
     (auto simp: poll_once_def Let_def split: poll_event.split)

lemma steps_keep_cap:
  "session_steps orch fe c c' \<Longrightarrow> length (ss_channel c) \<le> channel_cap \<Longrightarrow>
   length (ss_channel c') \<le> channel_cap"
  by (induction rule: rtranclp_induct) (auto intro: step_keeps_cap)

section \<open>No schedule runs forever, and none is stuck early\<close>

definition work_left :: "'s session \<Rightarrow> nat" where
  "work_left c = 3 * length (ss_events c) + 2 * (if ss_sending c = None then 0 else 1) +
     length (ss_channel c)"

lemma step_uses_work: "session_step orch fe c c' \<Longrightarrow> work_left c' < work_left c"
  by (erule session_stepE)
     (auto simp: work_left_def poll_once_def Let_def split: poll_event.split)

lemma steps_bounded:
  "(session_step orch fe ^^ n) c c' \<Longrightarrow> n + work_left c' \<le> work_left c"
proof (induction n arbitrary: c')
  case (Suc n)
  then obtain d where "(session_step orch fe ^^ n) c d" "session_step orch fe d c'" by auto
  with Suc.IH step_uses_work show ?case by fastforce
qed simp

definition at_rest :: "'s orchestrator \<Rightarrow> string option \<Rightarrow> 's session \<Rightarrow> bool" where
  "at_rest orch frontend_url c \<longleftrightarrow> (\<nexists>c'. session_step orch frontend_url c c')"

lemma at_restD:
  assumes "at_rest orch fe c"
  shows "ss_channel c = []" and "ss_sending c = None" and "ss_ended c = None \<Longrightarrow> ss_events c = []"
proof -
  show channel: "ss_channel c = []"
    using assms session_step.work unfolding at_rest_def by (metis neq_Nil_conv)
  show sending: "ss_sending c = None"
  proof (rule ccontr)
    assume "ss_sending c \<noteq> None"
    then obtain rec where "ss_sending c = Some rec" by blast
    with channel session_step.put [of c rec] assms show False
      by (auto simp: at_rest_def channel_cap_def)
  qed
  show "ss_events c = []" if "ss_ended c = None"
    using that sending assms session_step.poll unfolding at_rest_def by (metis neq_Nil_conv)
qed

lemma at_rest_outcome:
  assumes "at_rest orch fe c"
  shows "outcome_of orch fe c =
    (case ss_ended c of None \<Rightarrow> StillPolling | Some r \<Rightarrow> r, ss_health c, ss_store c)"
  using at_restD [OF assms]
  by (cases "ss_store c")
     (auto simp: outcome_of_def still_to_poll_def in_hand_def split: option.split)

lemma rest_reached: "\<exists>c'. session_steps orch fe c c' \<and> at_rest orch fe c'"
proof (induction "work_left c" arbitrary: c rule: less_induct)
  case less
  show ?case
  proof (cases "at_rest orch fe c")
    case False
    then obtain d where d: "session_step orch fe c d" by (auto simp: at_rest_def)
    with less step_uses_work obtain c' where "session_steps orch fe d c'" "at_rest orch fe c'" by blast
    with d show ?thesis by (meson converse_rtranclp_into_rtranclp)
  qed auto
qed

section \<open>At any moment\<close>

text \<open>What the worker has not taken yet; a session is always the worker on what it has taken.\<close>

definition ahead :: "'s session \<Rightarrow> owned_record list" where
  "ahead c = in_hand c @ fst (snd (still_to_poll c))"

lemma step_ahead:
  assumes "session_step orch fe c c'"
  shows "ahead c' = ahead c \<and> ss_store c' = ss_store c \<or>
    (\<exists>rec. ahead c = rec # ahead c' \<and> ss_store c' = worker orch fe [rec] (ss_store c))"
  using assms
proof (cases rule: session_step.cases)
  case (poll e es)
  then show ?thesis
    by (cases e)
       (auto simp: ahead_def still_to_poll_def in_hand_def poll_once_def Let_def split: prod.split)
next
  case (put rec)
  then show ?thesis by (simp add: ahead_def still_to_poll_def in_hand_def split: option.split)
next
  case (work rec recs)
  then have "ahead c = rec # ahead c'" "ss_store c' = worker orch fe [rec] (ss_store c)"
    by (simp_all add: ahead_def still_to_poll_def in_hand_def split: option.split)
  then show ?thesis by blast
qed

lemma steps_ahead:
  "session_steps orch fe c c' \<Longrightarrow>
   \<exists>dn. ahead c = dn @ ahead c' \<and> ss_store c' = worker orch fe dn (ss_store c)"
proof (induction rule: rtranclp_induct)
  case base
  show ?case by (cases "ss_store c") (auto intro: exI [of _ "[]"])
next
  case (step c1 c2)
  then obtain dn where dn: "ahead c = dn @ ahead c1" "ss_store c1 = worker orch fe dn (ss_store c)"
    by blast
  from step_ahead [OF step.hyps(2)] show ?case
  proof (elim disjE exE conjE)
    fix rec assume "ahead c1 = rec # ahead c2" "ss_store c2 = worker orch fe [rec] (ss_store c1)"
    with dn have "ahead c = (dn @ [rec]) @ ahead c2"
      "ss_store c2 = worker orch fe (dn @ [rec]) (ss_store c)" by (simp_all only: worker_append) simp
    then show ?thesis by blast
  qed (use dn in auto)
qed

lemma ahead_start: "ahead (session_start es h st) = fst (snd (poll_loop es h))"
  by (simp add: ahead_def in_hand_def still_to_poll_def session_start_def)

end
