(* ===== verification/Kafka.thy ===== *)
theory Kafka
  imports Session
begin

text \<open>
  The Kafka consumer as a whole: the client factory of \<^verbatim>\<open>messaging/kafka.rs\<close> and
  \<^verbatim>\<open>start_kafka_consumer\<close>, which supervises sessions over one orchestrator. The client library is
  the two functions of a turn: one creates a client from its settings, one subscribes it.
  The lemmas: the records of all sessions are handled as one sequence, and the consumer
  backs off and rebuilds after every session that fails.
\<close>

section \<open>The client\<close>

definition consumer_settings :: "string \<Rightarrow> string \<Rightarrow> (string \<times> string) list" where
  "consumer_settings brokers group_id =
     [(''bootstrap.servers'', brokers), (''group.id'', group_id),
      (''enable.auto.commit'', ''false''), (''auto.offset.reset'', ''earliest'')]"

definition create_consumer ::
  "((string \<times> string) list \<Rightarrow> string + 'c) \<Rightarrow> string \<Rightarrow> string \<Rightarrow> string + 'c" where
  "create_consumer create brokers group_id = create (consumer_settings brokers group_id)"

record 'c session_turn =
  kt_cancelled :: bool
  kt_create :: "(string \<times> string) list \<Rightarrow> string + 'c"
  kt_subscribe :: "'c \<Rightarrow> string list \<Rightarrow> string + unit"
  kt_events :: "poll_event list"
  kt_cancelled_in_backoff :: bool

record consumer_args =
  ca_brokers :: string
  ca_group_id :: string
  ca_topics :: "string list"
  ca_frontend_url :: "string option"

definition open_session :: "consumer_args \<Rightarrow> 'c session_turn \<Rightarrow> string + unit" where
  "open_session a t =
     (case create_consumer (kt_create t) (ca_brokers a) (ca_group_id a) of
        Inl e \<Rightarrow> Inl e
      | Inr client \<Rightarrow> kt_subscribe t client (ca_topics a))"

section \<open>The consumer\<close>

text \<open>The session the consumer gives its supervisor.\<close>

definition kafka_turn ::
  "'s orchestrator \<Rightarrow> consumer_args \<Rightarrow> 'c session_turn \<Rightarrow> ('s \<times> commits) turn" where
  "kafka_turn orch a t =
     \<lparr>tn_cancelled = kt_cancelled t,
      tn_session = run_kafka_session orch (ca_frontend_url a) (open_session a t) (kt_events t),
      tn_cancelled_in_backoff = kt_cancelled_in_backoff t\<rparr>"

definition start_kafka_consumer ::
  "'s orchestrator \<Rightarrow> consumer_args \<Rightarrow> 'c session_turn list \<Rightarrow> consumer_health \<Rightarrow>
   's \<times> commits \<Rightarrow> supervisor \<times> nat list \<times> consumer_health \<times> 's \<times> commits" where
  "start_kafka_consumer orch a ts h st = supervise (map (kafka_turn orch a) ts) h st"

abbreviation consume_from ::
  "'s orchestrator \<Rightarrow> consumer_args \<Rightarrow> nat \<Rightarrow> 'c session_turn list \<Rightarrow> consumer_health \<Rightarrow>
   's \<times> commits \<Rightarrow> supervisor \<times> nat list \<times> consumer_health \<times> 's \<times> commits" where
  "consume_from orch a backoff ts h st \<equiv> supervise_from backoff (map (kafka_turn orch a) ts) h st"

lemma kafka_turn_simps [simp]:
  "tn_cancelled (kafka_turn orch a t) = kt_cancelled t"
  "tn_session (kafka_turn orch a t) =
     run_kafka_session orch (ca_frontend_url a) (open_session a t) (kt_events t)"
  "tn_cancelled_in_backoff (kafka_turn orch a t) = kt_cancelled_in_backoff t"
  by (simp_all add: kafka_turn_def)

section \<open>The records of all sessions\<close>

text \<open>How a session ends and what it polls do not depend on the health record.\<close>

definition polled :: "poll_event list \<Rightarrow> owned_record list" where
  "polled es = fst (snd (poll_loop es health_new))"

definition poll_end :: "poll_event list \<Rightarrow> session_end" where
  "poll_end es = fst (poll_loop es health_new)"

definition poll_health :: "poll_event list \<Rightarrow> consumer_health \<Rightarrow> consumer_health" where
  "poll_health es h = snd (snd (poll_loop es h))"

lemma poll_loop_any_health:
  "poll_loop es h = (r, recs, h1) \<Longrightarrow> \<exists>h2. poll_loop es h' = (r, recs, h2)"
proof (induction es arbitrary: h h' recs)
  case (Cons e es)
  show ?case
  proof (cases e)
    case (Record at rec listening)
    show ?thesis
    proof (cases listening)
      case True
      with Cons.prems Record obtain rest where run: "poll_loop es (mark_progress at h) = (r, rest, h1)"
        "recs = rec # rest"
        by (auto simp: Let_def split: prod.splits)
      from Cons.IH [OF run(1), of "mark_progress at h'"] obtain h2 where
        "poll_loop es (mark_progress at h') = (r, rest, h2)" by blast
      with Record True run(2) show ?thesis by simp
    next
      case False
      with Cons.prems Record show ?thesis by (simp add: Let_def)
    qed
  qed (use Cons in \<open>auto split: if_splits\<close>)
qed simp

lemma poll_loop_parts: "poll_loop es h = (poll_end es, polled es, poll_health es h)"
proof -
  obtain r recs h1 where run: "poll_loop es h = (r, recs, h1)" by (metis prod_cases3)
  with poll_loop_any_health [OF run, of health_new] show ?thesis
    by (auto simp: poll_end_def polled_def poll_health_def)
qed

text \<open>The error a session ends with.\<close>

definition turn_error :: "consumer_args \<Rightarrow> 'c session_turn \<Rightarrow> string option" where
  "turn_error a t =
     (case open_session a t of Inl e \<Rightarrow> Some e
      | Inr _ \<Rightarrow> (case poll_end (kt_events t) of SessionError e \<Rightarrow> Some e | _ \<Rightarrow> None))"

definition turn_health :: "consumer_args \<Rightarrow> 'c session_turn \<Rightarrow> consumer_health \<Rightarrow> consumer_health" where
  "turn_health a t = (if isl (open_session a t) then id else poll_health (kt_events t))"

text \<open>The records of the sessions that ran, in order.\<close>

fun all_polled :: "consumer_args \<Rightarrow> 'c session_turn list \<Rightarrow> owned_record list" where
  "all_polled a [] = []"
| "all_polled a (t # ts) =
     (if kt_cancelled t then []
      else (if isl (open_session a t) then [] else polled (kt_events t)) @
        (if turn_error a t = None \<or> kt_cancelled_in_backoff t then []
         else all_polled a ts))"

lemma run_session_parts:
  "run_kafka_session orch fe opened es h st =
     (case opened of
        Inl e \<Rightarrow> (SessionError e, h, st)
      | Inr _ \<Rightarrow> (poll_end es, poll_health es h, worker orch fe (polled es) st))"
  by (simp add: run_kafka_session_def poll_loop_parts split: sum.split)

text \<open>The turns on which the consumer goes on to the next session.\<close>

lemma consume_Cons:
  assumes "\<not> kt_cancelled t" and "turn_error a t = Some e" and "\<not> kt_cancelled_in_backoff t"
    and "consume_from orch a (next_backoff b) ts (mark_down (turn_health a t h))
      (worker orch (ca_frontend_url a) (if isl (open_session a t) then [] else polled (kt_events t)) st) =
      (r, slept, h', st')"
  shows "consume_from orch a b (t # ts) h st = (r, b # slept, h', st')"
proof -
  have stay: "worker orch (ca_frontend_url a) [] st = st" by (cases st) simp
  show ?thesis
    using assms stay
    by (cases "open_session a t"; cases "poll_end (kt_events t)")
       (simp_all add: run_session_parts turn_error_def turn_health_def Let_def)
qed

text \<open>The turns on which it stops, or goes on polling.\<close>

lemma consume_last:
  assumes "\<not> kt_cancelled t" and "turn_error a t = None \<or> kt_cancelled_in_backoff t"
  shows "\<exists>h'. consume_from orch a b (t # ts) h st =
    (if turn_error a t = None \<and> poll_end (kt_events t) = StillPolling then Supervising else Stopped,
     [], h', worker orch (ca_frontend_url a) (all_polled a [t]) st)"
proof -
  have stay: "worker orch (ca_frontend_url a) [] st = st" by (cases st) simp
  show ?thesis
    using assms stay
    by (cases "open_session a t"; cases "poll_end (kt_events t)")
       (simp_all add: run_session_parts turn_error_def turn_health_def Let_def)
qed

lemma consume_store:
  "snd (snd (snd (consume_from orch a b ts h st))) =
     worker orch (ca_frontend_url a) (all_polled a ts) st"
proof (induction ts arbitrary: b h st)
  case Nil
  then show ?case by (cases st) simp
next
  case (Cons t ts)
  show ?case
  proof (cases "kt_cancelled t")
    case True
    then show ?thesis by (cases st) simp
  next
    case False
    note go = False
    show ?thesis
    proof (cases "turn_error a t = None \<or> kt_cancelled_in_backoff t")
      case True
      with go consume_last [OF go True, of b orch ts h st] show ?thesis by auto
    next
      case False
      let ?st = "worker orch (ca_frontend_url a)
        (if isl (open_session a t) then [] else polled (kt_events t)) st"
      obtain r slept h' st' where rest: "consume_from orch a (next_backoff b) ts
          (mark_down (turn_health a t h)) ?st = (r, slept, h', st')" by (metis prod_cases4)
      from False obtain e where e: "turn_error a t = Some e" "\<not> kt_cancelled_in_backoff t" by auto
      have "all_polled a (t # ts) =
          (if isl (open_session a t) then [] else polled (kt_events t)) @ all_polled a ts"
        using e go by simp
      moreover have "st' = worker orch (ca_frontend_url a) (all_polled a ts) ?st"
        using Cons.IH [of "next_backoff b" "mark_down (turn_health a t h)" ?st] rest by simp
      ultimately show ?thesis
        unfolding consume_Cons [OF go e rest] by (simp only: worker_append snd_conv)
    qed
  qed
qed

text \<open>The turns after which the consumer backs off and rebuilds: each one before the first that does not.\<close>

definition goes_on :: "consumer_args \<Rightarrow> 'c session_turn \<Rightarrow> bool" where
  "goes_on a t \<longleftrightarrow> \<not> kt_cancelled t \<and> turn_error a t \<noteq> None \<and> \<not> kt_cancelled_in_backoff t"

lemma consume_waits:
  "length (fst (snd (consume_from orch a b ts h st))) = length (takeWhile (goes_on a) ts)"
proof (induction ts arbitrary: b h st)
  case (Cons t ts)
  show ?case
  proof (cases "kt_cancelled t")
    case False
    note go = False
    show ?thesis
    proof (cases "turn_error a t = None \<or> kt_cancelled_in_backoff t")
      case True
      with consume_last [OF go True, of b orch ts h st] show ?thesis by (auto simp: goes_on_def)
    next
      case False
      let ?st = "worker orch (ca_frontend_url a)
        (if isl (open_session a t) then [] else polled (kt_events t)) st"
      obtain r slept h' st' where rest: "consume_from orch a (next_backoff b) ts
          (mark_down (turn_health a t h)) ?st = (r, slept, h', st')" by (metis prod_cases4)
      from False obtain e where e: "turn_error a t = Some e" "\<not> kt_cancelled_in_backoff t" by auto
      with go have "goes_on a t" by (simp add: goes_on_def)
      with Cons.IH [of "next_backoff b" "mark_down (turn_health a t h)" ?st] rest show ?thesis
        unfolding consume_Cons [OF go e rest] by simp
    qed
  qed (simp add: goes_on_def)
qed simp

end
