(* ===== verification/Removal.thy ===== *)
theory Removal
  imports Sockets
begin

text \<open>
  \<^verbatim>\<open>ConnectionManager::remove_connection\<close> of \<^verbatim>\<open>noti-api/websocket.rs\<close> as it runs: the connection
  leaves the user's inner map under the guard of the user's entry, the guard is dropped, and an
  entry that was then empty is removed in a second access to the outer map. Between the two
  another task may add a connection. The two steps in a row are \<open>remove_connection\<close>.
\<close>

text \<open>The first access, and whether it left the inner map empty; no entry ends the call.\<close>

definition detach_connection :: "uuid \<Rightarrow> uuid \<Rightarrow> sockets \<Rightarrow> bool \<times> sockets" where
  "detach_connection user cid s =
     (case sk_conns s user of
        None \<Rightarrow> (False, s)
      | Some cs \<Rightarrow>
          (let cs' = AList.delete cid cs in
           (cs' = [], s\<lparr>sk_conns := (sk_conns s)(user \<mapsto> cs')\<rparr>)))"

text \<open>The second access, made only if the first left nothing.\<close>

definition drop_entry :: "bool \<Rightarrow> uuid \<Rightarrow> sockets \<Rightarrow> sockets" where
  "drop_entry is_empty user s =
     (if is_empty then s\<lparr>sk_conns := (sk_conns s)(user := None)\<rparr> else s)"

definition remove_interrupted ::
  "uuid \<Rightarrow> uuid \<Rightarrow> (sockets \<Rightarrow> 'a \<times> sockets) \<Rightarrow> sockets \<Rightarrow> 'a \<times> sockets" where
  "remove_interrupted user cid other s =
     (let (is_empty, s1) = detach_connection user cid s; (x, s2) = other s1
      in (x, drop_entry is_empty user s2))"

lemma two_steps: "snd (remove_interrupted user cid (Pair ()) s) = remove_connection user cid s"
  by (simp add: remove_interrupted_def detach_connection_def drop_entry_def
      remove_connection_def Let_def split: option.split prod.split)

text \<open>With another connection left, the second access is not made.\<close>

lemma interrupted_not_last:
  assumes "sk_conns s user = Some cs" and "AList.delete cid cs \<noteq> []"
  shows "remove_interrupted user cid other s = other (remove_connection user cid s)"
  using assms
  by (auto simp: remove_interrupted_def detach_connection_def drop_entry_def remove_connection_def
      Let_def split: prod.split)

text \<open>With the last connection, whatever comes in between is dropped with the entry.\<close>

lemma interrupted_last:
  assumes "sk_conns s user = Some cs" and "AList.delete cid cs = []"
  shows "sk_conns (snd (remove_interrupted user cid other s)) user = None"
  using assms
  by (auto simp: remove_interrupted_def detach_connection_def drop_entry_def Let_def
      split: prod.split)

lemma add_connection_in:
  "add_connection user s = (cid, s') \<Longrightarrow> get_connection s' user cid = Some new_connection"
  by (auto simp: add_connection_def get_connection_def Let_def update_Some_unfold split: option.splits)

end
