(* ===== verification/Metrics.thy ===== *)
theory Metrics
  imports Consumers Sockets
begin

text \<open>
  \<^verbatim>\<open>bin/noti-server/src/metrics.rs\<close> and where the service records: the recorder and its handle,
  the request middleware, the counters of the Kafka worker and the gauge of the socket registry.
  The process has one slot for a global recorder; what is recorded while it is empty is lost.
  A duration is kept as the clock reads it (microseconds).
\<close>

section \<open>The recorder\<close>

type_synonym metric = "string \<times> (string \<times> string) list"

record measures =
  ms_counts :: "metric \<Rightarrow> 64 word"
  ms_samples :: "metric \<Rightarrow> int list"

definition no_measures :: measures where
  "no_measures = \<lparr>ms_counts = \<lambda>_. 0, ms_samples = \<lambda>_. []\<rparr>"

datatype recorder = NoRecorder | OtherRecorder | Prometheus measures

text \<open>\<open>mt_handle\<close> says whether \<^verbatim>\<open>PROMETHEUS_HANDLE\<close> is set.\<close>

record metrics =
  mt_recorder :: recorder
  mt_handle :: bool

text \<open>Building the exporter installs it unless the slot is taken.\<close>

definition install_recorder :: "metrics \<Rightarrow> metrics" where
  "install_recorder m =
     (if mt_handle m then m
      else (case mt_recorder m of
              NoRecorder \<Rightarrow> \<lparr>mt_recorder = Prometheus no_measures, mt_handle = True\<rparr>
            | _ \<Rightarrow> m))"

definition render_metrics :: "(measures \<Rightarrow> string) \<Rightarrow> metrics \<Rightarrow> string" where
  "render_metrics exposition m =
     (if mt_handle m
      then (case mt_recorder m of Prometheus ms \<Rightarrow> exposition ms | _ \<Rightarrow> [])
      else [])"

definition record_with :: "(measures \<Rightarrow> measures) \<Rightarrow> metrics \<Rightarrow> metrics" where
  "record_with f m =
     (case mt_recorder m of Prometheus ms \<Rightarrow> m\<lparr>mt_recorder := Prometheus (f ms)\<rparr> | _ \<Rightarrow> m)"

definition count_one :: "metric \<Rightarrow> metrics \<Rightarrow> metrics" where
  "count_one k = record_with (\<lambda>ms. ms\<lparr>ms_counts := (ms_counts ms)(k := ms_counts ms k + 1)\<rparr>)"

definition record_sample :: "metric \<Rightarrow> int \<Rightarrow> metrics \<Rightarrow> metrics" where
  "record_sample k x =
     record_with (\<lambda>ms. ms\<lparr>ms_samples := (ms_samples ms)(k := ms_samples ms k @ [x])\<rparr>)"

text \<open>What a counter shows; nothing without the exporter.\<close>

definition counted :: "metrics \<Rightarrow> metric \<Rightarrow> 64 word" where
  "counted m k = (case mt_recorder m of Prometheus ms \<Rightarrow> ms_counts ms k | _ \<Rightarrow> 0)"

definition recording :: "metrics \<Rightarrow> bool" where
  "recording m \<longleftrightarrow> (case mt_recorder m of Prometheus _ \<Rightarrow> True | _ \<Rightarrow> False)"

section \<open>Requests\<close>

definition path_label :: "string option \<Rightarrow> string \<Rightarrow> string" where
  "path_label matched_path uri_path = (case matched_path of None \<Rightarrow> uri_path | Some p \<Rightarrow> p)"

definition requests_metric :: "string \<Rightarrow> string \<Rightarrow> nat \<Rightarrow> metric" where
  "requests_metric meth path status =
     (''http_requests_total'', [(''method'', meth), (''path'', path), (''status'', show_nat status)])"

definition duration_metric :: "string \<Rightarrow> string \<Rightarrow> metric" where
  "duration_metric meth path =
     (''http_request_duration_seconds'', [(''method'', meth), (''path'', path)])"

definition track_http ::
  "string \<Rightarrow> string option \<Rightarrow> string \<Rightarrow> nat \<Rightarrow> int \<Rightarrow> metrics \<Rightarrow> metrics" where
  "track_http meth matched_path uri_path status elapsed m =
     (let path = path_label matched_path uri_path in
      record_sample (duration_metric meth path) elapsed
        (count_one (requests_metric meth path status) m))"

section \<open>The Kafka worker\<close>

definition consumed_metric :: "string \<Rightarrow> metric" where
  "consumed_metric topic = (''noti_kafka_messages_consumed_total'', [(''topic'', topic)])"

definition errors_metric :: "string \<Rightarrow> metric" where
  "errors_metric topic = (''noti_kafka_consume_errors_total'', [(''topic'', topic)])"

definition record_kafka_message :: "string \<Rightarrow> metrics \<Rightarrow> metrics" where
  "record_kafka_message topic = count_one (consumed_metric topic)"

definition record_kafka_error :: "string \<Rightarrow> metrics \<Rightarrow> metrics" where
  "record_kafka_error topic = count_one (errors_metric topic)"

text \<open>The worker with its counters; the commit follows the count.\<close>

fun worker_metered ::
  "'s orchestrator \<Rightarrow> string option \<Rightarrow> owned_record list \<Rightarrow> 's \<times> commits \<Rightarrow> metrics \<Rightarrow>
   ('s \<times> commits) \<times> metrics" where
  "worker_metered orch frontend_url [] st m = (st, m)"
| "worker_metered orch frontend_url (rec # recs) (s, k) m =
     (case handle_record orch frontend_url rec s of
        (Inr _, s') \<Rightarrow> worker_metered orch frontend_url recs
            (s', commit_offset (or_topic rec) (or_partition rec) (or_offset rec) k)
            (record_kafka_message (or_topic rec) m)
      | (Inl _, s') \<Rightarrow> worker_metered orch frontend_url recs (s', k)
            (record_kafka_error (or_topic rec) m))"

section \<open>The socket gauge\<close>

text \<open>The registry with the gauge it publishes; \<open>users\<close> enumerates the users who have an entry.\<close>

datatype registry_call = AddConnection uuid | RemoveConnection uuid uuid

definition gauge_after :: "uuid list \<Rightarrow> registry_call \<Rightarrow> sockets \<times> nat \<Rightarrow> sockets \<times> nat" where
  "gauge_after users call = (\<lambda>(s, gauge).
     case call of
       AddConnection user \<Rightarrow>
         (let s' = snd (add_connection user s) in (s', total_connections users s'))
     | RemoveConnection user cid \<Rightarrow>
         (case sk_conns s user of
            None \<Rightarrow> (s, gauge)
          | Some _ \<Rightarrow>
              (let s' = remove_connection user cid s in (s', total_connections users s'))))"

definition gauge_run ::
  "uuid list \<Rightarrow> registry_call list \<Rightarrow> sockets \<times> nat \<Rightarrow> sockets \<times> nat" where
  "gauge_run users calls sg = fold (gauge_after users) calls sg"

section \<open>Facts\<close>

lemma install_twice [simp]: "install_recorder (install_recorder m) = install_recorder m"
  by (auto simp: install_recorder_def split: recorder.splits)

lemma install_keeps: "mt_handle m \<Longrightarrow> install_recorder m = m"
  by (simp add: install_recorder_def)

lemma record_with_handle [simp]: "mt_handle (record_with f m) = mt_handle m"
  by (simp add: record_with_def split: recorder.split)

lemma recording_record_with [simp]: "recording (record_with f m) = recording m"
  by (simp add: record_with_def recording_def split: recorder.split)

lemma recording_records [simp]:
  "recording (count_one k m) = recording m" "recording (record_sample k x m) = recording m"
  by (simp_all add: count_one_def record_sample_def)

lemma not_recording_lost: "\<not> recording m \<Longrightarrow> record_with f m = m"
  by (auto simp: recording_def record_with_def split: recorder.splits)

lemma counted_count_one:
  "recording m \<Longrightarrow> counted (count_one k m) k' = counted m k' + (if k' = k then 1 else 0)"
  by (auto simp: recording_def counted_def count_one_def record_with_def split: recorder.splits)

lemma counted_sample [simp]: "counted (record_sample k x m) k' = counted m k'"
  by (simp add: counted_def record_sample_def record_with_def split: recorder.split)

lemma counted_track:
  "recording m \<Longrightarrow> counted (track_http meth mp uri st el m) k =
     counted m k + (if k = requests_metric meth (path_label mp uri) st then 1 else 0)"
  by (simp add: track_http_def Let_def counted_count_one)

lemma recording_track [simp]: "recording (track_http meth mp uri st el m) = recording m"
  by (simp add: track_http_def Let_def)

lemma metrics_apart [simp]: "consumed_metric t \<noteq> errors_metric t'" "errors_metric t' \<noteq> consumed_metric t"
  by (simp_all add: consumed_metric_def errors_metric_def)

lemma metric_topic [simp]:
  "consumed_metric t = consumed_metric t' \<longleftrightarrow> t = t'" "errors_metric t = errors_metric t' \<longleftrightarrow> t = t'"
  by (simp_all add: consumed_metric_def errors_metric_def)

text \<open>Metering leaves the worker alone, and what it counts is what the worker did.\<close>

lemma worker_metered_worker: "fst (worker_metered orch fe recs st m) = worker orch fe recs st"
proof (induction recs arbitrary: st m)
  case Nil
  show ?case by (cases st) simp
next
  case (Cons rec recs)
  then show ?case by (cases st) (auto split: prod.split sum.split)
qed

definition of_topic :: "string \<Rightarrow> owned_record list \<Rightarrow> nat" where
  "of_topic topic recs = length (filter (\<lambda>r. or_topic r = topic) recs)"

lemma of_topic_simps [simp]:
  "of_topic t [] = 0" "of_topic t (r # rs) = (if or_topic r = t then 1 else 0) + of_topic t rs"
  by (simp_all add: of_topic_def)

lemma worker_metered_consumed:
  "recording m \<Longrightarrow> counted (snd (worker_metered orch fe recs st m)) (consumed_metric t) =
     counted m (consumed_metric t) + of_nat (of_topic t (handled orch fe recs (fst st)))"
proof (induction recs arbitrary: st m)
  case (Cons rec recs)
  obtain s k where st: "st = (s, k)" by (cases st)
  obtain x s' where h: "handle_record orch fe rec s = (x, s')" by (metis surj_pair)
  show ?case
    using Cons.IH [of "record_kafka_message (or_topic rec) m"]
      Cons.IH [of "record_kafka_error (or_topic rec) m"] Cons.prems h st
    by (cases x) (simp_all add: record_kafka_message_def record_kafka_error_def counted_count_one)
qed simp

lemma worker_metered_total:
  "recording m \<Longrightarrow>
   counted (snd (worker_metered orch fe recs st m)) (consumed_metric t) +
     counted (snd (worker_metered orch fe recs st m)) (errors_metric t) =
   counted m (consumed_metric t) + counted m (errors_metric t) + of_nat (of_topic t recs)"
proof (induction recs arbitrary: st m)
  case (Cons rec recs)
  obtain s k where st: "st = (s, k)" by (cases st)
  obtain x s' where h: "handle_record orch fe rec s = (x, s')" by (metis surj_pair)
  show ?case
    using Cons.IH [of "record_kafka_message (or_topic rec) m"]
      Cons.IH [of "record_kafka_error (or_topic rec) m"] Cons.prems h st
    by (cases x) (simp_all add: record_kafka_message_def record_kafka_error_def counted_count_one)
qed simp

lemma gauge_run_exact:
  "g = total_connections users s \<Longrightarrow>
   snd (gauge_run users calls (s, g)) = total_connections users (fst (gauge_run users calls (s, g)))"
proof (induction calls arbitrary: s g)
  case (Cons call calls)
  obtain s' g' where n: "gauge_after users call (s, g) = (s', g')" by (metis surj_pair)
  with Cons.prems have "g' = total_connections users s'"
    by (auto simp: gauge_after_def Let_def split: registry_call.splits option.splits)
  from Cons.IH [OF this] n show ?case by (simp add: gauge_run_def)
qed (simp add: gauge_run_def)

end
