(* ===== verification/Claims_Concurrency.thy ===== *)
theory Claims_Concurrency
  imports Workers Admission Kafka Removal Metrics Claims_Intake
begin

text \<open>
  Properties of what runs at the same time: requests being queued, dispatch workers, the two tasks
  of a Kafka session, the sessions of a supervised consumer, and the socket registry, each with a concrete instance.
\<close>

section \<open>Requests\<close>

text \<open>
  C4. Any number of requests with one new key, interleaved at every await of \<^verbatim>\<open>queue_notification\<close>,
  are admitted once while the database answers: when each has moved four times there is exactly one
  new row, exactly one task was handed over, for that row, and every request was answered with its
  identifier.
\<close>

theorem concurrent_requests_admit_once:
  assumes "table_up (w_notifications w)" and "fresh_ids w"
    and "inj_on (net_random (w_net w)) {net_calls (w_net w)..<net_calls (w_net w) + 4 * length as}"
    and "key_conflict (Some k) (t_rows (w_notifications w)) = None"
    and "\<forall>a \<in> set as. ad_key a = Some k" and "as \<noteq> []"
    and "\<forall>j < length as. 4 \<le> count_list ks j"
    and "run_entries (world_orch L dp) ks (map Arrived as) w = (ps, w')"
  shows "\<exists>r. t_rows (w_notifications w') = t_rows (w_notifications w) @ [r] \<and>
    r_idempotency_key r = Some k \<and> ps = replicate (length as) (Answered (Inr (r_id r))) \<and>
    handovers w' = Suc (handovers w) \<and> handed_over L (r_id r) w'"
  using assms by (rule admit_once)

abbreviation sample_admission :: "string \<Rightarrow> admission" where
  "sample_admission to \<equiv> \<lparr>ad_user = Some 9, ad_channel = Email, ad_recipient = to,
     ad_template = ''x.html'', ad_variables = JObj [], ad_key = Some ''k''\<rparr>"

lemma sample_random_inj: "inj_on (net_random sample_net) {0..<8}"
proof (rule inj_onI)
  fix a b assume "a \<in> {0..<8}" "b \<in> {0..<8}" and "net_random sample_net a = net_random sample_net b"
  then have "unat (of_nat (1000 + a) :: uuid) = unat (of_nat (1000 + b) :: uuid)"
    by (simp add: sample_net_def)
  with \<open>a \<in> _\<close> \<open>b \<in> _\<close> show "a = b" by (simp only: unat_of_nat) (simp add: take_bit_nat_eq_self)
qed

lemma concurrent_requests_admit_once_witness:
  "\<exists>ps w' r. run_entries sample_orch (concat (replicate 4 [0, 1]))
       [Arrived (sample_admission ''a@b''), Arrived (sample_admission ''c@d'')] (sample_world [] []) = (ps, w') \<and>
     t_rows (w_notifications w') = [r] \<and> ps = [Answered (Inr (r_id r)), Answered (Inr (r_id r))]"
proof -
  let ?ks = "concat (replicate 4 [0, 1 :: nat])" and ?w = "sample_world [] []"
  let ?as = "[sample_admission ''a@b'', sample_admission ''c@d'']"
  obtain ps w' where run: "run_entries sample_orch ?ks (map Arrived ?as) ?w = (ps, w')"
    by (metis surj_pair)
  have up: "table_up (w_notifications ?w)"
    using sample_up [of "[]" "[]"] by (simp add: world_up_def rows_ok_def keys_of_def List.map_filter_def)
  have ids: "fresh_ids ?w" "key_conflict (Some ''k'') (t_rows (w_notifications ?w)) = None"
    "inj_on (net_random (w_net ?w)) {net_calls (w_net ?w)..<net_calls (w_net ?w) + 4 * length ?as}"
    using sample_random_inj
    by (simp_all add: fresh_ids_def key_conflict_def sample_world_def sample_table_def sample_net_def)
  have moves: "\<forall>j < length ?as. 4 \<le> count_list ?ks j" by (simp add: numeral_eq_Suc less_Suc_eq)
  from concurrent_requests_admit_once [OF up ids(1,3,2) _ _ moves run [unfolded sample_orch_def]]
  obtain r where "t_rows (w_notifications w') = [r]"
    "ps = replicate (length ?as) (Answered (Inr (r_id r)))"
    by (auto simp: sample_world_def sample_table_def)
  with run show ?thesis by (auto simp: numeral_eq_Suc)
qed

section \<open>Dispatch workers\<close>

text \<open>
  C19. Any number of workers on different notifications, interleaved at every await, do not
  interfere while the database answers: once each has moved seven times, each has returned, with an
  outcome its dispatch alone may have, and all other notifications are as they were.
\<close>

theorem workers_do_not_interfere:
  assumes "world_up w" and "distinct ids" and "\<forall>i \<in> set ids. world_life w i \<noteq> None"
    and "\<forall>k < length ids. 7 \<le> count_list ks k"
    and "run_pool (world_orch L dp) ks (start_pool ids) w = (ws, w')"
  shows "(\<forall>k < length ids. \<exists>d r d'. world_life w (ids ! k) = Some d \<and>
      ws ! k = (ids ! k, Returned r) \<and> world_life w' (ids ! k) = Some d' \<and>
      worker_outcome (encodes (world_orch L dp)) d r d') \<and>
    (\<forall>i. i \<notin> set ids \<longrightarrow> world_life w' i = world_life w i)"
  using live.pool_result [OF assms] by blast

abbreviation two_rows :: world where
  "two_rows \<equiv> sample_world [sample_row 7 WebhookDb PendingDb ''https://h/x'',
     sample_row 8 WebhookDb SentDb ''nowhere''\<lparr>r_idempotency_key := None\<rparr>] []"

lemma workers_do_not_interfere_witness:
  "\<exists>ws w' r d'. run_pool sample_orch (concat (replicate 7 [0, 1])) (start_pool [7, 8]) two_rows = (ws, w') \<and>
     ws ! 0 = (7, Returned r) \<and> world_life w' 7 = Some d' \<and>
     dispatch_outcome True \<lparr>dl_status = Pending, dl_retry = 0, dl_error = None, dl_ref = None\<rparr> r d'"
proof -
  let ?ks = "concat (replicate 7 [0, 1 :: nat])"
  obtain ws w' where run: "run_pool sample_orch ?ks (start_pool [7, 8]) two_rows = (ws, w')"
    by (metis surj_pair)
  have up: "world_up two_rows"
    by (rule sample_up) (simp add: rows_ok_def keys_of_def List.map_filter_def sample_row_def)
  have life: "world_life two_rows 7 =
      Some \<lparr>dl_status = Pending, dl_retry = 0, dl_error = None, dl_ref = None\<rparr>"
    "world_life two_rows 8 \<noteq> None"
    by (simp_all add: life_def row_def sample_world_def sample_table_def sample_row_def row_life_def)
  have moves: "\<forall>k < length [7, 8 :: uuid]. 7 \<le> count_list ?ks k"
    by (simp add: numeral_eq_Suc less_Suc_eq)
  have "\<forall>i \<in> set [7, 8 :: uuid]. world_life two_rows i \<noteq> None" using life by simp
  from workers_do_not_interfere [OF up _ this moves run [unfolded sample_orch_def],
      THEN conjunct1, rule_format, of 0]
  have "\<exists>d r d'. world_life two_rows ([7, 8] ! 0) = Some d \<and> ws ! 0 = ([7, 8] ! 0, Returned r) \<and>
      world_life w' ([7, 8] ! 0) = Some d' \<and> worker_outcome (encodes sample_orch) d r d'"
    by (simp add: sample_orch_def)
  with life(1) sample_encodes run show ?thesis
    by (auto simp: worker_outcome_def settled_def open_status_def)
qed

text \<open>
  C25. However many dispatch workers there are, on whatever notifications (the same one included),
  interleaved at every await and under every fault: each worker that moves seven times has
  returned, no row is lost, added or reordered, none changes its addressee, content, idempotency
  key, creation time or read mark, and no retry count falls.
\<close>

theorem interleaved_workers_keep_rows:
  assumes "run_pool (world_orch L dp) ks (start_pool ids) w = (ws, w')"
  shows "rows_follow (t_rows (w_notifications w)) (t_rows (w_notifications w')) \<and>
    (\<forall>k < length ids. 7 \<le> count_list ks k \<longrightarrow> (\<exists>r. ws ! k = (ids ! k, Returned r)))"
  using pool_rows [of w L dp ks "start_pool ids"] pool_returns [OF assms] assms by simp

lemma interleaved_workers_keep_rows_witness:
  "\<exists>r ws w'. run_pool sample_orch (concat (replicate 7 [0, 1])) (start_pool [7, 7]) two_rows = (ws, w') \<and>
     map r_id (t_rows (w_notifications w')) = [7, 8] \<and> ws ! 1 = (7, Returned r)"
proof -
  let ?ks = "concat (replicate 7 [0, 1 :: nat])"
  obtain ws w' where run: "run_pool sample_orch ?ks (start_pool [7, 7]) two_rows = (ws, w')"
    by (metis surj_pair)
  note kept = interleaved_workers_keep_rows [OF run [unfolded sample_orch_def]]
  have "7 \<le> count_list ?ks 1" by (simp add: numeral_eq_Suc)
  with kept [THEN conjunct2, rule_format, of 1] obtain r where "ws ! 1 = (7, Returned r)" by auto
  moreover have "map r_id (t_rows (w_notifications w')) = map r_id (t_rows (w_notifications two_rows))"
    by (rule rows_follow_ids [OF kept [THEN conjunct1]])
  then have "map r_id (t_rows (w_notifications w')) = [7, 8]"
    by (simp add: sample_world_def sample_table_def sample_row_def)
  ultimately show ?thesis using run by (intro exI [of _ r] exI [of _ ws] exI [of _ w']) simp
qed

section \<open>A Kafka session\<close>

text \<open>
  C20. The poll loop and the worker of a session are joined by a bounded channel. However the two
  are scheduled, at most three steps per event are taken and the channel never holds more than 512
  records; any state can be completed, and a completed one has the result, health, store and commits
  of polling first and handling the polled records in order afterwards.
\<close>

theorem session_schedule_irrelevant:
  assumes "(session_step orch frontend_url ^^ n) (session_start es h st) c"
  shows "n \<le> 3 * length es \<and> length (ss_channel c) \<le> 512 \<and>
    (\<exists>c'. session_steps orch frontend_url c c' \<and> at_rest orch frontend_url c' \<and>
       run_kafka_session orch frontend_url (Inr u) es h st =
         (case ss_ended c' of None \<Rightarrow> StillPolling | Some r \<Rightarrow> r, ss_health c', ss_store c')) \<and>
    (at_rest orch frontend_url c \<longrightarrow>
       run_kafka_session orch frontend_url (Inr u) es h st =
         (case ss_ended c of None \<Rightarrow> StillPolling | Some r \<Rightarrow> r, ss_health c, ss_store c))"
proof -
  have steps: "session_steps orch frontend_url (session_start es h st) c"
    using assms by (rule relpowp_imp_rtranclp)
  have n: "n \<le> 3 * length es"
    using steps_bounded [OF assms] by (simp add: work_left_def session_start_def)
  have cap: "length (ss_channel c) \<le> 512"
    using steps_keep_cap [OF steps] by (simp add: session_start_def channel_cap_def)
  have rest: "run_kafka_session orch frontend_url (Inr u) es h st =
      (case ss_ended c' of None \<Rightarrow> StillPolling | Some r \<Rightarrow> r, ss_health c', ss_store c')"
    if "session_steps orch frontend_url c c'" "at_rest orch frontend_url c'" for c'
    using at_rest_outcome [OF that(2)] steps_keep_outcome [OF rtranclp_trans [OF steps that(1)]]
      outcome_start by metis
  from n cap rest rest_reached [of orch frontend_url c] show ?thesis by blast
qed

lemma session_schedule_irrelevant_witness:
  "\<exists>c'. session_steps sample_orch None
       (session_start [Record 1 (sample_record None 4) True] health_new (sample_world [] [], sample_commits)) c' \<and>
     km_log (snd (ss_store c')) = [(''t'', 0, 5)]"
proof -
  let ?es = "[Record 1 (sample_record None 4) True]"
  let ?c = "session_start ?es health_new (sample_world [] [], sample_commits)"
  have "(session_step sample_orch None ^^ 0) ?c ?c" by simp
  from session_schedule_irrelevant [OF this, of "()"] obtain c' where
    c': "session_steps sample_orch None ?c c'"
      "snd (snd (run_kafka_session sample_orch None (Inr ()) ?es health_new
         (sample_world [] [], sample_commits))) = ss_store c'" by auto
  have "km_log (snd (snd (snd (run_kafka_session sample_orch None (Inr ()) ?es health_new
      (sample_world [] [], sample_commits))))) = [(''t'', 0, 5)]"
    by (simp add: run_kafka_session_def Let_def handle_record_def commit_offset_def)
  with c' show ?thesis by metis
qed

text \<open>
  C21. A session may be stopped at any step (a crash, or the process exiting, which waits for no
  consumer). At every step the records polled so far split into those the worker took, which are
  exactly those handled, and those still in hand; the committed offsets are those after the taken
  records that were handled without an error, so a record still in hand is not committed.
\<close>

theorem session_may_stop_anywhere:
  assumes "session_steps orch frontend_url (session_start es h (s, k)) c" and "\<forall>n. \<not> km_fails k n"
  shows "\<exists>taken later. fst (snd (poll_loop es h)) = taken @ in_hand c @ later \<and>
    ss_store c = worker orch frontend_url taken (s, k) \<and>
    km_log (snd (ss_store c)) = km_log k @
      map (\<lambda>r. (or_topic r, or_partition r, or_offset r + 1)) (handled orch frontend_url taken s)"
proof -
  from steps_ahead [OF assms(1)] obtain taken where
    taken: "fst (snd (poll_loop es h)) = taken @ ahead c"
      "ss_store c = worker orch frontend_url taken (s, k)"
    unfolding ahead_start by (auto simp: session_start_def)
  have "ahead c = in_hand c @ fst (snd (still_to_poll c))" by (simp add: ahead_def)
  with taken worker_commits [OF assms(2)] show ?thesis by metis
qed

lemma session_may_stop_anywhere_witness:
  "\<exists>c. session_steps sample_orch None
       (session_start [Record 1 (sample_record None 4) True] health_new (sample_world [] [], sample_commits)) c \<and>
     in_hand c = [sample_record None 4] \<and> km_log (snd (ss_store c)) = []"
proof -
  let ?e = "Record 1 (sample_record None 4) True"
  let ?c = "session_start [?e] health_new (sample_world [] [], sample_commits)"
  let ?c1 = "poll_once ?e ?c\<lparr>ss_events := []\<rparr>"
  have "session_step sample_orch None ?c ?c1"
    by (rule session_step.poll) (simp_all add: session_start_def)
  then have step: "session_steps sample_orch None ?c ?c1" by blast
  have hand: "in_hand ?c1 = [sample_record None 4]"
    by (simp add: in_hand_def poll_once_def session_start_def Let_def)
  from session_may_stop_anywhere [OF step] obtain taken later where
    split: "fst (snd (poll_loop [?e] health_new)) = taken @ in_hand ?c1 @ later"
    and log: "km_log (snd (ss_store ?c1)) = map (\<lambda>r. (or_topic r, or_partition r, or_offset r + 1))
      (handled sample_orch None taken (sample_world [] []))" by auto
  from split hand have "taken = []" by (auto simp: Let_def Cons_eq_append_conv)
  with log hand step show ?thesis by auto
qed

section \<open>The Kafka consumer\<close>

text \<open>
  C22. Over all the sessions of a consumer, through broker failures and rebuilds, the records polled
  are handled as one sequence, and, while commits succeed, the offsets committed are those after the
  records handled without an error, in order, and no others.
\<close>

theorem consumer_commits_handled:
  assumes "\<forall>n. \<not> km_fails k n" and "start_kafka_consumer orch a ts h (s, k) = (r, slept, h', s', k')"
  shows "s' = fst (worker orch (ca_frontend_url a) (all_polled a ts) (s, k)) \<and>
    km_log k' = km_log k @ map (\<lambda>r. (or_topic r, or_partition r, or_offset r + 1))
      (handled orch (ca_frontend_url a) (all_polled a ts) s)"
proof -
  have "(s', k') = worker orch (ca_frontend_url a) (all_polled a ts) (s, k)"
    using consume_store [of initial_backoff orch a ts h "(s, k)"] assms(2)
    by (simp add: start_kafka_consumer_def supervise_def)
  with worker_commits [OF assms(1)] show ?thesis by (metis fst_conv snd_conv)
qed

abbreviation sample_args :: consumer_args where
  "sample_args \<equiv> \<lparr>ca_brokers = ''k:9092'', ca_group_id = ''g'', ca_topics = [''t''],
     ca_frontend_url = None\<rparr>"

text \<open>A session that reads one record and loses its brokers.\<close>

abbreviation lossy_turn :: "int \<Rightarrow> unit session_turn" where
  "lossy_turn off \<equiv> \<lparr>kt_cancelled = False, kt_create = (\<lambda>_. Inr ()), kt_subscribe = (\<lambda>_ _. Inr ()),
     kt_events = [Record 1 (sample_record None off) True, RecvError 2 AllBrokersDown],
     kt_cancelled_in_backoff = False\<rparr>"

lemma lossy_polled: "all_polled sample_args [lossy_turn 4, lossy_turn 5] =
    [sample_record None 4, sample_record None 5]"
  by (simp add: open_session_def create_consumer_def polled_def turn_error_def poll_end_def Let_def
      is_fatal_kafka_error_def)

lemma consumer_commits_handled_witness:
  "\<exists>r slept h' s' k'. start_kafka_consumer sample_orch sample_args [lossy_turn 4, lossy_turn 5] health_new
       (sample_world [] [], sample_commits) = (r, slept, h', s', k') \<and>
     km_log k' = [(''t'', 0, 5), (''t'', 0, 6)]"
proof -
  obtain r slept h' s' k' where run: "start_kafka_consumer sample_orch sample_args
      [lossy_turn 4, lossy_turn 5] health_new (sample_world [] [], sample_commits) = (r, slept, h', s', k')"
    by (metis prod_cases5)
  from consumer_commits_handled [OF _ run] run show ?thesis
    unfolding lossy_polled by (simp add: handle_record_def)
qed

text \<open>
  C23. The consumer never gives up: after every session that fails, until it is cancelled, it waits
  and rebuilds the session, and the wait before the i-th rebuild is min(2^i, 30) seconds, counting
  from 0. Once it has stopped, the health record does not report a connected consumer.
\<close>

theorem consumer_backs_off:
  assumes "start_kafka_consumer orch a ts h st = (r, slept, h', st')"
  shows "length slept = length (takeWhile (goes_on a) ts) \<and>
    (\<forall>i < length slept. slept ! i = min (2 ^ i) 30) \<and> (r = Stopped \<longrightarrow> \<not> h_connected h')"
proof -
  have run: "consume_from orch a 1 ts h st = (r, slept, h', st')"
    using assms by (simp add: start_kafka_consumer_def supervise_def initial_backoff_def)
  have "slept ! i = min (2 ^ i) 30" if "i < length slept" for i
    using supervise_sleeps [OF run _ that] by (simp add: max_backoff_def)
  moreover have "\<not> h_connected h'" if "r = Stopped"
    using run that by (auto dest: supervise_stopped_down)
  ultimately show ?thesis using consume_waits [of 1 orch a ts h st] run by simp
qed

lemma lossy_runs: "fst (start_kafka_consumer sample_orch sample_args
      (replicate 6 (lossy_turn 4) @ [(lossy_turn 4)\<lparr>kt_cancelled := True\<rparr>]) health_new
      (sample_world [] [], sample_commits)) = Stopped"
  "length (fst (snd (start_kafka_consumer sample_orch sample_args
      (replicate 6 (lossy_turn 4) @ [(lossy_turn 4)\<lparr>kt_cancelled := True\<rparr>]) health_new
      (sample_world [] [], sample_commits)))) = 6"
  by (simp_all add: start_kafka_consumer_def supervise_def numeral_eq_Suc run_session_parts open_session_def
      create_consumer_def poll_end_def Let_def is_fatal_kafka_error_def split: prod.split)

lemma consumer_backs_off_witness:
  "\<exists>slept h' st'. start_kafka_consumer sample_orch sample_args
       (replicate 6 (lossy_turn 4) @ [(lossy_turn 4)\<lparr>kt_cancelled := True\<rparr>]) health_new
       (sample_world [] [], sample_commits) = (Stopped, slept, h', st') \<and>
     slept ! 5 = 30 \<and> \<not> h_connected h'"
proof -
  obtain r slept h' st' where run: "start_kafka_consumer sample_orch sample_args
      (replicate 6 (lossy_turn 4) @ [(lossy_turn 4)\<lparr>kt_cancelled := True\<rparr>]) health_new
      (sample_world [] [], sample_commits) = (r, slept, h', st')" by (metis prod_cases4)
  with lossy_runs have "r = Stopped" "length slept = 6" by simp_all
  with consumer_backs_off [OF run] run show ?thesis by auto
qed

section \<open>Removing a connection\<close>

text \<open>
  C30. Between the two accesses of \<^verbatim>\<open>remove_connection\<close> another task may connect the same user. If
  the removed connection was the last one, the new connection, though its socket is open, is dropped
  from the registry, and messages to the user are answered as not connected; had the removal run
  alone before, the new connection would be registered.
\<close>

theorem removal_drops_new_connection:
  assumes "sk_conns s user = Some [(cid, c)]"
    and "remove_interrupted user cid (add_connection user) s = (cid', s')"
    and "add_connection user (remove_connection user cid s) = (cid2, s2)"
  shows "get_connection s' user cid' = None \<and> send_to_user user m s' = (Inr False, s') \<and>
    get_connection s2 user cid2 = Some new_connection"
  using interrupted_last [OF assms(1), of cid "add_connection user"] assms(2)
    add_connection_in [OF assms(3)]
  by (auto simp: get_connection_def send_to_user_def)

lemma removal_drops_new_connection_witness:
  "\<exists>cid' s'. remove_interrupted 9 5 (add_connection 9)
       (sample_sockets\<lparr>sk_conns := [9 \<mapsto> [(5, new_connection)]]\<rparr>) = (cid', s') \<and>
     send_to_user 9 ''hi'' s' = (Inr False, s')"
proof -
  let ?s = "sample_sockets\<lparr>sk_conns := [9 \<mapsto> [(5, new_connection)]]\<rparr>"
  have s: "sk_conns ?s 9 = Some [(5, new_connection)]" by simp
  obtain cid' s' where run: "remove_interrupted 9 5 (add_connection 9) ?s = (cid', s')"
    by (metis surj_pair)
  obtain cid2 s2 where other: "add_connection 9 (remove_connection 9 5 ?s) = (cid2, s2)"
    by (metis surj_pair)
  from removal_drops_new_connection [OF s run other, of "''hi''"] run show ?thesis by blast
qed

section \<open>What the worker counts\<close>

text \<open>
  The Kafka worker with its counters handles records as the worker without them; once the
  recorder is installed, the consumed counter of a topic grows by the records of that topic handled
  without an error, and consumed and error counters together by all of them (modulo 2^64).
\<close>

theorem worker_counts_records:
  assumes "recording m" and "worker_metered orch frontend_url recs (s, k) m = (st', m')"
  shows "st' = worker orch frontend_url recs (s, k) \<and>
    counted m' (consumed_metric t) =
      counted m (consumed_metric t) + of_nat (of_topic t (handled orch frontend_url recs s)) \<and>
    counted m' (consumed_metric t) + counted m' (errors_metric t) =
      counted m (consumed_metric t) + counted m (errors_metric t) + of_nat (of_topic t recs)"
  using worker_metered_worker [of orch frontend_url recs "(s, k)" m] assms(2)
    worker_metered_consumed [OF assms(1), of orch frontend_url recs "(s, k)" t]
    worker_metered_total [OF assms(1), of orch frontend_url recs "(s, k)" t]
  by simp

lemma worker_counts_records_witness:
  "\<exists>st' m'. worker_metered sample_orch None [sample_record None 4, sample_record (Some ''x'') 5]
       (sample_world [] [], sample_commits)
       (install_recorder \<lparr>mt_recorder = NoRecorder, mt_handle = False\<rparr>) = (st', m') \<and>
     counted m' (consumed_metric ''t'') = 1 \<and> counted m' (errors_metric ''t'') = 1"
proof -
  let ?m = "install_recorder \<lparr>mt_recorder = NoRecorder, mt_handle = False\<rparr>"
  let ?recs = "[sample_record None 4, sample_record (Some ''x'') 5]"
  have m: "recording ?m" "counted ?m k = 0" for k
    by (simp_all add: install_recorder_def recording_def counted_def no_measures_def)
  obtain st' m' where run: "worker_metered sample_orch None ?recs
      (sample_world [] [], sample_commits) ?m = (st', m')" by (metis surj_pair)
  have "handled sample_orch None ?recs (sample_world [] []) = [sample_record None 4]"
    by (simp add: handle_record_def sample_orch_def sample_libs_def sample_codecs_def)
  then have topics: "of_topic ''t'' (handled sample_orch None ?recs (sample_world [] [])) = 1"
    "of_topic ''t'' ?recs = 2" by (simp_all only: of_topic_simps) simp_all
  note counts = worker_counts_records [OF m(1) run, of "''t''", unfolded topics m(2)]
  from counts have one: "counted m' (consumed_metric ''t'') = 1" by simp
  with counts have "1 + counted m' (errors_metric ''t'') = 1 + 1" by simp
  then have "counted m' (errors_metric ''t'') = 1" by (metis add_left_cancel)
  with one run show ?thesis by blast
qed

end
