(* ===== verification/Routes.thy ===== *)
theory Routes
  imports Startup
begin

text \<open>
  Section 5 of \<^verbatim>\<open>startup.rs\<close>: the routes of the HTTP server and how a request reaches a handler,
  and the operations \<^verbatim>\<open>openapi.rs\<close> documents. Path matching, method matching, the decoding of path
  parameters and the extraction of query and body belong to \<^verbatim>\<open>axum\<close>: they are the fields of \<open>http_lib\<close>, and \<open>http_lib_ok\<close> states
  what its documentation promises for the table of this service.
\<close>

datatype http_method = GET | POST | PUT | PATCH | DELETE | HEAD | OPTIONS

instantiation http_method :: enum
begin

definition enum_http_method :: "http_method list" where
  "enum_http_method = [GET, POST, PUT, PATCH, DELETE, HEAD, OPTIONS]"

definition enum_all_http_method :: "(http_method \<Rightarrow> bool) \<Rightarrow> bool" where
  "enum_all_http_method P \<longleftrightarrow> list_all P [GET, POST, PUT, PATCH, DELETE, HEAD, OPTIONS]"

definition enum_ex_http_method :: "(http_method \<Rightarrow> bool) \<Rightarrow> bool" where
  "enum_ex_http_method P \<longleftrightarrow> list_ex P [GET, POST, PUT, PATCH, DELETE, HEAD, OPTIONS]"

instance
proof
  show UNIV: "(UNIV :: http_method set) = set enum_class.enum"
    by (auto simp: enum_http_method_def intro: http_method.exhaust)
  show "distinct (enum_class.enum :: http_method list)"
    by (simp add: enum_http_method_def)
  show "enum_class.enum_all P \<longleftrightarrow> Ball UNIV P" "enum_class.enum_ex P \<longleftrightarrow> Bex UNIV P"
    for P :: "http_method \<Rightarrow> bool"
    unfolding UNIV by (simp_all add: enum_all_http_method_def enum_ex_http_method_def enum_http_method_def)
qed

end

datatype endpoint =
    EList | EMarkRead | EMarkAll | EListDevices | ERegister | ERevoke
  | EWebSocket | EHealth | ELive | EReady | EMetrics

section \<open>The table\<close>

type_synonym route_row = "string \<times> (http_method \<times> endpoint) list"

definition noti_rest :: "route_row list" where
  "noti_rest =
     [(''/api/v1/noti'', [(GET, EList)]),
      (''/api/v1/noti/'', [(GET, EList)]),
      (''/api/v1/noti/{id}'', [(PATCH, EMarkRead)]),
      (''/api/v1/noti/read-all'', [(POST, EMarkAll)]),
      (''/api/v1/noti/devices'', [(GET, EListDevices), (POST, ERegister)]),
      (''/api/v1/noti/devices/{token}'', [(DELETE, ERevoke)])]"

definition routes :: "route_row list" where
  "routes = noti_rest @
     [(''/ws'', [(GET, EWebSocket)]),
      (''/health'', [(GET, EHealth)]),
      (''/health/live'', [(GET, ELive)]),
      (''/health/ready'', [(GET, EReady)]),
      (''/metrics'', [(GET, EMetrics)])]"

record http_lib =
  hl_match :: "string list \<Rightarrow> string \<Rightarrow> (string \<times> (string \<times> string) list) option"
  hl_accepts :: "http_method \<Rightarrow> http_method \<Rightarrow> bool"
  hl_query :: "string \<Rightarrow> http_error + list_params"
  hl_body :: "string \<Rightarrow> http_error + register_device_request"
  hl_decode :: "string \<Rightarrow> string option"
  hl_path_error :: "string \<Rightarrow> string"

datatype route_result =
    Reached endpoint "(string \<times> string) list"
  | MethodNotAllowed
  | Unrouted

definition route :: "http_lib \<Rightarrow> http_method \<Rightarrow> string \<Rightarrow> route_result" where
  "route lib m path =
     (case hl_match lib (map fst routes) path of
        None \<Rightarrow> Unrouted
      | Some (pat, params) \<Rightarrow>
          (case map_of routes pat of
             None \<Rightarrow> Unrouted
           | Some ms \<Rightarrow>
               (case List.find (\<lambda>(r, _). hl_accepts lib r m) ms of
                  None \<Rightarrow> MethodNotAllowed | Some (_, e) \<Rightarrow> Reached e params)))"

text \<open>
  What \<^verbatim>\<open>axum\<close> documents: a static route wins over a parameter, a parameter captures one non-empty
  segment of the path as it was sent, its value is that segment percent-decoded (which leaves ASCII
  without a percent sign as it is, and fails on bytes that are not UTF-8), and a \<^verbatim>\<open>get\<close> route also
  serves \<^verbatim>\<open>HEAD\<close>.
\<close>

definition http_lib_ok :: "http_lib \<Rightarrow> bool" where
  "http_lib_ok lib \<longleftrightarrow>
     (\<forall>p \<in> set (map fst routes). CHR ''{'' \<notin> set p \<longrightarrow> hl_match lib (map fst routes) p = Some (p, [])) \<and>
     (\<forall>pre x seg. pre @ ''{'' @ x @ ''}'' \<in> set (map fst routes) \<longrightarrow> seg \<noteq> [] \<longrightarrow>
        CHR 0x2F \<notin> set seg \<longrightarrow>
        \<not> (pre @ seg \<in> set (map fst routes) \<and> CHR ''{'' \<notin> set (pre @ seg)) \<longrightarrow>
        hl_match lib (map fst routes) (pre @ seg) = Some (pre @ ''{'' @ x @ ''}'', [(x, seg)])) \<and>
     (\<forall>seg. CHR ''%'' \<notin> set seg \<longrightarrow> (\<forall>ch \<in> set seg. of_char ch < (128 :: nat)) \<longrightarrow>
        hl_decode lib seg = Some seg) \<and>
     (\<forall>r m. hl_accepts lib r m \<longleftrightarrow> m = r \<or> (r = GET \<and> m = HEAD))"

section \<open>Serving a request\<close>

text \<open>
  The extractors of a REST handler run in order: user, then path, query or body. A path parameter is
  the decoded segment; the id has to be a UUID as well.
\<close>

definition path_param ::
  "http_lib \<Rightarrow> (string \<times> string) list \<Rightarrow> string \<Rightarrow> (string \<Rightarrow> http_error + 'a) \<Rightarrow> http_error + 'a" where
  "path_param lib params name parse =
     (case map_of params name of
        None \<Rightarrow> Inl (500, hl_path_error lib [])
      | Some seg \<Rightarrow>
          (case hl_decode lib seg of None \<Rightarrow> Inl (400, hl_path_error lib seg) | Some value \<Rightarrow> parse value))"

definition rest_call_of ::
  "http_lib \<Rightarrow> codecs \<Rightarrow> endpoint \<Rightarrow> (string \<times> string) list \<Rightarrow> string \<Rightarrow> string \<Rightarrow>
   (http_error + rest_call) option" where
  "rest_call_of lib c e params query_text body =
     (case e of
        EList \<Rightarrow> Some (map_sum id ListNotifications (hl_query lib query_text))
      | EMarkRead \<Rightarrow>
          Some (path_param lib params ''id'' (\<lambda>value.
            map_sum (\<lambda>_. (400, hl_path_error lib value)) MarkRead (c_uuid_parse c value)))
      | EMarkAll \<Rightarrow> Some (Inr MarkAllRead)
      | EListDevices \<Rightarrow> Some (Inr ListDevices)
      | ERegister \<Rightarrow> Some (map_sum id RegisterDevice (hl_body lib body))
      | ERevoke \<Rightarrow>
          Some (path_param lib params ''token'' (\<lambda>token. Inr (RevokeDevice token)))
      | _ \<Rightarrow> None)"

record 'r http_request =
  hq_method :: http_method
  hq_path :: string
  hq_query :: string
  hq_body :: string
  hq_role :: 'r
  hq_headers :: headers

text \<open>What answers: a REST handler, a probe, the metrics page, the socket upgrade, or nobody.\<close>

datatype http_response =
    Rest "http_error + rest_body"
  | Probe "nat \<times> json"
  | MetricsPage
  | SocketUpgrade
  | NotAllowed
  | NoRoute

definition serve_http ::
  "http_lib \<Rightarrow> ('s, 'r) api \<Rightarrow> int \<Rightarrow> consumer_health \<Rightarrow> 'r http_request \<Rightarrow> 's \<Rightarrow> http_response \<times> 's" where
  "serve_http lib A clock h req s =
     (case route lib (hq_method req) (hq_path req) of
        Unrouted \<Rightarrow> (NoRoute, s)
      | MethodNotAllowed \<Rightarrow> (NotAllowed, s)
      | Reached e params \<Rightarrow>
          (case rest_call_of lib (o_codecs (ap_orchestrator A)) e params (hq_query req) (hq_body req) of
             Some call \<Rightarrow>
               (case (case user_context A (hq_headers req) of
                        Inl err \<Rightarrow> failE err
                      | Inr _ \<Rightarrow> (case call of Inl err \<Rightarrow> failE err
                          | Inr rc \<Rightarrow> rest A (hq_role req) (hq_headers req) rc)) s of
                  (r, s') \<Rightarrow> (Rest r, s'))
           | None \<Rightarrow>
               (case e of
                  EHealth \<Rightarrow> (Probe health_check, s)
                | ELive \<Rightarrow> (Probe health_live, s)
                | EReady \<Rightarrow> (Probe (health_ready clock h), s)
                | EMetrics \<Rightarrow> (MetricsPage, s)
                | _ \<Rightarrow> (SocketUpgrade, s))))"

section \<open>The documented operations\<close>

text \<open>
  The \<^verbatim>\<open>utoipa::path\<close> attribute of each handler, and the operations \<^verbatim>\<open>ApiDoc\<close> gathers. \<open>op_endpoint\<close>
  is the handler the attribute stands on.
\<close>

record operation =
  op_method :: http_method
  op_path :: string
  op_endpoint :: endpoint
  op_tag :: string
  op_bearer :: bool
  op_statuses :: "nat list"

definition doc_health_check :: operation where
  "doc_health_check =
     \<lparr>op_method = GET, op_path = ''/health'', op_endpoint = EHealth,
      op_tag = ''health'', op_bearer = False, op_statuses = [200]\<rparr>"

definition doc_list_notifications :: operation where
  "doc_list_notifications =
     \<lparr>op_method = GET, op_path = ''/api/v1/noti'', op_endpoint = EList,
      op_tag = ''notifications'', op_bearer = True, op_statuses = [200, 403, 500]\<rparr>"

definition doc_mark_notification_as_read :: operation where
  "doc_mark_notification_as_read =
     \<lparr>op_method = PATCH, op_path = ''/api/v1/noti/{id}'', op_endpoint = EMarkRead,
      op_tag = ''notifications'', op_bearer = True, op_statuses = [200, 403, 500]\<rparr>"

definition doc_mark_all_notifications_as_read :: operation where
  "doc_mark_all_notifications_as_read =
     \<lparr>op_method = POST, op_path = ''/api/v1/noti/read-all'', op_endpoint = EMarkAll,
      op_tag = ''notifications'', op_bearer = True, op_statuses = [200, 403, 500]\<rparr>"

definition doc_register_device :: operation where
  "doc_register_device =
     \<lparr>op_method = POST, op_path = ''/api/v1/noti/devices'', op_endpoint = ERegister,
      op_tag = ''devices'', op_bearer = True, op_statuses = [200, 400, 403, 500]\<rparr>"

definition doc_revoke_device :: operation where
  "doc_revoke_device =
     \<lparr>op_method = DELETE, op_path = ''/api/v1/noti/devices/{token}'', op_endpoint = ERevoke,
      op_tag = ''devices'', op_bearer = True, op_statuses = [200, 403, 500]\<rparr>"

definition doc_list_devices :: operation where
  "doc_list_devices =
     \<lparr>op_method = GET, op_path = ''/api/v1/noti/devices'', op_endpoint = EListDevices,
      op_tag = ''devices'', op_bearer = True, op_statuses = [200, 403, 500]\<rparr>"

definition documented :: "operation list" where
  "documented =
     [doc_health_check,
      doc_list_notifications,
      doc_mark_notification_as_read,
      doc_mark_all_notifications_as_read,
      doc_register_device,
      doc_revoke_device,
      doc_list_devices]"

text \<open>The tags and the security scheme the document declares, by name.\<close>

definition declared_tags :: "string list" where
  "declared_tags = [''notifications'', ''devices'', ''health'']"

lemmas documented_defs = documented_def doc_health_check_def doc_list_notifications_def
  doc_mark_notification_as_read_def doc_mark_all_notifications_as_read_def doc_register_device_def
  doc_revoke_device_def doc_list_devices_def

text \<open>The operation that documents a REST call, and the status of its answer.\<close>

fun operation_of :: "rest_call \<Rightarrow> operation" where
  "operation_of (ListNotifications _) = doc_list_notifications"
| "operation_of (MarkRead _) = doc_mark_notification_as_read"
| "operation_of MarkAllRead = doc_mark_all_notifications_as_read"
| "operation_of (RegisterDevice _) = doc_register_device"
| "operation_of (RevokeDevice _) = doc_revoke_device"
| "operation_of ListDevices = doc_list_devices"

definition rest_status :: "http_error + rest_body \<Rightarrow> nat" where
  "rest_status r = (case r of Inl (n, _) \<Rightarrow> n | Inr _ \<Rightarrow> 200)"

text \<open>The status of a response; those of the upgrade and of the catch-all are the library's.\<close>

definition http_status :: "nat \<Rightarrow> nat \<Rightarrow> http_response \<Rightarrow> nat" where
  "http_status upgrade unrouted response =
     (case response of
        Rest r \<Rightarrow> rest_status r
      | Probe (n, _) \<Rightarrow> n
      | MetricsPage \<Rightarrow> 200
      | SocketUpgrade \<Rightarrow> upgrade
      | NotAllowed \<Rightarrow> 405
      | NoRoute \<Rightarrow> unrouted)"

definition routed :: "(http_method \<times> string \<times> endpoint) list" where
  "routed = concat (map (\<lambda>(p, ms). map (\<lambda>(m, e). (m, p, e)) ms) routes)"

section \<open>Facts\<close>

lemma route_static:
  assumes "http_lib_ok lib" and "p \<in> set (map fst routes)" and "CHR ''{'' \<notin> set p"
  shows "route lib m p =
    (case List.find (\<lambda>(r, _). m = r \<or> (r = GET \<and> m = HEAD)) (the (map_of routes p)) of
       None \<Rightarrow> MethodNotAllowed | Some (_, e) \<Rightarrow> Reached e [])"
proof -
  have "map_of routes p \<noteq> None" using assms(2) by (simp add: map_of_eq_None_iff)
  then obtain ms where "map_of routes p = Some ms" by blast
  moreover have "hl_match lib (map fst routes) p = Some (p, [])"
    "hl_accepts lib = (\<lambda>r m. m = r \<or> (r = GET \<and> m = HEAD))"
    using assms unfolding http_lib_ok_def by (auto simp: fun_eq_iff)
  ultimately show ?thesis by (simp add: route_def)
qed

lemma route_param:
  assumes "http_lib_ok lib" and "pre @ ''{'' @ x @ ''}'' \<in> set (map fst routes)" and "seg \<noteq> []"
    and "CHR 0x2F \<notin> set seg"
    and "\<not> (pre @ seg \<in> set (map fst routes) \<and> CHR ''{'' \<notin> set (pre @ seg))"
  shows "route lib m (pre @ seg) =
    (case List.find (\<lambda>(r, _). m = r \<or> (r = GET \<and> m = HEAD))
       (the (map_of routes (pre @ ''{'' @ x @ ''}''))) of
       None \<Rightarrow> MethodNotAllowed | Some (_, e) \<Rightarrow> Reached e [(x, seg)])"
proof -
  have "map_of routes (pre @ ''{'' @ x @ ''}'') \<noteq> None" using assms(2) by (simp add: map_of_eq_None_iff)
  then obtain ms where "map_of routes (pre @ ''{'' @ x @ ''}'') = Some ms" by blast
  moreover have "hl_match lib (map fst routes) (pre @ seg) = Some (pre @ ''{'' @ x @ ''}'', [(x, seg)])"
    "hl_accepts lib = (\<lambda>r m. m = r \<or> (r = GET \<and> m = HEAD))"
    using assms unfolding http_lib_ok_def by (blast, auto simp: fun_eq_iff)
  ultimately show ?thesis by (simp add: route_def)
qed

section \<open>Statuses\<close>

text \<open>The statuses an action may fail with.\<close>

definition fails_in :: "nat set \<Rightarrow> ('s, 'a) handler \<Rightarrow> bool" where
  "fails_in S m \<longleftrightarrow> (\<forall>s e s'. m s = (Inl e, s') \<longrightarrow> fst e \<in> S)"

named_theorems fails_intros

lemma fails_bindE [fails_intros]:
  "fails_in S m \<Longrightarrow> (\<And>x. fails_in S (f x)) \<Longrightarrow> fails_in S (bindE m f)"
  unfolding fails_in_def by (blast elim: bindE_cases)

lemma fails_mapErr [fails_intros]: "500 \<in> S \<Longrightarrow> fails_in S (mapErr internal_error m)"
  unfolding fails_in_def by (auto simp: mapErr_def split: prod.splits) (case_tac x1; simp)

lemma fails_failE [fails_intros]: "n \<in> S \<Longrightarrow> fails_in S (failE (n, msg))"
  and fails_retE [fails_intros]: "fails_in S (retE x)"
  and fails_require_role [fails_intros]: "403 \<in> S \<Longrightarrow> fails_in S (require_role A role)"
  by (auto simp: fails_in_def failE_def retE_def require_role_def split: sum.splits)

lemma fails_rest:
  "user_context A hs = Inr user \<Longrightarrow>
   fails_in (set (op_statuses (operation_of call))) (rest A role hs call)"
  by (cases call)
     (auto simp: rest_def documented_defs list_notifications_def mark_notification_as_read_def
       mark_all_notifications_as_read_def register_device_def revoke_device_def list_devices_def
       simp del: retE_apply failE_apply intro!: fails_intros split: option.split)

lemma rest_statuses:
  "rest_status (fst (rest A role hs call s)) \<in> insert 401 (set (op_statuses (operation_of call)))"
proof (cases "user_context A hs")
  case (Inl e)
  then have "fst e = 401" by (auto simp: user_context_def split: option.splits sum.splits)
  with Inl show ?thesis by (cases e) (simp add: rest_status_def rest_unauthorised)
next
  case (Inr user)
  obtain r s' where r: "rest A role hs call s = (r, s')" by (metis surj_pair)
  have "200 \<in> set (op_statuses (operation_of call))" by (cases call) (simp_all add: documented_defs)
  with fails_rest [OF Inr, of call role] r show ?thesis
    by (cases r) (auto simp: fails_in_def rest_status_def)
qed

text \<open>The call extracted at an endpoint is one its operation describes.\<close>

lemma extracted_operation:
  "rest_call_of lib c e params query_text body = Some (Inr call) \<Longrightarrow>
     operation_of call \<in> set documented \<and> op_endpoint (operation_of call) = e"
  by (cases e)
     (auto simp: rest_call_of_def path_param_def documented_defs map_sum_def
       split: option.splits sum.splits)

lemma serve_extracted:
  assumes "route lib (hq_method req) (hq_path req) = Reached e params"
    and "rest_call_of lib (o_codecs (ap_orchestrator A)) e params (hq_query req) (hq_body req) = Some (Inr call)"
  shows "serve_http lib A clock h req s =
    (case rest A (hq_role req) (hq_headers req) call s of (r, s') \<Rightarrow> (Rest r, s'))"
proof (cases "user_context A (hq_headers req)")
  case (Inl err)
  then show ?thesis using assms rest_unauthorised [OF Inl] by (simp add: serve_http_def)
next
  case (Inr user)
  then show ?thesis using assms by (simp add: serve_http_def)
qed

lemma serve_rejected:
  assumes "route lib (hq_method req) (hq_path req) = Reached e params"
    and "rest_call_of lib (o_codecs (ap_orchestrator A)) e params (hq_query req) (hq_body req) = Some (Inl err)"
  shows "serve_http lib A clock h req s =
    (Rest (Inl (case user_context A (hq_headers req) of Inl e \<Rightarrow> e | Inr _ \<Rightarrow> err)), s)"
  using assms by (simp add: serve_http_def split: sum.split)

end
