(* ===== verification/Claims_Routes.thy ===== *)
theory Claims_Routes
  imports Routes Metrics Claims_Edge
begin

text \<open>
  Properties of the HTTP surface: which handler a request reaches, the requests that are REST
  calls, the API document, and the labels of the request counter.
\<close>

section \<open>Routing\<close>

lemma two_parameters:
  "pre @ ''{'' @ x @ ''}'' \<in> set (map fst routes) \<longleftrightarrow>
     pre = ''/api/v1/noti/'' \<and> x = ''id'' \<or> pre = ''/api/v1/noti/devices/'' \<and> x = ''token''"
proof -
  have one: "pre @ CHR ''{'' # x = p @ CHR ''{'' # y \<longleftrightarrow> pre = p \<and> x = y"
    if "CHR ''{'' \<notin> set p" "CHR ''{'' \<notin> set y" for p y
    using that append_Cons_eq_iff [of "CHR ''{''" p y pre x] by auto
  have none: "pre @ CHR ''{'' # z \<noteq> p" if "CHR ''{'' \<notin> set p" for p z using that by auto
  have "pre @ ''{'' @ x @ ''}'' \<in> set (map fst routes) \<longleftrightarrow>
      pre @ CHR ''{'' # x = ''/api/v1/noti/{id'' \<or> pre @ CHR ''{'' # x = ''/api/v1/noti/devices/{token''"
    by (simp add: routes_def noti_rest_def none)
  with one [of "''/api/v1/noti/''" "''id''"] one [of "''/api/v1/noti/devices/''" "''token''"]
  show ?thesis by simp
qed

text \<open>A matcher as \<^verbatim>\<open>axum\<close> documents it: a static route first, then a final parameter.\<close>

definition final_parameter :: "string \<Rightarrow> (string \<times> string) option" where
  "final_parameter pat =
     (case dropWhile (\<lambda>ch. ch \<noteq> CHR ''{'') pat of
        [] \<Rightarrow> None
      | _ # name \<Rightarrow> Some (takeWhile (\<lambda>ch. ch \<noteq> CHR ''{'') pat, butlast name))"

fun match_parameter :: "string list \<Rightarrow> string \<Rightarrow> (string \<times> (string \<times> string) list) option" where
  "match_parameter [] path = None"
| "match_parameter (pat # pats) path =
     (case final_parameter pat of
        Some (pre, x) \<Rightarrow>
          (let seg = drop (length pre) path in
           if take (length pre) path = pre \<and> seg \<noteq> [] \<and> CHR 0x2F \<notin> set seg
           then Some (pat, [(x, seg)]) else match_parameter pats path)
      | None \<Rightarrow> match_parameter pats path)"

definition static_first :: "string list \<Rightarrow> string \<Rightarrow> (string \<times> (string \<times> string) list) option" where
  "static_first pats path =
     (if path \<in> set pats \<and> CHR ''{'' \<notin> set path then Some (path, []) else match_parameter pats path)"

text \<open>Percent-decoding, byte by byte; a percent sign that starts no escape stays.\<close>

definition hex_value :: "char \<Rightarrow> nat option" where
  "hex_value ch = (let n = of_char ch in
     if 48 \<le> n \<and> n \<le> 57 then Some (n - 48) else if 65 \<le> n \<and> n \<le> 70 then Some (n - 55)
     else if 97 \<le> n \<and> n \<le> 102 then Some (n - 87) else None)"

fun percent_decode :: "string \<Rightarrow> string" where
  "percent_decode (ch # a # b # us) =
     (case (hex_value a, hex_value b) of
        (Some x, Some y) \<Rightarrow>
          if ch = CHR ''%'' then char_of (16 * x + y) # percent_decode us
          else ch # percent_decode (a # b # us)
      | _ \<Rightarrow> ch # percent_decode (a # b # us))"
| "percent_decode s = s"

lemma percent_decode_plain: "CHR ''%'' \<notin> set s \<Longrightarrow> percent_decode s = s"
  by (induction s rule: percent_decode.induct) (auto split: option.split)

definition sample_http :: http_lib where
  "sample_http =
     \<lparr>hl_match = static_first, hl_accepts = (\<lambda>r m. m = r \<or> (r = GET \<and> m = HEAD)),
      hl_query = (\<lambda>_. Inr \<lparr>lp_limit = None, lp_offset = None\<rparr>), hl_body = (\<lambda>_. Inl (422, ''no body'')),
      hl_decode = Some \<circ> percent_decode, hl_path_error = id\<rparr>"

lemma match_routes:
  assumes "seg \<noteq> []" and "CHR 0x2F \<notin> set seg"
  shows "match_parameter (map fst routes) (''/api/v1/noti/'' @ seg) =
      Some (''/api/v1/noti/{id}'', [(''id'', seg)])"
    and "match_parameter (map fst routes) (''/api/v1/noti/devices/'' @ seg) =
      Some (''/api/v1/noti/devices/{token}'', [(''token'', seg)])"
  using assms by (simp_all add: routes_def noti_rest_def final_parameter_def Let_def)

lemma sample_http_ok: "http_lib_ok sample_http"
proof -
  have "static_first (map fst routes) (pre @ seg) = Some (pre @ ''{'' @ x @ ''}'', [(x, seg)])"
    if "pre @ ''{'' @ x @ ''}'' \<in> set (map fst routes)" "seg \<noteq> []" "CHR 0x2F \<notin> set seg"
      "\<not> (pre @ seg \<in> set (map fst routes) \<and> CHR ''{'' \<notin> set (pre @ seg))" for pre x seg
    using that(1) [unfolded two_parameters] that(4) match_routes [OF that(2,3)]
    by (elim disjE conjE) (simp_all add: static_first_def)
  then show ?thesis
    by (auto simp: http_lib_ok_def sample_http_def static_first_def percent_decode_plain)
qed

lemma static_routes:
  assumes "http_lib_ok lib"
  shows "route lib PATCH ''/api/v1/noti/read-all'' = MethodNotAllowed"
    and "route lib PATCH ''/api/v1/noti/devices'' = MethodNotAllowed"
    and "route lib POST ''/api/v1/noti/read-all'' = Reached EMarkAll []"
    and "route lib POST ''/api/v1/noti/devices'' = Reached ERegister []"
    and "route lib GET ''/api/v1/noti/devices'' = Reached EListDevices []"
    and "route lib GET ''/api/v1/noti'' = Reached EList []"
    and "route lib GET ''/api/v1/noti/'' = Reached EList []"
  by (subst route_static [OF assms]; simp add: routes_def noti_rest_def)+

lemma route_noti:
  assumes "http_lib_ok lib" and "seg \<noteq> []" and "CHR 0x2F \<notin> set seg"
  shows "route lib PATCH (''/api/v1/noti/'' @ seg) =
      (if seg = ''read-all'' \<or> seg = ''devices'' then MethodNotAllowed else Reached EMarkRead [(''id'', seg)])"
    and "route lib DELETE (''/api/v1/noti/devices/'' @ seg) = Reached ERevoke [(''token'', seg)]"
proof -
  have patterns: "''/api/v1/noti/'' @ ''{'' @ ''id'' @ ''}'' \<in> set (map fst routes)"
    "''/api/v1/noti/devices/'' @ ''{'' @ ''token'' @ ''}'' \<in> set (map fst routes)"
    using two_parameters [of "''/api/v1/noti/''" "''id''"]
      two_parameters [of "''/api/v1/noti/devices/''" "''token''"] by blast+
  have static: "''/api/v1/noti/'' @ seg \<in> set (map fst routes) \<and> CHR ''{'' \<notin> set seg \<longleftrightarrow>
      seg = ''read-all'' \<or> seg = ''devices''"
    using assms(2,3) by (auto simp: routes_def noti_rest_def)
  have deep: "\<not> (''/api/v1/noti/devices/'' @ seg \<in> set (map fst routes) \<and> CHR ''{'' \<notin> set seg)"
    using assms(2,3) by (auto simp: routes_def noti_rest_def)
  show "route lib PATCH (''/api/v1/noti/'' @ seg) =
      (if seg = ''read-all'' \<or> seg = ''devices'' then MethodNotAllowed else Reached EMarkRead [(''id'', seg)])"
  proof (cases "seg = ''read-all'' \<or> seg = ''devices''")
    case True
    with static_routes [OF assms(1)] show ?thesis by (elim disjE) simp_all
  next
    case False
    with static have "\<not> (''/api/v1/noti/'' @ seg \<in> set (map fst routes) \<and>
        CHR ''{'' \<notin> set (''/api/v1/noti/'' @ seg))" by simp
    from route_param [OF assms(1) patterns(1) assms(2,3) this] False show ?thesis
      by (simp add: routes_def noti_rest_def)
  qed
  from deep have "\<not> (''/api/v1/noti/devices/'' @ seg \<in> set (map fst routes) \<and>
      CHR ''{'' \<notin> set (''/api/v1/noti/devices/'' @ seg))" by simp
  from route_param [OF assms(1) patterns(2) assms(2,3) this]
  show "route lib DELETE (''/api/v1/noti/devices/'' @ seg) = Reached ERevoke [(''token'', seg)]"
    by (simp add: routes_def noti_rest_def)
qed

text \<open>
  C34. A request reaches the handler its path names. Below the collection a segment is a notification
  id for PATCH, except the two static names, which refuse PATCH; a segment below the devices is a
  token for DELETE; both spellings of the collection list. The segment is percent-decoded: a PATCH
  whose decoded segment is an id is exactly the call that marks that notification, one whose segment
  does not decode or is no id is answered 400 and changes nothing, and a DELETE revokes the decoded
  token. A caller without a user is answered before that.
\<close>

theorem requests_reach_handlers:
  assumes "http_lib_ok lib" and "seg \<noteq> []" and "CHR 0x2F \<notin> set seg"
    and "hq_method req = PATCH" and "hq_path req = ''/api/v1/noti/'' @ seg"
    and "seg \<noteq> ''read-all''" and "seg \<noteq> ''devices''"
    and "hq_method req' = DELETE" and "hq_path req' = ''/api/v1/noti/devices/'' @ seg"
  shows "serve_http lib A clock h req s =
      (case hl_decode lib seg of
         None \<Rightarrow> (Rest (Inl (case user_context A (hq_headers req) of
             Inl e \<Rightarrow> e | Inr _ \<Rightarrow> (400, hl_path_error lib seg))), s)
       | Some value \<Rightarrow>
           (case c_uuid_parse (o_codecs (ap_orchestrator A)) value of
              Inr i \<Rightarrow> (case rest A (hq_role req) (hq_headers req) (MarkRead i) s of (r, s') \<Rightarrow> (Rest r, s'))
            | Inl _ \<Rightarrow> (Rest (Inl (case user_context A (hq_headers req) of
                Inl e \<Rightarrow> e | Inr _ \<Rightarrow> (400, hl_path_error lib value))), s))) \<and>
    serve_http lib A clock h req' s =
      (case hl_decode lib seg of
         None \<Rightarrow> (Rest (Inl (case user_context A (hq_headers req') of
             Inl e \<Rightarrow> e | Inr _ \<Rightarrow> (400, hl_path_error lib seg))), s)
       | Some token \<Rightarrow>
           (case rest A (hq_role req') (hq_headers req') (RevokeDevice token) s of (r, s') \<Rightarrow> (Rest r, s'))) \<and>
    route lib PATCH ''/api/v1/noti/read-all'' = MethodNotAllowed \<and>
    route lib PATCH ''/api/v1/noti/devices'' = MethodNotAllowed \<and>
    route lib POST ''/api/v1/noti/read-all'' = Reached EMarkAll [] \<and>
    route lib POST ''/api/v1/noti/devices'' = Reached ERegister [] \<and>
    route lib GET ''/api/v1/noti/devices'' = Reached EListDevices [] \<and>
    route lib GET ''/api/v1/noti'' = Reached EList [] \<and> route lib GET ''/api/v1/noti/'' = Reached EList []"
proof -
  let ?c = "o_codecs (ap_orchestrator A)"
  have patch: "route lib (hq_method req) (hq_path req) = Reached EMarkRead [(''id'', seg)]"
    unfolding assms(4,5) using route_noti(1) [OF assms(1-3)] assms(6,7) by simp
  have delete: "route lib (hq_method req') (hq_path req') = Reached ERevoke [(''token'', seg)]"
    unfolding assms(8,9) by (rule route_noti(2) [OF assms(1-3)])
  note simps = rest_call_of_def path_param_def
  show ?thesis
    using static_routes [OF assms(1)] serve_extracted [OF patch, of A] serve_rejected [OF patch, of A]
      serve_extracted [OF delete, of A] serve_rejected [OF delete, of A]
    by (cases "hl_decode lib seg"; cases "c_uuid_parse ?c (the (hl_decode lib seg))") (simp_all add: simps)
qed

text \<open>A segment that is no id, and a token with an escape.\<close>

abbreviation patch_nine :: "unit http_request" where
  "patch_nine \<equiv> \<lparr>hq_method = PATCH, hq_path = ''/api/v1/noti/n%69ne'', hq_query = [], hq_body = [],
     hq_role = (), hq_headers = nine\<rparr>"

abbreviation delete_nine :: "unit http_request" where
  "delete_nine \<equiv> \<lparr>hq_method = DELETE, hq_path = ''/api/v1/noti/devices/n%69ne'', hq_query = [], hq_body = [],
     hq_role = (), hq_headers = nine\<rparr>"

lemma requests_reach_handlers_witness:
  "fst (serve_http sample_http sample_api 0 health_new patch_nine (sample_world [] [])) =
     Rest (Inl (400, ''nine'')) \<and>
   fst (serve_http sample_http sample_api 0 health_new delete_nine (sample_world [] [])) =
     Rest (fst (rest sample_api () nine (RevokeDevice ''nine'') (sample_world [] [])))"
proof -
  have decoded: "hl_decode sample_http ''n%69ne'' = Some ''nine''" by code_simp
  have bad: "c_uuid_parse (o_codecs (ap_orchestrator sample_api)) ''nine'' = Inl ''bad uuid''"
    by code_simp
  have "hq_path patch_nine = ''/api/v1/noti/'' @ ''n%69ne''"
    "hq_path delete_nine = ''/api/v1/noti/devices/'' @ ''n%69ne''" by simp_all
  from requests_reach_handlers [OF sample_http_ok _ _ _ this(1) _ _ _ this(2), of sample_api 0 health_new
      "sample_world [] []"] bad sample_user decoded
  show ?thesis by (simp add: sample_http_def split: prod.split)
qed

section \<open>The API document\<close>

text \<open>
  C35. The API document matches the server: each operation it describes is routed, by the method and
  path it gives, to the handler it stands on, and uses a declared tag. A request that is extracted
  as a REST call is described by an operation of the document on that endpoint, and is answered with
  a status the operation lists, or 401; one that the extraction of path, query or body rejects is
  answered with the status of the rejection, or 401 (400 for an id that is no UUID, which the
  document does not list). The health check answers the status it documents.
\<close>

theorem api_document_matches:
  assumes "route lib (hq_method req) (hq_path req) = Reached e params"
    and "rest_call_of lib (o_codecs (ap_orchestrator A)) e params (hq_query req) (hq_body req) = Some extracted"
    and "serve_http lib A clock h req s = (response, s')"
  shows "(\<lambda>op. (op_method op, op_path op, op_endpoint op)) ` set documented \<subseteq> set routed \<and>
    op_tag ` set documented \<subseteq> set declared_tags \<and>
    (case extracted of
       Inr call \<Rightarrow> operation_of call \<in> set documented \<and> op_endpoint (operation_of call) = e \<and>
         http_status upgrade unrouted response \<in> insert 401 (set (op_statuses (operation_of call)))
     | Inl (n, _) \<Rightarrow> http_status upgrade unrouted response \<in> {401, n} \<and> s' = s) \<and>
    fst health_check \<in> set (op_statuses doc_health_check)"
proof (intro conjI)
  show "(\<lambda>op. (op_method op, op_path op, op_endpoint op)) ` set documented \<subseteq> set routed"
    by (simp add: documented_defs routed_def routes_def noti_rest_def)
  show "op_tag ` set documented \<subseteq> set declared_tags"
    by (simp add: documented_defs declared_tags_def)
  show "fst health_check \<in> set (op_statuses doc_health_check)"
    by (simp add: health_check_def documented_defs)
  show "case extracted of
       Inr call \<Rightarrow> operation_of call \<in> set documented \<and> op_endpoint (operation_of call) = e \<and>
         http_status upgrade unrouted response \<in> insert 401 (set (op_statuses (operation_of call)))
     | Inl (n, _) \<Rightarrow> http_status upgrade unrouted response \<in> {401, n} \<and> s' = s"
  proof (cases extracted)
    case (Inl err)
    have "fst x = 401" if "user_context A (hq_headers req) = Inl x" for x
      using that by (auto simp: user_context_def split: option.splits sum.splits)
    with serve_rejected [OF assms(1) assms(2) [unfolded Inl]] assms(3) Inl show ?thesis
      by (cases err) (auto simp: http_status_def rest_status_def split: sum.splits)
  next
    case (Inr call)
    from serve_extracted [OF assms(1) assms(2) [unfolded Inr]] assms(3)
    have "response = Rest (fst (rest A (hq_role req) (hq_headers req) call s))"
      by (auto split: prod.splits)
    with extracted_operation [OF assms(2) [unfolded Inr]] rest_statuses [of A] Inr show ?thesis
      by (simp add: http_status_def)
  qed
qed

lemma sample_routed: "route sample_http PATCH ''/api/v1/noti/n%69ne'' = Reached EMarkRead [(''id'', ''n%69ne'')]"
  using route_noti(1) [OF sample_http_ok, of "''n%69ne''"] by simp

text \<open>The document does not list the 400 of an id that is no UUID.\<close>

lemma malformed_id_is_undocumented:
  "serve_http sample_http sample_api 0 health_new patch_nine s = (Rest (Inl (400, ''nine'')), s) \<and>
   400 \<notin> set (op_statuses doc_mark_notification_as_read)"
proof -
  have routed: "route sample_http (hq_method patch_nine) (hq_path patch_nine) =
      Reached EMarkRead [(''id'', ''n%69ne'')]"
    using sample_routed by simp
  have "rest_call_of sample_http (o_codecs (ap_orchestrator sample_api)) EMarkRead [(''id'', ''n%69ne'')]
      (hq_query patch_nine) (hq_body patch_nine) = Some (Inl (400, ''nine''))"
    by code_simp
  from serve_rejected [OF routed this] sample_user show ?thesis
    by (simp add: doc_mark_notification_as_read_def split: sum.split)
qed

lemma api_document_matches_witness:
  "http_status 101 404 (fst (serve_http sample_http sample_api 0 health_new patch_nine (sample_world [] []))) \<in>
     {401, 400}"
proof -
  obtain response s' where run: "serve_http sample_http sample_api 0 health_new patch_nine (sample_world [] []) =
    (response, s')" by (metis surj_pair)
  have routed: "route sample_http (hq_method patch_nine) (hq_path patch_nine) =
      Reached EMarkRead [(''id'', ''n%69ne'')]"
    using sample_routed by simp
  have rejected: "rest_call_of sample_http (o_codecs (ap_orchestrator sample_api)) EMarkRead [(''id'', ''n%69ne'')]
      (hq_query patch_nine) (hq_body patch_nine) = Some (Inl (400, ''nine''))"
    by code_simp
  from api_document_matches [OF routed rejected run] run show ?thesis by simp
qed

end
