(* ===== verification/Process.thy ===== *)
theory Process
  imports Startup Metrics
begin

text \<open>
  The process around the service: where its configuration comes from (\<^verbatim>\<open>Config::from_env\<close>), the two
  servers and their graceful shutdown (the end of \<^verbatim>\<open>run\<close> in \<^verbatim>\<open>startup.rs\<close>), and \<^verbatim>\<open>main.rs\<close>. Times
  are milliseconds since the boot completed. Binding a port, and when a server has finished its
  requests, are given by the environment.
\<close>

section \<open>Where the configuration comes from\<close>

datatype config_source = FileSource string | EnvSource "string option" string

type_synonym raw_config = "string \<Rightarrow> string option"

text \<open>
  The \<^verbatim>\<open>config\<close> crate and \<^verbatim>\<open>serde\<close>: reading one source, building all of them, and giving the
  fields their types.
\<close>

record config_lib =
  cl_reads :: "config_source \<Rightarrow> raw_config"
  cl_build :: "config_source list \<Rightarrow> string + raw_config"
  cl_typed :: "raw_config \<Rightarrow> string + sources"
  cl_missing :: "raw_config \<Rightarrow> string"

definition config_sources :: "string option \<Rightarrow> config_source list" where
  "config_sources run_mode =
     [FileSource ''config/default'',
      FileSource (''config/'' @ unwrap_or ''development'' run_mode),
      EnvSource None ''__'',
      EnvSource (Some ''APP'') ''__'']"

definition from_env :: "config_lib \<Rightarrow> string option \<Rightarrow> noti_error + config" where
  "from_env lib run_mode =
     (case cl_build lib (config_sources run_mode) of
        Inl e \<Rightarrow> Inl (Internal (''config build error: '' @ e))
      | Inr s \<Rightarrow>
          (case cl_typed lib s of
             Inl e \<Rightarrow> Inl (Internal (''config deserialize error: '' @ e))
           | Inr so \<Rightarrow>
               (case read_config so of
                  None \<Rightarrow> Inl (Internal (''config deserialize error: '' @ cl_missing lib s))
                | Some c \<Rightarrow> Inr c)))"

text \<open>
  What the crate documents: a source added later overrides an earlier one, and a text field is
  read as the text the sources give.
\<close>

definition last_given :: "(config_source \<Rightarrow> raw_config) \<Rightarrow> config_source list \<Rightarrow> raw_config" where
  "last_given reads srcs = fold (\<lambda>src m. m ++ reads src) srcs Map.empty"

definition config_lib_ok :: "config_lib \<Rightarrow> bool" where
  "config_lib_ok lib \<longleftrightarrow>
     (\<forall>srcs m. cl_build lib srcs = Inr m \<longrightarrow> m = last_given (cl_reads lib) srcs) \<and>
     (\<forall>m so. cl_typed lib m = Inr so \<longrightarrow>
        so_database_url so = m ''database_url'' \<and> so_kafka_brokers so = m ''kafka_brokers'' \<and>
        so_rabbitmq_url so = m ''rabbitmq_url'' \<and> so_redis_url so = m ''redis_url'' \<and>
        so_jwt_secret so = m ''jwt_secret'')"

text \<open>The required settings, and the first value a list of candidates gives.\<close>

definition settings_of :: "config \<Rightarrow> raw_config" where
  "settings_of c =
     [''database_url'' \<mapsto> cf_database_url c, ''kafka_brokers'' \<mapsto> cf_kafka_brokers c,
      ''rabbitmq_url'' \<mapsto> cf_rabbitmq_url c, ''redis_url'' \<mapsto> cf_redis_url c,
      ''jwt_secret'' \<mapsto> cf_jwt_secret c]"

fun first_given :: "'a option list \<Rightarrow> 'a option" where
  "first_given [] = None"
| "first_given (Some v # vs) = Some v"
| "first_given (None # vs) = first_given vs"

section \<open>The servers\<close>

text \<open>Binding a port, with those the process has bound already.\<close>

type_synonym bind = "16 word list \<Rightarrow> 16 word \<Rightarrow> string + unit"

definition bind_listeners :: "bind \<Rightarrow> service \<Rightarrow> string + unit" where
  "bind_listeners binds sv =
     (case binds [] (sv_http_port sv) of
        Inl e \<Rightarrow> Inl (''Failed to bind HTTP listener: '' @ e)
      | Inr _ \<Rightarrow>
          (case binds [sv_http_port sv] (sv_grpc_port sv) of
             Inl e \<Rightarrow> Inl (''Failed to bind gRPC listener: '' @ e)
           | Inr _ \<Rightarrow> Inr ()))"

text \<open>
  When the token is cancelled, and when each server, once the token is cancelled, has finished its
  requests; \<open>None\<close> is never.
\<close>

record serving =
  sg_cancelled :: "nat option"
  sg_http_done :: "nat option"
  sg_grpc_done :: "nat option"

text \<open>The task that binds and then waits for both servers: when it ends.\<close>

definition servers_done :: "bind \<Rightarrow> service \<Rightarrow> serving \<Rightarrow> nat option" where
  "servers_done binds sv sg =
     (case bind_listeners binds sv of
        Inl _ \<Rightarrow> Some 0
      | Inr _ \<Rightarrow>
          (case (sg_http_done sg, sg_grpc_done sg) of
             (Some h, Some g) \<Rightarrow> Some (max h g) | _ \<Rightarrow> None))"

definition drain_deadline_ms :: nat where
  "drain_deadline_ms = 30000"

record shutdown =
  sh_returned :: nat
  sh_aborted :: bool

text \<open>Waiting for the token, then for the servers until the deadline; \<open>None\<close> waits for ever.\<close>

definition await_shutdown :: "bind \<Rightarrow> service \<Rightarrow> serving \<Rightarrow> shutdown option" where
  "await_shutdown binds sv sg =
     (case sg_cancelled sg of
        None \<Rightarrow> None
      | Some t \<Rightarrow>
          (case servers_done binds sv sg of
             Some d \<Rightarrow>
               if d \<le> t + drain_deadline_ms then Some \<lparr>sh_returned = max t d, sh_aborted = False\<rparr>
               else Some \<lparr>sh_returned = t + drain_deadline_ms, sh_aborted = True\<rparr>
           | None \<Rightarrow> Some \<lparr>sh_returned = t + drain_deadline_ms, sh_aborted = True\<rparr>))"

text \<open>
  The servers are tasks of their own: aborting the task that waits for them leaves them running.
\<close>

definition left_serving :: "bind \<Rightarrow> service \<Rightarrow> serving \<Rightarrow> nat \<Rightarrow> string set" where
  "left_serving binds sv sg at =
     (case bind_listeners binds sv of
        Inl _ \<Rightarrow> {}
      | Inr _ \<Rightarrow>
          (if \<exists>h. sg_http_done sg = Some h \<and> h \<le> at then {} else {''http''}) \<union>
          (if \<exists>g. sg_grpc_done sg = Some g \<and> g \<le> at then {} else {''grpc''}))"

section \<open>Running the service\<close>

datatype 'a run_end = RunError string | Returned_at shutdown 'a | StillWaiting 'a

definition run ::
  "libs \<Rightarrow> infra \<Rightarrow> config \<Rightarrow> bind \<Rightarrow> serving \<Rightarrow> metrics \<Rightarrow> world \<Rightarrow>
   service run_end \<times> metrics \<times> world" where
  "run L I c binds sg m w =
     (case boot L I c w of
        (Inl e, w') \<Rightarrow> (RunError e, install_recorder m, w')
      | (Inr sv, w') \<Rightarrow>
          (case await_shutdown binds sv sg of
             Some sh \<Rightarrow> Returned_at sh sv | None \<Rightarrow> StillWaiting sv,
           install_recorder m, w'))"

datatype process_end = Exit nat | Running

text \<open>The exit status of the process; a configuration error exits before the service is run.\<close>

definition main_process ::
  "libs \<Rightarrow> infra \<Rightarrow> config_lib \<Rightarrow> string option \<Rightarrow> bind \<Rightarrow> serving \<Rightarrow> world \<Rightarrow> process_end" where
  "main_process L I lib run_mode binds sg w =
     (let m = install_recorder \<lparr>mt_recorder = NoRecorder, mt_handle = False\<rparr> in
      case from_env lib run_mode of
        Inl _ \<Rightarrow> Exit 1
      | Inr c \<Rightarrow>
          (case fst (run L I c binds sg m w) of
             RunError _ \<Rightarrow> Exit 1 | Returned_at _ _ \<Rightarrow> Exit 0 | StillWaiting _ \<Rightarrow> Running))"

section \<open>Facts\<close>

lemma last_given_snoc: "last_given reads (srcs @ [src]) = last_given reads srcs ++ reads src"
  by (simp add: last_given_def)

lemma first_given_Cons: "first_given (v # vs) = (case v of Some x \<Rightarrow> Some x | None \<Rightarrow> first_given vs)"
  by (cases v) simp_all

lemma last_given_first: "last_given reads srcs k = first_given (map (\<lambda>src. reads src k) (rev srcs))"
  by (induction srcs rule: rev_induct)
     (simp_all add: last_given_snoc first_given_Cons map_add_def last_given_def split: option.split)

lemma from_env_Inr:
  assumes "from_env lib run_mode = Inr c"
  obtains m so where "cl_build lib (config_sources run_mode) = Inr m" and "cl_typed lib m = Inr so"
    and "read_config so = Some c"
  using assms by (auto simp: from_env_def split: sum.splits option.splits)

lemma read_config_required:
  assumes "read_config so = Some c"
  shows "so_database_url so = Some (cf_database_url c)"
    and "so_kafka_brokers so = Some (cf_kafka_brokers c)"
    and "so_rabbitmq_url so = Some (cf_rabbitmq_url c)"
    and "so_redis_url so = Some (cf_redis_url c)" and "so_jwt_secret so = Some (cf_jwt_secret c)"
  using assms unfolding read_config_def by (auto split: Option.bind_splits)

lemma await_shutdown_deadline:
  assumes "sg_cancelled sg = Some t"
  shows "\<exists>sh. await_shutdown binds sv sg = Some sh \<and> t \<le> sh_returned sh \<and>
    sh_returned sh \<le> t + drain_deadline_ms \<and>
    (sh_aborted sh \<longleftrightarrow> \<not> (\<exists>d \<le> t + drain_deadline_ms. servers_done binds sv sg = Some d))"
  using assms by (auto simp: await_shutdown_def split: option.splits)

lemma not_aborted_drained:
  assumes "await_shutdown binds sv sg = Some sh" and "\<not> sh_aborted sh"
  shows "left_serving binds sv sg (sh_returned sh) = {}"
  using assms
  by (auto simp: await_shutdown_def servers_done_def left_serving_def
      split: option.splits sum.splits if_splits)

lemma aborted_still_serving:
  assumes "await_shutdown binds sv sg = Some sh" and "sh_aborted sh"
  shows "left_serving binds sv sg (sh_returned sh) \<noteq> {}"
  using assms
  by (auto simp: await_shutdown_def servers_done_def left_serving_def
      split: option.splits sum.splits if_splits)

end
