(* ===== verification/Claims_Process.thy ===== *)
theory Claims_Process
  imports Routes Process Claims_Delivery Claims_Edge
begin

text \<open>
  Properties of the service as a whole process: an accepted request ends settled, requests reach
  the handlers the routes name, the API document is true, and the process starts and stops as its
  configuration and its token say, each with a concrete instance.
\<close>

section \<open>From acceptance to settlement\<close>

text \<open>
  C3. While the database answers, every request with a new key is accepted: it is stored as exactly
  one new pending row, returned by its identifier, and handed over (its task published, or run by a
  task of the process when the broker refuses). Whatever the providers answer, six dispatches of that
  task settle the notification, as sent or permanently failed.
\<close>

theorem accepted_request_settles:
  assumes "world_up w" and "fresh_ids w" and "encodes (world_orch L dp)"
    and "key_conflict key (t_rows (w_notifications w)) = None"
  shows "\<exists>i r w'. queue_notification (world_orch L dp) user channel recipient template vars key w =
      (Inr i, w') \<and> t_rows (w_notifications w') = t_rows (w_notifications w) @ [r] \<and>
    r_id r = i \<and> r_status r = PendingDb \<and> r_idempotency_key r = key \<and> r_user_id r = user \<and>
    r_recipient r = recipient \<and> handed_over L i w' \<and>
    (\<exists>d. world_life (redispatch (world_orch L dp) i 6 w') i = Some d \<and> settled (dl_status d))"
proof -
  let ?i = "net_random (w_net w) (net_calls (w_net w))"
  let ?r = "inserted_row (t_jsonb (w_notifications w))
    (queued_record w user channel recipient template vars key)"
  have up: "table_up (w_notifications w)" using assms(1) by (simp add: world_up_def)
  from queue_new [OF up assms(4,2), of L dp user channel recipient template vars] obtain w' where
    run: "queue_notification (world_orch L dp) user channel recipient template vars key w = (Inr ?i, w')"
    and rows: "t_rows (w_notifications w') = t_rows (w_notifications w) @ [?r]"
    and over: "handed_over L ?i w'" and up': "table_up (w_notifications w')" by blast
  have r: "r_id ?r = ?i" "r_status ?r = PendingDb" "r_idempotency_key ?r = key" "r_user_id ?r = user"
    "r_recipient ?r = recipient" "r_retry_count ?r = 0"
    by (simp_all add: inserted_row_def queued_record_def new_notification_def Let_def)
  have "distinct (map r_id (t_rows (w_notifications w')))"
    using up' by (simp add: table_up_def table_ok_def rows_ok_def)
  from row_unique [OF this, of ?r] rows r(1) have "row (t_rows (w_notifications w')) ?i = Some ?r" by simp
  then have "world_life w' ?i = Some (row_life ?r)" by (simp add: life_def)
  moreover have "attempts_left (row_life ?r) \<le> 6" "dl_retry (row_life ?r) \<le> max_retries"
    using r(2,6) by (simp_all add: attempts_left_def row_life_def max_retries_def)
  ultimately have "\<exists>d. world_life (redispatch (world_orch L dp) ?i 6 w') ?i = Some d \<and>
      settled (dl_status d)"
    using up' assms(3) by (intro live.redispatch_settles) (auto simp: world_up_def)
  with run rows over r show ?thesis by blast
qed

lemma accepted_request_settles_witness:
  "\<exists>i w' d. queue_notification sample_orch (Some 9) Push ''9'' ''push/x'' (JObj []) (Some ''k'')
      (fresh_world []) = (Inr i, w') \<and> handed_over sample_libs i w' \<and>
     world_life (redispatch sample_orch i 6 w') i = Some d \<and> settled (dl_status d)"
proof -
  have "world_up (fresh_world [])" using fresh_world_up(1) by (simp add: world_up_def)
  moreover have "key_conflict (Some ''k'') (t_rows (w_notifications (fresh_world []))) = None"
    by (simp add: fresh_world_up key_conflict_def)
  ultimately show ?thesis
    using accepted_request_settles [OF _ fresh_world_up(2) sample_encodes [unfolded sample_orch_def]]
    unfolding sample_orch_def by meson
qed

section \<open>The process\<close>

text \<open>
  C36. Once the token is cancelled the service returns within thirty seconds. It aborts exactly when
  the servers have not drained by then; without an abort no server is left running, and with one
  some server is, because the abort reaches only the task that waits for them.
\<close>

theorem shutdown_within_deadline:
  assumes "boot L I c w = (Inr sv, w')" and "sg_cancelled sg = Some t"
  shows "\<exists>sh. run L I c binds sg m w = (Returned_at sh sv, install_recorder m, w') \<and>
    t \<le> sh_returned sh \<and> sh_returned sh \<le> t + 30000 \<and>
    (sh_aborted sh \<longleftrightarrow> \<not> (\<exists>d \<le> t + 30000. servers_done binds sv sg = Some d)) \<and>
    (sh_aborted sh \<longleftrightarrow> left_serving binds sv sg (sh_returned sh) \<noteq> {})"
proof -
  from await_shutdown_deadline [OF assms(2), of binds sv] obtain sh where
    sh: "await_shutdown binds sv sg = Some sh" "t \<le> sh_returned sh"
      "sh_returned sh \<le> t + drain_deadline_ms"
      "sh_aborted sh \<longleftrightarrow> \<not> (\<exists>d \<le> t + drain_deadline_ms. servers_done binds sv sg = Some d)" by blast
  with not_aborted_drained [OF sh(1)] aborted_still_serving [OF sh(1)] assms(1) show ?thesis
    by (auto simp: run_def drain_deadline_ms_def)
qed

definition sample_config :: config where
  "sample_config = the (read_config sample_sources)"

lemma sample_boots: "\<exists>sv w'. boot sample_libs sample_infra sample_config (sample_world [] []) = (Inr sv, w')"
  using sample_boot_runs by (simp add: sample_boot_def sample_config_def)

lemma shutdown_within_deadline_witness:
  "\<exists>sh sv m' w'. run sample_libs sample_infra sample_config (\<lambda>_ _. Inr ())
       \<lparr>sg_cancelled = Some 1000, sg_http_done = Some 1200, sg_grpc_done = None\<rparr>
       \<lparr>mt_recorder = NoRecorder, mt_handle = False\<rparr> (sample_world [] []) = (Returned_at sh sv, m', w') \<and>
     sh_aborted sh \<and> sh_returned sh \<le> 31000"
proof -
  let ?sg = "\<lparr>sg_cancelled = Some 1000, sg_http_done = Some 1200, sg_grpc_done = None\<rparr>"
  obtain sv w' where boot: "boot sample_libs sample_infra sample_config (sample_world [] []) = (Inr sv, w')"
    using sample_boots by blast
  have "servers_done (\<lambda>_ _. Inr ()) sv ?sg = None" by (simp add: servers_done_def bind_listeners_def)
  with shutdown_within_deadline [OF boot, of ?sg 1000 "\<lambda>_ _. Inr ()"
      "\<lparr>mt_recorder = NoRecorder, mt_handle = False\<rparr>"] show ?thesis by fastforce
qed

text \<open>
  C37. A port that cannot be bound goes unnoticed: nothing is served, yet the service waits until
  the token is cancelled and then returns at once without an error, so the process exits with 0.
\<close>

theorem bind_failure_unnoticed:
  assumes "boot L I c w = (Inr sv, w')" and "bind_listeners binds sv = Inl e"
    and "from_env lib run_mode = Inr c"
  shows "left_serving binds sv sg at = {} \<and>
    fst (run L I c binds sg m w) =
      (case sg_cancelled sg of None \<Rightarrow> StillWaiting sv
       | Some t \<Rightarrow> Returned_at \<lparr>sh_returned = t, sh_aborted = False\<rparr> sv) \<and>
    main_process L I lib run_mode binds sg w = (if sg_cancelled sg = None then Running else Exit 0)"
  using assms
  by (auto simp: run_def main_process_def left_serving_def await_shutdown_def servers_done_def
      split: option.split)

text \<open>A library that reads a fixed set of sources.\<close>

definition sample_config_lib :: config_lib where
  "sample_config_lib =
     \<lparr>cl_reads = (\<lambda>src. case src of
          FileSource _ \<Rightarrow> [''redis_url'' \<mapsto> ''redis:'', ''jwt_secret'' \<mapsto> ''s'',
            ''kafka_brokers'' \<mapsto> ''k:9092'', ''rabbitmq_url'' \<mapsto> ''amqp:'']
        | EnvSource None _ \<Rightarrow> [''database_url'' \<mapsto> ''postgres:plain'']
        | EnvSource (Some _) _ \<Rightarrow> [''database_url'' \<mapsto> ''postgres:'']),
      cl_build = (\<lambda>srcs. Inr (last_given (\<lambda>src. case src of
          FileSource _ \<Rightarrow> [''redis_url'' \<mapsto> ''redis:'', ''jwt_secret'' \<mapsto> ''s'',
            ''kafka_brokers'' \<mapsto> ''k:9092'', ''rabbitmq_url'' \<mapsto> ''amqp:'']
        | EnvSource None _ \<Rightarrow> [''database_url'' \<mapsto> ''postgres:plain'']
        | EnvSource (Some _) _ \<Rightarrow> [''database_url'' \<mapsto> ''postgres:'']) srcs)),
      cl_typed = (\<lambda>m. Inr (sample_sources\<lparr>so_database_url := m ''database_url'',
        so_kafka_brokers := m ''kafka_brokers'', so_rabbitmq_url := m ''rabbitmq_url'',
        so_redis_url := m ''redis_url'', so_jwt_secret := m ''jwt_secret''\<rparr>)),
      cl_missing = (\<lambda>_. ''missing field'')\<rparr>"

lemma sample_config_lib_ok: "config_lib_ok sample_config_lib"
  by (simp add: config_lib_ok_def sample_config_lib_def)

lemma sample_from_env: "from_env sample_config_lib None = Inr sample_config"
  by (simp add: from_env_def sample_config_lib_def config_sources_def last_given_def
      sample_config_def sample_sources_def read_config_def)

lemma bind_failure_unnoticed_witness:
  "main_process sample_libs sample_infra sample_config_lib None (\<lambda>_ _. Inl ''in use'')
     \<lparr>sg_cancelled = Some 5, sg_http_done = None, sg_grpc_done = None\<rparr> (sample_world [] []) = Exit 0"
proof -
  obtain sv w' where boot: "boot sample_libs sample_infra sample_config (sample_world [] []) = (Inr sv, w')"
    using sample_boots by blast
  have "bind_listeners (\<lambda>_ _. Inl ''in use'') sv = Inl (''Failed to bind HTTP listener: '' @ ''in use'')"
    by (simp add: bind_listeners_def)
  from bind_failure_unnoticed [OF boot this sample_from_env] show ?thesis by simp
qed

text \<open>
  Each required setting has the value of the last source that gives it: a prefixed environment
  variable overrides a plain one, which overrides the file of the run mode, which overrides the
  default file; and a configuration that is read leaves none of them out.
\<close>

theorem config_precedence:
  assumes "from_env lib run_mode = Inr c" and "config_lib_ok lib"
    and "k \<in> {''database_url'', ''kafka_brokers'', ''rabbitmq_url'', ''redis_url'', ''jwt_secret''}"
  shows "settings_of c k = first_given (map (\<lambda>src. cl_reads lib src k)
      [EnvSource (Some ''APP'') ''__'', EnvSource None ''__'',
       FileSource (''config/'' @ unwrap_or ''development'' run_mode), FileSource ''config/default'']) \<and>
    settings_of c k \<noteq> None"
proof -
  from assms(1) obtain m so where m: "cl_build lib (config_sources run_mode) = Inr m"
    "cl_typed lib m = Inr so" "read_config so = Some c" by (rule from_env_Inr)
  have "m = last_given (cl_reads lib) (config_sources run_mode)"
    using assms(2) m(1) by (simp add: config_lib_ok_def)
  then have merged: "m k = first_given (map (\<lambda>src. cl_reads lib src k) (rev (config_sources run_mode)))"
    by (simp only: last_given_first)
  have "m k = settings_of c k" "settings_of c k \<noteq> None"
    using assms(2,3) m(2) read_config_required [OF m(3)]
    by (auto simp: config_lib_ok_def settings_of_def)
  with merged show ?thesis by (simp add: config_sources_def)
qed

lemma config_precedence_witness:
  "cf_database_url sample_config = ''postgres:'' \<and> cf_redis_url sample_config = ''redis:''"
  using config_precedence [OF sample_from_env sample_config_lib_ok, of "''database_url''"]
    config_precedence [OF sample_from_env sample_config_lib_ok, of "''redis_url''"]
  by (simp add: sample_config_lib_def settings_of_def)

end
