(* ===== verification/Claims_Catalogue.thy ===== *)
theory Claims_Catalogue
  imports Catalogue Samples
begin

text \<open>
  Properties of the event catalogue: the documented table of events is what the handlers do, and
  the templates get every variable they print. Each has a concrete instance.
\<close>

text \<open>
  C10. The documented table of events is exact: over all payloads an event asks for precisely the
  channels, templates and variables of its row, nothing for an event that has none. A push goes
  out only beside a socket message to the same user under another key.
\<close>

theorem documented_events_exact:
  assumes "uuid_roundtrip c"
  shows "(\<Union>data. kind_of ` set (event_batch c frontend_url ctx etype data)) = set (kinds_of_event etype) \<and>
    (\<forall>data. push_beside_socket (event_batch c frontend_url ctx etype data))"
proof (intro conjI subset_antisym)
  show "(\<Union>data. kind_of ` set (event_batch c frontend_url ctx etype data)) \<subseteq> set (kinds_of_event etype)"
    using fits_event [of etype c frontend_url ctx] by (auto simp: fits_def)
  show "set (kinds_of_event etype) \<subseteq> (\<Union>data. kind_of ` set (event_batch c frontend_url ctx etype data))"
    using reached_event [OF assms, of frontend_url ctx etype] by blast
  show "\<forall>data. push_beside_socket (event_batch c frontend_url ctx etype data)"
    using fits_event [of etype c frontend_url ctx] by (simp add: fits_def)
qed

lemma documented_events_exact_witness:
  "(\<Union>data. kind_of ` set (event_batch sample_codecs None \<lparr>mc_partition = 0, mc_offset = 7, mc_event_id = None\<rparr>
      ''OrderUpdate'' data)) =
     {(WebSocket, ''order_update.txt.tera'', [''order_id'', ''filled_amount'', ''status'']),
      (Push, ''push_notification.txt.tera'', [''title'', ''body''])}"
  using documented_events_exact [OF sample_roundtrip, of None
      "\<lparr>mc_partition = 0, mc_offset = 7, mc_event_id = None\<rparr>" "''OrderUpdate''"]
  by (simp add: row_of push_kind_def)

text \<open>
  C11. If \<^verbatim>\<open>tera\<close> renders a shipped template once its variables are there, every notification an
  event asks for renders, in the form that is sent and in the text form a list shows.
\<close>

theorem event_notifications_render:
  assumes "tera_ok e" and "r \<in> set (event_batch c frontend_url ctx etype data)"
  shows "(\<exists>text. render e (rq_template r) (rq_variables r) = Inr text) \<and>
    (\<exists>text. render e (text_template_id (rq_template r)) (rq_variables r) = Inr text)"
  using assms(2)
proof (rule event_fills)
  fix kvs
  assume "rq_variables r = JObj kvs" "fills (rq_template r) (map fst kvs)"
    "fills (text_template_id (rq_template r)) (map fst kvs)"
  with render_fills [OF assms(1)] show ?thesis by simp
qed

definition plain_engine :: engine where
  "plain_engine =
     \<lparr>en_tera = (\<lambda>template context. if fills template (map fst context) then Inr template
        else Inl ''undefined variable''),
      en_context = (\<lambda>v. case v of JObj kvs \<Rightarrow> Inr kvs | _ \<Rightarrow> Inl ''not an object'')\<rparr>"

abbreviation locked_request :: request where
  "locked_request \<equiv> queue_email None ''a@b'' ''account_locked.html.tera''
     [(''identifier'', JStr ''a@b''), (''lockout_minutes'', json_nat 2)] ''account_locked:e''"

lemma locked_batch:
  "event_batch sample_codecs None \<lparr>mc_partition = 0, mc_offset = 7, mc_event_id = Some ''e''\<rparr> ''AccountLocked''
     (JObj [(''identifier'', JStr ''a@b''), (''lockout_secs'', JNum (PosInt 61))]) = [locked_request]"
  by code_simp

lemma event_notifications_render_witness:
  "\<exists>text. render plain_engine ''account_locked.txt.tera'' (rq_variables locked_request) = Inr text"
proof -
  have "tera_ok plain_engine" by (simp add: tera_ok_def plain_engine_def)
  moreover have "text_template_id (rq_template locked_request) = ''account_locked.txt.tera''" by code_simp
  moreover have "locked_request \<in> set (event_batch sample_codecs None
      \<lparr>mc_partition = 0, mc_offset = 7, mc_event_id = Some ''e''\<rparr> ''AccountLocked''
      (JObj [(''identifier'', JStr ''a@b''), (''lockout_secs'', JNum (PosInt 61))]))"
    by (simp add: locked_batch)
  ultimately show ?thesis
    using event_notifications_render [of plain_engine locked_request] by metis
qed

end
