(* ===== verification/Crash.thy ===== *)
theory Crash
  imports Workers Admission Service
begin

text \<open>
  A process that stops at any await, and the next one. What survives is the rows of the table; the
  tasks of the process are gone. A worker that is stopped leaves its notification where the life
  cycle allows, a request that is stopped leaves no row or a pending one, and the recovery sweep of
  the next boot hands over rows that are due or stuck and no other, all of them when its limit
  covers them.
\<close>

section \<open>A restart\<close>

text \<open>\<open>w'\<close> is the state of the next process at its boot: the rows, new logs, no task.\<close>

definition restarted :: "world \<Rightarrow> world \<Rightarrow> bool" where
  "restarted w w' \<longleftrightarrow> t_rows (w_notifications w') = t_rows (w_notifications w) \<and> world_up w' \<and>
     bk_log (w_broker w') = [] \<and> net_tasks (w_net w') = []"

text \<open>Long enough after the stop: past the row's retry time, and past the threshold.\<close>

definition overdue :: "int \<Rightarrow> uuid \<Rightarrow> notification_table \<Rightarrow> bool" where
  "overdue threshold i t \<longleftrightarrow> (\<forall>r \<in> set (t_rows t). r_id r = i \<longrightarrow>
     r_next_retry_at r \<le> db_now t + secs 5 \<and> r_updated_at r < db_now t - secs threshold)"

text \<open>The sweep hands the notification over, and dispatching it \<open>n\<close> times settles it.\<close>

definition recovers :: "libs \<Rightarrow> deployment \<Rightarrow> int \<Rightarrow> int \<Rightarrow> uuid \<Rightarrow> nat \<Rightarrow> world \<Rightarrow> bool" where
  "recovers L dp threshold limit i n w \<longleftrightarrow>
     (\<exists>k w' d d'. recover_pending (world_orch L dp) threshold limit w = (Inr k, w') \<and>
        world_life w' i = Some d \<and> (settled (dl_status d) \<or> handed_over L i w') \<and>
        world_life (redispatch (world_orch L dp) i n w') i = Some d' \<and> settled (dl_status d'))"

lemma world_life_restarted: "restarted w w' \<Longrightarrow> world_life w' = world_life w"
  unfolding restarted_def by (intro life_eqI) simp

section \<open>The sweep\<close>

text \<open>The statements keep the table answering.\<close>

lemma healthy_stmts:
  "healthy (snd (create n t)) = healthy t" "healthy (snd (reset_stuck_processing th t)) = healthy t"
  "healthy (snd (mark_as_read i u t)) = healthy t" "healthy (snd (mark_all_as_read u t)) = healthy t"
  "healthy (snd (get_by_id i t)) = healthy t" "healthy (snd (get_pending_for_retry l t)) = healthy t"
  "healthy (snd (list_by_user u l off t)) = healthy t" "healthy (snd (get_unread_count u t)) = healthy t"
  unfolding create_def reset_stuck_processing_def mark_as_read_def mark_all_as_read_def get_by_id_def
    get_pending_for_retry_def list_by_user_def get_unread_count_def Let_def
  by (rule healthy_exec healthy_query)+

lemma keeps_world_up:
  "keeps table_ok m \<Longrightarrow> (\<And>t. healthy (snd (m t)) = healthy t) \<Longrightarrow> keeps world_up (on_notifications m)"
  by (simp add: keeps_def world_up_def table_up_def lift_apply)

lemma keeps_world_up_other:
  "keeps world_up (on_net m)" "keeps world_up (on_redis m')" "keeps world_up (on_broker m'')"
  by (simp_all add: keeps_def world_up_def lift_apply)

lemma keeps_world_up_spawn: "keeps world_up (spawn (world_orch L dp) task)"
  by (simp add: keeps_def world_up_def spawn_world)

interpretation answering: intake_invariant "world_orch L dp" world_up for L dp
  by unfold_locales
     (auto simp: now_world healthy_stmts intro!: keeps_world_up keeps_world_up_other keeps_world_up_spawn
       keeps_table_ok)

lemma recover_evolves:
  assumes "recover_pending (world_orch L dp) threshold limit w = (Inr k, w')"
  shows "lives_evolve (world_life w) (world_life w')"
  using life_reset [of "w_notifications w" threshold] life_eqI [OF recover_run(2) [OF assms]]
  by (simp add: swept_def)

text \<open>One hand-over for each row picked.\<close>

lemma hands_over_counts: "hands_over L ids w w' \<Longrightarrow> handovers w' = handovers w + length ids"
proof -
  assume "hands_over L ids w w'"
  then obtain p t q where one: "task_texts L p t" "bk_log (w_broker w') = bk_log (w_broker w) @ map dispatch_op t"
    "net_tasks (w_net w') = net_tasks (w_net w) @ map DispatchTask q" "mset p + mset q = mset ids"
    unfolding hands_over_def by blast
  then have "length p + length q = length ids" by (metis size_mset size_union)
  with one show ?thesis by (auto simp: handovers_def task_texts_def dest: list_all2_lengthD)
qed

lemma recover_counts:
  "recover_pending (world_orch L dp) threshold limit w = (Inr k, w') \<Longrightarrow> handovers w' = handovers w + k"
  using hands_over_counts [OF recover_run(3)] recover_run(1) by fastforce

text \<open>
  A sweep under a steady clock: it hands over as many rows of the backlog as the limit allows, each
  once, and nothing else.
\<close>

lemma recover_exact:
  assumes up: "table_up (w_notifications w)" and "t = w_notifications w" and "steady_clock t" and "0 \<le> limit"
  shows "\<exists>ids w'. recover_pending (world_orch L dp) threshold limit w = (Inr (length ids), w') \<and>
    hands_over L ids w w' \<and> distinct ids \<and> set ids \<subseteq> r_id ` set (backlog threshold t) \<and>
    length ids = min (nat limit) (length (backlog threshold t)) \<and>
    (int (length (backlog threshold t)) \<le> limit \<longrightarrow> set ids = r_id ` set (backlog threshold t)) \<and>
    t_rows (w_notifications w') = update_where (stuck threshold (db_now t))
      (\<lambda>r. r\<lparr>r_status := PendingDb, r_next_retry_at := db_now t, r_updated_at := db_now t\<rparr>) (t_rows t)"
proof -
  obtain k w' where run: "recover_pending (world_orch L dp) threshold limit w = (Inr k, w')"
    using recover_total [OF up assms(4)] by blast
  have t: "healthy t" "distinct (map r_id (t_rows t))"
    using up assms(2) by (simp_all add: table_up_def table_ok_def rows_ok_def)
  note p = picked_ids [OF t, of threshold limit] recover_run [OF run]
  have "r_id ` set (picked threshold limit t) = r_id ` set (backlog threshold t)"
    if "int (length (backlog threshold t)) \<le> limit"
    using that by (intro picked_all [OF t assms(3)]) simp
  then show ?thesis
    using run p(1,2,5,6,7) p(4) [OF assms(3)] swept_rows [OF t(1), of threshold] assms(2)
    by (intro exI [of _ "map r_id (picked threshold limit t)"] exI [of _ w']) simp
qed

text \<open>A row that is open and overdue is due or stuck.\<close>

lemma overdue_swept:
  assumes "overdue threshold i t" and "r \<in> set (t_rows t)" and "r_id r = i"
    and "open_status (status_of_db (r_status r))"
  shows "due (db_now t) r \<or> stuck threshold (db_now t) r"
  using assms by (cases "r_status r") (auto simp: overdue_def due_def stuck_def open_status_def)

lemma overdue_backlog:
  assumes "overdue threshold i t" and "steady_clock t" and "r \<in> set (t_rows t)" and "r_id r = i"
    and "open_status (status_of_db (r_status r))"
  shows "i \<in> r_id ` set (backlog threshold t)"
  using overdue_swept [OF assms(1,3-5)] assms(2-4)
  by (force simp: backlog_def steady_clock_def due_def)

lemma restart_recovers:
  assumes up: "world_up w" and d: "world_life w i = Some d" "dl_retry d \<le> max_retries"
    and late: "overdue threshold i (w_notifications w)" and clock: "steady_clock (w_notifications w)"
    and limit: "0 \<le> limit" "int (length (backlog threshold (w_notifications w))) \<le> limit"
    and total: "encodes (world_orch L dp)" and n: "nat (max_retries + 1 - dl_retry d) \<le> n"
  shows "recovers L dp threshold limit i n w"
proof -
  let ?t = "w_notifications w"
  have t: "table_up ?t" using up by (simp add: world_up_def)
  obtain k w' where run: "recover_pending (world_orch L dp) threshold limit w = (Inr k, w')"
    using recover_total [OF t limit(1)] by blast
  have up': "world_up w'" by (rule keeps_run [OF answering.recover_keeps run up])
  obtain d' where d': "world_life w' i = Some d'" "life_steps d d'"
    using recover_evolves [OF run] d(1) by (auto simp: lives_evolve_def)
  note bounds = life_steps_retry_mono [OF d'(2)] life_steps_retry_bound [OF d'(2) d(2)]
  have "settled (dl_status d') \<or> handed_over L i w'"
  proof (cases "settled (dl_status d)")
    case True
    with life_steps_settled [OF d'(2)] show ?thesis by simp
  next
    case False
    obtain r where r: "r \<in> set (t_rows ?t)" "r_id r = i" "d = row_life r"
      using d(1) by (auto simp: life_def dest: row_Some)
    with False have "open_status (status_of_db (r_status r))" by (simp add: settled_def row_life_def)
    then have "i \<in> r_id ` set (backlog threshold ?t)" by (rule overdue_backlog [OF late clock r(1,2)])
    moreover have "healthy ?t" "distinct (map r_id (t_rows ?t))"
      using t by (simp_all add: table_up_def table_ok_def rows_ok_def)
    from picked_all [OF this clock, of threshold limit] limit(2)
    have "r_id ` set (picked threshold limit ?t) = r_id ` set (backlog threshold ?t)" by simp
    ultimately have "i \<in> set (map r_id (picked threshold limit ?t))" by simp
    from hands_over_each [OF recover_run(3) [OF run] this] show ?thesis ..
  qed
  moreover have "attempts_left d' \<le> n"
    using n bounds(1) by (auto simp: attempts_left_def)
  then have "\<exists>d''. world_life (redispatch (world_orch L dp) i n w') i = Some d'' \<and> settled (dl_status d'')"
    using live.redispatch_settles [OF up' d'(1)] bounds(2) total by blast
  ultimately show ?thesis using run d'(1) unfolding recovers_def by blast
qed

section \<open>A worker that is stopped\<close>

lemma track_bound:
  assumes "on_track enc d pt d'" and "dl_retry d \<le> max_retries"
  shows "dl_retry d \<le> dl_retry d' \<and> dl_retry d' \<le> max_retries"
  using assms
  by (cases pt) (auto simp: worker_outcome_def dispatch_outcome_def max_retries_def split: if_splits)

context delivery_up
begin

lemma run_track:
  assumes "up s" and "life s i = Some d'" and "on_track (encodes orch) d pt d'"
    and "worker_run orch i k pt s = (pt', s')"
  shows "up s' \<and> (\<exists>d''. life s' i = Some d'' \<and> on_track (encodes orch) d pt' d'')"
  using assms
proof (induction k arbitrary: pt s d')
  case (Suc k)
  obtain q s1 where step: "worker_step orch i pt s = (q, s1)" by (metis surj_pair)
  from track_step [OF Suc.prems(1-3) step] obtain d'' where
    "up s1" "life s1 i = Some d''" "on_track (encodes orch) d q d''"
    using Suc.prems(2) by auto
  with Suc.IH [OF this] Suc.prems(4) step show ?case by simp
qed auto

end

lemma stopped_worker:
  assumes up: "world_up w" and d: "world_life w i = Some d" "dl_retry d \<le> max_retries"
    and total: "encodes (world_orch L dp)"
    and run: "worker_run (world_orch L dp) i k Fetch w = (pt, w1)" and boot: "restarted w1 w2"
    and late: "overdue threshold i (w_notifications w2)" "steady_clock (w_notifications w2)"
    and limit: "0 \<le> limit" "int (length (backlog threshold (w_notifications w2))) \<le> limit"
  shows "recovers L dp threshold limit i (nat (max_retries + 1 - dl_retry d)) w2"
proof -
  have "on_track (encodes (world_orch L dp)) d Fetch d" by simp
  from live.run_track [OF up d(1) this run] obtain d' where
    d': "world_life w1 i = Some d'" "on_track (encodes (world_orch L dp)) d pt d'" by blast
  note b = track_bound [OF d'(2) d(2)]
  have "world_up w2" using boot by (simp add: restarted_def)
  moreover have "world_life w2 i = Some d'" using world_life_restarted [OF boot] d'(1) by simp
  moreover have "nat (max_retries + 1 - dl_retry d') \<le> nat (max_retries + 1 - dl_retry d)"
    using b by (intro nat_mono) simp
  ultimately show ?thesis using b late limit total by (intro restart_recovers) auto
qed

section \<open>A request that is stopped\<close>

text \<open>One request, alone: before its row is saved nothing is stored, afterwards its row is pending.\<close>

definition new_row :: "admission \<Rightarrow> world \<Rightarrow> notification_row" where
  "new_row a w = inserted_row (t_jsonb (w_notifications w))
     (queued_record w (ad_user a) (ad_channel a) (ad_recipient a) (ad_template a) (ad_variables a) (ad_key a))"

definition with_row :: "admission \<Rightarrow> world \<Rightarrow> world \<Rightarrow> bool" where
  "with_row a w w' \<longleftrightarrow> t_rows (w_notifications w') = t_rows (w_notifications w) @ [new_row a w]"

fun entry_at :: "admission \<Rightarrow> world \<Rightarrow> entry \<Rightarrow> world \<Rightarrow> bool" where
  "entry_at a w (Arrived b) w' \<longleftrightarrow> b = a \<and> w' = w"
| "entry_at a w (Save n) w' \<longleftrightarrow> w' = drawn w \<and>
     n = queued_record w (ad_user a) (ad_channel a) (ad_recipient a) (ad_template a) (ad_variables a) (ad_key a)"
| "entry_at a w (Remember i key) w' \<longleftrightarrow> i = r_id (new_row a w) \<and> with_row a w w'"
| "entry_at a w (HandOver i) w' \<longleftrightarrow> i = r_id (new_row a w) \<and> with_row a w w'"
| "entry_at a w (Answered r) w' \<longleftrightarrow> r = Inr (r_id (new_row a w)) \<and> with_row a w w'"

lemma new_row_simps [simp]:
  "r_id (new_row a w) = net_random (w_net w) (net_calls (w_net w))" "r_status (new_row a w) = PendingDb"
  "r_retry_count (new_row a w) = 0" "r_idempotency_key (new_row a w) = ad_key a"
  by (simp_all add: new_row_def)

lemma entry_at_step:
  assumes up: "table_up (w_notifications w)" and fresh: "fresh_ids w"
    and new: "key_conflict (ad_key a) (t_rows (w_notifications w)) = None"
    and at: "entry_at a w p w1" and step: "entry_step (world_orch L dp) p w1 = (p', w2)"
  shows "entry_at a w p' w2"
proof (cases p)
  case (Arrived b)
  with at step show ?thesis by (auto simp: draw_world)
next
  case (Save n)
  let ?t = "w_notifications w"
  have n: "n = queued_record w (ad_user a) (ad_channel a) (ad_recipient a) (ad_template a)
      (ad_variables a) (ad_key a)" and w1: "w1 = drawn w" using at Save by simp_all
  have "net_random (w_net w) (net_calls (w_net w)) \<notin> r_id ` set (t_rows ?t)"
    using fresh by (simp add: fresh_ids_def)
  then have "create n ?t = (Inr (into_domain (new_row a w)), ?t\<lparr>t_calls := Suc (t_calls ?t),
      t_rows := t_rows ?t @ [new_row a w]\<rparr>)"
    using up new by (simp add: create_def exec_healthy table_up_def Let_def n new_row_def)
  with Save step w1 n show ?thesis by (auto simp: lift_apply with_row_def)
next
  case (Remember i key)
  with at step show ?thesis
    by (auto simp: with_row_def split: prod.splits sum.splits dest!: cache_key_run)
next
  case (HandOver i)
  obtain x w3 where t: "trigger_dispatch (world_orch L dp) i w1 = (x, w3)" by (metis surj_pair)
  from trigger_run(1,4) [OF t] HandOver at step t show ?thesis by (auto simp: with_row_def)
next
  case (Answered r)
  with step have "p' = p" "w2 = w1" by auto
  with at show ?thesis by simp
qed

lemma entry_at_run:
  assumes "table_up (w_notifications w)" and "fresh_ids w"
    and "key_conflict (ad_key a) (t_rows (w_notifications w)) = None"
    and run: "run_entries (world_orch L dp) ks [Arrived a] w = (ps, w1)"
  shows "\<exists>p. ps = [p] \<and> entry_at a w p w1"
  by (rule run_tasks_invariant [of "\<lambda>qs v. \<exists>p. qs = [p] \<and> entry_at a w p v",
        OF _ run [unfolded run_entries_def]])
     (use entry_at_step [OF assms(1-3)] in auto)

lemma stopped_request:
  assumes up: "table_up (w_notifications w)" and fresh: "fresh_ids w" and total: "encodes (world_orch L dp)"
    and new: "key_conflict (ad_key a) (t_rows (w_notifications w)) = None"
    and run: "run_entries (world_orch L dp) ks [Arrived a] w = (ps, w1)" and boot: "restarted w1 w2"
    and late: "overdue threshold (r_id (new_row a w)) (w_notifications w2)" "steady_clock (w_notifications w2)"
    and limit: "0 \<le> limit" "int (length (backlog threshold (w_notifications w2))) \<le> limit"
  shows "(t_rows (w_notifications w1) = t_rows (w_notifications w) \<and> (\<forall>i. ps \<noteq> [Answered (Inr i)])) \<or>
    (with_row a w w1 \<and> (\<forall>i. ps = [Answered (Inr i)] \<longrightarrow> i = r_id (new_row a w)) \<and>
     recovers L dp threshold limit (r_id (new_row a w)) 6 w2)"
proof -
  let ?r = "new_row a w" and ?i = "r_id (new_row a w)"
  obtain p where p: "ps = [p]" "entry_at a w p w1" using entry_at_run [OF up fresh new run] by blast
  have "recovers L dp threshold limit ?i 6 w2" if row: "with_row a w w1"
  proof -
    have "world_up w2" using boot by (simp add: restarted_def)
    have rows: "t_rows (w_notifications w2) = t_rows (w_notifications w) @ [?r]"
      using boot row by (simp add: restarted_def with_row_def)
    have "distinct (map r_id (t_rows (w_notifications w2)))"
      using \<open>world_up w2\<close> by (simp add: world_up_def table_up_def table_ok_def rows_ok_def)
    from row_unique [OF this, of ?r] rows have "world_life w2 ?i = Some (row_life ?r)"
      by (simp add: life_def)
    from restart_recovers [OF \<open>world_up w2\<close> this _ late limit total, of 6] show ?thesis
      by (simp add: row_life_def max_retries_def)
  qed
  with p show ?thesis by (cases p) auto
qed

lemma entry_up:
  assumes up: "world_up w" and step: "entry_step (world_orch L dp) p w = (p', w')"
  shows "world_up w'"
proof (cases p)
  case (Arrived a)
  with step up show ?thesis by (auto simp: draw_world world_up_def)
next
  case (Save n)
  obtain x t' where c: "create n (w_notifications w) = (x, t')" by (metis surj_pair)
  with table_up_create [OF _ c] up Save step show ?thesis
    by (auto simp: lift_apply world_up_def split: sum.splits)
next
  case (Remember i key)
  with up step show ?thesis
    by (auto simp: world_up_def split: prod.splits sum.splits dest!: cache_key_run)
next
  case (HandOver i)
  obtain x w3 where t: "trigger_dispatch (world_orch L dp) i w = (x, w3)" by (metis surj_pair)
  from trigger_run(1,4) [OF t] HandOver up step t show ?thesis by (auto simp: world_up_def)
next
  case (Answered r)
  with up step show ?thesis by auto
qed

lemma entries_up: "world_up w \<Longrightarrow> world_up (snd (run_entries (world_orch L dp) ks ps w))"
  unfolding run_entries_def by (rule run_tasks_keeps) (metis entry_up surjective_pairing)

end
