(* ===== verification/Claims_Crash.thy ===== *)
theory Claims_Crash
  imports Crash Claims_Delivery
begin

text \<open>
  Properties of a service that stops at any await and starts again, each with a concrete instance:
  stopped deliveries and requests are recovered by the sweep of a later boot, what a sweep hands over
  under its limit, and a boot that comes too early strands a retry.
\<close>

text \<open>
  C5. While the database answers and JSON encodes, a delivery stopped at any await, whatever it has
  sent so far, is recovered when the next boot comes after its retry time and the threshold, the
  database clock is steady, and the rows then due or stuck are within the sweep's limit (1000 at
  boot): the sweep finds the notification settled or hands it over, and the attempts it has left
  settle it.
\<close>

theorem stopped_delivery_recovered:
  assumes "world_up w" and "world_life w i = Some d" and "dl_retry d \<le> max_retries"
    and "encodes (world_orch L dp)"
    and "worker_run (world_orch L dp) i k Fetch w = (pt, w1)" and "restarted w1 w2"
    and "overdue threshold i (w_notifications w2)" and "steady_clock (w_notifications w2)"
    and "0 \<le> limit" and "int (length (backlog threshold (w_notifications w2))) \<le> limit"
  shows "recovers L dp threshold limit i (nat (max_retries + 1 - dl_retry d)) w2"
  using assms by (rule stopped_worker)

definition rebooted_at :: "time \<Rightarrow> world \<Rightarrow> world" where
  "rebooted_at t w = w\<lparr>w_notifications := (w_notifications w)\<lparr>t_calls := 0, t_now := (\<lambda>n. t + int n)\<rparr>,
     w_broker := sample_broker, w_net := sample_net\<rparr>"

lemma rebooted_simps [simp]:
  "t_rows (w_notifications (rebooted_at t w)) = t_rows (w_notifications w)"
  "db_now (w_notifications (rebooted_at t w)) = t" "steady_clock (w_notifications (rebooted_at t w))"
  by (simp_all add: rebooted_at_def db_now_def steady_clock_def)

lemma restarted_rebooted: "world_up w \<Longrightarrow> restarted w (rebooted_at t w)"
  by (simp add: restarted_def rebooted_at_def world_up_def table_up_def table_ok_def healthy_def
      sample_broker_def sample_net_def)

lemma backlog_length: "length (backlog threshold t) \<le> length (t_rows t)"
  by (simp add: backlog_def)

abbreviation pending_world :: "string \<Rightarrow> world" where
  "pending_world to \<equiv> sample_world [sample_row 7 WebhookDb PendingDb to] []"

definition row_times :: "world \<Rightarrow> (uuid \<times> status_db \<times> time \<times> time) list" where
  "row_times w = map (\<lambda>r. (r_id r, r_status r, r_next_retry_at r, r_updated_at r)) (t_rows (w_notifications w))"

lemma claimed_times: "row_times (snd (worker_run sample_orch 7 2 Fetch (pending_world ''https://h/x''))) =
    [(7, ProcessingDb, 0, 1)]"
  by code_simp

lemma stopped_delivery_recovered_witness:
  "recovers sample_libs sample_deployment 300 1000 7 6
     (rebooted_at 1000000000 (snd (worker_run sample_orch 7 2 Fetch (pending_world ''https://h/x''))))"
proof -
  let ?w = "pending_world ''https://h/x''"
  obtain pt w1 where run: "worker_run sample_orch 7 2 Fetch ?w = (pt, w1)" by (metis surj_pair)
  have up: "world_up ?w" by (rule sample_up [OF sample_rows_ok])
  have "on_track (encodes sample_orch) d Fetch d" for d by simp
  from live.run_track [OF up sample_life this [unfolded sample_orch_def] run [unfolded sample_orch_def]]
  have up1: "world_up w1" by blast
  have times: "row_times w1 = [(7, ProcessingDb, 0, 1)]" using claimed_times run by simp
  have late: "overdue 300 7 (w_notifications (rebooted_at 1000000000 w1))" "length (t_rows (w_notifications w1)) = 1"
    using times by (auto simp: overdue_def row_times_def secs_def)
  with backlog_length [of 300 "w_notifications (rebooted_at 1000000000 w1)"]
  have "int (length (backlog 300 (w_notifications (rebooted_at 1000000000 w1)))) \<le> 1000" by simp
  with late(1) stopped_delivery_recovered [OF up sample_life _ sample_encodes [unfolded sample_orch_def]
      run [unfolded sample_orch_def] restarted_rebooted [OF up1, of 1000000000], of 300 1000] run
  show ?thesis by (simp add: max_retries_def)
qed

text \<open>
  C6. While the database answers and JSON encodes, a request with a new key that runs alone and is
  stopped at any await leaves either no row and no answer, or its one pending row; any answer
  already given was its identifier. The sweep of a boot after its retry time and the threshold hands
  that row over, and six dispatches settle it, if the database clock is steady and the rows then due
  or stuck are within the sweep's limit (1000 at boot).
\<close>

theorem stopped_request_recovered:
  assumes "table_up (w_notifications w)" and "fresh_ids w" and "encodes (world_orch L dp)"
    and "key_conflict (ad_key a) (t_rows (w_notifications w)) = None"
    and "run_entries (world_orch L dp) ks [Arrived a] w = (ps, w1)" and "restarted w1 w2"
    and "overdue threshold (r_id (new_row a w)) (w_notifications w2)" and "steady_clock (w_notifications w2)"
    and "0 \<le> limit" and "int (length (backlog threshold (w_notifications w2))) \<le> limit"
  shows "(t_rows (w_notifications w1) = t_rows (w_notifications w) \<and> (\<forall>i. ps \<noteq> [Answered (Inr i)])) \<or>
    (with_row a w w1 \<and> (\<forall>i. ps = [Answered (Inr i)] \<longrightarrow> i = r_id (new_row a w)) \<and>
     recovers L dp threshold limit (r_id (new_row a w)) 6 w2)"
  using assms by (rule stopped_request)

abbreviation push_request :: admission where
  "push_request \<equiv> \<lparr>ad_user = Some 9, ad_channel = Push, ad_recipient = ''9'', ad_template = ''push/x'',
     ad_variables = JObj [], ad_key = Some ''k''\<rparr>"

abbreviation saving :: "entry list \<times> world" where
  "saving \<equiv> run_entries sample_orch [0, 0] [Arrived push_request] (fresh_world [])"

lemma saved: "fst saving = [Remember 1000 (Some ''k'')]" "row_times (snd saving) = [(1000, PendingDb, 1, 3)]"
  "r_id (new_row push_request (fresh_world [])) = 1000"
  by code_simp+

lemma stopped_request_recovered_witness:
  "recovers sample_libs sample_deployment 300 1000 1000 6 (rebooted_at 1000000000 (snd saving))"
proof -
  obtain ps w1 where run: "run_entries sample_orch [0, 0] [Arrived push_request] (fresh_world []) = (ps, w1)"
    by (metis surj_pair)
  have new: "key_conflict (ad_key push_request) (t_rows (w_notifications (fresh_world []))) = None"
    by (simp add: fresh_world_up key_conflict_def)
  have w1: "row_times w1 = [(1000, PendingDb, 1, 3)]" using saved run by simp
  have "world_up (fresh_world [])" using fresh_world_up(1) by (simp add: world_up_def)
  from entries_up [OF this, of sample_libs sample_deployment] run have "world_up w1"
    by (metis sample_orch_def snd_conv)
  have late: "overdue 300 1000 (w_notifications (rebooted_at 1000000000 w1))" "length (t_rows (w_notifications w1)) = 1"
    using w1 by (auto simp: overdue_def row_times_def secs_def)
  with backlog_length [of 300 "w_notifications (rebooted_at 1000000000 w1)"]
  have "int (length (backlog 300 (w_notifications (rebooted_at 1000000000 w1)))) \<le> 1000" by simp
  with late(1) stopped_request_recovered [OF fresh_world_up(1,2) sample_encodes [unfolded sample_orch_def] new
      run [unfolded sample_orch_def] restarted_rebooted [OF \<open>world_up w1\<close>, of 1000000000], of 300 1000]
    run saved(3) late(2)
  show ?thesis by (auto simp: fresh_world_up)
qed

text \<open>
  C14. While the database answers and its clock is steady, a recovery sweep with limit n returns
  every stuck claim to pending and hands over exactly as many of the rows then due or stuck as the
  limit allows, each once, and no other row: all of them when they are at most n (1000 at boot),
  else n of them, whichever the database returns.
\<close>

theorem sweep_exact:
  assumes "table_up (w_notifications w)" and "t = w_notifications w" and "steady_clock t" and "0 \<le> limit"
  shows "\<exists>ids w'. recover_pending (world_orch L dp) threshold limit w = (Inr (length ids), w') \<and>
    hands_over L ids w w' \<and> distinct ids \<and> set ids \<subseteq> r_id ` set (backlog threshold t) \<and>
    length ids = min (nat limit) (length (backlog threshold t)) \<and>
    (int (length (backlog threshold t)) \<le> limit \<longrightarrow> set ids = r_id ` set (backlog threshold t)) \<and>
    t_rows (w_notifications w') = update_where (stuck threshold (db_now t))
      (\<lambda>r. r\<lparr>r_status := PendingDb, r_next_retry_at := db_now t, r_updated_at := db_now t\<rparr>) (t_rows t)"
  using assms by (rule recover_exact)

text \<open>Two rows are due and the limit is one: one of them is handed over.\<close>

abbreviation two_due :: world where
  "two_due \<equiv> sample_world [sample_row 7 WebhookDb PendingDb ''https://h/x'',
     (sample_row 8 WebhookDb PendingDb ''https://h/x'')\<lparr>r_idempotency_key := Some ''j''\<rparr>] []"

lemma sweep_exact_witness:
  "(\<exists>ids w'. recover_pending sample_orch 300 1000 two_due = (Inr 2, w') \<and> set ids = {7, 8} \<and>
      hands_over sample_libs ids two_due w') \<and>
   (\<exists>i w'. recover_pending sample_orch 300 1 two_due = (Inr 1, w') \<and> i \<in> {7, 8} \<and>
      hands_over sample_libs [i] two_due w')"
proof -
  let ?t = "w_notifications two_due"
  have up: "table_up ?t"
    by (simp add: table_up_def healthy_def table_ok_def rows_ok_def keys_of_def sample_world_def
        sample_table_def sample_row_def List.map_filter_def)
  have t: "steady_clock ?t" "r_id ` set (backlog 300 ?t) = {7, 8}" "length (backlog 300 ?t) = 2"
    by (simp_all add: sample_world_def sample_table_def steady_clock_def db_now_def backlog_def due_def
        secs_def sample_row_def)
  note sweep = sweep_exact [OF up refl t(1), of _ sample_libs sample_deployment 300, unfolded t(2,3),
      folded sample_orch_def]
  obtain ids w' where "recover_pending sample_orch 300 1000 two_due = (Inr (length ids), w')"
    "hands_over sample_libs ids two_due w'" "length ids = 2" "set ids = {7, 8}"
    using sweep [of 1000] by auto
  moreover obtain js w1 where js: "recover_pending sample_orch 300 1 two_due = (Inr (length js), w1)"
    "hands_over sample_libs js two_due w1" "length js = 1" "set js \<subseteq> {7, 8}"
    using sweep [of 1] by auto
  moreover obtain i where "js = [i]" using js(3) by (auto simp: length_Suc_conv)
  ultimately show ?thesis by fastforce
qed

section \<open>A boot that comes too early\<close>

text \<open>
  C12. The sweep runs once, at boot. A worker stopped after it has returned its row to pending and
  before it has scheduled the retry leaves a row no message points to: a boot before its retry time
  hands nothing over, and the row stays pending until some later boot.
\<close>

theorem early_boot_strands_retry:
  assumes up: "world_up w" and d: "world_life w i = Some d"
    and run: "worker_run (world_orch L dp) i k Fetch w = (Schedule ms, w1)" and boot: "restarted w1 w2"
    and t: "t = w_notifications w2" and "0 \<le> limit"
    and early: "\<forall>r \<in> set (t_rows t). r_id r = i \<longrightarrow> t_now t (Suc (t_calls t)) + secs 5 < r_next_retry_at r"
    and others: "\<forall>r \<in> set (t_rows t). r_id r \<noteq> i \<longrightarrow> settled (status_of_db (r_status r))"
  shows "\<exists>w3 d'. recover_pending (world_orch L dp) threshold limit w2 = (Inr 0, w3) \<and> handovers w3 = 0 \<and>
    world_life w3 i = Some d' \<and> dl_status d' = Pending"
proof -
  have "on_track (encodes (world_orch L dp)) d Fetch d" by simp
  from live.run_track [OF up d this run] obtain d' where
    d': "world_life w2 i = Some d'" "dl_status d' = Pending"
    using world_life_restarted [OF boot] by auto
  have ok: "table_up t" using boot t by (simp add: restarted_def world_up_def)
  then have "healthy t" "distinct (map r_id (t_rows t))"
    by (simp_all add: table_up_def table_ok_def rows_ok_def)
  have pending: "r_status r = PendingDb" if r: "r \<in> set (t_rows t)" "r_id r = i" for r
  proof -
    have "row (t_rows t) i = Some r" using row_unique [OF \<open>distinct _\<close> r(1)] r(2) by simp
    then have "world_life w2 i = Some (row_life r)" by (simp add: life_def t)
    with d' have "status_of_db (r_status r) = Pending" by (auto simp: row_life_def)
    then show ?thesis by (cases "r_status r") simp_all
  qed
  have idle: "\<not> due (t_now t (Suc (t_calls t))) r" "\<not> stuck threshold (db_now t) r"
    if "r \<in> set (t_rows t)" for r
  proof -
    have "(r_status r = PendingDb \<and> t_now t (Suc (t_calls t)) + secs 5 < r_next_retry_at r) \<or>
        settled (status_of_db (r_status r))"
      using that early others pending by (cases "r_id r = i") auto
    then show "\<not> due (t_now t (Suc (t_calls t))) r" "\<not> stuck threshold (db_now t) r"
      by (auto simp: due_def stuck_def settled_def open_status_def)
  qed
  obtain n w3 where sweep: "recover_pending (world_orch L dp) threshold limit w2 = (Inr n, w3)"
    using recover_total [OF _ assms(6)] ok t by blast
  have "n = 0"
    using recover_run(1) [OF sweep] picked_ids(3) [OF \<open>healthy t\<close> \<open>distinct _\<close>, of threshold limit] idle t
    by (simp add: backlog_def filter_empty_conv)
  moreover have "handovers w3 = 0"
    using recover_counts [OF sweep] \<open>n = 0\<close> boot by (simp add: restarted_def handovers_def)
  moreover have "t_rows (w_notifications w3) = t_rows t"
    unfolding recover_run(2) [OF sweep] t [symmetric] swept_rows [OF \<open>healthy t\<close>] update_where_def
    using idle(2) by (simp add: map_idI)
  then have "world_life w3 i = Some d'" using d'(1) t by (metis life_eqI)
  ultimately show ?thesis using sweep d'(2) by blast
qed

lemma send_nowhere:
  "\<exists>e. \<forall>body w. prov_send (provider_for sample_orch Webhook) ''nowhere'' body w = (Inl e, w)"
  by (simp add: provider_for_def sample_orch_def world_orch_def webhook_provider_def webhook_send_def world_webhook_def sample_libs_def)

lemma delay_one: "unat (retry_delay_ms 1) = 120000"
  by (simp add: retry_delay_exact)

lemma sample_orch_simps: "o_repo sample_orch = world_repo" "o_render sample_orch t v = Inr ''hello''" "o_mq sample_orch = Some (world_mq sample_libs)"
  "o_codecs sample_orch = sample_codecs" "now sample_orch = on_net net_now"
  by (simp_all add: sample_orch_def sample_deployment_def render_def sample_libs_def now_world)

lemma stops_at_schedule:
  "case worker_run sample_orch 7 6 Fetch (pending_world ''nowhere'') of (pt, w1) \<Rightarrow>
     pt = Schedule (retry_delay_ms 1) \<and> row_times w1 = [(7, PendingDb, 120000000, 3)]"
proof -
  obtain e where e: "\<And>body w. prov_send (provider_for sample_orch Webhook) ''nowhere'' body w = (Inl e, w)"
    using send_nowhere by blast
  have six: "6 = Suc (Suc (Suc (Suc (Suc (Suc 0)))))" by simp
  show ?thesis
  unfolding six
  by (simp add: e lift_apply get_by_id_def update_status_def increment_retry_def query_def exec_def Let_def
    sample_orch_simps row_times_def sample_world_def sample_table_def sample_row_def row_def after_claim_def payload_def into_domain_def max_retries_def
     update_where_def net_now_def tick_def sample_net_def delay_one db_now_def)
qed

lemma early_boot_strands_retry_witness:
  "\<exists>w3. recover_pending sample_orch 300 1000
       (rebooted_at 60000000 (snd (worker_run sample_orch 7 6 Fetch (pending_world ''nowhere'')))) = (Inr 0, w3) \<and>
     handovers w3 = 0"
proof -
  obtain pt w1 where run: "worker_run sample_orch 7 6 Fetch (pending_world ''nowhere'') = (pt, w1)"
    by (metis surj_pair)
  with stops_at_schedule have pt: "pt = Schedule (retry_delay_ms 1)"
    and times: "row_times w1 = [(7, PendingDb, 120000000, 3)]" by auto
  have up: "world_up (pending_world ''nowhere'')" by (rule sample_up [OF sample_rows_ok])
  have "on_track (encodes sample_orch) d Fetch d" for d by simp
  from live.run_track [OF up sample_life this [unfolded sample_orch_def] run [unfolded sample_orch_def]]
  have up1: "world_up w1" by blast
  let ?t = "w_notifications (rebooted_at 60000000 w1)"
  have "\<forall>r \<in> set (t_rows ?t). r_id r = 7 \<longrightarrow> t_now ?t (Suc (t_calls ?t)) + secs 5 < r_next_retry_at r"
    using times by (auto simp: row_times_def rebooted_at_def secs_def)
  moreover have "\<forall>r \<in> set (t_rows ?t). r_id r \<noteq> 7 \<longrightarrow> settled (status_of_db (r_status r))"
    using times by (auto simp: row_times_def)
  ultimately show ?thesis
    using early_boot_strands_retry [OF up sample_life run [unfolded sample_orch_def pt]
        restarted_rebooted [OF up1, of 60000000] refl, of 1000 300] run
    by (auto simp: sample_orch_def)
qed

end
