(* ===== verification/Deviations.thy ===== *)
theory Deviations
  imports Claims_Intake Claims_Edge Claims_Routes
begin

text \<open>
  Concrete runs on which the code does something its comments, its documents or its purpose do
  not say. Each is an evaluation of the definitions.
\<close>

text \<open>\<^verbatim>\<open>wire.rs\<close>: a blank title hides a headline; the comment promises the first non-empty one.\<close>

lemma blank_title_hides_headline:
  "variable (JObj [(''title'', JStr '' ''), (''headline'', JStr ''News'')]) [''title'', ''headline''] = None"
  by code_simp

text \<open>\<^verbatim>\<open>url.rs\<close>: a link without a slash after its host is appended to the base as a whole.\<close>

lemma link_without_path_is_appended:
  "rewrite_url (Some ''https://ui/'') ''http://localhost'' = ''https://uihttp://localhost''"
  by code_simp

text \<open>\<^verbatim>\<open>webhook.rs\<close>: the guard admits multicast, benchmarking, reserved and NAT64 addresses.\<close>

lemma guard_admits_non_unicast:
  "\<not> is_blocked_v4 0xE0000001 \<and> \<not> is_blocked_v4 0xC6120001 \<and> \<not> is_blocked_v4 0xF0000001 \<and>
   \<not> is_blocked_ip (V6 0x0064FF9B0000000000000000A9FEA9FE)"
  by code_simp

text \<open>\<^verbatim>\<open>grpc.rs\<close>: the status text is not the name the database and the schema use.\<close>

lemma status_text_is_not_snake_case:
  "map ascii_lower (status_debug PermanentFailure) = ''permanentfailure''"
  by code_simp

text \<open>\<^verbatim>\<open>startup.rs\<close>: the default gRPC port is computed in 16 bits.\<close>

lemma default_grpc_port_wraps:
  "grpc_port (the (read_config (sample_sources\<lparr>so_port := Some 65530\<rparr>))) = 4"
  by code_simp

text \<open>\<^verbatim>\<open>handlers.rs\<close>: any caller revokes any token; here user 9 revokes one of user 4.\<close>

abbreviation others_device :: device_row where
  "others_device \<equiv> \<lparr>k_id = 1, k_user_id = 4, k_token = ''tok'', k_platform = ''ios'', k_created_at = 0,
     k_last_seen_at = 0, k_revoked_at = None\<rparr>"

lemma any_caller_revokes:
  "owners (sample_world [] [others_device]) ''tok'' = Some 4 \<and>
   owners (snd (rest sample_api () nine (RevokeDevice ''tok'') (sample_world [] [others_device]))) ''tok'' =
     None"
  by (intro conjI; code_simp)

text \<open>
  \<^verbatim>\<open>events.rs\<close>: the address is counted before the alert is queued. When queueing fails, the
  redelivered event finds the address known and is acknowledged without an alert.
\<close>

definition faulty_once :: world where
  "faulty_once = sample_world [] []
     \<lparr>w_notifications := sample_table []\<lparr>t_fault := (\<lambda>n. if n = 0 then FailBefore ''down'' else NoFault)\<rparr>\<rparr>"

abbreviation login :: "world \<Rightarrow> unit result \<times> world" where
  "login \<equiv> user_logged_in sample_orch (sample_ctx ''e'') sample_login"

lemma login_run:
  "login = attempt (on_redis (increment_with_ttl (world_cache_config sample_libs) ''login_ip:9:1.1.1.1''
       login_ip_memory_secs))
     (\<lambda>r. case r of Inl _ \<Rightarrow> retE ()
        | Inr seen \<Rightarrow> if seen > 1 then retE () else run_requests (world_orch sample_libs sample_deployment)
            (login_alert sample_codecs (sample_ctx ''e'')
               \<lparr>ul_user_id = Some ''9'', ul_username = [], ul_ip_address = Some ''1.1.1.1''\<rparr> 9 ''1.1.1.1''))"
proof -
  let ?p = "\<lparr>ul_user_id = Some ''9'', ul_username = [], ul_ip_address = Some ''1.1.1.1''\<rparr>"
  have "de_user_logged_in sample_login = Some ?p" by code_simp
  moreover have "parse_uuid sample_codecs (Some ''9'') = Some 9" by code_simp
  moreover have "login_key sample_codecs 9 ''1.1.1.1'' = ''login_ip:9:1.1.1.1''" by code_simp
  moreover have "l_codecs sample_libs = sample_codecs" by (simp add: sample_libs_def)
  ultimately show ?thesis
    by (simp add: user_logged_in_def Let_def bump_counter_def sample_orch_def)
qed

definition counted_redis :: redis where
  "counted_redis = sample_redis\<lparr>rd_calls := 1, rd_map := [''noti:login_ip:9:1.1.1.1'' \<mapsto> (''1'', Some 7776000000)]\<rparr>"

definition alert_lost :: world where
  "alert_lost = (drawn faulty_once)\<lparr>w_redis := counted_redis,
     w_notifications := (w_notifications faulty_once)\<lparr>t_calls := 1\<rparr>\<rparr>"

lemma login_key_full: "full_key (world_cache_config sample_libs) ''login_ip:9:1.1.1.1'' = ''noti:login_ip:9:1.1.1.1''"
  by code_simp

lemma show_one: "show_int 1 = ''1''" "redis_int ''1'' = Some 1"
  by code_simp+

lemma failed_login_alert_is_lost:
  "login faulty_once = (Inl (Database ''down''), alert_lost) \<and>
   fst (login alert_lost) = Inr () \<and> t_rows (w_notifications (snd (login alert_lost))) = []"
proof -
  have first: "increment_with_ttl (world_cache_config sample_libs) ''login_ip:9:1.1.1.1''
      login_ip_memory_secs sample_redis = (Inr 1, counted_redis)"
    by (simp add: increment_with_ttl_def command_def incr_expire_def login_key_full live_def
        sample_redis_def counted_redis_def deadline_def redis_now_def login_ip_memory_secs_def show_one Let_def)
  have second: "\<exists>rd. increment_with_ttl (world_cache_config sample_libs) ''login_ip:9:1.1.1.1''
      login_ip_memory_secs counted_redis = (Inr 2, rd)"
    by (simp add: increment_with_ttl_def command_def incr_expire_def login_key_full live_def
        sample_redis_def counted_redis_def deadline_def redis_now_def login_ip_memory_secs_def show_one Let_def)
  show ?thesis
    using first second unfolding login_run
    by (auto simp: lift_apply attempt_def alert_lost_def faulty_once_def login_alert_def run_requests_def
        run_request_def bindE_def sample_orch_def queue_unfold create_def exec_def Let_def
        sample_world_def sample_table_def drawn_def queue_ws_def key_conflict_def)
qed

text \<open>\<^verbatim>\<open>events.rs\<close>: a reset token is put into its link as it is.\<close>

lemma reset_token_is_not_encoded:
  "map rq_variables (password_reset_requested sample_codecs (Some ''https://ui'') (sample_ctx ''e'')
      (JObj [(''email'', JStr ''a@b''), (''token'', JStr ''x&y'')])) =
     [JObj [(''reset_url'', JStr ''https://ui/reset-password?token=x&y'')]]"
  by code_simp

text \<open>
  \<^verbatim>\<open>handlers.rs\<close>: a request without a user is answered 401, a status no documented operation lists.
\<close>

lemma missing_user_is_undocumented:
  "fst (rest sample_api () (\<lambda>_. None) MarkAllRead (sample_world [] [])) =
     Inl (401, ''Missing or invalid User ID header'') \<and>
   list_all (\<lambda>op. 401 \<notin> set (op_statuses op)) documented"
  by (simp add: rest_unauthorised user_context_def documented_defs)

text \<open>
  \<^verbatim>\<open>metrics.rs\<close>: the comment says that the label of a request is never its raw path. Without a matched
  path it is, so every distinct unrouted path opens a series of its own.
\<close>

lemma unrouted_paths_open_series:
  assumes "recording m" and "path \<noteq> path'"
  shows "requests_metric meth (path_label None path) st \<noteq> requests_metric meth (path_label None path') st \<and>
    counted (track_http meth None path st el m) (requests_metric meth path st) =
      counted m (requests_metric meth path st) + 1"
  using assms by (simp add: counted_track path_label_def requests_metric_def)

text \<open>
  \<^verbatim>\<open>consumers/mod.rs\<close>, \<^verbatim>\<open>startup.rs\<close>: unlike the Kafka consumer the RabbitMQ consumer is not
  supervised. A closed stream or an acknowledgement that fails ends it for the life of the process,
  whatever is queued afterwards, and readiness does not look at it.
\<close>

lemma dispatch_consumer_is_not_rebuilt:
  "fst (rabbitmq_loop sample_orch (StreamClosed # replicate n (Delivery ''task'' True)) w) = ConsumerStopped \<and>
   fst (rabbitmq_loop sample_orch (Delivery ''task'' False # replicate n (Delivery ''task'' True)) w) =
     ConsumerError"
  by (simp split: prod.split)

text \<open>\<^verbatim>\<open>events.rs\<close>: without a frontend a reset by token is mailed with an empty link.\<close>

lemma reset_link_may_be_empty:
  "map rq_variables (password_reset_requested sample_codecs None (sample_ctx ''e'')
      (JObj [(''email'', JStr ''a@b''), (''token'', JStr ''abc'')])) = [JObj [(''reset_url'', JStr '''')]] \<and>
   verification_email_requested sample_codecs None (sample_ctx ''e'')
      (JObj [(''email'', JStr ''a@b''), (''token'', JStr ''abc'')]) = []"
  by (intro conjI; code_simp)

text \<open>
  \<^verbatim>\<open>orchestrator/queue.rs\<close>: the architecture document begins a notification with a check in Redis. No
  answer and no row depends on what Redis holds; the key is written there and never read.
\<close>

lemma queue_outcome:
  assumes "create (queued_record w u ch rc t vs key) (w_notifications w) = (r, tab)"
  shows "fst (queue_notification (world_orch L dp) u ch rc t vs key w) = map_sum id n_id r \<and>
    w_notifications (snd (queue_notification (world_orch L dp) u ch rc t vs key w)) = tab"
proof (cases r)
  case (Inl e)
  with assms show ?thesis by (simp add: queue_unfold bindE_def lift_apply)
next
  case (Inr saved)
  let ?w = "(drawn w)\<lparr>w_notifications := tab\<rparr>"
  obtain x w1 where c: "cache_idempotency_key (world_orch L dp) key (n_id saved) ?w = (x, w1)"
    by (metis surj_pair)
  obtain y w2 where t: "trigger_dispatch (world_orch L dp) (n_id saved) w1 = (y, w2)"
    by (metis surj_pair)
  have "queue_notification (world_orch L dp) u ch rc t vs key w =
      (if n_id saved \<noteq> net_random (w_net w) (net_calls (w_net w)) then (Inr (n_id saved), ?w)
       else (Inr (n_id saved), w2))"
    using cache_key_run [OF c] trigger_run(1) [OF t] assms Inr c t
    by (auto simp: queue_unfold bindE_def lift_apply split: prod.split)
  with cache_key_run [OF c] trigger_run(4) [OF t] Inr show ?thesis by simp
qed

lemma redis_is_never_asked:
  "fst (queue_notification (world_orch L dp) u ch rc t vs key (w\<lparr>w_redis := rd\<rparr>)) =
     fst (queue_notification (world_orch L dp) u ch rc t vs key w) \<and>
   w_notifications (snd (queue_notification (world_orch L dp) u ch rc t vs key (w\<lparr>w_redis := rd\<rparr>))) =
     w_notifications (snd (queue_notification (world_orch L dp) u ch rc t vs key w))"
proof -
  obtain r tab where c: "create (queued_record w u ch rc t vs key) (w_notifications w) = (r, tab)"
    by (metis surj_pair)
  have "queued_record (w\<lparr>w_redis := rd\<rparr>) u ch rc t vs key = queued_record w u ch rc t vs key"
    by (simp add: queued_record_def)
  with c have c': "create (queued_record (w\<lparr>w_redis := rd\<rparr>) u ch rc t vs key)
      (w_notifications (w\<lparr>w_redis := rd\<rparr>)) = (r, tab)" by simp
  show ?thesis using queue_outcome [OF c, of L dp] queue_outcome [OF c', of L dp] by simp
qed

end
