(* ===== verification/Doubles.thy ===== *)
theory Doubles
  imports Consumers Catalogue
begin

text \<open>
  The test doubles of the unit tests: the mock objects of the \<^verbatim>\<open>mockall\<close> crate and the
  orchestrators the test modules build from them. A test is a \<open>bool\<close> over an environment (the
  codecs, the clock, the identifiers drawn), so a proof that it passes is a run on every
  environment at once. A mock method without an expectation panics; here it marks the log.
\<close>

record test_env =
  te_codecs :: codecs
  te_clock :: "nat \<Rightarrow> time"
  te_ids :: "nat \<Rightarrow> uuid"
  te_uuid :: "nat \<Rightarrow> uuid"

text \<open>\<open>te_ids\<close> is drawn by the code under test, \<open>te_uuid\<close> by the test itself.\<close>

record double_log =
  lg_sink :: "notification list"
  lg_published :: "uuid list"
  lg_draws :: nat
  lg_panicked :: bool

definition no_log :: double_log where
  "no_log = \<lparr>lg_sink = [], lg_published = [], lg_draws = 0, lg_panicked = False\<rparr>"

definition unexpected :: "(double_log, 'a) io" where
  "unexpected s = (Inl (Internal ''no expectation set''), s\<lparr>lg_panicked := True\<rparr>)"

section \<open>Mocks without expectations\<close>

definition mock_repository :: "double_log notification_repository" where
  "mock_repository =
     \<lparr>repo_create = (\<lambda>_. unexpected), repo_get_by_id = (\<lambda>_. unexpected),
      repo_get_by_idempotency_key = (\<lambda>_. unexpected), repo_update_status = (\<lambda>_ _ _ _. unexpected),
      repo_increment_retry = (\<lambda>_ _. unexpected), repo_get_pending_for_retry = (\<lambda>_. unexpected),
      repo_reset_stuck_processing = (\<lambda>_. unexpected), repo_list_by_user = (\<lambda>_ _ _. unexpected),
      repo_mark_as_read = (\<lambda>_ _. unexpected), repo_mark_all_as_read = (\<lambda>_. unexpected),
      repo_get_unread_count = (\<lambda>_. unexpected)\<rparr>"

definition mock_cache :: "double_log cache_service" where
  "mock_cache =
     \<lparr>cache_set_value = (\<lambda>_ _ _. unexpected), cache_get_value = (\<lambda>_. unexpected),
      cache_increment_with_ttl = (\<lambda>_ _. unexpected), cache_delete = (\<lambda>_. unexpected),
      cache_lock = (\<lambda>_ _. unexpected), cache_unlock = (\<lambda>_. unexpected)\<rparr>"

definition mock_notification_provider :: "double_log provider" where
  "mock_notification_provider = \<lparr>prov_send = (\<lambda>_ _. unexpected), prov_provider_id = ''''\<rparr>"

definition mock_queue :: "double_log message_queue" where
  "mock_queue = \<lparr>mq_publish_dispatch = (\<lambda>_. unexpected), mq_publish_retry = (\<lambda>_ _. unexpected)\<rparr>"

text \<open>A template engine has no state to mark; its panic is an error.\<close>

definition mock_template :: template_engine where
  "mock_template _ _ = Inl (Template ''no expectation set'')"

text \<open>The clock and the identifiers of the environment; a spawned task is not run.\<close>

definition test_runtime :: "test_env \<Rightarrow> double_log runtime" where
  "test_runtime env =
     \<lparr>rt_now = (\<lambda>s. (te_clock env (lg_draws s), s\<lparr>lg_draws := Suc (lg_draws s)\<rparr>)),
      rt_new_uuid = (\<lambda>s. (te_ids env (lg_draws s), s\<lparr>lg_draws := Suc (lg_draws s)\<rparr>)),
      rt_spawn = (\<lambda>_ s. s)\<rparr>"

text \<open>\<^verbatim>\<open>NotificationOrchestrator::new\<close> with five mock providers.\<close>

definition mocked ::
  "test_env \<Rightarrow> double_log notification_repository \<Rightarrow> template_engine \<Rightarrow> double_log provider \<Rightarrow>
   double_log cache_service \<Rightarrow> double_log message_queue option \<Rightarrow> double_log orchestrator" where
  "mocked env repo template email cache mq =
     \<lparr>o_repo = repo, o_render = template, o_email = email, o_sms = mock_notification_provider,
      o_push = mock_notification_provider, o_webhook = mock_notification_provider, o_websocket = mock_notification_provider,
      o_cache = cache, o_mq = mq, o_codecs = te_codecs env, o_runtime = test_runtime env\<rparr>"

section \<open>The recording orchestrators\<close>

text \<open>\<^verbatim>\<open>repo.create\<close> records every queued notification and returns it.\<close>

definition recording_create :: "notification \<Rightarrow> (double_log, notification) io" where
  "recording_create n s = (Inr n, s\<lparr>lg_sink := lg_sink s @ [n]\<rparr>)"

definition accepting_queue :: "double_log message_queue" where
  "accepting_queue = mock_queue\<lparr>mq_publish_dispatch := (\<lambda>_. retE ())\<rparr>"

text \<open>\<^verbatim>\<open>events.rs\<close>: with a fixed result for the cache counter.\<close>

definition test_orchestrator_with_counter :: "test_env \<Rightarrow> int result \<Rightarrow> double_log orchestrator" where
  "test_orchestrator_with_counter env counter =
     mocked env (mock_repository\<lparr>repo_create := recording_create\<rparr>) mock_template mock_notification_provider
       (mock_cache\<lparr>cache_set_value := (\<lambda>_ _ _. retE ()),
          cache_increment_with_ttl := (\<lambda>_ _. case counter of
            Inr n \<Rightarrow> retE n | Inl e \<Rightarrow> failE (Internal (error_to_string e)))\<rparr>)
       (Some accepting_queue)"

definition test_orchestrator :: "test_env \<Rightarrow> double_log orchestrator" where
  "test_orchestrator env = test_orchestrator_with_counter env (Inr 1)"

text \<open>\<^verbatim>\<open>consumers/mod.rs\<close>: the counter is not expected to be read.\<close>

definition recording_orchestrator :: "test_env \<Rightarrow> double_log orchestrator" where
  "recording_orchestrator env =
     mocked env (mock_repository\<lparr>repo_create := recording_create\<rparr>) mock_template mock_notification_provider
       (mock_cache\<lparr>cache_set_value := (\<lambda>_ _ _. retE ())\<rparr>) (Some accepting_queue)"

section \<open>Assertions\<close>

text \<open>The call returned a value and nothing panicked; then \<open>P\<close> of what was queued.\<close>

definition queued :: "('e + unit) \<times> double_log \<Rightarrow> (notification list \<Rightarrow> bool) \<Rightarrow> bool" where
  "queued run P \<longleftrightarrow> \<not> isl (fst run) \<and> \<not> lg_panicked (snd run) \<and> P (lg_sink (snd run))"

text \<open>Indexing panics out of range; \<^verbatim>\<open>Value\<close> indexing gives null for a missing member.\<close>

definition at :: "nat \<Rightarrow> 'a list \<Rightarrow> ('a \<Rightarrow> bool) \<Rightarrow> bool" where
  "at k xs P \<longleftrightarrow> k < length xs \<and> P (xs ! k)"

definition found :: "('a \<Rightarrow> bool) \<Rightarrow> 'a list \<Rightarrow> ('a \<Rightarrow> bool) \<Rightarrow> bool" where
  "found Q xs P \<longleftrightarrow> (case List.find Q xs of None \<Rightarrow> False | Some x \<Rightarrow> P x)"

definition var :: "notification \<Rightarrow> string \<Rightarrow> json" where
  "var n k = (case json_get k (n_variables n) of Some v \<Rightarrow> v | None \<Rightarrow> JNull)"

section \<open>What a recording orchestrator queues\<close>

definition recorded :: "test_env \<Rightarrow> nat \<Rightarrow> request \<Rightarrow> notification" where
  "recorded env k r =
     new_notification (te_ids env k) (rq_user r) (rq_channel r) (rq_recipient r) (rq_template r)
       (rq_variables r) (Some (rq_key r)) (te_clock env (Suc k)) (te_clock env (Suc (Suc k)))
       (te_clock env (Suc (Suc (Suc k))))"

fun all_recorded :: "test_env \<Rightarrow> nat \<Rightarrow> request list \<Rightarrow> notification list" where
  "all_recorded env k [] = []"
| "all_recorded env k (r # rs) = recorded env k r # all_recorded env (k + 4) rs"

definition records :: "test_env \<Rightarrow> double_log orchestrator \<Rightarrow> bool" where
  "records env orch \<longleftrightarrow> (\<exists>counter. orch = test_orchestrator_with_counter env counter) \<or>
     orch = recording_orchestrator env"

lemma run_request_recorded:
  assumes "records env orch"
  shows "run_request orch r s = (Inr (), s\<lparr>lg_sink := lg_sink s @ [recorded env (lg_draws s) r],
    lg_draws := lg_draws s + 4\<rparr>)"
  using assms
  by (cases s) (auto simp: records_def run_request_def queue_notification_def test_orchestrator_with_counter_def
      recording_orchestrator_def mocked_def test_runtime_def peek_def now_def bindE_def recording_create_def
      new_notification_def cache_idempotency_key_def attempt_def trigger_dispatch_def accepting_queue_def
      mock_queue_def recorded_def mock_repository_def)

lemma run_requests_recorded:
  "records env orch \<Longrightarrow> run_requests orch rs s =
     (Inr (), s\<lparr>lg_sink := lg_sink s @ all_recorded env (lg_draws s) rs,
        lg_draws := lg_draws s + 4 * length rs\<rparr>)"
  by (induction rs arbitrary: s)
     (simp_all add: run_requests_def run_request_recorded bindE_def)

lemma records_intros [simp]:
  "records env (test_orchestrator_with_counter env counter)" "records env (test_orchestrator env)"
  "records env (recording_orchestrator env)"
  by (auto simp: records_def test_orchestrator_def)

lemma recorder_codecs [simp]:
  "o_codecs (test_orchestrator_with_counter env counter) = te_codecs env"
  "o_codecs (test_orchestrator env) = te_codecs env" "o_codecs (recording_orchestrator env) = te_codecs env"
  by (simp_all add: test_orchestrator_with_counter_def test_orchestrator_def recording_orchestrator_def mocked_def)

lemma recorded_simps [simp]:
  "n_user_id (recorded env k r) = rq_user r" "n_channel (recorded env k r) = rq_channel r"
  "n_recipient (recorded env k r) = rq_recipient r" "n_template_id (recorded env k r) = rq_template r"
  "n_variables (recorded env k r) = rq_variables r" "n_idempotency_key (recorded env k r) = Some (rq_key r)"
  by (simp_all add: recorded_def new_notification_def)

end
