(* ===== verification/Tests_Events.thy ===== *)
theory Tests_Events
  imports Doubles
begin

text \<open>
  The unit tests of \<^verbatim>\<open>consumers/events.rs\<close>, run on the model: each is a \<open>bool\<close> under its name in
  the source, and the lemmas prove that it holds in every environment whose codecs print and parse
  as the tests suppose. A payload is the value its \<^verbatim>\<open>json!\<close> builds.
\<close>

section \<open>The context\<close>

definition test_ctx :: msg_ctx where
  "test_ctx = \<lparr>mc_partition = 2, mc_offset = 99, mc_event_id = Some ''evt-abc''\<rparr>"

definition ctx_no_id :: msg_ctx where
  "ctx_no_id = \<lparr>mc_partition = 2, mc_offset = 99, mc_event_id = None\<rparr>"

abbreviation app :: "string option" where
  "app \<equiv> Some ''https://app.gridtokenx.test/''"

abbreviation handling ::
  "test_env \<Rightarrow> string option \<Rightarrow> msg_ctx \<Rightarrow> string \<Rightarrow> json \<Rightarrow> unit result \<times> double_log" where
  "handling env fe ctx etype data \<equiv> dispatch_event (test_orchestrator env) fe ctx etype data no_log"

abbreviation uuid_text :: "test_env \<Rightarrow> nat \<Rightarrow> json" where
  "uuid_text env k \<equiv> JStr (c_uuid_show (te_codecs env) (te_uuid env k))"

abbreviation num :: "nat \<Rightarrow> json" where
  "num n \<equiv> JNum (PosInt n)"

text \<open>100.5 and 250.5 as doubles.\<close>

abbreviation hundred_and_half :: json where
  "hundred_and_half \<equiv> JNum (Float 0x4059200000000000)"

abbreviation kilowatts :: json where
  "kilowatts \<equiv> JNum (Float 0x406F500000000000)"

text \<open>What the tests suppose of the \<^verbatim>\<open>uuid\<close> and \<^verbatim>\<open>serde_json\<close> crates.\<close>

definition codecs_ok :: "codecs \<Rightarrow> bool" where
  "codecs_ok c \<longleftrightarrow> uuid_roundtrip c \<and> isl (c_uuid_parse c ''nope'') \<and> isl (c_uuid_parse c ''not-a-uuid'') \<and>
     c_json_show c (num 4) = ''4'' \<and> c_json_show c hundred_and_half = ''100.5''"

named_theorems tests \<open>definitions of tests\<close>

section \<open>Accounts\<close>

definition user_registered_sends_no_email :: "test_env \<Rightarrow> bool" where [tests]:
  "user_registered_sends_no_email env \<longleftrightarrow>
     queued (handling env None test_ctx ''UserRegistered''
       (JObj [(''email'', JStr ''alice@example.com''), (''username'', JStr ''alice'')]))
     (\<lambda>q. length q = 0)"

definition email_verified_queues_welcome_email :: "test_env \<Rightarrow> bool" where [tests]:
  "email_verified_queues_welcome_email env \<longleftrightarrow>
     queued (handling env app test_ctx ''EmailVerified''
       (JObj [(''email'', JStr ''alice@example.com''), (''username'', JStr ''alice'')]))
     (\<lambda>q. length q = 1 \<and> at 0 q (\<lambda>n.
        n_channel n = Email \<and> n_recipient n = ''alice@example.com'' \<and>
        n_template_id n = ''welcome.html.tera'' \<and>
        var n ''dashboard_url'' = JStr ''https://app.gridtokenx.test'' \<and>
        n_idempotency_key n = Some ''email_verified:evt-abc''))"

definition idempotency_key_uses_event_id_for_verification_email :: "test_env \<Rightarrow> bool" where [tests]:
  "idempotency_key_uses_event_id_for_verification_email env \<longleftrightarrow>
     queued (handling env app test_ctx ''VerificationEmailRequested''
       (JObj [(''email'', JStr ''bob@example.com''), (''username'', JStr ''bob''), (''token'', JStr ''tok-123'')]))
     (\<lambda>q. at 0 q (\<lambda>n. n_idempotency_key n = Some ''verify_email:evt-abc''))"

definition idempotency_key_falls_back_to_kafka_coords_without_event_id :: "test_env \<Rightarrow> bool" where [tests]:
  "idempotency_key_falls_back_to_kafka_coords_without_event_id env \<longleftrightarrow>
     queued (handling env None ctx_no_id ''EmailVerified''
       (JObj [(''email'', JStr ''alice@example.com''), (''username'', JStr ''alice'')]))
     (\<lambda>q. at 0 q (\<lambda>n. n_idempotency_key n = Some ''kafka:email_verified:2:99''))"

definition email_verified_skips_empty_email :: "test_env \<Rightarrow> bool" where [tests]:
  "email_verified_skips_empty_email env \<longleftrightarrow>
     queued (handling env None test_ctx ''EmailVerified''
       (JObj [(''email'', JStr ''''), (''username'', JStr ''ghost'')]))
     (\<lambda>q. length q = 0)"

definition verification_email_builds_frontend_verify_link_from_token :: "test_env \<Rightarrow> bool" where [tests]:
  "verification_email_builds_frontend_verify_link_from_token env \<longleftrightarrow>
     queued (handling env app test_ctx ''VerificationEmailRequested''
       (JObj [(''email'', JStr ''bob+test@example.com''), (''username'', JStr ''bob''),
              (''token'', JStr ''tok-123'')]))
     (\<lambda>q. length q = 1 \<and> at 0 q (\<lambda>n. n_template_id n = ''verify_email.html.tera'' \<and>
        var n ''verification_url'' =
          JStr ''https://app.gridtokenx.test/verify?token=tok-123&email=bob%2Btest%40example.com''))"

definition verification_email_skips_when_no_url_can_be_built :: "test_env \<Rightarrow> bool" where [tests]:
  "verification_email_skips_when_no_url_can_be_built env \<longleftrightarrow>
     queued (handling env None test_ctx ''VerificationEmailRequested''
       (JObj [(''email'', JStr ''bob@example.com''), (''username'', JStr ''bob''), (''token'', JStr ''tok-123'')]))
     (\<lambda>q. length q = 0)"

definition account_locked_emails_when_identifier_is_an_address :: "test_env \<Rightarrow> bool" where [tests]:
  "account_locked_emails_when_identifier_is_an_address env \<longleftrightarrow>
     queued (handling env None test_ctx ''AccountLocked''
       (JObj [(''identifier'', JStr ''dave@example.com''), (''lockout_secs'', num 900)]))
     (\<lambda>q. length q = 1 \<and> at 0 q (\<lambda>n.
        n_template_id n = ''account_locked.html.tera'' \<and> n_channel n = Email \<and>
        n_recipient n = ''dave@example.com'' \<and> n_user_id n = None \<and>
        var n ''lockout_minutes'' = num 15 \<and> n_idempotency_key n = Some ''account_locked:evt-abc''))"

definition account_locked_rounds_sub_minute_lockout_up :: "test_env \<Rightarrow> bool" where [tests]:
  "account_locked_rounds_sub_minute_lockout_up env \<longleftrightarrow>
     queued (handling env None test_ctx ''AccountLocked''
       (JObj [(''identifier'', JStr ''dave@example.com''), (''lockout_secs'', num 30)]))
     (\<lambda>q. at 0 q (\<lambda>n. var n ''lockout_minutes'' = num 1))"

definition account_locked_skips_username_identifier :: "test_env \<Rightarrow> bool" where [tests]:
  "account_locked_skips_username_identifier env \<longleftrightarrow>
     queued (handling env None test_ctx ''AccountLocked''
       (JObj [(''identifier'', JStr ''dave''), (''lockout_secs'', num 900)]))
     (\<lambda>q. length q = 0)"

definition password_reset_rewrites_url_to_frontend :: "test_env \<Rightarrow> bool" where [tests]:
  "password_reset_rewrites_url_to_frontend env \<longleftrightarrow>
     queued (handling env (Some ''https://app.gridtokenx.com'') test_ctx ''PasswordResetRequested''
       (JObj [(''email'', JStr ''bob@example.com''),
              (''reset_url'', JStr ''https://upstream.invalid/reset-password?token=abc'')]))
     (\<lambda>q. length q = 1 \<and> at 0 q (\<lambda>n. case as_str (var n ''reset_url'') of
         None \<Rightarrow> False
       | Some url \<Rightarrow> starts_with url ''https://app.gridtokenx.com'' \<and> find_sub ''token=abc'' url \<noteq> None))"

definition user_onboarded_queues_websocket_to_owner :: "test_env \<Rightarrow> bool" where [tests]:
  "user_onboarded_queues_websocket_to_owner env \<longleftrightarrow>
     queued (handling env None test_ctx ''UserOnboarded''
       (JObj [(''user_id'', uuid_text env 0), (''user_account_pda'', JStr ''Pda111''),
              (''transaction_signature'', JStr ''sig-onboard'')]))
     (\<lambda>q. length q = 1 \<and> at 0 q (\<lambda>n.
        n_user_id n = Some (te_uuid env 0) \<and> n_channel n = WebSocket \<and>
        n_recipient n = c_uuid_show (te_codecs env) (te_uuid env 0) \<and>
        n_template_id n = ''user_onboarded.txt.tera'' \<and> var n ''user_account_pda'' = JStr ''Pda111'' \<and>
        var n ''transaction_signature'' = JStr ''sig-onboard'' \<and>
        n_idempotency_key n = Some ''onboard:evt-abc''))"

definition user_onboarded_skips_without_user_uuid :: "test_env \<Rightarrow> bool" where [tests]:
  "user_onboarded_skips_without_user_uuid env \<longleftrightarrow>
     queued (handling env None test_ctx ''UserOnboarded''
       (JObj [(''user_account_pda'', JStr ''Pda111''), (''transaction_signature'', JStr ''sig-onboard'')]))
     (\<lambda>q. length q = 0)"

section \<open>How a test is run\<close>

text \<open>Handling any event but a login records its requests; a login depends on its counter.\<close>

lemma handled_requests:
  assumes "etype \<noteq> ''UserLoggedIn''" and "records env orch"
  shows "dispatch_event orch fe ctx etype data s =
    (Inr (), s\<lparr>lg_sink := lg_sink s @ all_recorded env (lg_draws s)
         (event_requests (te_codecs env) fe ctx etype data),
       lg_draws := lg_draws s + 4 * length (event_requests (te_codecs env) fe ctx etype data)\<rparr>)"
  using assms by (auto simp: dispatch_event_def run_requests_recorded records_def)

lemma queued_requests:
  assumes "etype \<noteq> ''UserLoggedIn''" and "records env orch"
  shows "queued (dispatch_event orch fe ctx etype data no_log) P \<longleftrightarrow>
    P (all_recorded env 0 (event_requests (te_codecs env) fe ctx etype data))"
  by (simp add: handled_requests [OF assms] queued_def no_log_def)

lemma queued_test:
  "etype \<noteq> ''UserLoggedIn'' \<Longrightarrow> queued (handling env fe ctx etype data) P \<longleftrightarrow>
     P (all_recorded env 0 (event_requests (te_codecs env) fe ctx etype data))"
  by (rule queued_requests) simp_all

lemma request_fields [simp]:
  "rq_template (queue_push c u title body key) = ''push_notification.txt.tera''"
  "rq_template (queue_ws c u template vars key) = template"
  "rq_template (queue_email user email template vars key) = template"
  "rq_variables (queue_push c u title body key) = JObj [(''title'', JStr title), (''body'', JStr body)]"
  "rq_variables (queue_ws c u template vars key) = JObj vars"
  "rq_variables (queue_email user email template vars key) = JObj vars"
  "rq_recipient (queue_push c u title body key) = c_uuid_show c u"
  "rq_recipient (queue_ws c u template vars key) = c_uuid_show c u"
  "rq_recipient (queue_email user email template vars key) = email"
  "rq_user (queue_email user email template vars key) = user"
  by (simp_all add: queue_push_def queue_ws_def queue_email_def)

lemma idem_test [simp]:
  "idem test_ctx l = l @ '':evt-abc''" "idem ctx_no_id l = ''kafka:'' @ l @ '':2:99''"
proof -
  have "show_int 2 = ''2''" "show_int 99 = ''99''" by code_simp+
  then show "idem test_ctx l = l @ '':evt-abc''" "idem ctx_no_id l = ''kafka:'' @ l @ '':2:99''"
    by (simp_all add: idem_def test_ctx_def ctx_no_id_def)
qed

lemma codecs_okD:
  assumes "codecs_ok c"
  shows "parse_uuid c (Some (c_uuid_show c u)) = Some u" "parse_uuid c (Some ''nope'') = None"
    "parse_uuid c (Some ''not-a-uuid'') = None" "plain c (num 4) = ''4''" "plain c hundred_and_half = ''100.5''"
  using assms
  by (auto simp: codecs_ok_def parse_uuid_def uuid_roundtripD plain_def split: sum.split)

lemmas run_test = tests queued_test event_requests_def payload_defs struct_fields_def field_values_def
  with_payload_def with_user_def Let_def at_def var_def found_def codecs_okD

lemma trimmed [simp]: "trim_end_char (CHR 0x2F) ''https://app.gridtokenx.test/'' = ''https://app.gridtokenx.test''"
  "trim_end_char (CHR 0x2F) ''https://app.gridtokenx.com'' = ''https://app.gridtokenx.com''"
  by code_simp+

lemma account_tests:
  assumes "codecs_ok (te_codecs env)"
  shows "user_registered_sends_no_email env" "email_verified_queues_welcome_email env"
    "idempotency_key_falls_back_to_kafka_coords_without_event_id env" "email_verified_skips_empty_email env"
    "account_locked_emails_when_identifier_is_an_address env" "account_locked_rounds_sub_minute_lockout_up env"
    "account_locked_skips_username_identifier env" "user_onboarded_queues_websocket_to_owner env"
    "user_onboarded_skips_without_user_uuid env"
  by (simp_all add: run_test assms email_verified_def account_locked_def user_onboarded_def json_nat_def)

lemma encoded [simp]: "urlencode ''tok-123'' = ''tok-123''" "urlencode ''bob@example.com'' = ''bob%40example.com''"
  "urlencode ''bob+test@example.com'' = ''bob%2Btest%40example.com''" "urlencode ''tok-w1'' = ''tok-w1''"
  "urlencode ''9xQeWvG816bUx9EPjHmaT23yvVM2ZWbrrpZb9PusVFin'' = ''9xQeWvG816bUx9EPjHmaT23yvVM2ZWbrrpZb9PusVFin''"
  by code_simp+

lemma rewritten [simp]:
  "rewrite_url (Some ''https://app.gridtokenx.com'') ''https://upstream.invalid/reset-password?token=abc'' =
     ''https://app.gridtokenx.com/reset-password?token=abc''"
  "rewrite_url app ''http://localhost:4001/wallet/confirm?token=tok-w2'' =
     ''https://app.gridtokenx.test/wallet/confirm?token=tok-w2''"
  by code_simp+

lemma reset_link: "starts_with ''https://app.gridtokenx.com/reset-password?token=abc'' ''https://app.gridtokenx.com''"
  "find_sub ''token=abc'' ''https://app.gridtokenx.com/reset-password?token=abc'' \<noteq> None"
  by code_simp+

lemma link_tests:
  assumes "codecs_ok (te_codecs env)"
  shows "idempotency_key_uses_event_id_for_verification_email env"
    "verification_email_builds_frontend_verify_link_from_token env"
    "verification_email_skips_when_no_url_can_be_built env" "password_reset_rewrites_url_to_frontend env"
proof -
  show "idempotency_key_uses_event_id_for_verification_email env"
    by (simp add: run_test assms verification_email_requested_def build_callback_url_def del: urlencode.simps)
  show "verification_email_builds_frontend_verify_link_from_token env"
    by (simp add: run_test assms verification_email_requested_def build_callback_url_def del: urlencode.simps)
  show "verification_email_skips_when_no_url_can_be_built env"
    by (simp add: run_test assms verification_email_requested_def build_callback_url_def del: urlencode.simps)
  show "password_reset_rewrites_url_to_frontend env"
    using reset_link by (simp add: run_test assms password_reset_requested_def del: find_sub.simps)
qed

section \<open>Trading and meters\<close>

definition order_update_pushes_only_on_terminal_status :: "test_env \<Rightarrow> bool" where [tests]:
  "order_update_pushes_only_on_terminal_status env \<longleftrightarrow>
     list_all (\<lambda>(status, expected).
       queued (handling env None test_ctx ''OrderUpdate''
         (JObj [(''id'', uuid_text env 0), (''user_id'', uuid_text env 1), (''filled_amount'', JStr ''5.5''),
                (''status'', JStr status)]))
       (\<lambda>q. length q = expected \<and> at 0 q (\<lambda>n.
          n_template_id n = ''order_update.txt.tera'' \<and> n_channel n = WebSocket)))
     [(''partially_filled'', 1), (''filled'', 2), (''cancelled'', 2), (''expired'', 2)]"

definition order_update_skips_when_owner_is_absent :: "test_env \<Rightarrow> bool" where [tests]:
  "order_update_skips_when_owner_is_absent env \<longleftrightarrow>
     queued (handling env None test_ctx ''OrderUpdate''
       (JObj [(''id'', uuid_text env 0), (''user_id'', JNull), (''filled_amount'', JStr ''5.5''),
              (''status'', JStr ''filled'')]))
     (\<lambda>q. length q = 0)"

definition meter_registered_notifies_owner_on_websocket :: "test_env \<Rightarrow> bool" where [tests]:
  "meter_registered_notifies_owner_on_websocket env \<longleftrightarrow>
     queued (handling env None test_ctx ''MeterRegistered''
       (JObj [(''serial_number'', JStr ''MTR-1''), (''meter_id'', uuid_text env 1), (''user_id'', uuid_text env 0),
              (''zone_id'', num 3), (''status'', JStr ''verified''), (''wallet_address'', JNull)]))
     (\<lambda>q. length q = 1 \<and> at 0 q (\<lambda>n.
        n_template_id n = ''meter_registered.txt.tera'' \<and> n_channel n = WebSocket \<and>
        n_user_id n = Some (te_uuid env 0) \<and> var n ''serial_number'' = JStr ''MTR-1'' \<and>
        var n ''zone_id'' = JStr ''3'' \<and> n_idempotency_key n = Some ''meter_registered:evt-abc''))"

definition meter_registered_tolerates_absent_zone :: "test_env \<Rightarrow> bool" where [tests]:
  "meter_registered_tolerates_absent_zone env \<longleftrightarrow>
     queued (handling env None test_ctx ''MeterRegistered''
       (JObj [(''serial_number'', JStr ''MTR-2''), (''meter_id'', uuid_text env 0), (''user_id'', uuid_text env 1),
              (''zone_id'', JNull), (''status'', JStr ''unverified'')]))
     (\<lambda>q. at 0 q (\<lambda>n. var n ''zone_id'' = JStr ''''))"

definition meter_updated_reuses_the_registration_template :: "test_env \<Rightarrow> bool" where [tests]:
  "meter_updated_reuses_the_registration_template env \<longleftrightarrow>
     queued (handling env None test_ctx ''MeterUpdated''
       (JObj [(''serial_number'', JStr ''MTR-3''), (''meter_id'', uuid_text env 0), (''user_id'', uuid_text env 1),
              (''status'', JStr ''verified'')]))
     (\<lambda>q. at 0 q (\<lambda>n. n_template_id n = ''meter_registered.txt.tera''))"

definition order_created_acks_on_websocket_only :: "test_env \<Rightarrow> bool" where [tests]:
  "order_created_acks_on_websocket_only env \<longleftrightarrow>
     queued (handling env None test_ctx ''OrderCreated''
       (JObj [(''id'', uuid_text env 1), (''user_id'', uuid_text env 0), (''order_type'', JStr ''limit''),
              (''side'', JStr ''buy''), (''energy_amount'', JStr ''100.5''), (''price_per_kwh'', JStr ''4.25''),
              (''status'', JStr ''open'')]))
     (\<lambda>q. length q = 1 \<and> at 0 q (\<lambda>n.
        n_template_id n = ''order_created.txt.tera'' \<and> n_channel n = WebSocket \<and>
        n_user_id n = Some (te_uuid env 0) \<and> var n ''order_id'' = uuid_text env 1 \<and>
        var n ''energy_amount'' = JStr ''100.5'' \<and> n_idempotency_key n = Some ''order_created:evt-abc''))"

definition order_created_renders_numeric_decimals :: "test_env \<Rightarrow> bool" where [tests]:
  "order_created_renders_numeric_decimals env \<longleftrightarrow>
     queued (handling env None test_ctx ''OrderCreated''
       (JObj [(''id'', uuid_text env 0), (''user_id'', uuid_text env 1), (''side'', JStr ''sell''),
              (''energy_amount'', hundred_and_half), (''price_per_kwh'', num 4), (''status'', JStr ''open'')]))
     (\<lambda>q. at 0 q (\<lambda>n. var n ''energy_amount'' = JStr ''100.5'' \<and> var n ''price_per_kwh'' = JStr ''4''))"

definition order_created_skips_non_uuid_user :: "test_env \<Rightarrow> bool" where [tests]:
  "order_created_skips_non_uuid_user env \<longleftrightarrow>
     queued (handling env None test_ctx ''OrderCreated''
       (JObj [(''id'', JStr ''o1''), (''user_id'', JStr ''nope''), (''side'', JStr ''buy'')]))
     (\<lambda>q. length q = 0)"

definition meter_onboarded_queues_websocket_to_owner :: "test_env \<Rightarrow> bool" where [tests]:
  "meter_onboarded_queues_websocket_to_owner env \<longleftrightarrow>
     queued (handling env None test_ctx ''MeterOnboarded''
       (JObj [(''user_id'', uuid_text env 0), (''meter_id'', JStr ''m-1''), (''meter_type'', JStr ''smart''),
              (''transaction_signature'', JStr ''sig-meter'')]))
     (\<lambda>q. length q = 1 \<and> at 0 q (\<lambda>n.
        n_user_id n = Some (te_uuid env 0) \<and> n_channel n = WebSocket \<and>
        n_recipient n = c_uuid_show (te_codecs env) (te_uuid env 0) \<and>
        n_template_id n = ''meter_onboarded.txt.tera'' \<and> var n ''meter_id'' = JStr ''m-1'' \<and>
        var n ''meter_type'' = JStr ''smart'' \<and> var n ''transaction_signature'' = JStr ''sig-meter'' \<and>
        n_idempotency_key n = Some ''meter:evt-abc''))"

definition meter_onboarded_skips_without_user_uuid :: "test_env \<Rightarrow> bool" where [tests]:
  "meter_onboarded_skips_without_user_uuid env \<longleftrightarrow>
     queued (handling env None test_ctx ''MeterOnboarded''
       (JObj [(''meter_id'', JStr ''m-1''), (''meter_type'', JStr ''smart'')]))
     (\<lambda>q. length q = 0)"

lemma zone_three [simp]: "show_int 3 = ''3''"
  by code_simp

lemma plain_string [simp]: "plain c (JStr s) = s"
  by (simp add: plain_def)

lemma trading_tests:
  assumes "codecs_ok (te_codecs env)"
  shows "order_update_pushes_only_on_terminal_status env" "order_update_skips_when_owner_is_absent env"
    "meter_registered_notifies_owner_on_websocket env" "meter_registered_tolerates_absent_zone env"
    "meter_updated_reuses_the_registration_template env" "order_created_acks_on_websocket_only env"
    "order_created_renders_numeric_decimals env" "order_created_skips_non_uuid_user env"
    "meter_onboarded_queues_websocket_to_owner env" "meter_onboarded_skips_without_user_uuid env"
  by (simp_all add: tests run_test assms order_update_def meter_registered_def order_created_def
      meter_onboarded_def in_i32_def)

section \<open>Logins\<close>

abbreviation signed_in :: "test_env \<Rightarrow> int result \<Rightarrow> json \<Rightarrow> unit result \<times> double_log" where
  "signed_in env counter data \<equiv>
     dispatch_event (test_orchestrator_with_counter env counter) None test_ctx ''UserLoggedIn'' data no_log"

abbreviation alice_login :: "test_env \<Rightarrow> json" where
  "alice_login env \<equiv> JObj [(''user_id'', uuid_text env 0), (''username'', JStr ''alice''),
     (''ip_address'', JStr ''203.0.113.7'')]"

definition login_from_new_ip_alerts_on_ws_and_push :: "test_env \<Rightarrow> bool" where [tests]:
  "login_from_new_ip_alerts_on_ws_and_push env \<longleftrightarrow>
     queued (signed_in env (Inr 1) (alice_login env))
     (\<lambda>q. length q = 2 \<and> found (\<lambda>n. n_channel n = WebSocket) q (\<lambda>ws.
        n_template_id ws = ''new_login.txt.tera'' \<and> var ws ''ip_address'' = JStr ''203.0.113.7'' \<and>
        n_idempotency_key ws = Some ''new_login:evt-abc''))"

definition login_from_known_ip_is_silent :: "test_env \<Rightarrow> bool" where [tests]:
  "login_from_known_ip_is_silent env \<longleftrightarrow>
     queued (signed_in env (Inr 2) (alice_login env)) (\<lambda>q. length q = 0)"

definition login_alert_fails_closed_when_cache_is_down :: "test_env \<Rightarrow> bool" where [tests]:
  "login_alert_fails_closed_when_cache_is_down env \<longleftrightarrow>
     queued (signed_in env (Inl (Internal ''redis down'')) (alice_login env)) (\<lambda>q. length q = 0)"

definition login_without_ip_is_silent :: "test_env \<Rightarrow> bool" where [tests]:
  "login_without_ip_is_silent env \<longleftrightarrow>
     queued (signed_in env (Inr 1)
       (JObj [(''user_id'', uuid_text env 0), (''username'', JStr ''alice''), (''ip_address'', JNull)]))
     (\<lambda>q. length q = 0)"

lemma bump_double: "bump_counter (test_orchestrator_with_counter env counter) k ttl s =
    ((case counter of Inr n \<Rightarrow> Inr n | Inl e \<Rightarrow> Inl (Internal (error_to_string e))), s)"
  by (simp add: bump_counter_def test_orchestrator_with_counter_def mocked_def split: sum.split)

lemma login_tests:
  assumes "codecs_ok (te_codecs env)"
  shows "login_from_new_ip_alerts_on_ws_and_push env" "login_from_known_ip_is_silent env"
    "login_alert_fails_closed_when_cache_is_down env" "login_without_ip_is_silent env"
  by (simp_all add: tests run_test assms dispatch_event_def user_logged_in_def attempt_def bump_double
      run_requests_recorded [where env = env] login_alert_def queued_def no_log_def)

section \<open>Wallets\<close>

definition wallet_unlinked_alerts_on_ws_and_push :: "test_env \<Rightarrow> bool" where [tests]:
  "wallet_unlinked_alerts_on_ws_and_push env \<longleftrightarrow>
     queued (handling env None test_ctx ''UserWalletUnlinked''
       (JObj [(''user_id'', uuid_text env 0), (''wallet_address'', JStr ''9xQe'')]))
     (\<lambda>q. length q = 2 \<and>
        found (\<lambda>n. n_channel n = WebSocket) q (\<lambda>ws.
          n_template_id ws = ''security_alert.txt.tera'' \<and> var ws ''headline'' = JStr ''Wallet Unlinked'' \<and>
          var ws ''transaction_signature'' = JStr '''' \<and>
          n_idempotency_key ws = Some ''wallet_unlink:evt-abc'') \<and>
        found (\<lambda>n. n_channel n = Push) q (\<lambda>push.
          n_idempotency_key push = Some ''wallet_unlink:push:evt-abc''))"

definition wallet_primary_changed_alerts_on_ws_and_push :: "test_env \<Rightarrow> bool" where [tests]:
  "wallet_primary_changed_alerts_on_ws_and_push env \<longleftrightarrow>
     queued (handling env None test_ctx ''UserWalletPrimaryChanged''
       (JObj [(''user_id'', uuid_text env 0), (''wallet_address'', JStr ''9xQe''), (''is_primary'', JBool True)]))
     (\<lambda>q. length q = 2 \<and>
        found (\<lambda>n. n_channel n = WebSocket) q (\<lambda>ws.
          n_template_id ws = ''security_alert.txt.tera'' \<and>
          var ws ''headline'' = JStr ''Primary Wallet Changed'' \<and> var ws ''wallet_address'' = JStr ''9xQe''))"

text \<open>Several events on one orchestrator, each expected to succeed.\<close>

definition handled_all ::
  "test_env \<Rightarrow> (string option \<times> string \<times> json) list \<Rightarrow> unit result \<times> double_log" where
  "handled_all env calls = forE calls (\<lambda>(fe, etype, data).
     dispatch_event (test_orchestrator env) fe test_ctx etype data) no_log"

definition wallet_events_skip_non_uuid_users :: "test_env \<Rightarrow> bool" where [tests]:
  "wallet_events_skip_non_uuid_users env \<longleftrightarrow>
     queued (handled_all env (map (\<lambda>event. (None, event,
         JObj [(''user_id'', JStr ''not-a-uuid''), (''wallet_address'', JStr ''9xQe'')]))
       [''UserWalletUnlinked'', ''UserWalletPrimaryChanged'']))
     (\<lambda>q. length q = 0)"

definition user_wallet_linked_sends_security_alert :: "test_env \<Rightarrow> bool" where [tests]:
  "user_wallet_linked_sends_security_alert env \<longleftrightarrow>
     queued (handling env None test_ctx ''UserWalletLinked''
       (JObj [(''user_id'', uuid_text env 0), (''wallet_address'', JStr ''Wallet111''), (''shard_id'', num 3),
              (''transaction_signature'', JStr ''sig-link'')]))
     (\<lambda>q. length q = 2 \<and> list_all (\<lambda>n. n_user_id n = Some (te_uuid env 0)) q \<and>
        found (\<lambda>n. n_channel n = WebSocket) q (\<lambda>ws.
          n_template_id ws = ''security_alert.txt.tera'' \<and> var ws ''wallet_address'' = JStr ''Wallet111'') \<and>
        list_ex (\<lambda>n. n_channel n = Push) q)"

definition wallet_link_requested_builds_confirm_link_from_token :: "test_env \<Rightarrow> bool" where [tests]:
  "wallet_link_requested_builds_confirm_link_from_token env \<longleftrightarrow>
     queued (handling env app test_ctx ''WalletLinkRequested''
       (JObj [(''user_id'', uuid_text env 0), (''email'', JStr ''carol@example.com''), (''username'', JStr ''carol''),
              (''wallet_address'', JStr ''9xQeWvG816bUx9EPjHmaT23yvVM2ZWbrrpZb9PusVFin''),
              (''token'', JStr ''tok-w1'')]))
     (\<lambda>q. length q = 1 \<and> at 0 q (\<lambda>n.
        n_template_id n = ''confirm_wallet.html.tera'' \<and> n_channel n = Email \<and>
        n_recipient n = ''carol@example.com'' \<and> n_user_id n = Some (te_uuid env 0) \<and>
        var n ''confirmation_url'' = JStr (''https://app.gridtokenx.test/wallet/confirm?token=tok-w1'' @
          ''&wallet=9xQeWvG816bUx9EPjHmaT23yvVM2ZWbrrpZb9PusVFin'') \<and>
        n_idempotency_key n = Some ''wallet_confirm:evt-abc''))"

definition wallet_link_requested_rewrites_upstream_url :: "test_env \<Rightarrow> bool" where [tests]:
  "wallet_link_requested_rewrites_upstream_url env \<longleftrightarrow>
     queued (handling env app test_ctx ''WalletLinkRequested''
       (JObj [(''email'', JStr ''carol@example.com''), (''username'', JStr ''carol''),
              (''wallet_address'', JStr ''9xQe''),
              (''confirmation_url'', JStr ''http://localhost:4001/wallet/confirm?token=tok-w2'')]))
     (\<lambda>q. at 0 q (\<lambda>n. var n ''confirmation_url'' =
        JStr ''https://app.gridtokenx.test/wallet/confirm?token=tok-w2''))"

definition wallet_link_requested_skips_incomplete_events :: "test_env \<Rightarrow> bool" where [tests]:
  "wallet_link_requested_skips_incomplete_events env \<longleftrightarrow>
     queued (handled_all env
       [(None, ''WalletLinkRequested'', JObj [(''email'', JStr ''carol@example.com''),
           (''wallet_address'', JStr ''9xQe''), (''token'', JStr ''tok-w3'')]),
        (app, ''WalletLinkRequested'', JObj [(''email'', JStr ''carol@example.com''), (''token'', JStr ''tok-w4'')]),
        (app, ''WalletLinkRequested'', JObj [(''wallet_address'', JStr ''9xQe''), (''token'', JStr ''tok-w5'')])])
     (\<lambda>q. length q = 0)"

lemma handled_all_requests:
  "list_all (\<lambda>(fe, etype, data). etype \<noteq> ''UserLoggedIn'') calls \<Longrightarrow>
   queued (handled_all env calls) P \<longleftrightarrow> P (all_recorded env 0
     (concat (map (\<lambda>(fe, etype, data). event_requests (te_codecs env) fe test_ctx etype data) calls)))"
proof -
  have append: "all_recorded env k (xs @ ys) = all_recorded env k xs @ all_recorded env (k + 4 * length xs) ys"
    for k xs ys by (induction xs arbitrary: k) (simp_all add: algebra_simps)
  have "forE calls (\<lambda>(fe, etype, data). dispatch_event (test_orchestrator env) fe test_ctx etype data) s =
      (Inr (), s\<lparr>lg_sink := lg_sink s @ all_recorded env (lg_draws s) (concat (map (\<lambda>(fe, etype, data).
           event_requests (te_codecs env) fe test_ctx etype data) calls)),
         lg_draws := lg_draws s + 4 * length (concat (map (\<lambda>(fe, etype, data).
           event_requests (te_codecs env) fe test_ctx etype data) calls))\<rparr>)"
    if "list_all (\<lambda>(fe, etype, data). etype \<noteq> ''UserLoggedIn'') calls" for s
    using that
  proof (induction calls arbitrary: s)
    case (Cons call calls)
    obtain fe etype data where call: "call = (fe, etype, data)" by (cases call)
    with Cons.prems have "etype \<noteq> ''UserLoggedIn''" by simp
    with call Cons show ?case
      by (simp add: bindE_def handled_requests [where env = env] append)
  qed simp
  then show "list_all (\<lambda>(fe, etype, data). etype \<noteq> ''UserLoggedIn'') calls \<Longrightarrow> ?thesis"
    by (simp add: handled_all_def queued_def no_log_def)
qed

lemma wallet_tests:
  assumes "codecs_ok (te_codecs env)"
  shows "wallet_unlinked_alerts_on_ws_and_push env" "wallet_primary_changed_alerts_on_ws_and_push env"
    "wallet_events_skip_non_uuid_users env" "user_wallet_linked_sends_security_alert env"
  by (simp_all add: tests run_test assms user_wallet_unlinked_def user_wallet_primary_changed_def
      user_wallet_linked_def security_alert_def handled_all_requests)

lemma wallet_link_tests:
  assumes "codecs_ok (te_codecs env)"
  shows "wallet_link_requested_builds_confirm_link_from_token env"
    "wallet_link_requested_rewrites_upstream_url env" "wallet_link_requested_skips_incomplete_events env"
  by (simp_all add: tests run_test assms wallet_link_requested_def build_callback_url_def handled_all_requests
      del: urlencode.simps)

section \<open>Two parties, alerts, certificates, dispatches\<close>

abbreviation ws_of :: "notification list \<Rightarrow> notification list" where
  "ws_of q \<equiv> filter (\<lambda>n. n_channel n = WebSocket) q"

abbreviation push_of_queue :: "notification list \<Rightarrow> notification list" where
  "push_of_queue q \<equiv> filter (\<lambda>n. n_channel n = Push) q"

definition order_matched_notifies_both_parties :: "test_env \<Rightarrow> bool" where [tests]:
  "order_matched_notifies_both_parties env \<longleftrightarrow>
     queued (handling env None test_ctx ''OrderMatched''
       (JObj [(''buyer_id'', uuid_text env 0), (''seller_id'', uuid_text env 1), (''amount'', num 100),
              (''price'', num 5)]))
     (\<lambda>q. length q = 4 \<and> length (ws_of q) = 2 \<and> length (push_of_queue q) = 2 \<and>
        list_all (\<lambda>n. n_template_id n = ''push_notification.txt.tera'' \<and>
          (case n_user_id n of None \<Rightarrow> False | Some u \<Rightarrow> n_recipient n = c_uuid_show (te_codecs env) u))
          (push_of_queue q) \<and>
        list_all (\<lambda>uid. list_ex (\<lambda>n. n_user_id n = Some uid) (ws_of q) \<and>
          list_ex (\<lambda>n. n_user_id n = Some uid) (push_of_queue q)) [te_uuid env 0, te_uuid env 1])"

definition order_matched_skips_non_uuid_parties :: "test_env \<Rightarrow> bool" where [tests]:
  "order_matched_skips_non_uuid_parties env \<longleftrightarrow>
     queued (handling env None test_ctx ''OrderMatched''
       (JObj [(''buyer_id'', JStr ''not-a-uuid''), (''seller_id'', JNull)]))
     (\<lambda>q. length q = 0)"

definition price_alert_triggered_notifies_owner :: "test_env \<Rightarrow> bool" where [tests]:
  "price_alert_triggered_notifies_owner env \<longleftrightarrow>
     queued (handling env None test_ctx ''PriceAlertTriggered''
       (JObj [(''alert_id'', uuid_text env 1), (''user_id'', uuid_text env 0), (''target_price'', JStr ''0.25''),
              (''triggered_price'', JStr ''0.27''), (''condition'', JStr ''above'')]))
     (\<lambda>q. length q = 2 \<and> list_all (\<lambda>n. n_user_id n = Some (te_uuid env 0)) q \<and>
        found (\<lambda>n. n_channel n = WebSocket) q (\<lambda>ws.
          n_template_id ws = ''price_alert_triggered.txt.tera'' \<and> var ws ''condition'' = JStr ''above'') \<and>
        found (\<lambda>n. n_channel n = Push) q (\<lambda>push. n_template_id push = ''push_notification.txt.tera''))"

definition price_alert_triggered_skips_missing_user :: "test_env \<Rightarrow> bool" where [tests]:
  "price_alert_triggered_skips_missing_user env \<longleftrightarrow>
     queued (handling env None test_ctx ''PriceAlertTriggered''
       (JObj [(''user_id'', JNull), (''condition'', JStr ''below'')]))
     (\<lambda>q. length q = 0)"

definition settlement_processed_notifies_each_party_with_status :: "test_env \<Rightarrow> bool" where [tests]:
  "settlement_processed_notifies_each_party_with_status env \<longleftrightarrow>
     queued (handling env None test_ctx ''SettlementProcessed''
       (JObj [(''status'', JStr ''confirmed''), (''tx_signature'', JStr ''sig-abc''),
              (''buyer_id'', uuid_text env 0), (''seller_id'', uuid_text env 1), (''amount'', num 50),
              (''price'', num 3)]))
     (\<lambda>q. length q = 4 \<and> length (ws_of q) = 2 \<and> length (push_of_queue q) = 2 \<and>
        list_all (\<lambda>n. n_template_id n = ''settlement_processed.txt.tera'') (ws_of q) \<and>
        list_all (\<lambda>n. n_template_id n = ''push_notification.txt.tera'') (push_of_queue q) \<and>
        found (\<lambda>n. n_user_id n = Some (te_uuid env 0)) (ws_of q) (\<lambda>buyer.
          var buyer ''role'' = JStr ''buyer'' \<and> var buyer ''status'' = JStr ''confirmed'' \<and>
          var buyer ''tx_signature'' = JStr ''sig-abc''))"

definition settlement_processed_skips_parties_without_uuid :: "test_env \<Rightarrow> bool" where [tests]:
  "settlement_processed_skips_parties_without_uuid env \<longleftrightarrow>
     queued (handling env None test_ctx ''SettlementProcessed''
       (JObj [(''status'', JStr ''''), (''tx_signature'', JStr ''sig-xyz''), (''buyer_id'', uuid_text env 0)]))
     (\<lambda>q. length q = 2 \<and> list_all (\<lambda>n. n_user_id n = Some (te_uuid env 0)) q \<and>
        found (\<lambda>n. n_channel n = WebSocket) q (\<lambda>ws. var ws ''status'' = JStr ''unknown'') \<and>
        list_ex (\<lambda>n. n_channel n = Push) q)"

definition erc_issued_falls_back_to_recipient_email :: "test_env \<Rightarrow> bool" where [tests]:
  "erc_issued_falls_back_to_recipient_email env \<longleftrightarrow>
     queued (handling env None test_ctx ''ErcIssued''
       (JObj [(''recipient_email'', JStr ''rec@example.com''), (''energy_amount'', num 1234)]))
     (\<lambda>q. length q = 1 \<and> at 0 q (\<lambda>n. n_channel n = Email \<and> n_recipient n = ''rec@example.com'' \<and>
        n_template_id n = ''erc_issued.html.tera'' \<and> var n ''amount'' = num 1234 \<and>
        var n ''unit'' = JStr ''MWh''))"

definition erc_issued_honours_producer_energy_unit :: "test_env \<Rightarrow> bool" where [tests]:
  "erc_issued_honours_producer_energy_unit env \<longleftrightarrow>
     queued (handling env None test_ctx ''ErcIssued''
       (JObj [(''email'', JStr ''kwh@example.com''), (''energy_amount'', num 1234), (''energy_unit'', JStr ''kWh'')]))
     (\<lambda>q. at 0 q (\<lambda>n. var n ''unit'' = JStr ''kWh''))"

definition erc_issued_unit_alias_and_blank_fall_back :: "test_env \<Rightarrow> bool" where [tests]:
  "erc_issued_unit_alias_and_blank_fall_back env \<longleftrightarrow>
     queued (handled_all env
       [(None, ''ErcIssued'', JObj [(''email'', JStr ''a@example.com''), (''energy_amount'', num 1),
           (''unit'', JStr '' kWh '')]),
        (None, ''ErcIssued'', JObj [(''email'', JStr ''b@example.com''), (''energy_amount'', num 2),
           (''unit'', JStr ''   '')])])
     (\<lambda>q. at 0 q (\<lambda>n. var n ''unit'' = JStr ''kWh'') \<and> at 1 q (\<lambda>n. var n ''unit'' = JStr ''MWh''))"

definition erc_issued_skips_when_no_recipient :: "test_env \<Rightarrow> bool" where [tests]:
  "erc_issued_skips_when_no_recipient env \<longleftrightarrow>
     queued (handling env None test_ctx ''ErcIssued'' (JObj [(''energy_amount'', num 1)])) (\<lambda>q. length q = 0)"

definition vpp_dispatched_prefers_admin_recipient :: "test_env \<Rightarrow> bool" where [tests]:
  "vpp_dispatched_prefers_admin_recipient env \<longleftrightarrow>
     queued (handling env None test_ctx ''VppDispatched''
       (JObj [(''cluster_id'', JStr ''cluster-7''), (''target_kw'', kilowatts), (''members_commanded'', num 12),
              (''admin_user_id'', uuid_text env 0), (''user_id'', uuid_text env 1)]))
     (\<lambda>q. length q = 1 \<and> at 0 q (\<lambda>n. n_user_id n = Some (te_uuid env 0) \<and> n_channel n = WebSocket \<and>
        n_template_id n = ''vpp_dispatched.txt.tera'' \<and> var n ''cluster_id'' = JStr ''cluster-7'' \<and>
        var n ''members_count'' = num 12))"

definition unknown_event_type_is_ignored :: "test_env \<Rightarrow> bool" where [tests]:
  "unknown_event_type_is_ignored env \<longleftrightarrow>
     queued (handling env None test_ctx ''SomethingUnknown'' (JObj [(''whatever'', JBool True)]))
     (\<lambda>q. length q = 0)"

definition malformed_payload_is_skipped :: "test_env \<Rightarrow> bool" where [tests]:
  "malformed_payload_is_skipped env \<longleftrightarrow>
     queued (handling env None test_ctx ''UserRegistered''
       (JObj [(''email'', num 12345), (''username'', JStr ''x'')]))
     (\<lambda>q. length q = 0)"

lemma trimmed_units: "trim '' kWh '' = ''kWh''" "trim ''   '' = ''''" "trim ''kWh'' = ''kWh''"
  by code_simp+

lemma party_tests:
  assumes "codecs_ok (te_codecs env)"
  shows "order_matched_notifies_both_parties env" "order_matched_skips_non_uuid_parties env"
    "settlement_processed_notifies_each_party_with_status env"
    "settlement_processed_skips_parties_without_uuid env"
  by (simp_all add: tests run_test assms order_matched_def order_matched_party_def settlement_processed_def
      settlement_party_def)

lemma other_tests:
  assumes "codecs_ok (te_codecs env)"
  shows "price_alert_triggered_notifies_owner env" "price_alert_triggered_skips_missing_user env"
    "erc_issued_falls_back_to_recipient_email env" "erc_issued_honours_producer_energy_unit env"
    "erc_issued_unit_alias_and_blank_fall_back env" "erc_issued_skips_when_no_recipient env"
    "vpp_dispatched_prefers_admin_recipient env" "unknown_event_type_is_ignored env"
    "malformed_payload_is_skipped env"
  by (simp_all add: tests run_test assms price_alert_triggered_def erc_issued_def vpp_dispatched_def
      handled_all_requests trimmed_units default_energy_unit_def json_nat_def)

text \<open>All of them.\<close>

lemmas event_tests = account_tests link_tests trading_tests login_tests wallet_tests wallet_link_tests
  party_tests other_tests

end
