(* ===== verification/Tests_Consumers.thy ===== *)
theory Tests_Consumers
  imports Tests_Events Rabbit
begin

text \<open>
  The unit tests of \<^verbatim>\<open>consumers/mod.rs\<close>, run on the model: fatal errors and backoff, the supervisor
  over fake sessions, the envelope of a record, and which outcome of a task is acknowledged.
\<close>

section \<open>Fatal errors and backoff\<close>

definition all_brokers_down_is_fatal :: bool where [tests]:
  "all_brokers_down_is_fatal \<longleftrightarrow> is_fatal_kafka_error AllBrokersDown"

definition transient_consumption_errors_are_not_fatal :: bool where [tests]:
  "transient_consumption_errors_are_not_fatal \<longleftrightarrow>
     list_all (\<lambda>code. \<not> is_fatal_kafka_error (OtherKafkaError code))
       [''UnknownTopicOrPartition'', ''BrokerTransportFailure'', ''OperationTimedOut'']"

definition non_consumption_errors_are_not_fatal :: bool where [tests]:
  "non_consumption_errors_are_not_fatal \<longleftrightarrow> \<not> is_fatal_kafka_error (OtherKafkaError ''bad topic'')"

definition backoff_doubles_and_caps :: bool where [tests]:
  "backoff_doubles_and_caps \<longleftrightarrow> initial_backoff = 1 \<and>
     map (\<lambda>k. (next_backoff ^^ k) initial_backoff) [1, 2, 3, 4, 5, 6, 7] = [2, 4, 8, 16, 30, 30, 30] \<and>
     next_backoff max_backoff = max_backoff"

section \<open>The supervisor over fake sessions\<close>

text \<open>A fake session counts its call and ends as it is told.\<close>

definition fake_session :: "session_end \<Rightarrow> nat session_run" where
  "fake_session end h calls = (end, h, Suc calls)"

definition fake_turn :: "bool \<Rightarrow> session_end \<Rightarrow> bool \<Rightarrow> nat turn" where
  "fake_turn cancelled end in_backoff =
     \<lparr>tn_cancelled = cancelled, tn_session = fake_session end, tn_cancelled_in_backoff = in_backoff\<rparr>"

definition supervised :: "nat turn list \<Rightarrow> consumer_health \<Rightarrow> (nat \<Rightarrow> consumer_health \<Rightarrow> bool) \<Rightarrow> bool" where
  "supervised turns h P =
     (case supervise turns h 0 of (r, _, h', calls) \<Rightarrow> r = Stopped \<and> P calls h')"

definition skips_session_when_cancelled_before_start :: bool where [tests]:
  "skips_session_when_cancelled_before_start \<longleftrightarrow>
     supervised [fake_turn True Shutdown True] health_new (\<lambda>calls _. calls = 0)"

definition ok_session_exits_after_one_run :: bool where [tests]:
  "ok_session_exits_after_one_run \<longleftrightarrow>
     supervised [fake_turn False Shutdown False, fake_turn False Shutdown False] health_new (\<lambda>calls _. calls = 1)"

definition errored_session_retries_until_cancelled_and_marks_down :: bool where [tests]:
  "errored_session_retries_until_cancelled_and_marks_down \<longleftrightarrow>
     (let health = mark_progress 1000 health_new; down = SessionError ''simulated broker down'' in
      is_ready 1000 90 health \<and>
      supervised [fake_turn False down False, fake_turn False down False, fake_turn False down True] health
        (\<lambda>calls h. calls = 3 \<and> \<not> is_ready 1000 90 h))"

lemma control_tests:
  "all_brokers_down_is_fatal" "transient_consumption_errors_are_not_fatal"
  "non_consumption_errors_are_not_fatal" "backoff_doubles_and_caps"
  "skips_session_when_cancelled_before_start" "ok_session_exits_after_one_run"
  "errored_session_retries_until_cancelled_and_marks_down"
  by code_simp+

section \<open>The envelope of a record\<close>

definition test_record :: "string option \<Rightarrow> owned_record" where
  "test_record text = \<lparr>or_payload = text, or_topic = ''iam.user.events'', or_partition = 4, or_offset = 77\<rparr>"

abbreviation alice :: json where
  "alice \<equiv> JObj [(''email'', JStr ''alice@example.com''), (''username'', JStr ''alice'')]"

definition plain_envelope :: json where
  "plain_envelope = JObj [(''event_type'', JStr ''EmailVerified''), (''data'', alice)]"

definition envelope_with_id :: json where
  "envelope_with_id = JObj [(''id'', JStr ''11111111-2222-3333-4444-555555555555''),
     (''event_type'', JStr ''EmailVerified''), (''data'', alice)]"

definition envelope_without_data :: json where
  "envelope_without_data = JObj [(''event_type'', JStr ''EmailVerified'')]"

definition envelope_without_type :: json where
  "envelope_without_type = JObj [(''data'', JObj [(''email'', JStr ''x@example.com'')])]"

abbreviation recorded_run :: "test_env \<Rightarrow> string option \<Rightarrow> string option \<Rightarrow> (string + unit) \<times> double_log" where
  "recorded_run env fe text \<equiv> handle_record (recording_orchestrator env) fe (test_record text) no_log"

abbreviation printed :: "test_env \<Rightarrow> json \<Rightarrow> string option" where
  "printed env j \<equiv> Some (c_json_show (te_codecs env) j)"

definition handle_record_unwraps_envelope_and_routes_to_handler :: "test_env \<Rightarrow> bool" where [tests]:
  "handle_record_unwraps_envelope_and_routes_to_handler env \<longleftrightarrow>
     queued (recorded_run env (Some ''https://app.gridtokenx.test'') (printed env plain_envelope))
     (\<lambda>q. length q = 1 \<and> at 0 q (\<lambda>n. n_channel n = Email \<and> n_recipient n = ''alice@example.com'' \<and>
        n_idempotency_key n = Some ''kafka:email_verified:4:77''))"

definition handle_record_seeds_idempotency_key_with_envelope_event_id :: "test_env \<Rightarrow> bool" where [tests]:
  "handle_record_seeds_idempotency_key_with_envelope_event_id env \<longleftrightarrow>
     queued (recorded_run env (Some ''https://app.gridtokenx.test'') (printed env envelope_with_id))
     (\<lambda>q. at 0 q (\<lambda>n. n_idempotency_key n = Some ''email_verified:11111111-2222-3333-4444-555555555555''))"

definition handle_record_errors_on_malformed_json :: "test_env \<Rightarrow> bool" where [tests]:
  "handle_record_errors_on_malformed_json env \<longleftrightarrow>
     (case recorded_run env None (Some ''{not valid json'') of
        (r, s) \<Rightarrow> isl r \<and> \<not> lg_panicked s \<and> length (lg_sink s) = 0)"

definition handle_record_ignores_empty_payload :: "test_env \<Rightarrow> bool" where [tests]:
  "handle_record_ignores_empty_payload env \<longleftrightarrow> queued (recorded_run env None None) (\<lambda>q. length q = 0)"

definition handle_record_defaults_missing_data_to_empty_object :: "test_env \<Rightarrow> bool" where [tests]:
  "handle_record_defaults_missing_data_to_empty_object env \<longleftrightarrow>
     queued (recorded_run env None (printed env envelope_without_data)) (\<lambda>q. length q = 0)"

definition handle_record_treats_missing_event_type_as_unknown :: "test_env \<Rightarrow> bool" where [tests]:
  "handle_record_treats_missing_event_type_as_unknown env \<longleftrightarrow>
     queued (recorded_run env None (printed env envelope_without_type)) (\<lambda>q. length q = 0)"

text \<open>What the tests suppose of \<^verbatim>\<open>serde_json\<close>: these values survive printing, the broken text is refused.\<close>

definition texts_ok :: "codecs \<Rightarrow> bool" where
  "texts_ok c \<longleftrightarrow>
     list_all (\<lambda>j. c_json_parse c (c_json_show c j) = Inr j)
       [plain_envelope, envelope_with_id, envelope_without_data, envelope_without_type] \<and>
     isl (c_json_parse c ''{not valid json'') \<and> isl (c_json_parse c ''{ not a task }'')"

lemmas envelope_defs = plain_envelope_def envelope_with_id_def envelope_without_data_def
  envelope_without_type_def

lemma handled_envelope:
  assumes "c_json_parse (te_codecs env) text = Inr j" and "envelope_type (as_value j) \<noteq> ''UserLoggedIn''"
  shows "queued (recorded_run env fe (Some text)) P \<longleftrightarrow> P (all_recorded env 0
     (event_requests (te_codecs env) fe (envelope_ctx (test_record (Some text)) (as_value j))
        (envelope_type (as_value j)) (envelope_data (as_value j))))"
  using assms
  by (simp add: handle_record_def test_record_def mapErr_def handled_requests [where env = env] queued_def
      no_log_def Let_def)

lemma idem_record: "idem \<lparr>mc_partition = 4, mc_offset = 77, mc_event_id = None\<rparr> l = ''kafka:'' @ l @ '':4:77''"
proof -
  have "show_int 4 = ''4''" "show_int 77 = ''77''" by code_simp+
  then show ?thesis by (simp add: idem_def)
qed

lemma record_tests:
  assumes "texts_ok (te_codecs env)"
  shows "handle_record_unwraps_envelope_and_routes_to_handler env"
    "handle_record_seeds_idempotency_key_with_envelope_event_id env"
    "handle_record_defaults_missing_data_to_empty_object env"
    "handle_record_treats_missing_event_type_as_unknown env"
    "handle_record_errors_on_malformed_json env" "handle_record_ignores_empty_payload env"
proof -
  let ?parsed = "\<lambda>j. c_json_parse (te_codecs env) (c_json_show (te_codecs env) j) = Inr j"
  have ok: "?parsed plain_envelope" "?parsed envelope_with_id" "?parsed envelope_without_data"
    "?parsed envelope_without_type" "isl (c_json_parse (te_codecs env) ''{not valid json'')"
    using assms by (simp_all add: texts_ok_def)
  note run = handled_envelope [OF ok(1)] handled_envelope [OF ok(2)] handled_envelope [OF ok(3)]
    handled_envelope [OF ok(4)]
  note open_envelope = envelope_defs envelope_type_def envelope_data_def envelope_ctx_def test_record_def
    tests run_test email_verified_def idem_record
  show "handle_record_unwraps_envelope_and_routes_to_handler env"
    unfolding tests by (subst run) (simp_all add: open_envelope)
  show "handle_record_seeds_idempotency_key_with_envelope_event_id env"
    unfolding tests by (subst run) (simp_all add: open_envelope idem_def)
  show "handle_record_defaults_missing_data_to_empty_object env"
    unfolding tests by (subst run) (simp_all add: open_envelope)
  show "handle_record_treats_missing_event_type_as_unknown env"
    unfolding tests by (subst run) (simp_all add: open_envelope)
  show "handle_record_errors_on_malformed_json env" "handle_record_ignores_empty_payload env"
    using ok(5) by (auto simp: tests handle_record_def test_record_def queued_def no_log_def split: sum.split)
qed

section \<open>What is acknowledged\<close>

definition test_pending :: "test_env \<Rightarrow> uuid \<Rightarrow> notification" where
  "test_pending env i =
     \<lparr>n_id = i, n_user_id = Some (te_uuid env 1), n_channel = Email, n_status = Pending,
      n_recipient = ''user@example.com'', n_template_id = ''welcome.html.tera'', n_variables = JObj [],
      n_provider_id = None, n_provider_ref = None, n_retry_count = 0, n_next_retry_at = te_clock env 0,
      n_error_message = None, n_idempotency_key = None, n_created_at = te_clock env 0,
      n_updated_at = te_clock env 0, n_sent_at = None, n_read_at = None\<rparr>"

definition orchestrator_dispatch_ok :: "test_env \<Rightarrow> double_log orchestrator" where
  "orchestrator_dispatch_ok env =
     mocked env
       (mock_repository\<lparr>repo_get_by_id := (\<lambda>i. retE (Some (test_pending env i))),
          repo_update_status := (\<lambda>_ _ _ _. retE ())\<rparr>)
       (\<lambda>_ _. Inr ''body'')
       \<lparr>prov_send = (\<lambda>_ _. retE ''provider-ref''), prov_provider_id = ''mock-email''\<rparr> mock_cache None"

definition orchestrator_dispatch_err :: "test_env \<Rightarrow> double_log orchestrator" where
  "orchestrator_dispatch_err env =
     mocked env (mock_repository\<lparr>repo_get_by_id := (\<lambda>_. retE None)\<rparr>) mock_template mock_notification_provider
       mock_cache None"

definition task_bytes :: "test_env \<Rightarrow> uuid \<Rightarrow> string" where
  "task_bytes env i = c_json_show (te_codecs env)
     (task_json (te_codecs env) \<lparr>nt_notification_id = i, nt_retry_count = 0\<rparr>)"

abbreviation answered :: "disposition \<times> double_log \<Rightarrow> disposition \<Rightarrow> bool" where
  "answered run d \<equiv> fst run = d \<and> \<not> lg_panicked (snd run)"

definition successful_dispatch_acks :: "test_env \<Rightarrow> bool" where [tests]:
  "successful_dispatch_acks env \<longleftrightarrow>
     answered (process_dispatch_payload (orchestrator_dispatch_ok env) (task_bytes env (te_uuid env 0)) no_log) Ack"

definition failed_dispatch_nacks_to_dlx :: "test_env \<Rightarrow> bool" where [tests]:
  "failed_dispatch_nacks_to_dlx env \<longleftrightarrow>
     answered (process_dispatch_payload (orchestrator_dispatch_err env) (task_bytes env (te_uuid env 0)) no_log)
       NackToDlx"

definition poison_payload_is_acked_not_dead_lettered :: "test_env \<Rightarrow> bool" where [tests]:
  "poison_payload_is_acked_not_dead_lettered env \<longleftrightarrow>
     answered (process_dispatch_payload (orchestrator_dispatch_err env) ''{ not a task }'' no_log) Ack"

definition dispatch_not_found_surfaces_as_nack :: "test_env \<Rightarrow> bool" where [tests]:
  "dispatch_not_found_surfaces_as_nack env \<longleftrightarrow>
     (let orch = orchestrator_dispatch_err env; missing = te_uuid env 0 in
      (case fst (dispatch orch missing no_log) of Inl (NotFound _) \<Rightarrow> True | _ \<Rightarrow> False) \<and>
      answered (process_dispatch_payload orch (task_bytes env missing) no_log) NackToDlx)"

lemma task_tests:
  assumes "texts_ok (te_codecs env)" and "uuid_roundtrip (te_codecs env)"
    and "c_json_parse (te_codecs env) (task_bytes env (te_uuid env 0)) =
      Inr (task_json (te_codecs env) \<lparr>nt_notification_id = te_uuid env 0, nt_retry_count = 0\<rparr>)"
  shows "successful_dispatch_acks env" "failed_dispatch_nacks_to_dlx env"
    "poison_payload_is_acked_not_dead_lettered env" "dispatch_not_found_surfaces_as_nack env"
proof -
  have task: "task_of (te_codecs env) (task_json (te_codecs env)
      \<lparr>nt_notification_id = te_uuid env 0, nt_retry_count = 0\<rparr>) = Some (te_uuid env 0, 0)"
    using assms(2) by (simp add: task_of_def task_json_def struct_fields_def field_values_def json_int_def
        in_i32_def uuid_roundtripD)
  note run = tests process_dispatch_payload_def orchestrator_dispatch_ok_def orchestrator_dispatch_err_def
    mocked_def assms(3) task dispatch_def bindE_def render_and_deliver_def payload_def deliver_def attempt_def
    provider_for_def test_pending_def mock_repository_def mock_notification_provider_def no_log_def Let_def
  show "successful_dispatch_acks env" "failed_dispatch_nacks_to_dlx env"
    "dispatch_not_found_surfaces_as_nack env"
    by (simp_all add: run)
  show "poison_payload_is_acked_not_dead_lettered env"
    using assms(1) by (auto simp: run texts_ok_def split: sum.split)
qed

lemmas consumer_tests = control_tests record_tests task_tests

end
