(* ===== verification/Tests_Core.thy ===== *)
theory Tests_Core
  imports Tests_Events Smtp Fcm Cache Webhook Sockets
begin

text \<open>
  The unit tests that stand beside the code of the libraries: \<^verbatim>\<open>health.rs\<close>, \<^verbatim>\<open>wire.rs\<close>, \<^verbatim>\<open>cache.rs\<close>,
  \<^verbatim>\<open>url.rs\<close>, \<^verbatim>\<open>smtp.rs\<close>, \<^verbatim>\<open>fcm.rs\<close>, \<^verbatim>\<open>webhook.rs\<close> and \<^verbatim>\<open>websocket.rs\<close>, run on the model.
\<close>

section \<open>Health\<close>

definition fresh_state_is_not_ready :: bool where [tests]:
  "fresh_state_is_not_ready \<longleftrightarrow> \<not> is_ready 100 90 health_new"

definition progress_within_window_is_ready :: bool where [tests]:
  "progress_within_window_is_ready \<longleftrightarrow> is_ready 150 90 (mark_progress 100 health_new)"

definition stale_progress_is_not_ready :: bool where [tests]:
  "stale_progress_is_not_ready \<longleftrightarrow> \<not> is_ready 300 90 (mark_progress 100 health_new)"

definition mark_down_drops_readiness :: bool where [tests]:
  "mark_down_drops_readiness \<longleftrightarrow>
     (let h = mark_progress 100 health_new in is_ready 120 90 h \<and> \<not> is_ready 120 90 (mark_down h))"

definition disabled_is_always_ready :: bool where [tests]:
  "disabled_is_always_ready \<longleftrightarrow> is_ready 10000 90 (mark_disabled health_new)"

definition last_progress_is_tracked :: bool where [tests]:
  "last_progress_is_tracked \<longleftrightarrow> last_progress_secs health_new = 0 \<and>
     last_progress_secs (mark_progress 4242 health_new) = 4242"

lemma health_tests:
  "fresh_state_is_not_ready" "progress_within_window_is_ready" "stale_progress_is_not_ready"
  "mark_down_drops_readiness" "disabled_is_always_ready" "last_progress_is_tracked"
  by code_simp+

section \<open>The wire view\<close>

text \<open>The template names are ASCII, so the case table of other letters is not read.\<close>

definition event_type_maps_templates_to_upstream_event_names :: bool where [tests]:
  "event_type_maps_templates_to_upstream_event_names \<longleftrightarrow>
     list_all (\<lambda>(template, event). event_type id template = event)
       [(''trade_matched.txt.tera'', ''OrderMatched''), (''welcome.html.tera'', ''EmailVerified''),
        (''new_login.txt.tera'', ''UserLoggedIn''), (''order_created.txt.tera'', ''OrderCreated''),
        (''settlement_processed.txt.tera'', ''SettlementProcessed''),
        (''security_alert.txt.tera'', ''SecurityAlert'')]"

definition text_template_id_swaps_html_for_text :: bool where [tests]:
  "text_template_id_swaps_html_for_text \<longleftrightarrow>
     text_template_id ''welcome.html.tera'' = ''welcome.txt.tera'' \<and>
     text_template_id ''order_created.txt.tera'' = ''order_created.txt.tera''"

abbreviation nl :: string where
  "nl \<equiv> [CHR 0x0A]"

definition underlined_heading_becomes_the_title_and_leaves_the_body :: bool where [tests]:
  "underlined_heading_becomes_the_title_and_leaves_the_body \<longleftrightarrow>
     title_and_message id ''trade_matched.txt.tera'' (JObj [])
       (''Trade Matched'' @ nl @ ''-------------'' @ nl @ ''You have a new trade match.'' @ nl @ nl @
        ''Role: buyer'') =
     (''Trade Matched'', ''You have a new trade match.'' @ nl @ nl @ ''Role: buyer'')"

definition headline_variable_wins_over_the_humanized_stem :: bool where [tests]:
  "headline_variable_wins_over_the_humanized_stem \<longleftrightarrow>
     (let rendered = ''SECURITY ALERT: New Wallet Linked'' @ nl @ nl @ ''Wallet Address: 0xabc'' in
      title_and_message id ''security_alert.txt.tera'' (JObj [(''headline'', JStr ''New Wallet Linked'')])
        rendered = (''New Wallet Linked'', rendered))"

text \<open>In a JSON text below a tilde stands for the double quote.\<close>

definition json_text :: "string \<Rightarrow> string" where
  "json_text = map (\<lambda>c. if c = CHR ''~'' then CHR 0x22 else c)"

definition push_envelope_lists_from_its_variables_not_its_rendered_json :: bool where [tests]:
  "push_envelope_lists_from_its_variables_not_its_rendered_json \<longleftrightarrow>
     title_and_message id ''push_notification.txt.tera''
       (JObj [(''title'', JStr ''Trade Matched''), (''body'', JStr ''Your buyer order matched: 10 kWh @ 4.25'')])
       (json_text ''{~title~:~Trade Matched~,~body~:~Your buyer order matched: 10 kWh @ 4.25~}'') =
     (''Trade Matched'', ''Your buyer order matched: 10 kWh @ 4.25'')"

definition headingless_template_falls_back_to_the_humanized_stem :: bool where [tests]:
  "headingless_template_falls_back_to_the_humanized_stem \<longleftrightarrow>
     (let rendered = ''Order placed: buy 100 kWh at 4.25 per kWh.'' @ nl @ nl @ ''Order ID: ORD1'' in
      title_and_message id ''order_created.txt.tera'' (JObj []) rendered = (''Order Created'', rendered))"

lemma wire_tests:
  "event_type_maps_templates_to_upstream_event_names" "text_template_id_swaps_html_for_text"
  "underlined_heading_becomes_the_title_and_leaves_the_body"
  "headline_variable_wins_over_the_humanized_stem"
  "push_envelope_lists_from_its_variables_not_its_rendered_json"
  "headingless_template_falls_back_to_the_humanized_stem"
  by code_simp+

section \<open>Cache keys and links\<close>

definition key_formats_are_stable :: bool where [tests]:
  "key_formats_are_stable \<longleftrightarrow> key_idempotency ''evt-1'' = ''idempotency:evt-1'' \<and>
     key_template ''welcome'' = ''template:welcome'' \<and> key_ws_registry ''uid-1'' = ''ws_registry:uid-1''"

definition rate_limit_orders_channel_then_recipient :: bool where [tests]:
  "rate_limit_orders_channel_then_recipient \<longleftrightarrow>
     key_rate_limit ''email'' ''u@x.io'' = ''rate_limit:email:u@x.io'' \<and>
     key_rate_limit ''email'' ''sms'' \<noteq> key_rate_limit ''sms'' ''email''"

definition urlencode_escapes_email_characters :: bool where [tests]:
  "urlencode_escapes_email_characters \<longleftrightarrow> urlencode ''a+b@grx.test'' = ''a%2Bb%40grx.test'' \<and>
     urlencode ''plain-user_1.x~y'' = ''plain-user_1.x~y''"

definition build_callback_url_inserts_missing_leading_slash :: bool where [tests]:
  "build_callback_url_inserts_missing_leading_slash \<longleftrightarrow>
     build_callback_url (Some ''https://app.gridtokenx.test/'') ''reset-password'' ''token=abc'' =
       ''https://app.gridtokenx.test/reset-password?token=abc''"

definition rewrite_url_preserves_path_and_query :: bool where [tests]:
  "rewrite_url_preserves_path_and_query \<longleftrightarrow>
     rewrite_url (Some ''https://app.gridtokenx.test/'') ''http://localhost:4001/verify-email?token=abc'' =
       ''https://app.gridtokenx.test/verify-email?token=abc''"

lemma key_and_link_tests:
  "key_formats_are_stable" "rate_limit_orders_channel_then_recipient" "urlencode_escapes_email_characters"
  "build_callback_url_inserts_missing_leading_slash" "rewrite_url_preserves_path_and_query"
  by code_simp+

section \<open>Mail\<close>

abbreviation crlf :: string where
  "crlf \<equiv> [CHR 0x0D, CHR 0x0A]"

definition plain_text_with_title_is_not_html :: bool where [tests]:
  "plain_text_with_title_is_not_html \<longleftrightarrow>
     \<not> looks_like_html ''Your verification code is <title>spoofed subject</title> 123456''"

definition plain_text_with_crlf_header_injection_is_not_html :: bool where [tests]:
  "plain_text_with_crlf_header_injection_is_not_html \<longleftrightarrow>
     \<not> looks_like_html (''Verify: 123'' @ crlf @ ''Bcc: attacker@evil.example'' @ crlf @ ''Subject: spoofed'')"

definition html_doctype_is_detected :: bool where [tests]:
  "html_doctype_is_detected \<longleftrightarrow>
     looks_like_html ''<!DOCTYPE html><html><head><title>Welcome</title></head></html>''"

definition html_tag_with_leading_whitespace_is_detected :: bool where [tests]:
  "html_tag_with_leading_whitespace_is_detected \<longleftrightarrow>
     looks_like_html (''   '' @ nl @ ''<html><title>Welcome</title></html>'')"

definition extract_subject_collapses_crlf_injection :: bool where [tests]:
  "extract_subject_collapses_crlf_injection \<longleftrightarrow>
     (case extract_subject (''<html><title>Welcome'' @ crlf @ ''Bcc: attacker@evil.example</title></html>'') of
        None \<Rightarrow> False
      | Some subject \<Rightarrow> CHR 0x0D \<notin> set subject \<and> CHR 0x0A \<notin> set subject \<and>
          subject = ''Welcome Bcc: attacker@evil.example'')"

definition extract_subject_collapses_tabs_and_runs_of_whitespace :: bool where [tests]:
  "extract_subject_collapses_tabs_and_runs_of_whitespace \<longleftrightarrow>
     extract_subject (''<html><title>Order'' @ [CHR 0x09, CHR 0x09] @ ''  Matched'' @ nl @ nl @
       ''  Now</title></html>'') = Some ''Order Matched Now''"

definition extract_subject_decodes_entities :: bool where [tests]:
  "extract_subject_decodes_entities \<longleftrightarrow>
     extract_subject ''<html><title>Tom &amp; Jerry &lt;3</title></html>'' = Some ''Tom & Jerry <3''"

definition extract_subject_none_when_no_title :: bool where [tests]:
  "extract_subject_none_when_no_title \<longleftrightarrow>
     extract_subject ''<html><body>no title here</body></html>'' = None"

definition extract_subject_none_when_title_is_blank :: bool where [tests]:
  "extract_subject_none_when_title_is_blank \<longleftrightarrow>
     extract_subject (''<html><title>   '' @ crlf @ ''  </title></html>'') = None"

definition tls_mode_unset_infers_implicit_tls_on_port_465 :: bool where [tests]:
  "tls_mode_unset_infers_implicit_tls_on_port_465 \<longleftrightarrow> resolve_tls_mode None 465 = Tls"

definition tls_mode_unset_defaults_to_starttls_on_other_ports :: bool where [tests]:
  "tls_mode_unset_defaults_to_starttls_on_other_ports \<longleftrightarrow>
     list_all (\<lambda>port. resolve_tls_mode None port = StartTls) [587, 25, 2525]"

definition tls_mode_explicit_setting_overrides_port_convention :: bool where [tests]:
  "tls_mode_explicit_setting_overrides_port_convention \<longleftrightarrow>
     resolve_tls_mode (Some ''starttls'') 465 = StartTls \<and> resolve_tls_mode (Some ''tls'') 587 = Tls \<and>
     resolve_tls_mode (Some ''none'') 465 = NoTls \<and> resolve_tls_mode (Some ''insecure'') 587 = NoTls"

definition tls_mode_unknown_value_degrades_to_starttls_never_plaintext :: bool where [tests]:
  "tls_mode_unknown_value_degrades_to_starttls_never_plaintext \<longleftrightarrow>
     resolve_tls_mode (Some ''tsl'') 587 = StartTls \<and> resolve_tls_mode (Some '''') 465 = StartTls"

definition new_builds_a_transport_for_every_resolved_mode :: "(string \<Rightarrow> string + unit) \<Rightarrow> bool" where [tests]:
  "new_builds_a_transport_for_every_resolved_mode valid_relay \<longleftrightarrow>
     list_all (\<lambda>(port, mode). \<not> isl (smtp_new valid_relay ''smtp.example.test'' port (Some ''user'')
         (Some ''pass'') ''from@x.test'' mode))
       [(465, None), (587, None), (25, Some ''none''), (587, Some ''bogus'')]"

lemma html_tests:
  "plain_text_with_title_is_not_html" "plain_text_with_crlf_header_injection_is_not_html"
  "html_doctype_is_detected" "html_tag_with_leading_whitespace_is_detected"
  by code_simp+

text \<open>For evaluation: a prefix is compared letter by letter, without lowering the rest of the text.\<close>

fun starts_ci :: "string \<Rightarrow> string \<Rightarrow> bool" where
  "starts_ci s [] = True"
| "starts_ci [] (p # ps) = False"
| "starts_ci (c # s) (p # ps) = (if ascii_lower c = p then starts_ci s ps else False)"

lemma starts_ci_map: "starts_with (map ascii_lower s) p = starts_ci s p"
  by (induction s p rule: starts_ci.induct) simp_all

lemma find_ci_code [code]:
  "find_ci p [] = (if p = [] then Some 0 else None)"
  "find_ci p (c # s) = (if starts_ci (c # s) p then Some 0 else map_option Suc (find_ci p s))"
  by (simp_all add: starts_ci_map [symmetric])

lemma title_here_code [code]:
  "title_here s =
     (if starts_ci s ''<title''
      then (case split_once (CHR ''>'') (drop 6 s) of
              None \<Rightarrow> None
            | Some (_, body) \<Rightarrow> map_option (\<lambda>n. take n body) (find_ci ''</title>'' body))
      else None)"
  by (simp add: title_here_def starts_ci_map)

lemma subject_tests:
  "extract_subject_collapses_crlf_injection" "extract_subject_collapses_tabs_and_runs_of_whitespace"
  "extract_subject_decodes_entities" "extract_subject_none_when_no_title"
  "extract_subject_none_when_title_is_blank"
  by code_simp+

lemma tls_tests:
  "tls_mode_unset_infers_implicit_tls_on_port_465"
  "tls_mode_unset_defaults_to_starttls_on_other_ports" "tls_mode_explicit_setting_overrides_port_convention"
  "tls_mode_unknown_value_degrades_to_starttls_never_plaintext"
  by code_simp+

text \<open>A relay host is only checked when it is connected to.\<close>

lemma transport_test:
  assumes "valid_relay ''smtp.example.test'' = Inr ()"
  shows "new_builds_a_transport_for_every_resolved_mode valid_relay"
  using assms by (simp add: tests smtp_new_def resolve_tls_mode_def)

end
