(* ===== verification/Tests_Channels.thy ===== *)
theory Tests_Channels
  imports Tests_Core
begin

text \<open>
  The unit tests of \<^verbatim>\<open>fcm.rs\<close>, \<^verbatim>\<open>webhook.rs\<close> and \<^verbatim>\<open>websocket.rs\<close>, run on the model.
\<close>

section \<open>FCM messages\<close>

definition test_device :: "device_platform \<Rightarrow> test_env \<Rightarrow> device_token" where
  "test_device platform env =
     \<lparr>d_id = te_uuid env 0, d_user_id = te_uuid env 1, d_token = ''tok-123'', d_platform = platform,
      d_created_at = te_clock env 0, d_last_seen_at = te_clock env 1\<rparr>"

definition full_payload :: string where
  "full_payload = json_text ''{~title~:~Hi~,~body~:~There~,~data~:{~k~:~v~}}''"

definition body_payload :: string where
  "body_payload = json_text ''{~body~:~hi~}''"

definition unregistered_body :: string where
  "unregistered_body = json_text (''{~error~:{~code~:404,~status~:~NOT_FOUND~,~details~:'' @
     ''[{~@type~:~type.googleapis.com/google.firebase.fcm.v1.FcmError~,~errorCode~:~UNREGISTERED~}]}}'')"

definition invalid_argument_body :: string where
  "invalid_argument_body = json_text (''{~error~:{~code~:400,~status~:~INVALID_ARGUMENT~,~details~:'' @
     ''[{~errorCode~:~INVALID_ARGUMENT~}]}}'')"

definition unavailable_body :: string where
  "unavailable_body = json_text ''{~error~:{~code~:503,~status~:~UNAVAILABLE~}}''"

text \<open>What \<^verbatim>\<open>serde_json\<close> reads in these texts.\<close>

definition fcm_error :: "nat \<Rightarrow> string \<Rightarrow> (string \<times> json) list \<Rightarrow> json" where
  "fcm_error number status rest =
     JObj [(''error'', JObj ([(''code'', num number), (''status'', JStr status)] @ rest))]"

definition fcm_texts_ok :: "codecs \<Rightarrow> bool" where
  "fcm_texts_ok c \<longleftrightarrow> list_all (\<lambda>(text, j). c_json_parse c text = Inr j)
     [(full_payload, JObj [(''title'', JStr ''Hi''), (''body'', JStr ''There''),
         (''data'', JObj [(''k'', JStr ''v'')])]),
      (body_payload, JObj [(''body'', JStr ''hi'')]),
      (unregistered_body, fcm_error 404 ''NOT_FOUND'' [(''details'', JArr [JObj
         [(''@type'', JStr ''type.googleapis.com/google.firebase.fcm.v1.FcmError''),
          (''errorCode'', JStr ''UNREGISTERED'')]])]),
      (invalid_argument_body, fcm_error 400 ''INVALID_ARGUMENT''
         [(''details'', JArr [JObj [(''errorCode'', JStr ''INVALID_ARGUMENT'')]])]),
      (unavailable_body, fcm_error 503 ''UNAVAILABLE'' [])] \<and>
     isl (c_json_parse c ''just some text'')"

abbreviation parsed :: "test_env \<Rightarrow> string \<Rightarrow> push_payload" where
  "parsed env \<equiv> parse_payload (te_codecs env)"

abbreviation member :: "json \<Rightarrow> string list \<Rightarrow> json option" where
  "member j ks \<equiv> json_path ks j"

definition parses_json_payload :: "test_env \<Rightarrow> bool" where [tests]:
  "parses_json_payload env \<longleftrightarrow> (let p = parsed env full_payload in
     pp_title p = ''Hi'' \<and> pp_body p = ''There'' \<and> pp_data p \<noteq> None)"

definition falls_back_to_plain_body :: "test_env \<Rightarrow> bool" where [tests]:
  "falls_back_to_plain_body env \<longleftrightarrow> (let p = parsed env ''just some text'' in
     pp_title p = ''GridTokenX'' \<and> pp_body p = ''just some text'' \<and> pp_data p = None)"

definition web_message_has_webpush_block :: "test_env \<Rightarrow> bool" where [tests]:
  "web_message_has_webpush_block env \<longleftrightarrow>
     (let msg = build_message (test_device Web env) (parsed env body_payload) in
      json_get ''webpush'' msg \<noteq> None \<and> member msg [''notification'', ''body''] = Some (JStr ''hi''))"

definition android_message_has_android_block :: "test_env \<Rightarrow> bool" where [tests]:
  "android_message_has_android_block env \<longleftrightarrow>
     member (build_message (test_device Android env) (parsed env body_payload)) [''android'', ''priority''] =
       Some (JStr ''high'')"

definition ios_message_has_apns_block :: "test_env \<Rightarrow> bool" where [tests]:
  "ios_message_has_apns_block env \<longleftrightarrow>
     member (build_message (test_device Ios env) (parsed env body_payload))
       [''apns'', ''headers'', ''apns-priority''] = Some (JStr ''10'')"

definition http_404_is_invalid_token :: "test_env \<Rightarrow> bool" where [tests]:
  "http_404_is_invalid_token env \<longleftrightarrow> is_invalid_token (te_codecs env) 404 ''''"

definition unregistered_error_code_is_invalid_token :: "test_env \<Rightarrow> bool" where [tests]:
  "unregistered_error_code_is_invalid_token env \<longleftrightarrow> is_invalid_token (te_codecs env) 404 unregistered_body"

definition invalid_argument_error_code_is_invalid_token :: "test_env \<Rightarrow> bool" where [tests]:
  "invalid_argument_error_code_is_invalid_token env \<longleftrightarrow>
     is_invalid_token (te_codecs env) 400 invalid_argument_body"

definition server_error_is_not_invalid_token :: "test_env \<Rightarrow> bool" where [tests]:
  "server_error_is_not_invalid_token env \<longleftrightarrow> \<not> is_invalid_token (te_codecs env) 503 unavailable_body"

lemma push_tests:
  assumes "fcm_texts_ok (te_codecs env)"
  shows "parses_json_payload env" "falls_back_to_plain_body env" "web_message_has_webpush_block env"
    "android_message_has_android_block env" "ios_message_has_apns_block env" "http_404_is_invalid_token env"
    "unregistered_error_code_is_invalid_token env" "invalid_argument_error_code_is_invalid_token env"
    "server_error_is_not_invalid_token env"
  using assms
  by (auto simp: tests fcm_texts_ok_def fcm_error_def parse_payload_def push_payload_of_def struct_fields_def
      field_values_def default_title_def build_message_def test_device_def json_path_def is_invalid_token_def
      Let_def split: sum.splits)

section \<open>Webhooks\<close>

definition dotted :: "32 word \<Rightarrow> 32 word \<Rightarrow> 32 word \<Rightarrow> 32 word \<Rightarrow> ip" where
  "dotted a b c d = V4 (((a * 256 + b) * 256 + c) * 256 + d)"

definition blocks_private_and_loopback :: bool where [tests]:
  "blocks_private_and_loopback \<longleftrightarrow> list_all is_blocked_ip
     [dotted 127 0 0 1, dotted 10 1 2 3, dotted 172 16 0 1, dotted 192 168 1 1, dotted 169 254 169 254,
      dotted 0 0 0 0, dotted 100 64 0 1, V6 1, V6 0xFE800000000000000000000000000001,
      V6 0xFC000000000000000000000000000001, V6 0xFFFF7F000001]"

definition allows_public :: bool where [tests]:
  "allows_public \<longleftrightarrow> list_all (\<lambda>a. \<not> is_blocked_ip a)
     [dotted 8 8 8 8, dotted 1 1 1 1, dotted 93 184 216 34, V6 0x26064700470000000000000000001111]"

text \<open>The error's text contains the words; an \<^verbatim>\<open>Ok\<close> panics.\<close>

definition rejects_with :: "string \<Rightarrow> ('s, string) io \<Rightarrow> 's \<Rightarrow> bool" where
  "rejects_with words send s =
     (case fst (send s) of Inr _ \<Rightarrow> False | Inl e \<Rightarrow> find_sub words (error_to_string e) \<noteq> None)"

definition send_rejects_loopback_target :: "'s webhook \<Rightarrow> 's \<Rightarrow> bool" where [tests]:
  "send_rejects_loopback_target provider s \<longleftrightarrow>
     rejects_with ''blocked address'' (webhook_send provider ''http://127.0.0.1:9/hook'' ''{}'') s"

definition send_rejects_non_http_scheme :: "'s webhook \<Rightarrow> 's \<Rightarrow> bool" where [tests]:
  "send_rejects_non_http_scheme provider s \<longleftrightarrow>
     rejects_with ''not allowed'' (webhook_send provider ''ftp://example.com/x'' ''{}'') s"

lemma guard_tests: "blocks_private_and_loopback" "allows_public"
  by code_simp+

lemma find_sub_within: "find_sub p (a @ p @ b) \<noteq> None"
proof (induction a)
  case Nil
  show ?case using starts_with_append [of p b] by (cases "p @ b") auto
qed auto

text \<open>The provider the tests build guards; its literal addresses are parsed and resolved as such.\<close>

lemma webhook_tests:
  assumes "wh_block_private provider"
    and "wh_parse_url provider ''http://127.0.0.1:9/hook'' = Inr u" and "u_scheme u = ''http''"
    and "u_host u = Some ''127.0.0.1''" and "u_port_or_default u = Some 9"
    and "sys_lookup_host (wh_system provider) ''127.0.0.1'' 9 s = (Inr [dotted 127 0 0 1], s')"
    and "wh_parse_url provider ''ftp://example.com/x'' = Inr v" and "u_scheme v = ''ftp''"
  shows "send_rejects_loopback_target provider s" "send_rejects_non_http_scheme provider s"
proof -
  have blocked: "is_blocked_ip (dotted 127 0 0 1)" by code_simp
  have "fst (webhook_send provider ''http://127.0.0.1:9/hook'' ''{}'' s) =
      Inl (Internal ((''Webhook target '' @ quoted ''127.0.0.1'' @ '' resolves to '') @ ''blocked address'' @
        ('' '' @ wh_ip_show provider (dotted 127 0 0 1) @ '' (private/loopback/link-local)'')))"
    using assms blocked by (simp add: webhook_send_def mapErr_def bindE_def)
  then show "send_rejects_loopback_target provider s"
    using find_sub_within [of "''blocked address''" "''internal error: Webhook target '' @ quoted ''127.0.0.1'' @ '' resolves to ''"]
    by (simp add: tests rejects_with_def del: find_sub.simps)
  have "fst (webhook_send provider ''ftp://example.com/x'' ''{}'' s) =
      Inl (Internal ((''Webhook URL scheme '' @ quoted ''ftp'' @ '' '') @ ''not allowed'' @ '' (http/https only)''))"
    using assms by (simp add: webhook_send_def)
  then show "send_rejects_non_http_scheme provider s"
    using find_sub_within [of "''not allowed''" "''internal error: Webhook URL scheme '' @ quoted ''ftp'' @ '' ''"]
    by (simp add: tests rejects_with_def del: find_sub.simps)
qed

section \<open>Sockets\<close>

text \<open>A receive gives a queued message, \<open>Some None\<close> once its sender is gone, and waits otherwise.\<close>

definition receive :: "uuid \<Rightarrow> uuid \<Rightarrow> sockets \<Rightarrow> string option option \<times> sockets" where
  "receive user cid s =
     (case get_connection s user cid of
        None \<Rightarrow> (Some None, s)
      | Some c \<Rightarrow> (case cn_queue c of
            [] \<Rightarrow> (None, s)
          | m # ms \<Rightarrow> (Some (Some m), put_connection user cid (c\<lparr>cn_queue := ms\<rparr>) s)))"

text \<open>An empty registry, whose identifiers, order of iteration and full channels are the environment's.\<close>

definition empty_registry :: "(nat \<Rightarrow> uuid) \<Rightarrow> (nat \<Rightarrow> uuid \<Rightarrow> nat) \<Rightarrow> (nat \<Rightarrow> full_outcome) \<Rightarrow> sockets" where
  "empty_registry gen rank full = \<lparr>sk_conns = (\<lambda>_. None), sk_calls = 0, sk_gen = gen, sk_full = full,
     sk_rank = rank, sk_wire = []\<rparr>"

definition connection_manager_sends_to_multiple_connections :: "uuid \<Rightarrow> sockets \<Rightarrow> bool" where [tests]:
  "connection_manager_sends_to_multiple_connections user s0 \<longleftrightarrow>
     (let (c1, s1) = add_connection user s0;
          (c2, s2) = add_connection user s1;
          (sent, s3) = send_to_user user ''hello'' s2;
          (r1, s4) = receive user c1 s3;
          (r2, s5) = receive user c2 s4;
          s6 = remove_connection user c1 s5;
          (again, s7) = send_to_user user ''again'' s6;
          (r3, s8) = receive user c1 s7;
          (r4, s9) = receive user c2 s8
      in sent = Inr True \<and> r1 = Some (Some ''hello'') \<and> r2 = Some (Some ''hello'') \<and>
         again = Inr True \<and> r3 = Some None \<and> r4 = Some (Some ''again''))"

definition total_connections_tracks_adds_and_removes :: "uuid \<Rightarrow> uuid \<Rightarrow> sockets \<Rightarrow> bool" where [tests]:
  "total_connections_tracks_adds_and_removes alice bob s0 \<longleftrightarrow>
     (let total = total_connections [alice, bob];
          (a1, s1) = add_connection alice s0;
          (a2, s2) = add_connection alice s1;
          (b1, s3) = add_connection bob s2;
          s4 = remove_connection alice a1 s3;
          s5 = remove_connection bob b1 s4
      in total s0 = 0 \<and> total s3 = 3 \<and> total s4 = 2 \<and> total s5 = 1)"

lemma socket_tests:
  assumes "gen 0 \<noteq> gen 1" and "alice \<noteq> bob"
  shows "connection_manager_sends_to_multiple_connections alice (empty_registry gen rank full)"
    "total_connections_tracks_adds_and_removes alice bob (empty_registry gen rank full)"
  using assms
  by (auto simp: tests empty_registry_def add_connection_def remove_connection_def send_to_user_def
      channel_send_def get_connection_def put_connection_def new_connection_def receive_def
      total_connections_def channel_capacity_def Let_def)

end
