(* ===== verification/Tests_Logic.thy ===== *)
theory Tests_Logic
  imports Doubles Repository
begin

text \<open>
  The unit tests of \<^verbatim>\<open>noti-logic/orchestrator\<close>, run on the model. The first two use a hand-written
  store that remembers what was saved and answers a known key with the row it has; \<open>lg_sink\<close> is its
  list and \<open>lg_published\<close> that of the mock queue. The lemmas say how that store compares with the
  contract of \<^verbatim>\<open>create\<close>.
\<close>

section \<open>The hand-written doubles\<close>

definition saved_under :: "string option \<Rightarrow> notification list \<Rightarrow> notification option" where
  "saved_under key saved =
     (case key of None \<Rightarrow> None | Some k \<Rightarrow> List.find (\<lambda>n. n_idempotency_key n = Some k) saved)"

definition store_create :: "notification \<Rightarrow> (double_log, notification) io" where
  "store_create n s =
     (case saved_under (n_idempotency_key n) (lg_sink s) of
        Some existing \<Rightarrow> (Inr existing, s)
      | None \<Rightarrow> (Inr n, s\<lparr>lg_sink := lg_sink s @ [n]\<rparr>))"

definition store_repo :: "double_log notification_repository" where
  "store_repo =
     \<lparr>repo_create = store_create, repo_get_by_id = (\<lambda>_. retE None),
      repo_get_by_idempotency_key = (\<lambda>_. retE None), repo_update_status = (\<lambda>_ _ _ _. retE ()),
      repo_increment_retry = (\<lambda>_ _. retE ()), repo_get_pending_for_retry = (\<lambda>_. retE []),
      repo_reset_stuck_processing = (\<lambda>_. retE 0), repo_list_by_user = (\<lambda>_ _ _. retE []),
      repo_mark_as_read = (\<lambda>_ _. retE ()), repo_mark_all_as_read = (\<lambda>_. retE ()),
      repo_get_unread_count = (\<lambda>_. retE 0)\<rparr>"

definition ready_cache :: "double_log cache_service" where
  "ready_cache =
     \<lparr>cache_set_value = (\<lambda>_ _ _. retE ()), cache_get_value = (\<lambda>_. retE None),
      cache_increment_with_ttl = (\<lambda>_ _. retE 1), cache_delete = (\<lambda>_. retE ()),
      cache_lock = (\<lambda>_ _. retE True), cache_unlock = (\<lambda>_. retE ())\<rparr>"

definition body_template :: template_engine where
  "body_template _ _ = Inr ''body''"

definition ref_provider :: "double_log provider" where
  "ref_provider = \<lparr>prov_send = (\<lambda>_ _. retE ''ref''), prov_provider_id = ''mock''\<rparr>"

definition listing_queue :: "double_log message_queue" where
  "listing_queue =
     \<lparr>mq_publish_dispatch = (\<lambda>i s. (Inr (), s\<lparr>lg_published := lg_published s @ [i]\<rparr>)),
      mq_publish_retry = (\<lambda>_ _. retE ())\<rparr>"

definition queue_tester :: "test_env \<Rightarrow> double_log orchestrator" where
  "queue_tester env =
     \<lparr>o_repo = store_repo, o_render = body_template, o_email = ref_provider, o_sms = ref_provider,
      o_push = ref_provider, o_webhook = ref_provider, o_websocket = ref_provider, o_cache = ready_cache,
      o_mq = Some listing_queue, o_codecs = te_codecs env, o_runtime = test_runtime env\<rparr>"

section \<open>The tests\<close>

definition queue_welcome :: "test_env \<Rightarrow> string option \<Rightarrow> (double_log, uuid) io" where
  "queue_welcome env key =
     queue_notification (queue_tester env) None Email ''test@example.com'' ''welcome'' (JObj []) key"

definition test_queue_notification :: "test_env \<Rightarrow> bool" where
  "test_queue_notification env \<longleftrightarrow>
     (case queue_welcome env None no_log of
        (Inl _, _) \<Rightarrow> False
      | (Inr i, s) \<Rightarrow> length (lg_sink s) = 1 \<and> at 0 (lg_sink s) (\<lambda>n. n_id n = i))"

definition test_queue_notification_deduplicates_idempotency_key :: "test_env \<Rightarrow> bool" where
  "test_queue_notification_deduplicates_idempotency_key env \<longleftrightarrow>
     (case bindE (queue_welcome env (Some ''same-key'')) (\<lambda>first_id.
           bindE (queue_welcome env (Some ''same-key'')) (\<lambda>second_id. retE (first_id, second_id))) no_log of
        (Inl _, _) \<Rightarrow> False
      | (Inr (first_id, second_id), s) \<Rightarrow>
          first_id = second_id \<and> length (lg_sink s) = 1 \<and> length (lg_published s) = 1)"

definition bump_counter_returns_cache_value :: "test_env \<Rightarrow> bool" where
  "bump_counter_returns_cache_value env \<longleftrightarrow>
     (let orch = mocked env mock_repository mock_template mock_notification_provider
            (mock_cache\<lparr>cache_increment_with_ttl := (\<lambda>_ _. retE 3)\<rparr>) None
      in fst (bump_counter orch ''k'' 60 no_log) = Inr 3)"

text \<open>The identifiers the two calls draw differ, as those of \<^verbatim>\<open>Uuid::new_v4\<close> do.\<close>

lemma four_draws: "Suc (Suc (Suc (Suc 0))) = 4"
  by simp

lemma logic_tests:
  shows "test_queue_notification env" "bump_counter_returns_cache_value env"
    and "te_ids env 0 \<noteq> te_ids env 4 \<Longrightarrow> test_queue_notification_deduplicates_idempotency_key env"
  by (simp_all add: test_queue_notification_def test_queue_notification_deduplicates_idempotency_key_def
      bump_counter_returns_cache_value_def queue_welcome_def queue_notification_def queue_tester_def
      store_repo_def store_create_def saved_under_def ready_cache_def listing_queue_def test_runtime_def
      peek_def now_def bindE_def attempt_def new_notification_def cache_idempotency_key_def
      trigger_dispatch_def no_log_def at_def bump_counter_def mocked_def mock_cache_def Let_def four_draws)

section \<open>The store double keeps the contract\<close>

text \<open>
  While the database answers, the double answers and stores what the table does for a notification as
  \<^verbatim>\<open>queue_notification\<close> makes it: the tests run against a store like the real one.
\<close>

lemma find_saved: "List.find P (map f xs) = map_option f (List.find (P \<circ> f) xs)"
  by (induction xs) auto

lemma store_double_conforms:
  assumes "healthy t" and "lg_sink s = map into_domain (t_rows t)" and "n_id n \<notin> r_id ` set (t_rows t)"
    and "into_domain (inserted_row (t_jsonb t) n) = n"
  shows "fst (store_create n s) = fst (create n t) \<and>
    lg_sink (snd (store_create n s)) = map into_domain (t_rows (snd (create n t)))"
  using assms
  by (auto simp: store_create_def saved_under_def create_def key_conflict_def exec_healthy find_saved
      Let_def comp_def split: option.split)

lemma queued_row_reads_back:
  "into_domain (inserted_row id (new_notification i u ch rc tm vs key at1 at2 at3)) =
     new_notification i u ch rc tm vs key at1 at2 at3"
  by (simp add: inserted_row_def into_domain_def new_notification_def)

end
