(* ===== verification/Tests_Api.thy ===== *)
theory Tests_Api
  imports Doubles Api Routes
begin

text \<open>
  The unit tests of \<^verbatim>\<open>auth.rs\<close> and \<^verbatim>\<open>openapi.rs\<close>, run on the model, and the cases \<^verbatim>\<open>templating.rs\<close>
  renders, compared with what the event handlers ask for.
\<close>

section \<open>Who is calling\<close>

definition parts_with_header :: "string option \<Rightarrow> headers" where
  "parts_with_header value = (\<lambda>name. if name = user_id_header then value else None)"

definition rejected_401 :: "http_error + uuid \<Rightarrow> bool" where
  "rejected_401 r = (case r of Inl (status, _) \<Rightarrow> status = 401 | Inr _ \<Rightarrow> False)"

definition extracts_valid_user_id :: "('s, 'r) api \<Rightarrow> uuid \<Rightarrow> bool" where
  "extracts_valid_user_id A i \<longleftrightarrow>
     user_context A (parts_with_header (Some (c_uuid_show (o_codecs (ap_orchestrator A)) i))) = Inr i"

definition rejects_missing_header :: "('s, 'r) api \<Rightarrow> bool" where
  "rejects_missing_header A \<longleftrightarrow> rejected_401 (user_context A (parts_with_header None))"

definition rejects_malformed_uuid :: "('s, 'r) api \<Rightarrow> bool" where
  "rejects_malformed_uuid A \<longleftrightarrow> rejected_401 (user_context A (parts_with_header (Some ''not-a-uuid'')))"

lemma auth_tests:
  assumes "uuid_roundtrip (o_codecs (ap_orchestrator A))"
    and "isl (c_uuid_parse (o_codecs (ap_orchestrator A)) ''not-a-uuid'')"
    and "ap_header_text A (c_uuid_show (o_codecs (ap_orchestrator A)) i) =
      Some (c_uuid_show (o_codecs (ap_orchestrator A)) i)"
    and "ap_header_text A ''not-a-uuid'' = Some ''not-a-uuid''"
  shows "extracts_valid_user_id A i" "rejects_missing_header A" "rejects_malformed_uuid A"
  using assms
  by (auto simp: extracts_valid_user_id_def rejects_missing_header_def rejects_malformed_uuid_def
      rejected_401_def user_context_def parts_with_header_def uuid_roundtripD
      split: option.split sum.split bind_splits)

section \<open>The API document\<close>

text \<open>The schemas the document gathers, and the security scheme the modifier adds to them.\<close>

definition component_schemas :: "string list" where
  "component_schemas =
     [''ListNotificationsResponse'', ''RegisterDeviceRequest'', ''ListDevicesResponse'', ''Notification'',
      ''NotificationView'', ''NotificationChannel'', ''NotificationStatus'', ''DeviceToken'',
      ''DevicePlatform'']"

record components =
  cp_schemas :: "string list"
  cp_security :: "(string \<times> (string \<times> string)) list"

definition security_addon :: "components option \<Rightarrow> components option" where
  "security_addon doc = map_option (\<lambda>c. c\<lparr>cp_security :=
     (''bearer'', (''bearer'', ''JWT'')) # filter (\<lambda>(name, _). name \<noteq> ''bearer'') (cp_security c)\<rparr>) doc"

definition api_components :: "components option" where
  "api_components = security_addon (Some \<lparr>cp_schemas = component_schemas, cp_security = []\<rparr>)"

definition spec_serializes_with_paths_schemas_and_security :: bool where
  "spec_serializes_with_paths_schemas_and_security \<longleftrightarrow>
     set [''/health'', ''/api/v1/noti'', ''/api/v1/noti/{id}'', ''/api/v1/noti/read-all'',
       ''/api/v1/noti/devices'', ''/api/v1/noti/devices/{token}''] \<subseteq> set (map op_path documented) \<and>
     (case api_components of
        None \<Rightarrow> False
      | Some c \<Rightarrow>
          set [''Notification'', ''DeviceToken'', ''ListNotificationsResponse'', ''ListDevicesResponse'',
            ''RegisterDeviceRequest''] \<subseteq> set (cp_schemas c) \<and>
          ''bearer'' \<in> set (map fst (cp_security c)))"

lemma document_test: "spec_serializes_with_paths_schemas_and_security"
  by (simp add: spec_serializes_with_paths_schemas_and_security_def documented_defs api_components_def
      security_addon_def component_schemas_def)

text \<open>Every operation that asks for the bearer scheme finds it declared.\<close>

lemma bearer_is_declared:
  "list_ex op_bearer documented \<and>
   (case api_components of None \<Rightarrow> False | Some c \<Rightarrow> map_of (cp_security c) ''bearer'' = Some (''bearer'', ''JWT''))"
  by (simp add: documented_defs api_components_def security_addon_def)

section \<open>Template cases\<close>

abbreviation str_vars :: "(string \<times> string) list \<Rightarrow> json" where
  "str_vars kvs \<equiv> JObj (map (\<lambda>(k, v). (k, JStr v)) kvs)"

definition routed_template_cases :: "(string \<times> json) list" where
  "routed_template_cases =
     [(''welcome.html.tera'', str_vars [(''name'', ''Alice'')]),
      (''trade_matched.txt.tera'', str_vars [(''role'', ''buyer''), (''amount'', ''10.5''), (''price'', ''2.30'')]),
      (''erc_issued.html.tera'', str_vars [(''amount'', ''100''), (''unit'', ''MWh'')]),
      (''erc_issued.html.tera'', str_vars [(''amount'', ''100'')]),
      (''vpp_dispatched.txt.tera'', JObj [(''cluster_id'', JStr ''C1''), (''target_kw'', JStr ''500''),
         (''members_count'', JNum (PosInt 12))]),
      (''password_reset.html.tera'', str_vars [(''reset_url'', ''https://app.example/reset?token=abc'')]),
      (''verify_email.html.tera'', str_vars [(''name'', ''Bob''),
         (''verification_url'', ''https://app.example/verify?token=xyz'')]),
      (''verify_email.html.tera'', str_vars [(''name'', ''''),
         (''verification_url'', ''https://app.example/verify?token=xyz'')]),
      (''user_onboarded.txt.tera'', str_vars [(''user_account_pda'', ''PDA1''),
         (''transaction_signature'', ''SIG1'')]),
      (''meter_onboarded.txt.tera'', str_vars [(''meter_id'', ''M1''), (''meter_type'', ''smart''),
         (''transaction_signature'', ''SIG2'')]),
      (''security_alert.txt.tera'', str_vars [(''headline'', ''New Wallet Linked''),
         (''summary'', ''A new Solana wallet has been linked to your account.''),
         (''wallet_address'', ''0xabc''), (''shard_id'', ''1''), (''transaction_signature'', ''SIG3'')]),
      (''security_alert.txt.tera'', str_vars [(''headline'', ''Wallet Unlinked''),
         (''summary'', ''A Solana wallet was removed from your account.''),
         (''wallet_address'', ''0xabc''), (''shard_id'', ''''), (''transaction_signature'', '''')]),
      (''account_locked.html.tera'', JObj [(''identifier'', JStr ''dave@example.com''),
         (''lockout_minutes'', JNum (PosInt 15))]),
      (''new_login.txt.tera'', str_vars [(''username'', ''dave''), (''ip_address'', ''203.0.113.7'')]),
      (''order_update.txt.tera'', str_vars [(''order_id'', ''ORD1''), (''filled_amount'', ''5.5''),
         (''status'', ''filled'')]),
      (''meter_registered.txt.tera'', str_vars [(''serial_number'', ''MTR-1''), (''meter_id'', ''m1''),
         (''zone_id'', ''3''), (''status'', ''verified'')]),
      (''order_created.txt.tera'', str_vars [(''order_id'', ''ORD1''), (''order_type'', ''limit''),
         (''side'', ''buy''), (''energy_amount'', ''100.5''), (''price_per_kwh'', ''4.25''),
         (''status'', ''open'')]),
      (''confirm_wallet.html.tera'', str_vars [(''name'', ''Carol''),
         (''wallet_address'', ''9xQeWvG816bUx9EPjHmaT23yvVM2ZWbrrpZb9PusVFin''),
         (''confirmation_url'', ''https://app.example/wallet/confirm?token=tok'')])]"

definition unrouted_template_cases :: "(string \<times> json) list" where
  "unrouted_template_cases =
     [(''new_login.html.tera'', str_vars [(''username'', ''dave''),
         (''timestamp'', ''28 Jul 2026, 14:02 UTC+7''),
         (''device'', ''Chrome 128 '' @ [CHR 0xC2, CHR 0xB7] @ '' macOS''),
         (''location'', ''Bangkok, Thailand (approx.)''), (''ip_address'', ''203.0.113.7''),
         (''security_url'', ''https://app.example/security/sessions'')]),
      (''new_login.html.tera'', JObj []),
      (''new_login.html.tera'', str_vars [(''username'', ''''), (''timestamp'', ''''), (''device'', ''''),
         (''location'', ''''), (''ip_address'', ''''), (''security_url'', '''')])]"

text \<open>
  The first assertion of the test: every case renders. What the rendered text looks like is a matter
  of the template files, which are not modelled.
\<close>

definition all_routed_templates_render :: "engine \<Rightarrow> bool" where
  "all_routed_templates_render e \<longleftrightarrow>
     list_all (\<lambda>(name, vars). \<not> isl (render e name vars)) (routed_template_cases @ unrouted_template_cases)"

lemma cases_fill:
  "list_all (\<lambda>(name, vars). is_object vars \<and> fills name (members vars))
     (routed_template_cases @ unrouted_template_cases)"
  by code_simp

lemma template_test:
  assumes "tera_ok e"
  shows "all_routed_templates_render e"
proof -
  have "\<not> isl (render e name vars)" if "is_object vars" "fills name (members vars)" for name vars
    using that render_fills [OF assms, of name] by (cases vars) (auto simp: isl_def, metis Inr_Inl_False)
  with cases_fill show ?thesis
    unfolding all_routed_templates_render_def list_all_iff by blast
qed

text \<open>
  The comment above the cases says they are every template the consumers route to, each with the
  exact variables of its handler. Three routed templates have no case, and two cases have fewer
  variables than a handler passes.
\<close>

definition routed_kinds :: "(string \<times> string list) list" where
  "routed_kinds = concat (map (\<lambda>(event, ks). map snd ks) event_table)"

lemma cases_are_not_all_routes:
  "set (map fst routed_kinds) - set (map fst routed_template_cases) =
     {''settlement_processed.txt.tera'', ''price_alert_triggered.txt.tera'', ''push_notification.txt.tera''} \<and>
   filter (\<lambda>(name, vars). (name, members vars) \<notin> set routed_kinds) routed_template_cases =
     [(''welcome.html.tera'', str_vars [(''name'', ''Alice'')]),
      (''erc_issued.html.tera'', str_vars [(''amount'', ''100'')])]"
  by code_simp

end
