(* ===== verification/Spec2Isabelle.thy ===== *)
theory Spec2Isabelle
  imports Claims_Stores Claims_Channels Claims_Intake Claims_Delivery Claims_Edge
    Claims_Concurrency Claims_Routes Claims_Process Claims_Catalogue Claims_Crash Deviations
    Tests_Consumers Tests_Channels Tests_Logic Tests_Api
begin

text \<open>
  A model of the GridTokenX notification service and the theorems that make it correct.

  \<^bold>\<open>The program.\<close> Kafka events (\<^verbatim>\<open>consumers/events.rs\<close>) and gRPC calls (\<^verbatim>\<open>noti-api/grpc.rs\<close>) ask
  the orchestrator (\<^verbatim>\<open>noti-logic/orchestrator\<close>) to queue a notification: a row is inserted in
  PostgreSQL under an idempotency key and a task is published on RabbitMQ, or spawned when the
  broker refuses. The RabbitMQ consumer (\<^verbatim>\<open>consumers/mod.rs\<close>) takes the task and calls
  \<^verbatim>\<open>dispatch\<close>: render, choose the provider of the channel, send, and record the outcome, with
  exponential backoff through a delay queue. A sweep at boot recovers what was left behind.
  HTTP handlers (\<^verbatim>\<open>noti-api/handlers.rs\<close>) list notifications, mark them as read and manage push
  devices; a registry (\<^verbatim>\<open>noti-api/websocket.rs\<close>) holds the open sockets. \<^verbatim>\<open>startup.rs\<close> wires the
  parts, serves them on two ports and drains them when a token is cancelled; \<^verbatim>\<open>main.rs\<close> reads the
  configuration and turns the outcome into an exit status.

  \<^bold>\<open>The method.\<close> Every asynchronous method is a function from a state to a result and a state
  (\<open>Prelude\<close>). Components are written over records of functions for the trait objects
  (\<open>Traits\<close>), as the code is over \<^verbatim>\<open>Arc<dyn Trait>\<close>, and put together on one concrete state,
  \<open>world\<close>, in \<open>World\<close>. Errors are values. What the environment decides (faults, clocks, random
  identifiers, replies, the order of unordered queries) is a function of the number of the call,
  so a theorem about all worlds is a theorem about all environments. Integers keep their width
  where the code computes on them (\<open>retry_delay_ms\<close>, the IP guard, ports).

  \<^bold>\<open>The theories,\<close> with the sources under \<^verbatim>\<open>src/\<close>:
  \<^item> \<open>Prelude\<close>, \<open>Strings\<close>, \<open>Json\<close>: action combinators with their invariant rules, Rust's string
    operations, \<^verbatim>\<open>serde_json\<close> values;
  \<^item> \<open>Domain\<close> (\<^verbatim>\<open>domain.rs\<close>, \<^verbatim>\<open>error.rs\<close>), \<open>Health\<close> (\<^verbatim>\<open>health.rs\<close>), \<open>Wire\<close> (\<^verbatim>\<open>wire.rs\<close>), \<open>Traits\<close>
    (\<^verbatim>\<open>traits.rs\<close>);
  \<^item> \<open>Sql\<close>, \<open>Repository\<close> (\<^verbatim>\<open>repository.rs\<close>), \<open>Devices\<close> (\<^verbatim>\<open>device_tokens.rs\<close>), \<open>Cache\<close> (\<^verbatim>\<open>cache.rs\<close>):
    tables with faults before and after a statement takes effect, and a Redis store with
    deadlines; invariants of the rows, refinement of the registry to a map from tokens to users;
  \<^item> \<open>Lifecycle\<close>, \<open>Orchestrator\<close> (\<^verbatim>\<open>orchestrator/*.rs\<close>): the abstract life cycle as a step relation,
    the contract of the store as locales, and the operations, proved once over any store;
  \<^item> \<open>System\<close>, \<open>Rabbit\<close> (\<^verbatim>\<open>messaging/rabbitmq.rs\<close>), \<open>Webhook\<close>, \<open>Smtp\<close>, \<open>Fcm\<close> (\<^verbatim>\<open>providers/*.rs\<close>),
    \<open>Sockets\<close> (\<^verbatim>\<open>noti-api/websocket.rs\<close>, \<^verbatim>\<open>providers/websocket.rs\<close>), \<open>Templates\<close> (\<^verbatim>\<open>templating.rs\<close>);
  \<^item> \<open>World\<close>: the components on one state, the wiring of \<^verbatim>\<open>startup.rs\<close>, and the interpretations of
    the locales on it;
  \<^item> \<open>Url\<close>, \<open>Payloads\<close>, \<open>Events\<close> (\<^verbatim>\<open>consumers/url.rs\<close>, \<^verbatim>\<open>events.rs\<close>), \<open>Consumers\<close>
    (\<^verbatim>\<open>consumers/mod.rs\<close>), \<open>Api\<close> (\<^verbatim>\<open>handlers.rs\<close>, \<^verbatim>\<open>grpc.rs\<close>, \<^verbatim>\<open>auth.rs\<close>), \<open>Startup\<close>
    (\<^verbatim>\<open>config.rs\<close>, \<^verbatim>\<open>startup.rs\<close>);
  \<^item> \<open>Intake\<close> (ingestion and recovery on the world), \<open>Service\<close> (runs over any sequence of handled
    events), \<open>Interleaving\<close> (\<^verbatim>\<open>dispatch\<close> one await at a time, two workers);
  \<^item> \<open>Scheduler\<close> (tasks interleaved by a schedule: invariants and progress, once), \<open>Workers\<close> (any
    number of dispatch workers), \<open>Admission\<close> (any number of requests being queued);
  \<^item> \<open>Session\<close> (the poll loop and the worker of one Kafka session as a step relation), \<open>Kafka\<close>
    (\<^verbatim>\<open>messaging/kafka.rs\<close>, \<^verbatim>\<open>start_kafka_consumer\<close>: sessions under supervision), \<open>Removal\<close>
    (\<^verbatim>\<open>remove_connection\<close> in its two accesses), \<open>Metrics\<close> (\<^verbatim>\<open>metrics.rs\<close> and where it is called);
  \<^item> \<open>Routes\<close> (the routes of \<^verbatim>\<open>startup.rs\<close>, the requests they serve, \<^verbatim>\<open>openapi.rs\<close>), \<open>Process\<close>
    (\<^verbatim>\<open>Config::from_env\<close>, servers and shutdown, \<^verbatim>\<open>main.rs\<close>);
  \<^item> \<open>Catalogue\<close> (the documented table of events, the shipped templates and what they print), \<open>Crash\<close>
    (a worker or a request stopped at any await, the restart, what the next sweep finds);
  \<^item> \<open>Samples\<close> and \<open>Claims_Stores\<close>, \<open>Claims_Channels\<close>, \<open>Claims_Intake\<close>, \<open>Claims_Delivery\<close>,
    \<open>Claims_Edge\<close>, \<open>Claims_Concurrency\<close>, \<open>Claims_Routes\<close>, \<open>Claims_Process\<close>, \<open>Claims_Catalogue\<close>,
    \<open>Claims_Crash\<close> and this theory: the properties, each with a concrete instance;
  \<^item> \<open>Deviations\<close>: concrete runs on which the code departs from its comments, documents or purpose;
  \<^item> \<open>Doubles\<close>, \<open>Tests_Events\<close>, \<open>Tests_Consumers\<close>, \<open>Tests_Core\<close>, \<open>Tests_Channels\<close>, \<open>Tests_Logic\<close>, \<open>Tests_Api\<close>:
    the repository's unit tests, under their names, run on the model. Each is a \<open>bool\<close> over the
    environment it runs in (codecs, clock, identifiers, an HTTP library), and the lemmas prove that
    it passes in every environment that reads and prints the test's own texts as they are written.
    They check the definitions against what the authors expect of the code.

  \<^bold>\<open>What the theorems show.\<close> Delivery: the outcomes of a dispatch, settling, exact backoff, and
  what two overlapping workers can do. Runs: refinement of the life cycle and invariants of the
  stores. Intake: idempotency under redelivery, recovery, keys and recipients of the events'
  requests, offsets, supervision, readiness. Channels: the SSRF guard, mail subjects, push
  fan-out, what a retry asks of the broker, sockets. Edge: what callers may read and change, and what a boot needs.
  Concurrency: requests with one key are admitted once, workers on different notifications do not
  interfere and no overlap of workers loses a row, the schedule of a Kafka session does not matter, where it may be stopped, what the supervised consumer commits, what a removal
  can lose, what is counted. Process: an accepted request ends settled, requests reach their
  handlers, what the API document says of them, shutdown, failures to bind, the sources of a setting. Catalogue:
  the documented events are exact, every notification fills its templates. Crash: what is stopped
  at an await is recovered by a later boot whose limit covers the backlog, unless that boot comes
  before the retry time.

  \<^bold>\<open>Bounds.\<close> A dispatch is at most seven awaits on shared state (\<open>run_dispatch\<close>), so seven steps of
  \<open>worker_run\<close> finish it. A notification has at most six attempts (\<open>attempts_left\<close>), so six
  dispatches settle it. No other definition uses fuel; loops over an external source (the Kafka
  and RabbitMQ consumers, the supervisor, a socket) are functions of the list of what they meet.
  A session takes at most three steps per event (poll, put, work) and its channel holds 512
  records. A shutdown lasts at most 30 seconds. In \<open>Service\<close> a run interleaves whole operations;
  \<open>Interleaving\<close>, \<open>Workers\<close>, \<open>Admission\<close>, \<open>Session\<close> and \<open>Removal\<close> interleave single awaits and
  accesses; a worker moves at most seven times, a request four. What is proved of whole operations
  (the life cycle of C2) can fail where dispatches of one notification overlap (C24). A recovery
  sweep takes at most its limit of rows, 1000 at boot (\<open>recovery_batch\<close>): \<open>backlog\<close> is what it may
  take, and recovery is stated for a backlog within the limit.

  \<^bold>\<open>Parameters.\<close> UUID, time and JSON text, case mapping, URL parsing, DNS, HTTP, MIME, JWT, Tera
  and roles are functions in \<open>codecs\<close>, \<open>libs\<close>, \<open>gate\<close> and \<open>world\<close>. Used as hypotheses: printing a
  UUID and parsing it gives it back, and identifiers not yet drawn are not in the table.

  Routing, the \<^verbatim>\<open>config\<close> crate and the metrics recorder are used as their documentation says:
  \<open>http_lib_ok\<close> (a static route wins, a parameter is one non-empty segment, percent-decoded, GET also
  serves HEAD)
  and \<open>config_lib_ok\<close> (a later source overrides), each shown to hold of a concrete function. \<open>tera_ok\<close>
  says that a shipped template renders once the variables it prints are in its context; \<open>codecs_ok\<close>,
  \<open>texts_ok\<close> and \<open>fcm_texts_ok\<close> list the texts the unit tests print and parse.

  \<^bold>\<open>Not modelled.\<close> Tracing and telemetry set-up, the documentation page, the fields of JSON schemas, reading a
  configuration source, and the text of the metrics page: libraries the sources only call.
  Signals are the moment the token is cancelled. The broker is the log of what the client asks of it:
  how its queues order, expire and dead-letter messages is not modelled. The database executes one statement at a time;
  pools and logging are left out.
\<close>

section \<open>Delivery\<close>

text \<open>
  C1. While the database answers, one dispatch of an open notification ends in one of four ways:
  sent, re-queued with its retry count raised (only below the limit of five), permanently failed
  with the error recorded, or, only if the JSON encoder can fail, left in processing. No other
  notification changes.
\<close>

theorem dispatch_ends:
  assumes "world_up w" and "world_life w i = Some d" and "open_status (dl_status d)"
  shows "\<exists>d'. world_life (snd (dispatch (world_orch L dp) i w)) = (world_life w)(i \<mapsto> d') \<and>
    dispatch_outcome (encodes (world_orch L dp)) d (fst (dispatch (world_orch L dp) i w)) d'"
  using live.dispatch_result [OF assms surjective_pairing, of L dp] assms(2)
  by (auto simp: set_life_def)

lemma dispatch_ends_witness:
  "\<exists>d'. world_life (snd (dispatch sample_orch 7
        (sample_world [sample_row 7 WebhookDb PendingDb ''https://h/x''] []))) 7 = Some d' \<and>
     dispatch_outcome True
       \<lparr>dl_status = Pending, dl_retry = 0, dl_error = None, dl_ref = None\<rparr>
       (fst (dispatch sample_orch 7
          (sample_world [sample_row 7 WebhookDb PendingDb ''https://h/x''] []))) d'"
  using dispatch_ends [of "sample_world [sample_row 7 WebhookDb PendingDb ''https://h/x''] []" 7,
      OF sample_up [OF sample_rows_ok] sample_life, of sample_libs sample_deployment]
    sample_encodes
  by (auto simp: open_status_def sample_orch_def)

section \<open>Whole runs\<close>

text \<open>
  C2. In a run that handles its events one after another, each to completion, in any order and under
  every fault of the database, broker, cache and providers, each notification moves along the
  abstract life cycle and none is lost: its retry count never falls nor passes five, and once
  settled it does not change again. (Two dispatches of one notification that overlap may reopen it:
  C24; what any overlap of dispatches keeps is C25.)
\<close>

theorem runs_follow_life_cycle:
  "lives_evolve (world_life w) (world_life (run_service L dp g frontend_url es w)) \<and>
   (\<forall>i d. world_life w i = Some d \<longrightarrow>
     (\<exists>d'. world_life (run_service L dp g frontend_url es w) i = Some d' \<and> dl_retry d \<le> dl_retry d' \<and>
        (dl_retry d \<le> max_retries \<longrightarrow> dl_retry d' \<le> max_retries) \<and>
        (settled (dl_status d) \<longrightarrow> d' = d)))"
proof -
  let ?w' = "run_service L dp g frontend_url es w"
  have evolve: "lives_evolve (world_life w) (world_life ?w')"
    by (rule run_service_induct) (auto intro: lives_evolve_trans perform_evolves)
  then have "\<exists>d'. world_life ?w' i = Some d' \<and> life_steps d d'" if "world_life w i = Some d" for i d
    using that by (simp add: lives_evolve_def)
  with evolve life_steps_settled life_steps_retry_mono life_steps_retry_bound show ?thesis by meson
qed

lemma runs_follow_life_cycle_witness:
  "\<exists>d'. world_life (run_service sample_libs sample_deployment sample_gate None
       [ProcessTask (DispatchTask 7), Sweep 300 1000, SocketOpened 9]
       (sample_world [sample_row 7 WebhookDb SentDb ''https://h/x''] [])) 7 = Some d' \<and>
     dl_status d' = Sent"
proof -
  let ?w = "sample_world [sample_row 7 WebhookDb SentDb ''https://h/x''] []"
  let ?d = "\<lparr>dl_status = status_of_db SentDb, dl_retry = 0, dl_error = None, dl_ref = None\<rparr>"
  have d: "world_life ?w 7 = Some ?d" by (rule sample_life)
  have "settled (dl_status ?d)" by (simp add: settled_def open_status_def)
  with runs_follow_life_cycle [of ?w sample_libs sample_deployment sample_gate None
      "[ProcessTask (DispatchTask 7), Sweep 300 1000, SocketOpened 9]", THEN conjunct2, rule_format, OF d]
  show ?thesis by auto
qed

text \<open>
  C7. Every run keeps the three stores well formed: identifiers and idempotency keys stay unique,
  a push token is in one row at most, and the socket registry holds distinct connections and no
  user without one.
\<close>

theorem runs_keep_stores_ok:
  assumes "service_ok w"
  shows "service_ok (run_service L dp g frontend_url es w)"
  using assms perform_ok
  by (intro run_service_induct [of "\<lambda>_. service_ok", where w = w]) auto

lemma runs_keep_stores_ok_witness:
  "service_ok (run_service sample_libs sample_deployment sample_gate None
     [RestCall () (\<lambda>_. Some ''9'') (RegisterDevice \<lparr>rd_token = ''t'', rd_platform = ''ios''\<rparr>), SocketOpened 9,
      TaskDelivery ''x'', ProcessTask (DispatchTask 7)] (sample_world [sample_row 7 WebhookDb PendingDb ''x''] []))"
proof -
  have "service_ok (sample_world [sample_row 7 WebhookDb PendingDb ''x''] [])"
    using sample_rows_ok
    by (simp add: service_ok_def sample_world_def sample_table_def table_ok_def devices_ok_def
        registry_ok_def sockets_ok_def sample_sockets_def)
  then show ?thesis by (rule runs_keep_stores_ok)
qed

end
